(* ===== verification/Go_Values.thy ===== *)
theory Go_Values
  imports Prelude
begin

text \<open>
  The dynamic values of the operator: what \<^verbatim>\<open>encoding/json\<close> and \<^verbatim>\<open>unstructured\<close> store in an
  \<^verbatim>\<open>any\<close>.  A \<^verbatim>\<open>map[string]any\<close> is an association list (a lookup takes the first entry of a
  key), a missing key reads as nil, and numbers are a type parameter: a decoded object holds
  int64 or float64 values (\<open>gonum\<close>), a value that went through \<^verbatim>\<open>json.Marshal\<close> and
  \<^verbatim>\<open>json.Unmarshal\<close> holds float64 values only (\<open>f64\<close>).
\<close>

section \<open>Numbers\<close>

text \<open>
  A finite float64 other than the negative zero is an integer multiple of a power of two,
  \<open>mantissa * 2 ^ exponent\<close>, with an odd mantissa, or zero as \<open>F64 0 0\<close>.
\<close>

datatype f64 = F64 (mantissa: int) (exponent: int)

datatype gonum = Int64 int | Float64 f64

fun odd_part :: "nat \<Rightarrow> nat \<Rightarrow> nat \<times> nat" where
  "odd_part m e = (if m = 0 then (0, 0) else if even m then odd_part (m div 2) (Suc e) else (m, e))"

declare odd_part.simps [simp del]

text \<open>The number of low bits that do not fit into the 53 bits of a float64 mantissa.\<close>

fun excess_bits :: "nat \<Rightarrow> nat" where
  "excess_bits a = (if a < 2 ^ 53 then 0 else Suc (excess_bits (a div 2)))"

declare excess_bits.simps [simp del]

text \<open>Conversion of an integer to the nearest float64, ties to even.\<close>

definition f64_of_int :: "int \<Rightarrow> f64" where
  "f64_of_int n =
     (let a = nat \<bar>n\<bar>; k = excess_bits a; q = a div 2 ^ k; r = a mod 2 ^ k;
          q' = (if 2 * r > 2 ^ k \<or> 2 * r = 2 ^ k \<and> odd q then Suc q else q);
          (m, e) = odd_part q' k
      in F64 (sgn n * int m) (int e))"

fun to_f64 :: "gonum \<Rightarrow> f64" where
  "to_f64 (Int64 n) = f64_of_int n"
| "to_f64 (Float64 x) = x"

lemma odd_part_value: "odd_part m e = (m', e') \<Longrightarrow> m * 2 ^ e = m' * 2 ^ e'"
proof (induction m e rule: odd_part.induct)
  case (1 m e)
  show ?case
  proof (cases "m \<noteq> 0 \<and> even m")
    case True
    with 1 have "(m div 2) * 2 ^ Suc e = m' * 2 ^ e'"
      by (simp add: odd_part.simps [of m e])
    moreover have "m * 2 ^ e = (m div 2) * 2 ^ Suc e"
      using True by (metis dvd_div_mult_self mult.assoc power_Suc)
    ultimately show ?thesis by simp
  next
    case False
    with "1.prems" show ?thesis by (auto simp: odd_part.simps [of m e] split: if_splits)
  qed
qed

lemma odd_part_inj: "odd_part m 0 = odd_part n 0 \<Longrightarrow> m = n"
proof -
  assume eq: "odd_part m 0 = odd_part n 0"
  obtain p e where "odd_part m 0 = (p, e)" by (cases "odd_part m 0")
  then show ?thesis using odd_part_value [of m 0 p e] odd_part_value [of n 0 p e] eq by simp
qed

text \<open>Integers of at most 53 bits are exact, so different ones stay different.\<close>

lemma f64_of_int_exact:
  assumes "\<bar>m\<bar> < 2 ^ 53" and "\<bar>n\<bar> < 2 ^ 53" and "f64_of_int m = f64_of_int n"
  shows "m = n"
proof -
  have small: "f64_of_int k = (case odd_part (nat \<bar>k\<bar>) 0 of (p, e) \<Rightarrow> F64 (sgn k * int p) (int e))"
    if "\<bar>k\<bar> < 2 ^ 53" for k
  proof -
    have "nat \<bar>k\<bar> < 2 ^ 53" using that by (simp add: nat_less_iff)
    then show ?thesis by (simp add: f64_of_int_def excess_bits.simps [of "nat \<bar>k\<bar>"])
  qed
  obtain p e where p: "odd_part (nat \<bar>m\<bar>) 0 = (p, e)" by (cases "odd_part (nat \<bar>m\<bar>) 0")
  obtain q f where q: "odd_part (nat \<bar>n\<bar>) 0 = (q, f)" by (cases "odd_part (nat \<bar>n\<bar>) 0")
  have eq: "sgn m * int p = sgn n * int q" "e = f"
    using assms small p q by auto
  have vm: "nat \<bar>m\<bar> = p * 2 ^ e" and vn: "nat \<bar>n\<bar> = q * 2 ^ f"
    using odd_part_value [OF p] odd_part_value [OF q] by simp_all
  have "m = sgn m * int (p * 2 ^ e)" using vm by (metis abs_ge_zero int_nat_eq mult.commute abs_mult_sgn mult_sgn_abs)
  also have "\<dots> = sgn n * int (q * 2 ^ f)" using eq by (simp add: mult.assoc [symmetric])
  also have "\<dots> = n" using vn by (metis abs_ge_zero int_nat_eq mult_sgn_abs)
  finally show ?thesis .
qed

section \<open>Values\<close>

datatype 'n json =
    JNull
  | JBool bool
  | JNum 'n
  | JStr string
  | JArr "'n json list"
  | JObj "(string \<times> 'n json) list"

type_synonym 'n fields = "(string \<times> 'n json) list"
type_synonym val = "gonum json"
type_synonym obj = "gonum fields"
type_synonym dval = "f64 json"

text \<open>\<^verbatim>\<open>m[key]\<close> of a \<^verbatim>\<open>map[string]any\<close>: nil when the key is missing.\<close>

definition field :: "'n fields \<Rightarrow> string \<Rightarrow> 'n json" where
  "field m k = (case map_of m k of None \<Rightarrow> JNull | Some v \<Rightarrow> v)"

text \<open>An element of a \<^verbatim>\<open>[]any\<close>, nil beyond its length (as the loops of the sources read it).\<close>

definition elem_or_nil :: "'n json list \<Rightarrow> nat \<Rightarrow> 'n json" where
  "elem_or_nil xs i = (if i < length xs then xs ! i else JNull)"

lemma size_entry_less: "(k, v) \<in> set m \<Longrightarrow> size v < size (JObj m)"
proof (induction m)
  case (Cons kv m)
  then show ?case by (cases kv) auto
qed simp

lemma size_field_le: "size (field m k) \<le> size (JObj m)"
  by (cases "map_of m k") (auto simp: field_def dest!: map_of_SomeD size_entry_less)

lemma size_field_less: "k \<in> fst ` set m \<Longrightarrow> size (field m k) < size (JObj m)"
proof -
  assume "k \<in> fst ` set m"
  then obtain v where "map_of m k = Some v" by (metis map_of_eq_None_iff option.exhaust)
  then show ?thesis by (auto simp: field_def dest!: map_of_SomeD size_entry_less)
qed

lemma size_element_less: "x \<in> set xs \<Longrightarrow> size x < size (JArr xs)"
  by (induction xs) auto

lemma size_elem_le: "size (elem_or_nil xs i) \<le> size (JArr xs)"
  using size_element_less [OF nth_mem, of i xs] by (auto simp: elem_or_nil_def)

lemma size_elem_less: "i < length xs \<Longrightarrow> size (elem_or_nil xs i) < size (JArr xs)"
  using size_element_less [OF nth_mem, of i xs] by (simp add: elem_or_nil_def)

lemma field_update [simp]: "field (AList.update k v m) k' = (if k' = k then v else field m k')"
  by (simp add: field_def update_conv')

lemma field_delete [simp]: "field (AList.delete k m) k' = (if k' = k then JNull else field m k')"
  by (simp add: field_def delete_conv')

lemma map_of_map_snd: "map_of (map (\<lambda>(k, v). (k, f v)) m) k = map_option f (map_of m k)"
  by (induction m) auto

section \<open>JSON texts\<close>

text \<open>
  \<^verbatim>\<open>json.Marshal\<close> of a decoded value, as the list of tokens of the text: the keys of a map in
  ascending order, and one token for each scalar (two scalars have the same text exactly when
  they are the same value, the values being finite float64 numbers, booleans, strings and null).
\<close>

datatype 'n token = TNull | TBool bool | TNum 'n | TStr string | TOpenArr | TCloseArr
  | TOpenObj | TCloseObj

definition sorted_keys :: "string list \<Rightarrow> string list" where
  "sorted_keys ks = sort (remdups ks)"

lemma set_sorted_keys [simp]: "set (sorted_keys ks) = set ks"
  by (simp add: sorted_keys_def)

lemma distinct_sorted_keys [simp]: "distinct (sorted_keys ks)"
  by (simp add: sorted_keys_def)

function json_Marshal :: "'n json \<Rightarrow> 'n token list" where
  "json_Marshal JNull = [TNull]"
| "json_Marshal (JBool b) = [TBool b]"
| "json_Marshal (JNum n) = [TNum n]"
| "json_Marshal (JStr s) = [TStr s]"
| "json_Marshal (JArr xs) = TOpenArr # concat (map json_Marshal xs) @ [TCloseArr]"
| "json_Marshal (JObj m) =
     TOpenObj # concat (map (\<lambda>k. TStr k # json_Marshal (field m k)) (sorted_keys (map fst m)))
       @ [TCloseObj]"
  by pat_completeness auto
termination
  by (relation "measure size") (simp_all only: wf_measure in_measure set_sorted_keys set_map
      size_element_less size_field_less)

text \<open>
  \<^verbatim>\<open>json.Unmarshal\<close> of \<^verbatim>\<open>json.Marshal\<close>: the same tree with every number as a float64.
\<close>

definition deepCopy :: "val \<Rightarrow> dval" where
  "deepCopy = map_json to_f64"

definition deepCopy_fields :: "obj \<Rightarrow> f64 fields" where
  "deepCopy_fields m = map (\<lambda>(k, v). (k, deepCopy v)) m"

lemma deepCopy_simps [simp]:
  "deepCopy JNull = JNull"
  "deepCopy (JBool b) = JBool b"
  "deepCopy (JNum n) = JNum (to_f64 n)"
  "deepCopy (JStr s) = JStr s"
  "deepCopy (JArr xs) = JArr (map deepCopy xs)"
  "deepCopy (JObj m) = JObj (deepCopy_fields m)"
  by (simp_all add: deepCopy_def deepCopy_fields_def map_prod_def)

lemma field_deepCopy [simp]: "field (deepCopy_fields m) k = deepCopy (field m k)"
  by (cases "map_of m k") (simp_all add: field_def deepCopy_fields_def map_of_map_snd)

end
