(* ===== verification/Libraries.thy ===== *)
theory Libraries
  imports Go_Values
begin

text \<open>
  The code the operator calls and the repository does not hold: the accessors of
  \<^verbatim>\<open>k8s.io/apimachinery\<close>'s \<^verbatim>\<open>unstructured.Unstructured\<close>, its group-version parsing, and the YAML
  and JSON codecs.  They are a parameter of the model: every definition that uses them takes a
  record of functions, and a theorem holds for every such record unless it names what it relies
  on.  The record \<open>std_lib\<close> is one concrete instance, in which the theorems are applied to
  concrete inputs: the accessors read the fields of the object the way their documentation
  says, and the codecs are tables.
\<close>

section \<open>Identifiers of API types\<close>

record group_version =
  gv_Group :: string
  gv_Version :: string

record group_version_kind =
  Group :: string
  Version :: string
  Kind :: string

text \<open>\<^verbatim>\<open>gv.WithKind(kind)\<close> and \<^verbatim>\<open>gvk.GroupVersion()\<close>.\<close>

definition WithKind :: "group_version \<Rightarrow> string \<Rightarrow> group_version_kind" where
  "WithKind gv kind = \<lparr>Group = gv_Group gv, Version = gv_Version gv, Kind = kind\<rparr>"

definition GroupVersion :: "group_version_kind \<Rightarrow> group_version" where
  "GroupVersion gvk = \<lparr>gv_Group = Group gvk, gv_Version = Version gvk\<rparr>"

text \<open>The zero value of \<^verbatim>\<open>schema.GroupVersionKind\<close>.\<close>

definition no_gvk :: group_version_kind where
  "no_gvk = \<lparr>Group = '''', Version = '''', Kind = ''''\<rparr>"

text \<open>\<^verbatim>\<open>metav1.OwnerReference\<close>.\<close>

record owner_reference =
  own_APIVersion :: string
  own_Kind :: string
  own_Name :: string
  own_UID :: string
  own_Controller :: "bool option"
  own_BlockOwnerDeletion :: "bool option"

section \<open>The library functions\<close>

record image_selection =
  sel_Container :: string
  sel_Image :: string

record k8s_lib =
  GetAPIVersion :: "obj \<Rightarrow> string"
  GetKind :: "obj \<Rightarrow> string"
  GetNamespace :: "obj \<Rightarrow> string"
  GetName :: "obj \<Rightarrow> string"
  GetGenerateName :: "obj \<Rightarrow> string"
  GetUID :: "obj \<Rightarrow> string"
  GetResourceVersion :: "obj \<Rightarrow> string"
  GetGeneration :: "obj \<Rightarrow> int"
  GetAnnotations :: "obj \<Rightarrow> (string \<times> string) list"
  GetLabels :: "obj \<Rightarrow> (string \<times> string) list"
  GetOwnerReferences :: "obj \<Rightarrow> owner_reference list"
  GroupVersionKind_of :: "obj \<Rightarrow> group_version_kind"
  SetGroupVersionKind :: "group_version_kind \<Rightarrow> obj \<Rightarrow> obj"
  SetName :: "string \<Rightarrow> obj \<Rightarrow> obj"
  SetNamespace :: "string \<Rightarrow> obj \<Rightarrow> obj"
  NestedSlice :: "obj \<Rightarrow> string list \<Rightarrow> val list option go_result"
  SetNestedSlice :: "obj \<Rightarrow> val list \<Rightarrow> string list \<Rightarrow> obj go_result"
  NestedInt64 :: "obj \<Rightarrow> string list \<Rightarrow> int option go_result"
  RemoveNestedField :: "obj \<Rightarrow> string list \<Rightarrow> obj"
  ParseGroupVersion :: "string \<Rightarrow> group_version go_result"
  GroupVersion_String :: "group_version \<Rightarrow> string"
  GVK_String :: "group_version_kind \<Rightarrow> string"
  ToJSON :: "string \<Rightarrow> string go_result"
  json_Unmarshal_object :: "string \<Rightarrow> obj go_result"
  json_Unmarshal_selection :: "string \<Rightarrow> image_selection go_result"
  yaml_Marshal :: "obj \<Rightarrow> string go_result"
  yaml_Decode :: "string \<Rightarrow> obj \<Rightarrow> obj go_result"

section \<open>A concrete instance\<close>

fun val_at_path :: "val \<Rightarrow> string list \<Rightarrow> val option" where
  "val_at_path v [] = Some v"
| "val_at_path (JObj m) (k # ks) =
     (case map_of m k of None \<Rightarrow> None | Some v \<Rightarrow> val_at_path v ks)"
| "val_at_path _ (k # ks) = None"

definition string_at :: "string list \<Rightarrow> obj \<Rightarrow> string" where
  "string_at path m = (case val_at_path (JObj m) path of Some (JStr s) \<Rightarrow> s | _ \<Rightarrow> [])"

definition strings_at :: "string list \<Rightarrow> obj \<Rightarrow> (string \<times> string) list" where
  "strings_at path m =
     (case val_at_path (JObj m) path of
        Some (JObj fs) \<Rightarrow> map (\<lambda>(k, v). (k, case v of JStr s \<Rightarrow> s | _ \<Rightarrow> [])) fs
      | _ \<Rightarrow> [])"

definition bool_field :: "obj \<Rightarrow> string \<Rightarrow> bool option" where
  "bool_field m k = (case field m k of JBool b \<Rightarrow> Some b | _ \<Rightarrow> None)"

definition owner_of_value :: "val \<Rightarrow> owner_reference list" where
  "owner_of_value v =
     (case v of
        JObj m \<Rightarrow>
          [\<lparr>own_APIVersion = string_at [''apiVersion''] m, own_Kind = string_at [''kind''] m,
            own_Name = string_at [''name''] m, own_UID = string_at [''uid''] m,
            own_Controller = bool_field m ''controller'',
            own_BlockOwnerDeletion = bool_field m ''blockOwnerDeletion''\<rparr>]
      | _ \<Rightarrow> [])"

definition owners_at :: "obj \<Rightarrow> owner_reference list" where
  "owners_at m =
     (case val_at_path (JObj m) [''metadata'', ''ownerReferences''] of
        Some (JArr xs) \<Rightarrow> concat (map owner_of_value xs)
      | _ \<Rightarrow> [])"

definition parse_gv :: "string \<Rightarrow> group_version go_result" where
  "parse_gv s =
     (if s = '''' \<or> s = ''/'' then Inr \<lparr>gv_Group = '''', gv_Version = ''''\<rparr>
      else (case Split s (CHR ''/'') of
              [v] \<Rightarrow> Inr \<lparr>gv_Group = '''', gv_Version = v\<rparr>
            | [g, v] \<Rightarrow> Inr \<lparr>gv_Group = g, gv_Version = v\<rparr>
            | _ \<Rightarrow> Inl (Errorf (''unexpected GroupVersion string: '' @ s))))"

definition gv_string :: "group_version \<Rightarrow> string" where
  "gv_string gv =
     (if gv_Group gv = '''' then gv_Version gv else gv_Group gv @ ''/'' @ gv_Version gv)"

definition gvk_string :: "group_version_kind \<Rightarrow> string" where
  "gvk_string gvk = Group gvk @ ''/'' @ Version gvk @ '', Kind='' @ Kind gvk"

fun set_at_path :: "string list \<Rightarrow> val \<Rightarrow> obj \<Rightarrow> obj option" where
  "set_at_path [] v m = None"
| "set_at_path [k] v m = Some (AList.update k v m)"
| "set_at_path (k # ks) v m =
     (case map_of m k of
        None \<Rightarrow> map_option (\<lambda>m'. AList.update k (JObj m') m) (set_at_path ks v [])
      | Some (JObj m') \<Rightarrow> map_option (\<lambda>m''. AList.update k (JObj m'') m) (set_at_path ks v m')
      | Some _ \<Rightarrow> None)"

definition set_total :: "string list \<Rightarrow> val \<Rightarrow> obj \<Rightarrow> obj" where
  "set_total path v m = (case set_at_path path v m of None \<Rightarrow> m | Some m' \<Rightarrow> m')"

fun remove_at_path :: "string list \<Rightarrow> obj \<Rightarrow> obj" where
  "remove_at_path [] m = m"
| "remove_at_path [k] m = AList.delete k m"
| "remove_at_path (k # ks) m =
     (case map_of m k of
        Some (JObj m') \<Rightarrow> AList.update k (JObj (remove_at_path ks m')) m
      | _ \<Rightarrow> m)"

text \<open>
  The instance: \<open>docs\<close> is the table of the documents its codecs know, a text with the object it
  denotes, and \<open>sels\<close> that of the JSON image selections.
\<close>

definition decode_table :: "(string \<times> 'a) list \<Rightarrow> string \<Rightarrow> 'a go_result" where
  "decode_table t s =
     (case map_of t s of None \<Rightarrow> Inl (Errorf ''cannot decode document'') | Some x \<Rightarrow> Inr x)"

definition std_lib :: "(string \<times> obj) list \<Rightarrow> (string \<times> image_selection) list \<Rightarrow> k8s_lib" where
  "std_lib docs sels =
     \<lparr>GetAPIVersion = string_at [''apiVersion''],
      GetKind = string_at [''kind''],
      GetNamespace = string_at [''metadata'', ''namespace''],
      GetName = string_at [''metadata'', ''name''],
      GetGenerateName = string_at [''metadata'', ''generateName''],
      GetUID = string_at [''metadata'', ''uid''],
      GetResourceVersion = string_at [''metadata'', ''resourceVersion''],
      GetGeneration = (\<lambda>m. case val_at_path (JObj m) [''metadata'', ''generation''] of
                             Some (JNum (Int64 n)) \<Rightarrow> n | _ \<Rightarrow> 0),
      GetAnnotations = strings_at [''metadata'', ''annotations''],
      GetLabels = strings_at [''metadata'', ''labels''],
      GetOwnerReferences = owners_at,
      GroupVersionKind_of = (\<lambda>m. case parse_gv (string_at [''apiVersion''] m) of
                                   Inl _ \<Rightarrow> no_gvk
                                 | Inr gv \<Rightarrow> WithKind gv (string_at [''kind''] m)),
      SetGroupVersionKind = (\<lambda>gvk m. set_total [''kind''] (JStr (Kind gvk))
                               (set_total [''apiVersion''] (JStr (gv_string (GroupVersion gvk))) m)),
      SetName = (\<lambda>s. set_total [''metadata'', ''name''] (JStr s)),
      SetNamespace = (\<lambda>s. set_total [''metadata'', ''namespace''] (JStr s)),
      NestedSlice = (\<lambda>m path. case val_at_path (JObj m) path of
                                None \<Rightarrow> Inr None
                              | Some (JArr xs) \<Rightarrow> Inr (Some xs)
                              | Some _ \<Rightarrow> Inl (Errorf ''accessor error: value is not a slice'')),
      SetNestedSlice = (\<lambda>m xs path. case set_at_path path (JArr xs) m of
                                      None \<Rightarrow> Inl (Errorf ''value cannot be set'')
                                    | Some m' \<Rightarrow> Inr m'),
      NestedInt64 = (\<lambda>m path. case val_at_path (JObj m) path of
                                None \<Rightarrow> Inr None
                              | Some (JNum (Int64 n)) \<Rightarrow> Inr (Some n)
                              | Some _ \<Rightarrow> Inl (Errorf ''accessor error: value is not an int64'')),
      RemoveNestedField = (\<lambda>m path. remove_at_path path m),
      ParseGroupVersion = parse_gv,
      GroupVersion_String = gv_string,
      GVK_String = gvk_string,
      ToJSON = (\<lambda>s. Inr s),
      json_Unmarshal_object = decode_table docs,
      json_Unmarshal_selection = decode_table sels,
      yaml_Marshal = (\<lambda>m. case find (\<lambda>(s, m'). m' = m) docs of
                            None \<Rightarrow> Inl (Errorf ''cannot encode object'') | Some (s, _) \<Rightarrow> Inr s),
      yaml_Decode = (\<lambda>s m. decode_table docs s)\<rparr>"

end
