(* ===== verification/Api_Types.thy ===== *)
theory Api_Types
  imports Libraries
begin

text \<open>
  The API types of the operator (\<^verbatim>\<open>api/v1alpha1\<close>): the custom resources K8sGPT, Result and
  Mutation as records with the fields of the Go structs, a pointer as an option, a
  \<^verbatim>\<open>map[string]string\<close> as an association list.  A field whose type is a Kubernetes struct that
  the operator only passes through (a security context, a toleration) holds its serialised
  value.  The theory ends with the backend and endpoint the server is configured with.
\<close>

section \<open>Kubernetes metadata\<close>

type_synonym str_map = "(string \<times> string) list"
type_synonym opaque = "gonum json"

record object_key =
  key_Namespace :: string
  key_Name :: string

record object_meta =
  om_Name :: string
  om_Namespace :: string
  om_UID :: string
  om_ResourceVersion :: string
  om_DeletionTimestamp :: "nat option"
  om_Finalizers :: "string list"
  om_OwnerReferences :: "owner_reference list"
  om_Labels :: str_map
  om_Annotations :: str_map

definition new_meta :: "string \<Rightarrow> string \<Rightarrow> object_meta" where
  "new_meta name namespace =
     \<lparr>om_Name = name, om_Namespace = namespace, om_UID = '''', om_ResourceVersion = '''',
      om_DeletionTimestamp = None, om_Finalizers = [], om_OwnerReferences = [], om_Labels = [],
      om_Annotations = []\<rparr>"

record object_reference =
  or_Kind :: string
  or_Namespace :: string
  or_Name :: string
  or_UID :: string
  or_APIVersion :: string
  or_ResourceVersion :: string

section \<open>K8sGPT\<close>

record Backstage =
  bs_Enabled :: bool

record SecretRef =
  sr_Name :: string
  sr_Key :: string

record ExtraOptionsRef =
  eo_Backstage :: "Backstage option"
  eo_ServiceAccountIRSA :: string

record CredentialsRef =
  cr_Name :: string

record InterplexBackend =
  ib_Endpoint :: string

record S3Backend =
  s3_BucketName :: string
  s3_Region :: string

record AzureBackend =
  az_StorageAccount :: string
  az_ContainerName :: string

record GCSBackend =
  gcs_BucketName :: string
  gcs_Region :: string
  gcs_ProjectId :: string

record RemoteCacheRef =
  rc_Credentials :: "CredentialsRef option"
  rc_GCS :: "GCSBackend option"
  rc_S3 :: "S3Backend option"
  rc_Azure :: "AzureBackend option"
  rc_Interplex :: "InterplexBackend option"

record Connection =
  conn_Url :: string
  conn_Port :: int

record CustomAnalyzer =
  ca_Name :: string
  ca_Connection :: "Connection option"

record WebhookRef =
  wh_Type :: string
  wh_Endpoint :: string
  wh_Channel :: string
  wh_UserName :: string
  wh_IconURL :: string
  wh_Secret :: "SecretRef option"

record BackOff =
  bo_Enabled :: bool
  bo_MaxRetries :: int

record AutoRemediation =
  ar_Enabled :: bool
  ar_SimilarityRequirement :: string
  ar_Resources :: "string list"

record AISpec =
  ai_AutoRemediation :: AutoRemediation
  ai_Backend :: string
  ai_BackOff :: "BackOff option"
  ai_BaseUrl :: string
  ai_Region :: string
  ai_AzureAPIType :: string
  ai_Model :: string
  ai_Engine :: string
  ai_Secret :: "SecretRef option"
  ai_Enabled :: bool
  ai_Anonymize :: "bool option"
  ai_Language :: string
  ai_ProxyEndpoint :: string
  ai_ProviderId :: string
  ai_MaxTokens :: string
  ai_Topk :: string
  ai_CustomHeaders :: string

record Trivy =
  tr_Enabled :: bool
  tr_SkipInstall :: bool
  tr_Namespace :: string

record Integrations =
  int_Trivy :: "Trivy option"

record ImagePullSecrets =
  ips_Name :: string

record AnalysisConfig =
  an_Interval :: string

record ResourceRequirements =
  rr_Limits :: "str_map option"
  rr_Requests :: "str_map option"
  rr_Claims :: opaque

record K8sGPTSpec =
  sp_Version :: string
  sp_Repository :: string
  sp_ImagePullPolicy :: string
  sp_ImagePullSecrets :: "ImagePullSecrets list"
  sp_Resources :: "ResourceRequirements option"
  sp_NoCache :: bool
  sp_CustomAnalyzers :: "CustomAnalyzer list option"
  sp_Filters :: "string list"
  sp_ExtraOptions :: "ExtraOptionsRef option"
  sp_Sink :: "WebhookRef option"
  sp_AI :: "AISpec option"
  sp_RemoteCache :: "RemoteCacheRef option"
  sp_Integrations :: "Integrations option"
  sp_NodeSelector :: str_map
  sp_Tolerations :: "opaque list"
  sp_TargetNamespace :: string
  sp_Analysis :: "AnalysisConfig option"
  sp_Kubeconfig :: "SecretRef option"
  sp_DeploymentLabels :: str_map
  sp_DeploymentAnnotations :: str_map
  sp_PodLabels :: str_map
  sp_PodAnnotations :: str_map
  sp_SecurityContext :: "opaque option"
  sp_ContainerSecurityContext :: "opaque option"

record K8sGPTStatus =
  st_LastAnalysisError :: string
  st_LastAnalysisErrorTime :: "nat option"

record K8sGPT =
  k_Kind :: string
  k_APIVersion :: string
  k_Meta :: object_meta
  k_Spec :: K8sGPTSpec
  k_Status :: K8sGPTStatus

section \<open>Result\<close>

record Sensitive =
  se_Unmasked :: string
  se_Masked :: string

record Failure =
  fa_Text :: string
  fa_Sensitive :: "Sensitive list"

text \<open>
  The phase is an int in Go, with six named values; a stored object may hold any other one.
\<close>

datatype AutoRemediationPhase =
    PhaseNotStarted
  | PhaseInProgress
  | PhaseCompleted
  | PhaseSuccessful
  | PhasePending
  | PhaseAborted
  | PhaseOther int

fun phase_code :: "AutoRemediationPhase \<Rightarrow> int" where
  "phase_code PhaseNotStarted = 0"
| "phase_code PhaseInProgress = 1"
| "phase_code PhaseCompleted = 2"
| "phase_code PhaseSuccessful = 3"
| "phase_code PhasePending = 4"
| "phase_code PhaseAborted = 5"
| "phase_code (PhaseOther i) = i"

record ResultTargetReference =
  tg_APIVersion :: string
  tg_Kind :: string
  tg_Namespace :: string
  tg_Name :: string
  tg_UID :: string
  tg_ResourceVersion :: string

record ResultSpec =
  rs_Backend :: string
  rs_Phase :: AutoRemediationPhase
  rs_Kind :: string
  rs_Name :: string
  rs_Error :: "Failure list"
  rs_Details :: string
  rs_ParentObject :: string
  rs_TargetRef :: "ResultTargetReference option"

record ResultStatus =
  rt_LifeCycle :: string
  rt_Webhook :: string
  rt_ContentHash :: string

record Result =
  res_Meta :: object_meta
  res_Spec :: ResultSpec
  res_Status :: ResultStatus

section \<open>Mutation\<close>

record MutationSpec =
  ms_SimilarityScore :: string
  ms_ResourceGVK :: string
  ms_ResourceRef :: object_reference
  ms_ResultRef :: object_reference
  ms_OriginConfiguration :: string
  ms_TargetConfiguration :: string

record MutationStatus =
  mt_Phase :: AutoRemediationPhase
  mt_Message :: string
  mt_PolicyDecision :: string
  mt_ChangedPaths :: "string list"
  mt_AppliedAt :: "nat option"

record Mutation =
  mu_Meta :: object_meta
  mu_Spec :: MutationSpec
  mu_Status :: MutationStatus

section \<open>Backends\<close>

definition OpenAI :: string where "OpenAI = ''openai''"
definition DeepSeek :: string where "DeepSeek = ''deepseek''"
definition DeepSeekBaseURL :: string where "DeepSeekBaseURL = ''https://api.deepseek.com''"
definition AzureOpenAI :: string where "AzureOpenAI = ''azureopenai''"
definition AmazonBedrock :: string where "AmazonBedrock = ''amazonbedrock''"
definition GoogleVertexAI :: string where "GoogleVertexAI = ''googlevertexai''"
definition IBMWatsonxAI :: string where "IBMWatsonxAI = ''ibmwatsonxai''"

lemmas backend_defs = OpenAI_def DeepSeek_def DeepSeekBaseURL_def AzureOpenAI_def
  AmazonBedrock_def GoogleVertexAI_def IBMWatsonxAI_def

definition EffectiveBackend :: "string \<Rightarrow> string" where
  "EffectiveBackend backend = (if backend = DeepSeek then OpenAI else backend)"

definition EffectiveBaseURL :: "AISpec \<Rightarrow> string" where
  "EffectiveBaseURL ai =
     (if ai_BaseUrl ai \<noteq> '''' then ai_BaseUrl ai
      else if ai_Backend ai = DeepSeek then DeepSeekBaseURL
      else '''')"

lemma EffectiveBackend_not_deepseek [simp]: "EffectiveBackend b \<noteq> DeepSeek"
  by (simp add: EffectiveBackend_def backend_defs)

lemma EffectiveBackend_idem [simp]: "EffectiveBackend (EffectiveBackend b) = EffectiveBackend b"
  by (simp add: EffectiveBackend_def)

end
