(* ===== verification/Workload_Types.thy ===== *)
theory Workload_Types
  imports Api_Types
begin

text \<open>
  The Kubernetes objects the operator creates for a K8sGPT resource, as far as it fills them in:
  the Deployment of the server, its Service, and the service account with its role and binding;
  and the requests it sends to the server.  Quantities and security settings hold their
  serialised value.
\<close>

section \<open>Maps of strings\<close>

text \<open>\<^verbatim>\<open>labels[k] = v\<close> for every entry of a map.\<close>

definition add_labels :: "str_map \<Rightarrow> str_map \<Rightarrow> str_map" where
  "add_labels new labels = fold (\<lambda>(k, v). AList.update k v) new labels"

lemma add_labels_other: "k \<notin> fst ` set new \<Longrightarrow> map_of (add_labels new labels) k = map_of labels k"
  unfolding add_labels_def by (induction new arbitrary: labels) (auto simp: update_conv' split: prod.splits)

section \<open>Pods\<close>

datatype env_source = Literal string | SecretKeyRef string string

record EnvVar =
  ev_Name :: string
  ev_Source :: env_source

record VolumeMount =
  vm_Name :: string
  vm_ReadOnly :: bool
  vm_MountPath :: string

datatype volume_source = EmptyDir | SecretVolume string "(string \<times> string) list"

record Volume =
  vol_Name :: string
  vol_Source :: volume_source

record Container =
  c_Name :: string
  c_ImagePullPolicy :: string
  c_Image :: string
  c_Args :: "string list"
  c_Env :: "EnvVar list"
  c_Ports :: "int list"
  c_Resources :: ResourceRequirements
  c_VolumeMounts :: "VolumeMount list"
  c_SecurityContext :: "opaque option"

record PodSpec =
  ps_ServiceAccountName :: string
  ps_AutomountServiceAccountToken :: "bool option"
  ps_Containers :: "Container list"
  ps_Volumes :: "Volume list"
  ps_NodeSelector :: str_map
  ps_Tolerations :: "opaque list"
  ps_SecurityContext :: "opaque option"

record PodTemplate =
  pt_Labels :: str_map
  pt_Annotations :: str_map
  pt_Spec :: PodSpec

section \<open>Objects\<close>

record DeploymentSpec =
  ds_Replicas :: int
  ds_MatchLabels :: str_map
  ds_Template :: PodTemplate

record Deployment =
  d_Meta :: object_meta
  d_Spec :: DeploymentSpec
  d_AvailableReplicas :: int

record ServiceSpec =
  ss_Selector :: str_map
  ss_Ports :: "int list"
  ss_ClusterIP :: string

record Service =
  svc_Meta :: object_meta
  svc_Spec :: ServiceSpec

record ServiceAccount =
  sa_Meta :: object_meta

record PolicyRule =
  pr_APIGroups :: "string list"
  pr_Resources :: "string list"
  pr_Verbs :: "string list"

record ClusterRole =
  clr_Meta :: object_meta
  clr_Rules :: "PolicyRule list"

record Subject =
  sub_Kind :: string
  sub_Name :: string
  sub_Namespace :: string

record RoleRef =
  rref_Kind :: string
  rref_Name :: string

record ClusterRoleBinding =
  crb_Meta :: object_meta
  crb_Subjects :: "Subject list"
  crb_RoleRef :: RoleRef

record Secret =
  sec_Data :: str_map

text \<open>The objects the operator owns: a \<^verbatim>\<open>client.Object\<close> of one of five types.\<close>

datatype kube_object =
    TheServiceAccount ServiceAccount
  | TheService Service
  | TheDeployment Deployment
  | TheClusterRole ClusterRole
  | TheClusterRoleBinding ClusterRoleBinding

fun object_meta_of :: "kube_object \<Rightarrow> object_meta" where
  "object_meta_of (TheServiceAccount x) = sa_Meta x"
| "object_meta_of (TheService x) = svc_Meta x"
| "object_meta_of (TheDeployment x) = d_Meta x"
| "object_meta_of (TheClusterRole x) = clr_Meta x"
| "object_meta_of (TheClusterRoleBinding x) = crb_Meta x"

definition key_of_meta :: "object_meta \<Rightarrow> object_key" where
  "key_of_meta m = \<lparr>key_Namespace = om_Namespace m, key_Name = om_Name m\<rparr>"

section \<open>Requests to the server\<close>

record AnalyzeRequest =
  rq_Explain :: bool
  rq_Nocache :: bool
  rq_Backend :: string
  rq_Namespace :: string
  rq_Filters :: "string list"
  rq_Anonymize :: bool
  rq_Language :: string

text \<open>
  The answer, with the findings as \<^verbatim>\<open>encoding/json\<close> carries them over into the types of the API, or the
  error it makes; and the answer as the controller sees it.
\<close>

record AnalyzeResponse =
  re_Status :: string
  re_Results :: "ResultSpec list go_result"
  re_Problems :: int

record K8sGPTResponse =
  kr_Status :: string
  kr_Problems :: int
  kr_Results :: "ResultSpec list"

datatype cache_config =
    S3Cache string string
  | AzureCache string string
  | GCSCache string string string
  | InterplexCache string

record analyzer_config =
  anc_Name :: string
  anc_Url :: string
  anc_Port :: string

record AddConfigRequest =
  acr_Cache :: "cache_config option"
  acr_CustomAnalyzers :: "analyzer_config list"
  acr_Trivy :: "Trivy option"

text \<open>A cloud event, as far as the operator fills it in.\<close>

record cloud_event =
  ce_ID :: string
  ce_Source :: string
  ce_Type :: string
  ce_Time :: nat
  ce_ContentType :: string
  ce_Data :: "gonum json"

text \<open>A message to a sink: the endpoint, the content type and the payload.\<close>

record http_post =
  post_Endpoint :: string
  post_ContentType :: string
  post_Payload :: "gonum json"

end
