(* ===== verification/Json_Pointer.thy ===== *)
theory Json_Pointer
  imports Go_Values
begin

text \<open>
  The specification side of the remediation gate: JSON Pointers (RFC 6901) and the \<^verbatim>\<open>test\<close> and
  \<^verbatim>\<open>replace\<close> operations of JSON Patch (RFC 6902), which the API server applies to an object.
  The gate of the operator computes its patch on its own; the theorems of \<^verbatim>\<open>Gate_Diff\<close> relate
  that patch to the meaning given here.

  \<open>at v ts\<close> reads the value under the reference tokens \<open>ts\<close> (nil where there is none), and
  \<open>shape\<close> forgets what is below a value, so that two values agree, up to nil entries, when they
  have the same shape under all tokens.
\<close>

section \<open>Reading\<close>

definition array_index :: "string \<Rightarrow> nat \<Rightarrow> nat option" where
  "array_index t n = find (\<lambda>i. Itoa_nat i = t) [0..<n]"

fun at :: "'n json \<Rightarrow> string list \<Rightarrow> 'n json" where
  "at v [] = v"
| "at (JObj m) (t # ts) = at (field m t) ts"
| "at (JArr xs) (t # ts) =
     (case array_index t (length xs) of None \<Rightarrow> JNull | Some i \<Rightarrow> at (xs ! i) ts)"
| "at _ (t # ts) = JNull"

fun shape :: "'n json \<Rightarrow> 'n json" where
  "shape (JObj m) = JObj []"
| "shape (JArr xs) = JArr []"
| "shape v = v"

lemma array_index_Some: "array_index t n = Some i \<longleftrightarrow> i < n \<and> t = Itoa_nat i"
proof
  assume "array_index t n = Some i"
  then show "i < n \<and> t = Itoa_nat i"
    by (auto simp: array_index_def find_Some_iff)
next
  assume i: "i < n \<and> t = Itoa_nat i"
  then have "array_index t n \<noteq> None"
    by (auto simp: array_index_def find_None_iff)
  then obtain j where "array_index t n = Some j" by auto
  with i show "array_index t n = Some i"
    by (auto simp: array_index_def find_Some_iff)
qed

lemma array_index_None: "array_index t n = None \<longleftrightarrow> (\<forall>i<n. t \<noteq> Itoa_nat i)"
  by (metis array_index_Some option.exhaust option.distinct(1))

lemma at_JNull [simp]: "at JNull ts = JNull"
  by (cases ts) simp_all

lemma at_JArr_index: "at (JArr xs) (Itoa_nat i # ts) = at (elem_or_nil xs i) ts"
proof (cases "i < length xs")
  case True
  then have "array_index (Itoa_nat i) (length xs) = Some i" by (simp add: array_index_Some)
  with True show ?thesis by (simp add: elem_or_nil_def)
next
  case False
  then have "array_index (Itoa_nat i) (length xs) = None" by (simp add: array_index_None)
  with False show ?thesis by (simp add: elem_or_nil_def)
qed

lemma at_JArr_no_index: "\<forall>i<length xs. t \<noteq> Itoa_nat i \<Longrightarrow> at (JArr xs) (t # ts) = JNull"
  by (simp add: array_index_None [THEN iffD2])

lemma at_append: "at v (ts @ us) = at (at v ts) us"
  by (induction v ts rule: at.induct) (auto split: option.split)

lemma shape_eq_simps [simp]:
  "shape v = JNull \<longleftrightarrow> v = JNull"
  "shape v = JStr s \<longleftrightarrow> v = JStr s"
  "shape v = JNum n \<longleftrightarrow> v = JNum n"
  "shape v = JBool b \<longleftrightarrow> v = JBool b"
  by (cases v; simp)+

lemma shape_shape [simp]: "shape (shape v) = shape v"
  by (cases v) simp_all

section \<open>Replacing\<close>

fun replace_at :: "string list \<Rightarrow> 'n json \<Rightarrow> 'n json \<Rightarrow> 'n json option" where
  "replace_at [] x v = Some x"
| "replace_at (t # ts) x (JObj m) =
     (case map_of m t of
        None \<Rightarrow> None
      | Some v \<Rightarrow> map_option (\<lambda>v'. JObj (AList.update t v' m)) (replace_at ts x v))"
| "replace_at (t # ts) x (JArr xs) =
     (case array_index t (length xs) of
        None \<Rightarrow> None
      | Some i \<Rightarrow> map_option (\<lambda>v'. JArr (xs[i := v'])) (replace_at ts x (xs ! i)))"
| "replace_at (t # ts) x _ = None"

fun replace_all :: "(string list \<times> 'n json) list \<Rightarrow> 'n json \<Rightarrow> 'n json option" where
  "replace_all [] v = Some v"
| "replace_all ((ts, x) # rs) v =
     (case replace_at ts x v of None \<Rightarrow> None | Some v' \<Rightarrow> replace_all rs v')"

text \<open>
  A replacement under tokens that lead to a value succeeds; below the tokens the new value is
  read, the values beside them are untouched, and above them only what is below changes.
\<close>

lemma elem_or_nil_update:
  "i < length xs \<Longrightarrow> elem_or_nil (xs[i := v]) j = (if j = i then v else elem_or_nil xs j)"
  by (simp add: elem_or_nil_def)

lemma at_update_other:
  assumes "i < length xs" and "t \<noteq> Itoa_nat i"
  shows "at (JArr (xs[i := v])) (t # ts) = at (JArr xs) (t # ts)"
proof (cases "array_index t (length xs)")
  case (Some j)
  then have "j \<noteq> i" using assms(2) by (auto simp: array_index_Some)
  with Some show ?thesis by simp
qed simp

lemma replace_at_ok:
  assumes "at v ts \<noteq> JNull"
  shows "\<exists>r. replace_at ts x v = Some r \<and> (\<forall>us. at r (ts @ us) = at x us)
    \<and> (\<forall>us. us \<parallel> ts \<longrightarrow> at r us = at v us)
    \<and> (\<forall>us. \<not> prefix ts us \<longrightarrow> shape (at r us) = shape (at v us))"
  using assms
proof (induction ts arbitrary: v)
  case Nil
  then show ?case by simp
next
  case (Cons t ts)
  show ?case
  proof (cases v)
    case (JObj m)
    with Cons.prems have nn: "at (field m t) ts \<noteq> JNull" by simp
    then obtain w where w: "map_of m t = Some w" "field m t = w"
      by (cases "map_of m t") (simp_all add: field_def)
    from Cons.IH [OF nn] obtain r where r: "replace_at ts x w = Some r"
      "\<And>us. at r (ts @ us) = at x us" "\<And>us. us \<parallel> ts \<Longrightarrow> at r us = at w us"
      "\<And>us. \<not> prefix ts us \<Longrightarrow> shape (at r us) = shape (at w us)"
      using w by auto
    let ?r = "JObj (AList.update t r m)"
    have below: "at ?r ((t # ts) @ us) = at x us" for us using r by simp
    have beside: "at ?r us = at v us" if "us \<parallel> t # ts" for us
      using that r(3) w JObj by (cases us) (auto simp: parallel_def)
    have above: "shape (at ?r us) = shape (at v us)" if "\<not> prefix (t # ts) us" for us
      using that r(4) w JObj by (cases us) auto
    from JObj w r(1) have "replace_at (t # ts) x v = Some ?r" by simp
    with below beside above show ?thesis by blast
  next
    case (JArr xs)
    with Cons.prems obtain i where i: "array_index t (length xs) = Some i"
      and nn: "at (xs ! i) ts \<noteq> JNull" by (auto split: option.splits)
    then have it: "i < length xs" "t = Itoa_nat i" by (simp_all add: array_index_Some)
    from Cons.IH [OF nn] obtain r where r: "replace_at ts x (xs ! i) = Some r"
      "\<And>us. at r (ts @ us) = at x us" "\<And>us. us \<parallel> ts \<Longrightarrow> at r us = at (xs ! i) us"
      "\<And>us. \<not> prefix ts us \<Longrightarrow> shape (at r us) = shape (at (xs ! i) us)"
      by auto
    let ?r = "JArr (xs[i := r])"
    have hit: "at ?r (t # us) = at r us" for us using i it(1) by simp
    have below: "at ?r ((t # ts) @ us) = at x us" for us using hit r(2) by simp
    have old: "at v (t # us) = at (xs ! i) us" for us using i JArr by simp
    have other: "at ?r (u # us) = at v (u # us)" if "u \<noteq> t" for u us
      using that it JArr at_update_other [of i xs u r us] by simp
    have beside: "at ?r us = at v us" if p: "us \<parallel> t # ts" for us
    proof (cases us)
      case (Cons u us')
      show ?thesis
      proof (cases "u = t")
        case True
        with p Cons have "us' \<parallel> ts" by (auto simp: parallel_def)
        with True Cons show ?thesis by (simp only: hit old r(3))
      next
        case False
        with Cons show ?thesis by (simp only: other [OF False])
      qed
    qed (use p in \<open>simp add: parallel_def\<close>)
    have above: "shape (at ?r us) = shape (at v us)" if p: "\<not> prefix (t # ts) us" for us
    proof (cases us)
      case (Cons u us')
      show ?thesis
      proof (cases "u = t")
        case True
        with p Cons have np: "\<not> prefix ts us'" by simp
        from True Cons show ?thesis by (simp only: hit old r(4) [OF np])
      next
        case False
        with Cons show ?thesis by (simp only: other [OF False])
      qed
    qed (use JArr in simp)
    from JArr i r(1) have "replace_at (t # ts) x v = Some ?r" by simp
    with below beside above show ?thesis by blast
  qed (use Cons.prems in simp_all)
qed

text \<open>Replacements under pairwise parallel tokens do not disturb each other.\<close>

lemma replace_all_ok:
  assumes "sorted_wrt parallel (map fst rs)" and "\<forall>ts \<in> fst ` set rs. at v ts \<noteq> JNull"
  shows "\<exists>r. replace_all rs v = Some r
    \<and> (\<forall>(ts, x) \<in> set rs. \<forall>us. at r (ts @ us) = at x us)
    \<and> (\<forall>us. (\<forall>ts \<in> fst ` set rs. us \<parallel> ts) \<longrightarrow> at r us = at v us)
    \<and> (\<forall>us. (\<forall>ts \<in> fst ` set rs. \<not> prefix ts us) \<longrightarrow> shape (at r us) = shape (at v us))"
  using assms
proof (induction rs arbitrary: v)
  case Nil
  then show ?case by simp
next
  case (Cons a rs)
  obtain ts x where a: "a = (ts, x)" by (cases a)
  have "at v ts \<noteq> JNull" using Cons.prems(2) a by simp
  from replace_at_ok [OF this, of x] obtain v' where v': "replace_at ts x v = Some v'"
    "\<And>us. at v' (ts @ us) = at x us" "\<And>us. us \<parallel> ts \<Longrightarrow> at v' us = at v us"
    "\<And>us. \<not> prefix ts us \<Longrightarrow> shape (at v' us) = shape (at v us)" by auto
  have par: "\<And>us. us \<in> fst ` set rs \<Longrightarrow> ts \<parallel> us" and sw: "sorted_wrt parallel (map fst rs)"
    using Cons.prems(1) a by auto
  have "\<forall>us \<in> fst ` set rs. at v' us \<noteq> JNull"
  proof
    fix us assume us: "us \<in> fst ` set rs"
    then have "us \<parallel> ts" using par [of us] by (simp add: parallel_def)
    then show "at v' us \<noteq> JNull" using v'(3) Cons.prems(2) us by auto
  qed
  from Cons.IH [OF sw this] obtain r where r: "replace_all rs v' = Some r"
    "\<And>us y ws. (us, y) \<in> set rs \<Longrightarrow> at r (us @ ws) = at y ws"
    "\<And>us. \<forall>t \<in> fst ` set rs. us \<parallel> t \<Longrightarrow> at r us = at v' us"
    "\<And>us. \<forall>t \<in> fst ` set rs. \<not> prefix t us \<Longrightarrow> shape (at r us) = shape (at v' us)"
    by (fastforce split: prod.splits)
  have ts: "at r (ts @ us) = at x us" for us
  proof -
    have "\<forall>t \<in> fst ` set rs. ts @ us \<parallel> t"
      using par by (meson parallel_append parallelE parallelI prefix_order.trans prefixI prefix_same_cases)
    then show ?thesis using r(3) v'(2) by simp
  qed
  from v'(1) r(1) have "replace_all (a # rs) v = Some r" by (simp add: a)
  moreover have "\<forall>(ts, x) \<in> set (a # rs). \<forall>us. at r (ts @ us) = at x us"
    using ts r(2) a by auto
  moreover have "at r us = at v us" if "\<forall>t \<in> fst ` set (a # rs). us \<parallel> t" for us
    using that r(3) v'(3) a by simp
  moreover have "shape (at r us) = shape (at v us)"
    if "\<forall>t \<in> fst ` set (a # rs). \<not> prefix t us" for us
    using that r(4) v'(4) a by simp
  ultimately show ?case by blast
qed

section \<open>Pointers\<close>

definition escape :: "string \<Rightarrow> string" where
  "escape segment = ReplaceAll (ReplaceAll segment CHR ''~'' ''~0'') CHR ''/'' ''~1''"

fun unescape :: "string \<Rightarrow> string" where
  "unescape [] = []"
| "unescape [c] = [c]"
| "unescape (c # d # s) =
     (if c = CHR ''~'' \<and> d = CHR ''0'' then CHR ''~'' # unescape s
      else if c = CHR ''~'' \<and> d = CHR ''1'' then CHR ''/'' # unescape s
      else c # unescape (d # s))"

definition pointer :: "string list \<Rightarrow> string" where
  "pointer ts = concat (map (\<lambda>t. CHR ''/'' # escape t) ts)"

definition parse_pointer :: "string \<Rightarrow> string list option" where
  "parse_pointer p =
     (case p of
        [] \<Rightarrow> Some []
      | c # cs \<Rightarrow> if c = CHR ''/'' then Some (map unescape (Split cs CHR ''/'')) else None)"

lemma escape_Nil [simp]: "escape [] = []"
  by (simp add: escape_def)

lemma escape_Cons [simp]:
  "escape (c # s) = (if c = CHR ''~'' then ''~0'' else if c = CHR ''/'' then ''~1'' else [c]) @ escape s"
  by (simp add: escape_def)

lemma unescape_escape [simp]: "unescape (escape s) = s"
proof (induction s)
  case (Cons c s)
  then show ?case by (cases "escape s") auto
qed simp

lemma slash_notin_escape [go_path]: "CHR ''/'' \<notin> set (escape s)"
  by (induction s) auto

lemma escape_plain: "CHR ''/'' \<notin> set s \<Longrightarrow> CHR ''~'' \<notin> set s \<Longrightarrow> escape s = s"
  by (induction s) auto

lemma escape_Itoa [simp]: "escape (Itoa_nat i) = Itoa_nat i"
proof (rule escape_plain)
  show "CHR ''/'' \<notin> set (Itoa_nat i)" and "CHR ''~'' \<notin> set (Itoa_nat i)"
    using Itoa_nat_digits [of "CHR ''/''" i] Itoa_nat_digits [of "CHR ''~''" i]
    by (auto simp: is_digit_iff)
qed

lemma pointer_Nil [simp]: "pointer [] = []"
  by (simp add: pointer_def)

lemma pointer_Cons [simp]: "pointer (t # ts) = CHR ''/'' # escape t @ pointer ts"
  by (simp add: pointer_def)

lemma Split_pointer:
  "Split (escape t @ pointer ts) CHR ''/'' = map escape (t # ts)"
proof (induction ts arbitrary: t)
  case Nil
  show ?case using slash_notin_escape by (simp add: Split_no_sep)
next
  case (Cons u ts)
  have "Split (escape t @ pointer (u # ts)) CHR ''/''
      = escape t # Split (escape u @ pointer ts) CHR ''/''"
    using slash_notin_escape by (simp add: Split_append)
  with Cons show ?case by simp
qed

lemma parse_pointer_pointer [simp]: "parse_pointer (pointer ts) = Some ts"
proof (cases ts)
  case (Cons t us)
  then show ?thesis by (simp add: parse_pointer_def Split_pointer o_def)
qed (simp add: parse_pointer_def)

lemma pointer_inj: "pointer ts = pointer us \<longleftrightarrow> ts = us"
  by (metis option.inject parse_pointer_pointer)

end
