(* ===== verification/Gate_Diff.thy ===== *)
theory Gate_Diff
  imports Json_Pointer Libraries
begin

text \<open>
  The semantic difference the remediation gate computes between the live object and the
  proposed one (\<^verbatim>\<open>normalized\<close>, \<^verbatim>\<open>diff\<close>, \<^verbatim>\<open>equal\<close> of
  \<^verbatim>\<open>internal/controller/remediation/policy/gate.go\<close>), and what it means: the paths it reports
  are different JSON Pointers, none above another, its old and new values are the ones the two
  objects hold there, it reports nothing exactly for objects that agree, and replacing the old
  values by the new ones turns the live object into the proposed one.
\<close>

section \<open>The code\<close>

record Change =
  Path :: string
  Old :: dval
  New :: dval

record PatchOperation =
  Op :: string
  OpPath :: string
  OpValue :: dval

definition equal :: "dval \<Rightarrow> dval \<Rightarrow> bool" where
  "equal a b \<longleftrightarrow> json_Marshal a = json_Marshal b"

function diff :: "string \<Rightarrow> dval \<Rightarrow> dval \<Rightarrow> Change list" where
  "diff path old new =
     (case (old, new) of
        (JObj oldMap, JObj newMap) \<Rightarrow>
          concat (map (\<lambda>key. diff (path @ ''/'' @ escape key) (field oldMap key) (field newMap key))
            (sorted_keys (map fst oldMap @ map fst newMap)))
      | (JArr oldList, JArr newList) \<Rightarrow>
          concat (map (\<lambda>i. diff (path @ ''/'' @ Itoa_nat i) (elem_or_nil oldList i) (elem_or_nil newList i))
            [0..<max (length oldList) (length newList)])
      | _ \<Rightarrow> if equal old new then [] else [\<lparr>Path = path, Old = old, New = new\<rparr>])"
  by pat_completeness auto

lemma size_fields_less:
  assumes "k \<in> set (map fst om) \<union> set (map fst nm)"
  shows "size (field om k) + size (field nm k) < size (JObj om) + size (JObj nm)"
proof (cases "k \<in> fst ` set om")
  case True
  then show ?thesis using size_field_less [of k om] size_field_le [of nm k] by linarith
next
  case False
  then have "k \<in> fst ` set nm" using assms by simp
  then show ?thesis using size_field_less [of k nm] size_field_le [of om k] by linarith
qed

lemma size_elems_less:
  assumes "i < max (length ol) (length nl)"
  shows "size (elem_or_nil ol i) + size (elem_or_nil nl i) < size (JArr ol) + size (JArr nl)"
proof (cases "i < length ol")
  case True
  then show ?thesis using size_elem_less [of i ol] size_elem_le [of nl i] by linarith
next
  case False
  then have "i < length nl" using assms by (simp add: max_def split: if_splits)
  then show ?thesis using size_elem_less [of i nl] size_elem_le [of ol i] by linarith
qed

termination diff
proof (relation "measure (\<lambda>(path, old, new). size old + size new)")
  fix path :: string and old new :: dval and x y ol nl i
  assume "(x, y) = (old, new)" "x = JArr ol" "y = JArr nl"
    "i \<in> set [0..<max (length ol) (length nl)]"
  then show "((path @ ''/'' @ Itoa_nat i, elem_or_nil ol i, elem_or_nil nl i), path, old, new)
      \<in> measure (\<lambda>(path, old, new). size old + size new)"
    using size_elems_less [of i ol nl] by simp
next
  fix path :: string and old new :: dval and x y om nm k
  assume "(x, y) = (old, new)" "x = JObj om" "y = JObj nm"
    "k \<in> set (sorted_keys (map fst om @ map fst nm))"
  then show "((path @ ''/'' @ escape k, field om k, field nm k), path, old, new)
      \<in> measure (\<lambda>(path, old, new). size old + size new)"
    using size_fields_less [of k om nm] by simp
qed simp

declare diff.simps [simp del]

definition both_containers :: "'n json \<Rightarrow> 'n json \<Rightarrow> bool" where
  "both_containers a b \<longleftrightarrow>
     (case (a, b) of (JObj _, JObj _) \<Rightarrow> True | (JArr _, JArr _) \<Rightarrow> True | _ \<Rightarrow> False)"

lemma diff_JObj [simp]:
  "diff path (JObj om) (JObj nm) =
     concat (map (\<lambda>k. diff (path @ ''/'' @ escape k) (field om k) (field nm k))
       (sorted_keys (map fst om @ map fst nm)))"
  by (subst diff.simps) simp

lemma diff_JArr [simp]:
  "diff path (JArr ol) (JArr nl) =
     concat (map (\<lambda>i. diff (path @ ''/'' @ Itoa_nat i) (elem_or_nil ol i) (elem_or_nil nl i))
       [0..<max (length ol) (length nl)])"
  by (subst diff.simps) simp

lemma diff_leaf:
  "\<not> both_containers old new \<Longrightarrow>
     diff path old new = (if equal old new then [] else [\<lparr>Path = path, Old = old, New = new\<rparr>])"
  by (subst diff.simps) (auto simp: both_containers_def split: json.splits)

text \<open>Equations that evaluate only where the constructors of both values are known.\<close>

definition diff_scalar :: "string \<Rightarrow> dval \<Rightarrow> dval \<Rightarrow> Change list" where
  "diff_scalar path old new =
     (if equal old new then [] else [\<lparr>Path = path, Old = old, New = new\<rparr>])"

lemmas [code] = diff_JObj diff_JArr

lemma diff_code [code]:
  "diff path JNull new = diff_scalar path JNull new"
  "diff path (JBool b) new = diff_scalar path (JBool b) new"
  "diff path (JNum n) new = diff_scalar path (JNum n) new"
  "diff path (JStr s) new = diff_scalar path (JStr s) new"
  "diff path (JArr ol) JNull = diff_scalar path (JArr ol) JNull"
  "diff path (JArr ol) (JBool b') = diff_scalar path (JArr ol) (JBool b')"
  "diff path (JArr ol) (JNum n') = diff_scalar path (JArr ol) (JNum n')"
  "diff path (JArr ol) (JStr s') = diff_scalar path (JArr ol) (JStr s')"
  "diff path (JArr ol) (JObj nm) = diff_scalar path (JArr ol) (JObj nm)"
  "diff path (JObj om) JNull = diff_scalar path (JObj om) JNull"
  "diff path (JObj om) (JBool b') = diff_scalar path (JObj om) (JBool b')"
  "diff path (JObj om) (JNum n') = diff_scalar path (JObj om) (JNum n')"
  "diff path (JObj om) (JStr s') = diff_scalar path (JObj om) (JStr s')"
  "diff path (JObj om) (JArr nl) = diff_scalar path (JObj om) (JArr nl)"
  by (simp_all add: diff_leaf both_containers_def diff_scalar_def)

definition volatile_metadata :: "string list" where
  "volatile_metadata =
     [''uid'', ''resourceVersion'', ''generation'', ''creationTimestamp'', ''deletionTimestamp'',
      ''managedFields'', ''selfLink'']"

definition normalized :: "obj \<Rightarrow> dval" where
  "normalized object =
     (let copied = AList.delete ''status'' (deepCopy_fields object)
      in JObj (case map_of copied ''metadata'' of
                 Some (JObj metadata) \<Rightarrow>
                   AList.update ''metadata'' (JObj (fold AList.delete volatile_metadata metadata)) copied
               | _ \<Rightarrow> copied))"

section \<open>The difference over reference tokens\<close>

text \<open>
  The same recursion with a list of reference tokens for the path, relative to the root.  All
  properties are proved of it and transferred to \<^const>\<open>diff\<close> by \<open>diff_tdiff\<close>.
\<close>

type_synonym tchange = "string list \<times> dval \<times> dval"

definition under :: "string \<Rightarrow> tchange \<Rightarrow> tchange" where
  "under t = (\<lambda>(ts, old, new). (t # ts, old, new))"

function tdiff :: "dval \<Rightarrow> dval \<Rightarrow> tchange list" where
  "tdiff old new =
     (case (old, new) of
        (JObj om, JObj nm) \<Rightarrow>
          concat (map (\<lambda>k. map (under k) (tdiff (field om k) (field nm k)))
            (sorted_keys (map fst om @ map fst nm)))
      | (JArr ol, JArr nl) \<Rightarrow>
          concat (map (\<lambda>i. map (under (Itoa_nat i)) (tdiff (elem_or_nil ol i) (elem_or_nil nl i)))
            [0..<max (length ol) (length nl)])
      | _ \<Rightarrow> if equal old new then [] else [([], old, new)])"
  by pat_completeness auto
termination tdiff
proof (relation "measure (\<lambda>(old, new). size old + size new)")
  fix old new :: dval and x y ol nl i
  assume "(x, y) = (old, new)" "x = JArr ol" "y = JArr nl"
    "i \<in> set [0..<max (length ol) (length nl)]"
  then show "((elem_or_nil ol i, elem_or_nil nl i), old, new)
      \<in> measure (\<lambda>(old, new). size old + size new)"
    using size_elems_less [of i ol nl] by simp
next
  fix old new :: dval and x y om nm k
  assume "(x, y) = (old, new)" "x = JObj om" "y = JObj nm"
    "k \<in> set (sorted_keys (map fst om @ map fst nm))"
  then show "((field om k, field nm k), old, new) \<in> measure (\<lambda>(old, new). size old + size new)"
    using size_fields_less [of k om nm] by simp
qed simp

declare tdiff.simps [simp del]

lemma tdiff_JObj [simp]:
  "tdiff (JObj om) (JObj nm) =
     concat (map (\<lambda>k. map (under k) (tdiff (field om k) (field nm k)))
       (sorted_keys (map fst om @ map fst nm)))"
  by (subst tdiff.simps) simp

lemma tdiff_JArr [simp]:
  "tdiff (JArr ol) (JArr nl) =
     concat (map (\<lambda>i. map (under (Itoa_nat i)) (tdiff (elem_or_nil ol i) (elem_or_nil nl i)))
       [0..<max (length ol) (length nl)])"
  by (subst tdiff.simps) simp

lemma tdiff_leaf:
  "\<not> both_containers old new \<Longrightarrow>
     tdiff old new = (if equal old new then [] else [([], old, new)])"
  by (subst tdiff.simps) (auto simp: both_containers_def split: json.splits)

lemma json_pair_cases [case_names obj arr leaf]:
  obtains om nm where "old = JObj om" "new = JObj nm"
    | ol nl where "old = JArr ol" "new = JArr nl"
    | "\<not> both_containers old new"
  by (cases old; cases new) (auto simp: both_containers_def)

text \<open>Induction over two values as the difference walks them.\<close>

lemma tdiff_induct [case_names obj arr leaf]:
  fixes P :: "dval \<Rightarrow> dval \<Rightarrow> bool"
  assumes "\<And>om nm. (\<And>k. k \<in> set (map fst om) \<union> set (map fst nm) \<Longrightarrow> P (field om k) (field nm k)) \<Longrightarrow>
      P (JObj om) (JObj nm)"
    and "\<And>ol nl. (\<And>i. i < max (length ol) (length nl) \<Longrightarrow> P (elem_or_nil ol i) (elem_or_nil nl i)) \<Longrightarrow>
      P (JArr ol) (JArr nl)"
    and "\<And>old new. \<not> both_containers old new \<Longrightarrow> P old new"
  shows "P old new"
proof (induction old new rule: tdiff.induct)
  case (1 old new)
  show ?case
  proof (cases old new rule: json_pair_cases)
    case (obj om nm)
    show ?thesis unfolding obj
      by (rule assms(1), rule "1.IH"(2) [OF refl]) (use obj in auto)
  next
    case (arr ol nl)
    show ?thesis unfolding arr
      by (rule assms(2), rule "1.IH"(1) [OF refl]) (use arr in auto)
  qed (rule assms(3))
qed

lemma fst_under [simp]: "fst (under t c) = t # fst c"
  by (cases c) (simp add: under_def)

definition render :: "string \<Rightarrow> tchange \<Rightarrow> Change" where
  "render path = (\<lambda>(ts, old, new). \<lparr>Path = path @ pointer ts, Old = old, New = new\<rparr>)"

lemma render_under [simp]: "render path (under t c) = render (path @ ''/'' @ escape t) c"
  by (cases c) (simp add: render_def under_def)

lemma diff_tdiff: "diff path old new = map (render path) (tdiff old new)"
proof (induction old new arbitrary: path rule: tdiff_induct)
  case (leaf old new)
  then show ?case by (simp add: diff_leaf tdiff_leaf render_def)
qed (auto simp: map_concat o_def intro!: arg_cong [where f = concat])

section \<open>What the difference reports\<close>

text \<open>Two values that are not both maps or both lists have the same text exactly when they have
  the same shape.\<close>

lemma equal_leaf: "\<not> both_containers a b \<Longrightarrow> equal a b \<longleftrightarrow> shape a = shape b"
  by (cases a; cases b) (auto simp: equal_def both_containers_def)

lemma leaf_same_at:
  assumes "\<not> both_containers a b" and "shape a = shape b"
  shows "at a ts = at b ts"
  using assms by (cases a; cases b; cases ts) (auto simp: both_containers_def)

lemma tdiff_sound:
  "(ts, o', n') \<in> set (tdiff old new) \<Longrightarrow>
     o' = at old ts \<and> n' = at new ts \<and> \<not> both_containers o' n' \<and> shape o' \<noteq> shape n'"
proof (induction old new arbitrary: ts rule: tdiff_induct)
  case (obj om nm)
  then obtain k us where "k \<in> set (map fst om) \<union> set (map fst nm)" "ts = k # us"
    "(us, o', n') \<in> set (tdiff (field om k) (field nm k))"
    by (auto simp: under_def)
  with obj.IH [of k us] show ?case by auto
next
  case (arr ol nl)
  then obtain i us where "i < max (length ol) (length nl)" "ts = Itoa_nat i # us"
    "(us, o', n') \<in> set (tdiff (elem_or_nil ol i) (elem_or_nil nl i))"
    by (auto simp: under_def)
  with arr.IH [of i us] show ?case by (auto simp: at_JArr_index simp del: at.simps)
next
  case (leaf old new)
  then show ?case by (auto simp: tdiff_leaf equal_leaf split: if_splits)
qed

lemma field_absent: "k \<notin> set (map fst m) \<Longrightarrow> field m k = JNull"
  by (simp add: field_def map_of_eq_None_iff [THEN iffD2])

lemma elem_absent: "max (length ol) (length nl) \<le> i \<Longrightarrow> elem_or_nil ol i = JNull \<and> elem_or_nil nl i = JNull"
  by (simp add: elem_or_nil_def)

lemma tdiff_complete:
  "shape (at old us) \<noteq> shape (at new us) \<Longrightarrow> \<exists>ts \<in> fst ` set (tdiff old new). prefix ts us"
proof (induction old new arbitrary: us rule: tdiff_induct)
  case (obj om nm)
  then obtain t vs where us: "us = t # vs" by (cases us) auto
  with obj.prems have d: "shape (at (field om t) vs) \<noteq> shape (at (field nm t) vs)" by simp
  then have t: "t \<in> set (map fst om) \<union> set (map fst nm)"
    using field_absent by (metis UnCI at_JNull)
  from obj.IH [OF t d] obtain c where c: "c \<in> set (tdiff (field om t) (field nm t))" "prefix (fst c) vs"
    by auto
  then have "under t c \<in> set (tdiff (JObj om) (JObj nm))" using t by auto
  moreover have "prefix (fst (under t c)) us" using c(2) us by simp
  ultimately show ?case by blast
next
  case (arr ol nl)
  then obtain t vs where us: "us = t # vs" by (cases us) auto
  have "\<exists>i. t = Itoa_nat i"
    using arr.prems us at_JArr_no_index by metis
  then obtain i where i: "t = Itoa_nat i" by blast
  with arr.prems us have d: "shape (at (elem_or_nil ol i) vs) \<noteq> shape (at (elem_or_nil nl i) vs)"
    by (simp add: at_JArr_index del: at.simps)
  then have m: "i < max (length ol) (length nl)"
    using elem_absent [of ol nl i] by (metis at_JNull not_le)
  from arr.IH [OF m d] obtain c where c: "c \<in> set (tdiff (elem_or_nil ol i) (elem_or_nil nl i))"
    "prefix (fst c) vs" by auto
  then have "under t c \<in> set (tdiff (JArr ol) (JArr nl))" using m i by auto
  moreover have "prefix (fst (under t c)) us" using c(2) us by simp
  ultimately show ?case by blast
next
  case (leaf old new)
  then have "shape old \<noteq> shape new" using leaf_same_at by metis
  then show ?case using leaf by (simp add: tdiff_leaf equal_leaf)
qed

text \<open>No reported path is above or equal to another one.\<close>

lemma sorted_wrt_concat_under:
  assumes "distinct xs" and "inj g" and "\<And>x. x \<in> set xs \<Longrightarrow> sorted_wrt parallel (map fst (f x))"
  shows "sorted_wrt parallel (map fst (concat (map (\<lambda>x. map (under (g x)) (f x)) xs)))"
  using assms
proof (induction xs)
  case (Cons x xs)
  have "sorted_wrt parallel (map (\<lambda>c. g x # fst c) (f x))"
    using Cons.prems(3) [of x] by (simp add: sorted_wrt_map parallel_def)
  then have "sorted_wrt parallel (map fst (map (under (g x)) (f x)))"
    by (simp add: o_def)
  moreover have "ts \<parallel> us" if ts0: "ts \<in> set (map fst (map (under (g x)) (f x)))"
    and us0: "us \<in> set (map fst (concat (map (\<lambda>x. map (under (g x)) (f x)) xs)))" for ts us
  proof -
    have "hd ts = g x" "ts \<noteq> []" using ts0 by auto
    then obtain ts' where ts: "ts = g x # ts'" by (cases ts) auto
    obtain y where "hd us = g y" "us \<noteq> []" "y \<in> set xs" using us0 by auto
    then obtain us' where us: "us = g y # us'" "y \<in> set xs" by (cases us) auto
    have "g x \<noteq> g y" using us(2) Cons.prems(1,2) by (auto dest: injD)
    then show ?thesis by (simp add: ts us(1) parallel_def)
  qed
  ultimately show ?case using Cons by (simp add: sorted_wrt_append)
qed simp

lemma sorted_wrt_parallel_distinct: "sorted_wrt parallel xs \<Longrightarrow> distinct xs"
  by (induction xs) (auto simp: parallel_def)

lemma tdiff_parallel: "sorted_wrt parallel (map fst (tdiff old new))"
proof (induction old new rule: tdiff_induct)
  case (arr ol nl)
  then show ?case by (auto simp: inj_def simp del: map_map intro!: sorted_wrt_concat_under)
next
  case (leaf old new)
  then show ?case by (simp add: tdiff_leaf)
qed (auto simp: inj_def simp del: map_map intro!: sorted_wrt_concat_under)

section \<open>The difference in terms of paths\<close>

lemma diff_mem:
  assumes "c \<in> set (diff '''' old new)"
  obtains ts where "Path c = pointer ts" "Old c = at old ts" "New c = at new ts"
    "\<not> both_containers (Old c) (New c)" "shape (Old c) \<noteq> shape (New c)"
    "(ts, Old c, New c) \<in> set (tdiff old new)"
proof -
  from assms obtain ts o' n' where "(ts, o', n') \<in> set (tdiff old new)"
    "c = \<lparr>Path = pointer ts, Old = o', New = n'\<rparr>"
    by (auto simp: diff_tdiff render_def)
  with tdiff_sound [OF this(1)] that show ?thesis by auto
qed

lemma diff_paths_distinct: "distinct (map Path (diff path old new))"
proof -
  have "distinct (map fst (tdiff old new))"
    by (rule sorted_wrt_parallel_distinct [OF tdiff_parallel])
  then have "distinct (map (\<lambda>c. path @ pointer (fst c)) (tdiff old new))"
    by (simp add: distinct_map inj_on_def pointer_inj)
  then show ?thesis by (simp add: diff_tdiff render_def o_def split_def)
qed

lemma diff_paths_prefix: "c \<in> set (diff path old new) \<Longrightarrow> HasPrefix (Path c) path"
  by (auto simp: diff_tdiff render_def)

lemma diff_Nil_iff: "diff path old new = [] \<longleftrightarrow> (\<forall>us. shape (at old us) = shape (at new us))"
proof
  assume "diff path old new = []"
  then show "\<forall>us. shape (at old us) = shape (at new us)"
    using tdiff_complete by (fastforce simp: diff_tdiff)
next
  assume same: "\<forall>us. shape (at old us) = shape (at new us)"
  have "tdiff old new = []"
  proof (rule ccontr)
    assume "tdiff old new \<noteq> []"
    then obtain ts o' n' where "(ts, o', n') \<in> set (tdiff old new)"
      by (metis list.set_intros(1) neq_Nil_conv prod_cases3)
    from tdiff_sound [OF this] same show False by auto
  qed
  then show "diff path old new = []" by (simp add: diff_tdiff)
qed

section \<open>Normalisation\<close>

fun volatile :: "string list \<Rightarrow> bool" where
  "volatile [] = False"
| "volatile [t] = (t = ''status'')"
| "volatile (t # u # us) = (t = ''status'' \<or> t = ''metadata'' \<and> u \<in> set volatile_metadata)"

lemma field_fold_delete: "field (fold AList.delete ks m) k = (if k \<in> set ks then JNull else field m k)"
  by (induction ks arbitrary: m) auto

lemma volatile_metadata_no_index: "u \<in> set volatile_metadata \<Longrightarrow> u \<noteq> Itoa_nat i"
  using Itoa_nat_hd_digit [of i] by (auto simp: volatile_metadata_def is_digit_iff)

lemma at_volatile_metadata:
  "\<nexists>m. v = JObj m \<Longrightarrow> u \<in> set volatile_metadata \<Longrightarrow> at v (u # us) = JNull"
  using volatile_metadata_no_index
  by (cases v) (auto simp: at_JArr_no_index simp del: at.simps(3))

lemma shape_at_normalized:
  "shape (at (normalized m) us) = (if volatile us then JNull else shape (at (deepCopy (JObj m)) us))"
proof (cases us)
  case Nil
  then show ?thesis by (simp add: normalized_def Let_def split: option.split json.split)
next
  case (Cons t vs)
  define copied where "copied = AList.delete ''status'' (deepCopy_fields m)"
  have fc: "field copied k = (if k = ''status'' then JNull else deepCopy (field m k))" for k
    by (simp add: copied_def)
  show ?thesis
  proof (cases "\<exists>md. map_of copied ''metadata'' = Some (JObj md)")
    case True
    then obtain md where md: "map_of copied ''metadata'' = Some (JObj md)" by blast
    then have fmd: "deepCopy (field m ''metadata'') = JObj md"
      using fc [of "''metadata''"] by (simp add: field_def)
    have n: "normalized m =
        JObj (AList.update ''metadata'' (JObj (fold AList.delete volatile_metadata md)) copied)"
      using md by (simp add: normalized_def copied_def)
    show ?thesis
      by (cases vs) (simp_all add: n Cons fc fmd field_fold_delete split: if_splits)
  next
    case False
    then have n: "normalized m = JObj copied"
      by (auto simp: normalized_def copied_def Let_def split: option.split json.split)
    have "\<nexists>md. field copied ''metadata'' = JObj md"
      using False by (auto simp: field_def split: option.splits)
    then have "\<nexists>md. deepCopy (field m ''metadata'') = JObj md" using fc by simp
    from at_volatile_metadata [OF this] show ?thesis
      by (cases vs) (auto simp: n Cons fc)
  qed
qed

section \<open>Applying the difference\<close>

text \<open>The meaning of the \<^verbatim>\<open>test\<close> and \<^verbatim>\<open>replace\<close> operations (RFC 6902).\<close>

definition apply_operation :: "PatchOperation \<Rightarrow> dval \<Rightarrow> dval option" where
  "apply_operation op v =
     (case parse_pointer (OpPath op) of
        None \<Rightarrow> None
      | Some ts \<Rightarrow>
          if Op op = ''replace'' then replace_at ts (OpValue op) v
          else if Op op = ''test'' \<and> at v ts = OpValue op then Some v
          else None)"

fun apply_patch :: "PatchOperation list \<Rightarrow> dval \<Rightarrow> dval option" where
  "apply_patch [] v = Some v"
| "apply_patch (op # ops) v =
     (case apply_operation op v of None \<Rightarrow> None | Some v' \<Rightarrow> apply_patch ops v')"

definition replace_op :: "Change \<Rightarrow> PatchOperation" where
  "replace_op c = \<lparr>Op = ''replace'', OpPath = Path c, OpValue = New c\<rparr>"

lemma apply_patch_replace_all:
  "apply_patch (map (\<lambda>c. replace_op (render '''' c)) cs) v
     = replace_all (map (\<lambda>(ts, old, new). (ts, new)) cs) v"
  by (induction cs arbitrary: v)
    (auto simp: replace_op_def render_def apply_operation_def split: option.split)

text \<open>
  The patch of a difference without additions, applied to the live object itself (with its
  status and its volatile metadata): it succeeds, the object it gives agrees with the proposal
  wherever the comparison looked, and nothing at a location that is not at or below a reported
  path has changed.
\<close>

lemma diff_patch_correct:
  assumes "\<And>c. c \<in> set (diff '''' (normalized live) (normalized proposed)) \<Longrightarrow> Old c \<noteq> JNull"
  shows "\<exists>r. apply_patch (map replace_op (diff '''' (normalized live) (normalized proposed)))
       (deepCopy (JObj live)) = Some r \<and>
    (\<forall>us. \<not> volatile us \<longrightarrow> shape (at r us) = shape (at (deepCopy (JObj proposed)) us)) \<and>
    (\<forall>us. (\<forall>ts. pointer ts \<in> Path ` set (diff '''' (normalized live) (normalized proposed)) \<longrightarrow>
         \<not> prefix ts us) \<longrightarrow> shape (at r us) = shape (at (deepCopy (JObj live)) us))"
proof -
  let ?l = "normalized live" and ?p = "normalized proposed" and ?v = "deepCopy (JObj live)"
  let ?rs = "map (\<lambda>(ts, old, new). (ts, new)) (tdiff ?l ?p)"
  have fst: "map fst ?rs = map fst (tdiff ?l ?p)" by (simp add: o_def split_def)
  have old: "at ?l ts \<noteq> JNull" if "(ts, o', n') \<in> set (tdiff ?l ?p)" for ts o' n'
  proof -
    have "render '''' (ts, o', n') \<in> set (diff '''' ?l ?p)"
      using that unfolding diff_tdiff by (metis image_eqI list.set_map)
    from assms [OF this] tdiff_sound [OF that] show ?thesis by (simp add: render_def)
  qed
  have sw: "sorted_wrt parallel (map fst ?rs)"
    unfolding fst by (rule tdiff_parallel)
  have "\<forall>ts \<in> fst ` set ?rs. at ?v ts \<noteq> JNull"
  proof
    fix ts assume "ts \<in> fst ` set ?rs"
    then obtain o' x where "(ts, o', x) \<in> set (tdiff ?l ?p)" by auto
    from old [OF this] have "shape (at ?l ts) \<noteq> JNull" by simp
    then show "at ?v ts \<noteq> JNull" by (simp add: shape_at_normalized split: if_splits)
  qed
  from replace_all_ok [OF sw this] obtain r where
    r: "replace_all ?rs ?v = Some r"
    and below': "\<forall>(ts, x) \<in> set ?rs. \<forall>us. at r (ts @ us) = at x us"
    and above: "\<And>us. \<forall>ts \<in> fst ` set ?rs. \<not> prefix ts us \<Longrightarrow> shape (at r us) = shape (at ?v us)"
    by blast
  have below: "at r (ts @ us) = at x us" if "(ts, x) \<in> set ?rs" for ts x us
    using bspec [OF below' that] by simp
  have "apply_patch (map replace_op (diff '''' ?l ?p)) ?v = Some r"
    using r by (simp add: diff_tdiff o_def apply_patch_replace_all)
  moreover have "shape (at r us) = shape (at (deepCopy (JObj proposed)) us)" if nv: "\<not> volatile us" for us
  proof (cases "\<exists>ts \<in> fst ` set ?rs. prefix ts us")
    case True
    then obtain ts x ws where t: "(ts, x) \<in> set ?rs" "us = ts @ ws" by (fastforce elim!: prefixE)
    then obtain o' where "(ts, o', x) \<in> set (tdiff ?l ?p)" by auto
    then have "x = at ?p ts" using tdiff_sound by blast
    then have "at r us = at ?p us" using below [OF t(1)] t(2) by (simp add: at_append)
    with nv show ?thesis by (simp add: shape_at_normalized)
  next
    case False
    then have "shape (at r us) = shape (at ?l us)"
      using above nv by (simp add: shape_at_normalized)
    also have "\<dots> = shape (at ?p us)"
    proof (rule ccontr)
      assume "shape (at ?l us) \<noteq> shape (at ?p us)"
      from tdiff_complete [OF this] False fst show False
        by (metis list.set_map)
    qed
    finally show ?thesis using nv by (simp add: shape_at_normalized)
  qed
  moreover have "shape (at r us) = shape (at ?v us)"
    if frame: "\<forall>ts. pointer ts \<in> Path ` set (diff '''' ?l ?p) \<longrightarrow> \<not> prefix ts us" for us
  proof -
    have "\<not> prefix ts us" if "ts \<in> fst ` set ?rs" for ts
    proof -
      from that have "ts \<in> fst ` set (tdiff ?l ?p)" using fst by (metis list.set_map)
      then have "pointer ts \<in> Path ` set (diff '''' ?l ?p)"
        unfolding diff_tdiff by (force simp: render_def image_iff)
      then show ?thesis using frame by blast
    qed
    then show ?thesis using above by blast
  qed
  ultimately show ?thesis by blast
qed

end
