(* ===== verification/Cluster.thy ===== *)
theory Cluster
  imports Workload_Types Gate_Diff
begin

text \<open>
  The world the reconcilers act on.  The API server, the query service of the K8sGPT server and
  the clock are not code of this repository: they are a parameter, a record \<open>'s kube\<close> of arbitrary
  operations on an arbitrary state \<open>'s\<close>, so that a theorem holds however they answer, whoever
  else writes to the cluster, and whatever fails.  The state of the world is that state and the
  trace of the calls the operator has made, which the theorems are about.

  The theory also holds the results of a reconciliation (\<^verbatim>\<open>ctrl.Result\<close>), the requeue times of
  \<^verbatim>\<open>internal/controller/util/time.go\<close>, and one concrete cluster for the witnesses.
\<close>

section \<open>The parameter\<close>

record 's kube =
  kGet :: "object_key \<Rightarrow> obj \<Rightarrow> 's \<Rightarrow> obj go_result \<times> 's"
  kPatch :: "obj \<Rightarrow> PatchOperation list \<Rightarrow> bool \<Rightarrow> 's \<Rightarrow> obj go_result \<times> 's"
  kGetResult :: "object_key \<Rightarrow> 's \<Rightarrow> Result go_result \<times> 's"
  kListResults :: "str_map \<Rightarrow> 's \<Rightarrow> Result list go_result \<times> 's"
  kCreateResult :: "Result \<Rightarrow> 's \<Rightarrow> Result go_result \<times> 's"
  kUpdateResult :: "Result \<Rightarrow> 's \<Rightarrow> Result go_result \<times> 's"
  kStatusUpdateResult :: "Result \<Rightarrow> 's \<Rightarrow> Result go_result \<times> 's"
  kDeleteResult :: "Result \<Rightarrow> 's \<Rightarrow> unit go_result \<times> 's"
  kGetMutation :: "object_key \<Rightarrow> 's \<Rightarrow> Mutation go_result \<times> 's"
  kListMutations :: "string \<Rightarrow> 's \<Rightarrow> Mutation list go_result \<times> 's"
  kCreateMutation :: "Mutation \<Rightarrow> 's \<Rightarrow> Mutation go_result \<times> 's"
  kUpdateMutation :: "Mutation \<Rightarrow> 's \<Rightarrow> Mutation go_result \<times> 's"
  kStatusUpdateMutation :: "Mutation \<Rightarrow> 's \<Rightarrow> Mutation go_result \<times> 's"
  kGetK8sGPT :: "object_key \<Rightarrow> 's \<Rightarrow> K8sGPT go_result \<times> 's"
  kUpdateK8sGPT :: "K8sGPT \<Rightarrow> 's \<Rightarrow> K8sGPT go_result \<times> 's"
  kStatusUpdateK8sGPT :: "K8sGPT \<Rightarrow> 's \<Rightarrow> K8sGPT go_result \<times> 's"
  kListK8sGPTs :: "string \<Rightarrow> string \<Rightarrow> 's \<Rightarrow> K8sGPT list go_result \<times> 's"
  kGetDeployment :: "object_key \<Rightarrow> 's \<Rightarrow> Deployment go_result \<times> 's"
  kUpdateDeployment :: "Deployment \<Rightarrow> 's \<Rightarrow> Deployment go_result \<times> 's"
  kGetService :: "object_key \<Rightarrow> 's \<Rightarrow> Service go_result \<times> 's"
  kGetSecret :: "object_key \<Rightarrow> 's \<Rightarrow> Secret go_result \<times> 's"
  kCreateOrPatch :: "kube_object \<Rightarrow> kube_object option \<Rightarrow> 's \<Rightarrow> unit go_result \<times> 's"
  kDelete :: "kube_object \<Rightarrow> 's \<Rightarrow> unit go_result \<times> 's"
  kQuery :: "nat \<Rightarrow> string \<Rightarrow> string \<Rightarrow> 's \<Rightarrow> string go_result \<times> 's"
  kProbe :: "string \<Rightarrow> 's \<Rightarrow> unit go_result \<times> 's"
  kDial :: "string \<Rightarrow> 's \<Rightarrow> nat go_result \<times> 's"
  kClose :: "nat \<Rightarrow> 's \<Rightarrow> unit go_result \<times> 's"
  kAnalyze :: "nat \<Rightarrow> AnalyzeRequest \<Rightarrow> 's \<Rightarrow> AnalyzeResponse go_result \<times> 's"
  kAddConfig :: "nat \<Rightarrow> AddConfigRequest \<Rightarrow> 's \<Rightarrow> unit go_result \<times> 's"
  kTrivyEnabled :: "nat \<Rightarrow> 's \<Rightarrow> bool go_result \<times> 's"
  kPost :: "http_post \<Rightarrow> 's \<Rightarrow> (string \<times> int) go_result \<times> 's"
  kResourceFor :: "string \<Rightarrow> 's \<Rightarrow> group_version go_result \<times> 's"
  kNow :: "'s \<Rightarrow> nat"

text \<open>The calls, with whether they succeeded where a theorem asks for it.\<close>

datatype call =
    CallGet object_key obj
  | CallPatch obj "PatchOperation list" bool bool
  | CallGetResult object_key
  | CallListResults str_map
  | CallCreateResult Result bool
  | CallUpdateResult Result bool
  | CallStatusUpdateResult Result bool
  | CallDeleteResult Result bool
  | CallGetMutation object_key
  | CallListMutations string
  | CallCreateMutation Mutation bool
  | CallUpdateMutation Mutation bool
  | CallStatusUpdateMutation Mutation bool
  | CallGetK8sGPT object_key
  | CallUpdateK8sGPT K8sGPT bool
  | CallStatusUpdateK8sGPT K8sGPT bool
  | CallListK8sGPTs string string
  | CallGetDeployment object_key
  | CallUpdateDeployment Deployment bool
  | CallGetService object_key
  | CallGetSecret object_key
  | CallCreateOrPatch kube_object "kube_object option" bool
  | CallDelete kube_object bool
  | CallQuery nat string string
  | CallProbe string
  | CallDial string "nat option"
  | CallClose nat
  | CallAnalyze nat AnalyzeRequest
  | CallAddConfig nat AddConfigRequest bool
  | CallTrivyEnabled nat
  | CallPost http_post
  | CallResourceFor string
  | SendSignal nat string K8sGPT

fun is_read :: "call \<Rightarrow> bool" where
  "is_read (CallGet key object) = True"
| "is_read (CallGetResult key) = True"
| "is_read (CallListResults labels) = True"
| "is_read (CallGetMutation key) = True"
| "is_read (CallListMutations namespace) = True"
| "is_read (CallGetK8sGPT key) = True"
| "is_read (CallListK8sGPTs namespace secret) = True"
| "is_read (CallGetDeployment key) = True"
| "is_read (CallGetService key) = True"
| "is_read (CallGetSecret key) = True"
| "is_read (CallQuery client backend query) = True"
| "is_read (CallProbe address) = True"
| "is_read (CallAnalyze conn request) = True"
| "is_read (CallTrivyEnabled conn) = True"
| "is_read (CallResourceFor kind) = True"
| "is_read _ = False"

record 's world =
  cluster :: 's
  trace :: "call list"

definition is_ok :: "error + 'a \<Rightarrow> bool" where
  "is_ok r = (case r of Inl _ \<Rightarrow> False | Inr _ \<Rightarrow> True)"

lemma is_ok_simps [simp]: "\<not> is_ok (Inl e)" "is_ok (Inr x)"
  by (simp_all add: is_ok_def)

definition perform :: "('s \<Rightarrow> 'a \<times> 's) \<Rightarrow> ('a \<Rightarrow> call) \<Rightarrow> 's world \<Rightarrow> 'a \<times> 's world" where
  "perform f c w =
     (case f (cluster w) of (r, s) \<Rightarrow> (r, \<lparr>cluster = s, trace = trace w @ [c r]\<rparr>))"

lemma perform_trace: "perform f c w = (r, w') \<Longrightarrow> trace w' = trace w @ [c r]"
  by (auto simp: perform_def split: prod.splits)

text \<open>The calls made between two states of the world.\<close>

definition calls :: "'s world \<Rightarrow> 's world \<Rightarrow> call list" where
  "calls w w' = drop (length (trace w)) (trace w')"

lemma calls_self [simp]: "calls w w = []"
  by (simp add: calls_def)

lemma calls_eq: "trace w' = trace w @ cs \<Longrightarrow> calls w w' = cs"
  by (simp add: calls_def)

section \<open>The operations of the client\<close>

abbreviation Get :: "'s kube \<Rightarrow> object_key \<Rightarrow> obj \<Rightarrow> 's world \<Rightarrow> obj go_result \<times> 's world" where
  "Get K key object \<equiv> perform (kGet K key object) (\<lambda>r. CallGet key object)"

abbreviation Patch_call ::
  "'s kube \<Rightarrow> obj \<Rightarrow> PatchOperation list \<Rightarrow> bool \<Rightarrow> 's world \<Rightarrow> obj go_result \<times> 's world" where
  "Patch_call K object ops dryRun \<equiv>
     perform (kPatch K object ops dryRun) (\<lambda>r. CallPatch object ops dryRun (is_ok r))"

abbreviation GetResult :: "'s kube \<Rightarrow> object_key \<Rightarrow> 's world \<Rightarrow> Result go_result \<times> 's world" where
  "GetResult K key \<equiv> perform (kGetResult K key) (\<lambda>r. CallGetResult key)"

abbreviation ListResults :: "'s kube \<Rightarrow> str_map \<Rightarrow> 's world \<Rightarrow> Result list go_result \<times> 's world" where
  "ListResults K labels \<equiv> perform (kListResults K labels) (\<lambda>r. CallListResults labels)"

abbreviation CreateResult :: "'s kube \<Rightarrow> Result \<Rightarrow> 's world \<Rightarrow> Result go_result \<times> 's world" where
  "CreateResult K x \<equiv> perform (kCreateResult K x) (\<lambda>r. CallCreateResult x (is_ok r))"

abbreviation UpdateResult :: "'s kube \<Rightarrow> Result \<Rightarrow> 's world \<Rightarrow> Result go_result \<times> 's world" where
  "UpdateResult K x \<equiv> perform (kUpdateResult K x) (\<lambda>r. CallUpdateResult x (is_ok r))"

abbreviation StatusUpdateResult :: "'s kube \<Rightarrow> Result \<Rightarrow> 's world \<Rightarrow> Result go_result \<times> 's world" where
  "StatusUpdateResult K x \<equiv>
     perform (kStatusUpdateResult K x) (\<lambda>r. CallStatusUpdateResult x (is_ok r))"

abbreviation DeleteResult :: "'s kube \<Rightarrow> Result \<Rightarrow> 's world \<Rightarrow> unit go_result \<times> 's world" where
  "DeleteResult K x \<equiv> perform (kDeleteResult K x) (\<lambda>r. CallDeleteResult x (is_ok r))"

abbreviation GetMutation :: "'s kube \<Rightarrow> object_key \<Rightarrow> 's world \<Rightarrow> Mutation go_result \<times> 's world" where
  "GetMutation K key \<equiv> perform (kGetMutation K key) (\<lambda>r. CallGetMutation key)"

abbreviation ListMutations :: "'s kube \<Rightarrow> string \<Rightarrow> 's world \<Rightarrow> Mutation list go_result \<times> 's world" where
  "ListMutations K namespace \<equiv>
     perform (kListMutations K namespace) (\<lambda>r. CallListMutations namespace)"

abbreviation CreateMutation :: "'s kube \<Rightarrow> Mutation \<Rightarrow> 's world \<Rightarrow> Mutation go_result \<times> 's world" where
  "CreateMutation K m \<equiv> perform (kCreateMutation K m) (\<lambda>r. CallCreateMutation m (is_ok r))"

abbreviation UpdateMutation :: "'s kube \<Rightarrow> Mutation \<Rightarrow> 's world \<Rightarrow> Mutation go_result \<times> 's world" where
  "UpdateMutation K m \<equiv> perform (kUpdateMutation K m) (\<lambda>r. CallUpdateMutation m (is_ok r))"

abbreviation StatusUpdateMutation ::
  "'s kube \<Rightarrow> Mutation \<Rightarrow> 's world \<Rightarrow> Mutation go_result \<times> 's world" where
  "StatusUpdateMutation K m \<equiv>
     perform (kStatusUpdateMutation K m) (\<lambda>r. CallStatusUpdateMutation m (is_ok r))"

abbreviation Query ::
  "'s kube \<Rightarrow> nat \<Rightarrow> string \<Rightarrow> string \<Rightarrow> 's world \<Rightarrow> string go_result \<times> 's world" where
  "Query K client backend query \<equiv>
     perform (kQuery K client backend query) (\<lambda>r. CallQuery client backend query)"

abbreviation GetK8sGPT :: "'s kube \<Rightarrow> object_key \<Rightarrow> 's world \<Rightarrow> K8sGPT go_result \<times> 's world" where
  "GetK8sGPT K key \<equiv> perform (kGetK8sGPT K key) (\<lambda>r. CallGetK8sGPT key)"

abbreviation UpdateK8sGPT :: "'s kube \<Rightarrow> K8sGPT \<Rightarrow> 's world \<Rightarrow> K8sGPT go_result \<times> 's world" where
  "UpdateK8sGPT K x \<equiv> perform (kUpdateK8sGPT K x) (\<lambda>r. CallUpdateK8sGPT x (is_ok r))"

abbreviation StatusUpdateK8sGPT :: "'s kube \<Rightarrow> K8sGPT \<Rightarrow> 's world \<Rightarrow> K8sGPT go_result \<times> 's world" where
  "StatusUpdateK8sGPT K x \<equiv>
     perform (kStatusUpdateK8sGPT K x) (\<lambda>r. CallStatusUpdateK8sGPT x (is_ok r))"

abbreviation ListK8sGPTs ::
  "'s kube \<Rightarrow> string \<Rightarrow> string \<Rightarrow> 's world \<Rightarrow> K8sGPT list go_result \<times> 's world" where
  "ListK8sGPTs K namespace secret \<equiv>
     perform (kListK8sGPTs K namespace secret) (\<lambda>r. CallListK8sGPTs namespace secret)"

abbreviation GetDeploymentObject ::
  "'s kube \<Rightarrow> object_key \<Rightarrow> 's world \<Rightarrow> Deployment go_result \<times> 's world" where
  "GetDeploymentObject K key \<equiv> perform (kGetDeployment K key) (\<lambda>r. CallGetDeployment key)"

abbreviation UpdateDeployment ::
  "'s kube \<Rightarrow> Deployment \<Rightarrow> 's world \<Rightarrow> Deployment go_result \<times> 's world" where
  "UpdateDeployment K x \<equiv> perform (kUpdateDeployment K x) (\<lambda>r. CallUpdateDeployment x (is_ok r))"

abbreviation GetServiceObject :: "'s kube \<Rightarrow> object_key \<Rightarrow> 's world \<Rightarrow> Service go_result \<times> 's world" where
  "GetServiceObject K key \<equiv> perform (kGetService K key) (\<lambda>r. CallGetService key)"

abbreviation GetSecret :: "'s kube \<Rightarrow> object_key \<Rightarrow> 's world \<Rightarrow> Secret go_result \<times> 's world" where
  "GetSecret K key \<equiv> perform (kGetSecret K key) (\<lambda>r. CallGetSecret key)"

text \<open>
  \<^verbatim>\<open>controllerutil.CreateOrPatch\<close>; the second object is the one whose specification the mutate
  function copies, if there is a mutate function.
\<close>

abbreviation CreateOrPatch ::
  "'s kube \<Rightarrow> kube_object \<Rightarrow> kube_object option \<Rightarrow> 's world \<Rightarrow> unit go_result \<times> 's world" where
  "CreateOrPatch K x expect \<equiv>
     perform (kCreateOrPatch K x expect) (\<lambda>r. CallCreateOrPatch x expect (is_ok r))"

abbreviation Delete :: "'s kube \<Rightarrow> kube_object \<Rightarrow> 's world \<Rightarrow> unit go_result \<times> 's world" where
  "Delete K x \<equiv> perform (kDelete K x) (\<lambda>r. CallDelete x (is_ok r))"

text \<open>Connections: probing an address, dialling it, and closing the connection.\<close>

abbreviation Probe :: "'s kube \<Rightarrow> string \<Rightarrow> 's world \<Rightarrow> unit go_result \<times> 's world" where
  "Probe K address \<equiv> perform (kProbe K address) (\<lambda>r. CallProbe address)"

abbreviation Dial :: "'s kube \<Rightarrow> string \<Rightarrow> 's world \<Rightarrow> nat go_result \<times> 's world" where
  "Dial K address \<equiv> perform (kDial K address)
     (\<lambda>r. CallDial address (case r of Inl _ \<Rightarrow> None | Inr c \<Rightarrow> Some c))"

abbreviation Close :: "'s kube \<Rightarrow> nat \<Rightarrow> 's world \<Rightarrow> unit go_result \<times> 's world" where
  "Close K conn \<equiv> perform (kClose K conn) (\<lambda>r. CallClose conn)"

abbreviation Analyze ::
  "'s kube \<Rightarrow> nat \<Rightarrow> AnalyzeRequest \<Rightarrow> 's world \<Rightarrow> AnalyzeResponse go_result \<times> 's world" where
  "Analyze K conn request \<equiv> perform (kAnalyze K conn request) (\<lambda>r. CallAnalyze conn request)"

abbreviation AddConfigRPC ::
  "'s kube \<Rightarrow> nat \<Rightarrow> AddConfigRequest \<Rightarrow> 's world \<Rightarrow> unit go_result \<times> 's world" where
  "AddConfigRPC K conn request \<equiv>
     perform (kAddConfig K conn request) (\<lambda>r. CallAddConfig conn request (is_ok r))"

abbreviation TrivyEnabled :: "'s kube \<Rightarrow> nat \<Rightarrow> 's world \<Rightarrow> bool go_result \<times> 's world" where
  "TrivyEnabled K conn \<equiv> perform (kTrivyEnabled K conn) (\<lambda>r. CallTrivyEnabled conn)"

abbreviation Post :: "'s kube \<Rightarrow> http_post \<Rightarrow> 's world \<Rightarrow> (string \<times> int) go_result \<times> 's world" where
  "Post K p \<equiv> perform (kPost K p) (\<lambda>r. CallPost p)"

text \<open>\<^verbatim>\<open>restMapper.ResourceFor\<close>: the group and the version of a kind.\<close>

abbreviation ResourceFor :: "'s kube \<Rightarrow> string \<Rightarrow> 's world \<Rightarrow> group_version go_result \<times> 's world" where
  "ResourceFor K kind \<equiv> perform (kResourceFor K kind) (\<lambda>r. CallResourceFor kind)"

abbreviation Send_signal :: "nat \<Rightarrow> string \<Rightarrow> K8sGPT \<Rightarrow> 's world \<Rightarrow> unit \<times> 's world" where
  "Send_signal conn backend config \<equiv> perform (\<lambda>s. ((), s)) (\<lambda>r. SendSignal conn backend config)"

section \<open>Results of a reconciliation\<close>

text \<open>\<^verbatim>\<open>ctrl.Result\<close>, in seconds; the field \<^verbatim>\<open>Requeue\<close> is never set by the sources.\<close>

record ctrl_result =
  RequeueAfter :: nat

type_synonym reconcile_result = "ctrl_result \<times> error option"

definition ErrorRequeueTime :: nat where "ErrorRequeueTime = 30"
definition NotStartedRequeueTime :: nat where "NotStartedRequeueTime = 15"
definition InProgressRequeueTime :: nat where "InProgressRequeueTime = 30"
definition CompletedRequeueTime :: nat where "CompletedRequeueTime = 30"
definition SuccessfulRequeueTime :: nat where "SuccessfulRequeueTime = 60"
definition PendingRequeueTime :: nat where "PendingRequeueTime = 30"
definition FailedRequeueTime :: nat where "FailedRequeueTime = 120"

lemmas requeue_defs = ErrorRequeueTime_def NotStartedRequeueTime_def InProgressRequeueTime_def
  CompletedRequeueTime_def SuccessfulRequeueTime_def PendingRequeueTime_def FailedRequeueTime_def

definition no_requeue :: ctrl_result where
  "no_requeue = \<lparr>RequeueAfter = 0\<rparr>"

definition requeue_after :: "nat \<Rightarrow> ctrl_result" where
  "requeue_after t = \<lparr>RequeueAfter = t\<rparr>"

section \<open>A concrete cluster\<close>

text \<open>
  A cluster for the witnesses: objects by key and kind, the resources of the operator by key, the
  answer of the query service, the findings of the analysis, the open connections, and the time.
  A patch is applied to the stored object as RFC 6902 says; a dry run checks it and stores
  nothing.  \<^verbatim>\<open>CreateOrPatch\<close> creates an object that does not exist, and otherwise copies the
  expected specification into the stored one, as its documentation says.
\<close>

record store =
  s_objects :: "((object_key \<times> string) \<times> obj) list"
  s_results :: "(object_key \<times> Result) list"
  s_mutations :: "(object_key \<times> Mutation) list"
  s_k8sgpts :: "(object_key \<times> K8sGPT) list"
  s_children :: "((object_key \<times> nat) \<times> kube_object) list"
  s_secrets :: "(object_key \<times> Secret) list"
  s_answer :: "string option"
  s_analysis :: "ResultSpec list option"
  s_connections :: nat
  s_clock :: nat

definition empty_store :: store where
  "empty_store = \<lparr>s_objects = [], s_results = [], s_mutations = [], s_k8sgpts = [], s_children = [], s_secrets = [],
     s_answer = None, s_analysis = None, s_connections = 0, s_clock = 7\<rparr>"

definition not_found :: "error + 'a" where
  "not_found = Inl (Err NotFound ''not found'')"

definition lookup_or_not_found :: "('k \<times> 'a) list \<Rightarrow> 'k \<Rightarrow> error + 'a" where
  "lookup_or_not_found t k = (case map_of t k of None \<Rightarrow> not_found | Some x \<Rightarrow> Inr x)"

definition object_slot :: "obj \<Rightarrow> object_key \<times> string" where
  "object_slot m =
     (\<lparr>key_Namespace = string_at [''metadata'', ''namespace''] m,
       key_Name = string_at [''metadata'', ''name''] m\<rparr>, string_at [''kind''] m)"

definition stored_fields :: "dval \<Rightarrow> obj" where
  "stored_fields v = (case map_json Float64 v of JObj m \<Rightarrow> m | _ \<Rightarrow> [])"

definition store_patch :: "obj \<Rightarrow> PatchOperation list \<Rightarrow> bool \<Rightarrow> store \<Rightarrow> obj go_result \<times> store" where
  "store_patch object ops dryRun s =
     (case map_of (s_objects s) (object_slot object) of
        None \<Rightarrow> (not_found, s)
      | Some m \<Rightarrow>
          (case apply_patch ops (deepCopy (JObj m)) of
             None \<Rightarrow> (Inl (Err OtherReason ''patch does not apply''), s)
           | Some v \<Rightarrow>
               (Inr (stored_fields v),
                if dryRun then s
                else s\<lparr>s_objects := AList.update (object_slot object) (stored_fields v) (s_objects s)\<rparr>)))"

definition store_mutation :: "Mutation \<Rightarrow> store \<Rightarrow> Mutation go_result \<times> store" where
  "store_mutation m s = (Inr m, s\<lparr>s_mutations := AList.update (key_of_meta (mu_Meta m)) m (s_mutations s)\<rparr>)"

text \<open>
  The CRDs of Result and K8sGPT enable the status subresource: a create drops the status, an
  update keeps the stored one, and an update of the status changes nothing else.  The CRD of
  Mutation does not enable it, so an update of its status is not found.
\<close>

definition store_result :: "Result \<Rightarrow> store \<Rightarrow> Result go_result \<times> store" where
  "store_result x s = (Inr x, s\<lparr>s_results := AList.update (key_of_meta (res_Meta x)) x (s_results s)\<rparr>)"

definition no_status :: ResultStatus where
  "no_status = \<lparr>rt_LifeCycle = [], rt_Webhook = [], rt_ContentHash = []\<rparr>"

definition store_create_result :: "Result \<Rightarrow> store \<Rightarrow> Result go_result \<times> store" where
  "store_create_result x s =
     (if map_of (s_results s) (key_of_meta (res_Meta x)) \<noteq> None
      then (Inl (Err AlreadyExists ''already exists''), s)
      else store_result (x\<lparr>res_Status := no_status\<rparr>) s)"

definition store_update_result :: "Result \<Rightarrow> store \<Rightarrow> Result go_result \<times> store" where
  "store_update_result x s =
     (case map_of (s_results s) (key_of_meta (res_Meta x)) of
        None \<Rightarrow> (not_found, s)
      | Some y \<Rightarrow> store_result (x\<lparr>res_Status := res_Status y\<rparr>) s)"

definition store_status_result :: "Result \<Rightarrow> store \<Rightarrow> Result go_result \<times> store" where
  "store_status_result x s =
     (case map_of (s_results s) (key_of_meta (res_Meta x)) of
        None \<Rightarrow> (not_found, s)
      | Some y \<Rightarrow> store_result (y\<lparr>res_Status := res_Status x\<rparr>) s)"

definition store_update_k8sgpt :: "K8sGPT \<Rightarrow> store \<Rightarrow> K8sGPT go_result \<times> store" where
  "store_update_k8sgpt x s =
     (case map_of (s_k8sgpts s) (key_of_meta (k_Meta x)) of
        None \<Rightarrow> (not_found, s)
      | Some y \<Rightarrow> (Inr (x\<lparr>k_Status := k_Status y\<rparr>),
          s\<lparr>s_k8sgpts := AList.update (key_of_meta (k_Meta x)) (x\<lparr>k_Status := k_Status y\<rparr>) (s_k8sgpts s)\<rparr>))"

definition store_status_k8sgpt :: "K8sGPT \<Rightarrow> store \<Rightarrow> K8sGPT go_result \<times> store" where
  "store_status_k8sgpt x s =
     (case map_of (s_k8sgpts s) (key_of_meta (k_Meta x)) of
        None \<Rightarrow> (not_found, s)
      | Some y \<Rightarrow> (Inr (y\<lparr>k_Status := k_Status x\<rparr>),
          s\<lparr>s_k8sgpts := AList.update (key_of_meta (k_Meta x)) (y\<lparr>k_Status := k_Status x\<rparr>) (s_k8sgpts s)\<rparr>))"

fun object_type :: "kube_object \<Rightarrow> nat" where
  "object_type (TheServiceAccount x) = 0"
| "object_type (TheService x) = 1"
| "object_type (TheDeployment x) = 2"
| "object_type (TheClusterRole x) = 3"
| "object_type (TheClusterRoleBinding x) = 4"

definition owned_slot :: "kube_object \<Rightarrow> object_key \<times> nat" where
  "owned_slot x = (key_of_meta (object_meta_of x), object_type x)"

text \<open>The specification of the second object in the first one.\<close>

fun copy_spec :: "kube_object \<Rightarrow> kube_object \<Rightarrow> kube_object" where
  "copy_spec (TheDeployment x) (TheDeployment y) = TheDeployment (x\<lparr>d_Spec := d_Spec y\<rparr>)"
| "copy_spec (TheService x) (TheService y) = TheService (x\<lparr>svc_Spec := svc_Spec y\<rparr>)"
| "copy_spec x y = x"

definition store_create_or_patch :: "kube_object \<Rightarrow> kube_object option \<Rightarrow> store \<Rightarrow> unit go_result \<times> store" where
  "store_create_or_patch x expect s =
     (let stored = (case map_of (s_children s) (owned_slot x) of
                      None \<Rightarrow> (case expect of None \<Rightarrow> x | Some y \<Rightarrow> copy_spec x y)
                    | Some z \<Rightarrow> (case expect of None \<Rightarrow> z | Some y \<Rightarrow> copy_spec z y))
      in (Inr (), s\<lparr>s_children := AList.update (owned_slot x) stored (s_children s)\<rparr>))"

definition has_labels :: "str_map \<Rightarrow> object_meta \<Rightarrow> bool" where
  "has_labels labels m \<longleftrightarrow> list_all (\<lambda>(k, v). map_of (om_Labels m) k = Some v) labels"

definition secret_name :: "K8sGPT \<Rightarrow> string" where
  "secret_name x =
     (case sp_AI (k_Spec x) of
        None \<Rightarrow> []
      | Some ai \<Rightarrow> (case ai_Secret ai of None \<Rightarrow> [] | Some ref \<Rightarrow> sr_Name ref))"

definition std_kube :: "store kube" where
  "std_kube =
     \<lparr>kGet = (\<lambda>key object s.
        (lookup_or_not_found (s_objects s) (key, string_at [''kind''] object), s)),
      kPatch = store_patch,
      kGetResult = (\<lambda>key s. (lookup_or_not_found (s_results s) key, s)),
      kListResults = (\<lambda>labels s.
        (Inr (filter (\<lambda>x. has_labels labels (res_Meta x)) (map snd (s_results s))), s)),
      kCreateResult = store_create_result,
      kUpdateResult = store_update_result,
      kStatusUpdateResult = store_status_result,
      kDeleteResult = (\<lambda>x s. (Inr (), s\<lparr>s_results := AList.delete (key_of_meta (res_Meta x)) (s_results s)\<rparr>)),
      kGetMutation = (\<lambda>key s. (lookup_or_not_found (s_mutations s) key, s)),
      kListMutations = (\<lambda>namespace s.
        (Inr (filter (\<lambda>m. om_Namespace (mu_Meta m) = namespace) (map snd (s_mutations s))), s)),
      kCreateMutation = store_mutation,
      kUpdateMutation = store_mutation,
      kStatusUpdateMutation = (\<lambda>m s. (not_found, s)),
      kGetK8sGPT = (\<lambda>key s. (lookup_or_not_found (s_k8sgpts s) key, s)),
      kUpdateK8sGPT = store_update_k8sgpt,
      kStatusUpdateK8sGPT = store_status_k8sgpt,
      kListK8sGPTs = (\<lambda>namespace secret s.
        (Inr (filter (\<lambda>x. om_Namespace (k_Meta x) = namespace \<and> secret_name x = secret)
           (map snd (s_k8sgpts s))), s)),
      kGetDeployment = (\<lambda>key s.
        (case map_of (s_children s) (key, 2) of Some (TheDeployment x) \<Rightarrow> Inr x | _ \<Rightarrow> not_found, s)),
      kUpdateDeployment = (\<lambda>x s. (Inr x,
        s\<lparr>s_children := AList.update (key_of_meta (d_Meta x), 2) (TheDeployment x) (s_children s)\<rparr>)),
      kGetService = (\<lambda>key s.
        (case map_of (s_children s) (key, 1) of Some (TheService x) \<Rightarrow> Inr x | _ \<Rightarrow> not_found, s)),
      kGetSecret = (\<lambda>key s. (lookup_or_not_found (s_secrets s) key, s)),
      kCreateOrPatch = store_create_or_patch,
      kDelete = (\<lambda>x s. (case map_of (s_children s) (owned_slot x) of
                        None \<Rightarrow> (not_found, s)
                      | Some _ \<Rightarrow> (Inr (), s\<lparr>s_children := AList.delete (owned_slot x) (s_children s)\<rparr>))),
      kQuery = (\<lambda>client backend query s.
        (case s_answer s of None \<Rightarrow> Inl (Errorf ''unavailable'') | Some a \<Rightarrow> Inr a, s)),
      kProbe = (\<lambda>address s. (Inr (), s)),
      kDial = (\<lambda>address s. (Inr (s_connections s), s\<lparr>s_connections := Suc (s_connections s)\<rparr>)),
      kClose = (\<lambda>conn s. (Inr (), s)),
      kAnalyze = (\<lambda>conn request s.
        (case s_analysis s of None \<Rightarrow> Inl (Errorf ''unavailable'')
         | Some xs \<Rightarrow> Inr \<lparr>re_Status = ''ProblemDetected'', re_Results = Inr xs, re_Problems = int (length xs)\<rparr>, s)),
      kAddConfig = (\<lambda>conn request s. (Inr (), s)),
      kTrivyEnabled = (\<lambda>conn s. (Inr False, s)),
      kPost = (\<lambda>p s. (Inr (''200 OK'', 200), s)),
      kResourceFor = (\<lambda>kind s. (Inr \<lparr>gv_Group = [], gv_Version = ''v1''\<rparr>, s)),
      kNow = s_clock\<rparr>"

end
