(* ===== verification/Conversions.thy ===== *)
theory Conversions
  imports Cluster
begin

text \<open>
  From analysis results to the resources a remediation may touch
  (\<^verbatim>\<open>internal/controller/conversions/to_eligible_resource.go\<close>): the selectors of the K8sGPT
  resource, the target of a result, the walk from a Pod to the workload that owns it, and the
  snapshot of the target.  The lemmas say which resources come out, that finding them only reads,
  and how many reads the walk makes.
\<close>

section \<open>Selectors\<close>

definition selectors :: "K8sGPT \<Rightarrow> string list" where
  "selectors config =
     (case sp_AI (k_Spec config) of None \<Rightarrow> [] | Some ai \<Rightarrow> ar_Resources (ai_AutoRemediation ai))"

fun selectorsEnable :: "k8s_lib \<Rightarrow> group_version_kind \<Rightarrow> string list \<Rightarrow> bool" where
  "selectorsEnable L gvk [] = False"
| "selectorsEnable L gvk (s # rest) =
     (let selector = TrimSpace s in
      if selector = Kind gvk then True
      else if selector = Group gvk @ ''/'' @ Kind gvk \<or>
              selector = GroupVersion_String L (GroupVersion gvk) @ ''/'' @ Kind gvk then True
      else selectorsEnable L gvk rest)"

definition AutoRemediationResourceEnabled ::
  "k8s_lib \<Rightarrow> K8sGPT option \<Rightarrow> group_version_kind \<Rightarrow> bool" where
  "AutoRemediationResourceEnabled L config gvk =
     (case config of
        None \<Rightarrow> False
      | Some c \<Rightarrow>
          (case sp_AI (k_Spec c) of
             None \<Rightarrow> False
           | Some ai \<Rightarrow> selectorsEnable L gvk (ar_Resources (ai_AutoRemediation ai))))"

definition autoRemediationResourceEnabled :: "k8s_lib \<Rightarrow> K8sGPT option \<Rightarrow> string \<Rightarrow> bool" where
  "autoRemediationResourceEnabled L config kind =
     AutoRemediationResourceEnabled L config \<lparr>Group = '''', Version = '''', Kind = kind\<rparr>"

definition fullyQualifiedSelector :: "k8s_lib \<Rightarrow> string \<Rightarrow> group_version_kind option" where
  "fullyQualifiedSelector L selector =
     (let parts = Split selector CHR ''/'';
          split = (case parts of
                     [a, b, c] \<Rightarrow> Some (a @ ''/'' @ b, c)
                   | [a, b] \<Rightarrow> if \<not> HasPrefix a ''v'' \<or> a = ''v'' then None else Some (a, b)
                   | _ \<Rightarrow> None)
      in case split of
           None \<Rightarrow> None
         | Some (groupVersion, kind) \<Rightarrow>
             if kind = '''' then None
             else (case ParseGroupVersion L groupVersion of
                     Inl err \<Rightarrow> None
                   | Inr gv \<Rightarrow> Some (WithKind gv kind)))"

fun matchingGVKs :: "k8s_lib \<Rightarrow> string \<Rightarrow> string list \<Rightarrow> group_version_kind list" where
  "matchingGVKs L kind [] = []"
| "matchingGVKs L kind (s # rest) =
     (case fullyQualifiedSelector L (TrimSpace s) of
        None \<Rightarrow> matchingGVKs L kind rest
      | Some gvk \<Rightarrow>
          if Kind gvk = kind then gvk # matchingGVKs L kind rest else matchingGVKs L kind rest)"

definition configuredLegacyGVK :: "k8s_lib \<Rightarrow> K8sGPT option \<Rightarrow> string \<Rightarrow> group_version_kind option" where
  "configuredLegacyGVK L config kind =
     (case config of
        None \<Rightarrow> None
      | Some c \<Rightarrow>
          (case sp_AI (k_Spec c) of
             None \<Rightarrow> None
           | Some ai \<Rightarrow>
               (case matchingGVKs L kind (ar_Resources (ai_AutoRemediation ai)) of
                  [gvk] \<Rightarrow> Some gvk
                | _ \<Rightarrow> None)))"

section \<open>The target of a result\<close>

type_synonym target = "group_version_kind \<times> string \<times> string"

definition legacyTarget :: "k8s_lib \<Rightarrow> K8sGPT option \<Rightarrow> string \<Rightarrow> string \<Rightarrow> string \<Rightarrow> target go_result" where
  "legacyTarget L config kind namespace name =
     (case configuredLegacyGVK L config kind of
        Some gvk \<Rightarrow> Inr (gvk, namespace, name)
      | None \<Rightarrow>
          if kind = ''Pod'' then
            (if namespace = '''' then Inl (Errorf ''legacy Pod result must include namespace/name'')
             else Inr (\<lparr>Group = '''', Version = ''v1'', Kind = ''Pod''\<rparr>, namespace, name))
          else if kind = ''Deployment'' then
            (if namespace = '''' then Inl (Errorf ''legacy Deployment result must include namespace/name'')
             else Inr (\<lparr>Group = ''apps'', Version = ''v1'', Kind = ''Deployment''\<rparr>, namespace, name))
          else Inl (Errorf (''legacy Result lacks targetRef or a unique fully qualified resource selector for kind ''
                 @ Quote kind)))"

definition resultTarget :: "k8s_lib \<Rightarrow> K8sGPT option \<Rightarrow> Result \<Rightarrow> target go_result" where
  "resultTarget L config item =
     (case rs_TargetRef (res_Spec item) of
        Some target \<Rightarrow>
          if tg_APIVersion target = '''' \<or> tg_Kind target = '''' \<or> tg_Name target = ''''
          then Inl (Errorf ''targetRef must include apiVersion, kind, and name'')
          else (case ParseGroupVersion L (tg_APIVersion target) of
                  Inl err \<Rightarrow> Inl (Errorf_w ''invalid targetRef apiVersion: '' err)
                | Inr gv \<Rightarrow> Inr (WithKind gv (tg_Kind target), tg_Namespace target, tg_Name target))
      | None \<Rightarrow>
          (let parts = Split (rs_Name (res_Spec item)) CHR ''/'' in
           if length parts > 2 \<or> length parts = 0 \<or> last parts = ''''
           then Inl (Errorf ''legacy resource name must be namespace/name or a cluster-scoped name'')
           else if length parts = 2 then
             (if parts ! 0 = '''' then Inl (Errorf ''legacy resource namespace must not be empty'')
              else legacyTarget L config (rs_Kind (res_Spec item)) (parts ! 0) (parts ! 1))
           else legacyTarget L config (rs_Kind (res_Spec item)) '''' (parts ! 0)))"

section \<open>The owning workload\<close>

fun controllerOwner :: "owner_reference list \<Rightarrow> owner_reference option" where
  "controllerOwner [] = None"
| "controllerOwner (o' # owners) =
     (if own_Controller o' = Some True then Some o' else controllerOwner owners)"

definition PodGVK :: group_version_kind where
  "PodGVK = \<lparr>Group = '''', Version = ''v1'', Kind = ''Pod''\<rparr>"

text \<open>An empty object whose kind is set: what \<^verbatim>\<open>Get\<close> reads into.\<close>

definition empty_of :: "k8s_lib \<Rightarrow> group_version_kind \<Rightarrow> obj" where
  "empty_of L gvk = SetGroupVersionKind L gvk []"

text \<open>The body of the loop, for the rounds left: the current object is \<open>gvk'\<close>, \<open>name'\<close>.\<close>

fun ownerLoop :: "k8s_lib \<Rightarrow> 's kube \<Rightarrow> K8sGPT option \<Rightarrow> target \<Rightarrow> nat \<Rightarrow> group_version_kind \<Rightarrow> string
    \<Rightarrow> 's world \<Rightarrow> target go_result \<times> 's world" where
  "ownerLoop L K config (gvk, namespace, name) 0 gvk' name' w =
     (Inl (Errorf (''controller ownership depth exceeded while resolving Pod '' @ namespace @ ''/'' @ name)), w)"
| "ownerLoop L K config (gvk, namespace, name) (Suc n) gvk' name' w =
     (case Get K \<lparr>key_Namespace = namespace, key_Name = name'\<rparr> (empty_of L gvk') w of
        (Inl err, w) \<Rightarrow> (Inl err, w)
      | (Inr current, w) \<Rightarrow>
          (case controllerOwner (GetOwnerReferences L current) of
             None \<Rightarrow> (Inr (gvk, namespace, name), w)
           | Some owner \<Rightarrow>
               (case ParseGroupVersion L (own_APIVersion owner) of
                  Inl err \<Rightarrow>
                    (Inl (Errorf_w (''invalid controller owner apiVersion '' @ Quote (own_APIVersion owner) @ '': '') err), w)
                | Inr ownerGV \<Rightarrow>
                    (let gvk'' = WithKind ownerGV (own_Kind owner) in
                     if AutoRemediationResourceEnabled L config gvk''
                     then (Inr (gvk'', namespace, own_Name owner), w)
                     else ownerLoop L K config (gvk, namespace, name) n gvk'' (own_Name owner) w))))"

definition resolveOwningWorkload :: "k8s_lib \<Rightarrow> 's kube \<Rightarrow> K8sGPT option \<Rightarrow> target \<Rightarrow> 's world
    \<Rightarrow> target go_result \<times> 's world" where
  "resolveOwningWorkload L K config t w =
     (case t of (gvk, namespace, name) \<Rightarrow>
        if gvk \<noteq> PodGVK then (Inr (gvk, namespace, name), w)
        else ownerLoop L K config (gvk, namespace, name) 8 gvk name w)"

section \<open>Eligible resources\<close>

record EligibleResource =
  er_ResultRef :: object_reference
  er_ObjectRef :: object_reference
  er_GVK :: string
  er_OriginConfiguration :: string

definition eligibleResource :: "k8s_lib \<Rightarrow> 's kube \<Rightarrow> object_reference \<Rightarrow> target \<Rightarrow> 's world
    \<Rightarrow> EligibleResource go_result \<times> 's world" where
  "eligibleResource L K resultRef t w =
     (case t of (gvk, namespace, name) \<Rightarrow>
      (case Get K \<lparr>key_Namespace = namespace, key_Name = name\<rparr> (empty_of L gvk) w of
         (Inl err, w) \<Rightarrow> (Inl err, w)
       | (Inr got, w) \<Rightarrow>
           (let object = RemoveNestedField L got [''metadata'', ''managedFields''] in
            case yaml_Marshal L object of
              Inl err \<Rightarrow> (Inl err, w)
            | Inr origin \<Rightarrow>
                (Inr \<lparr>er_ResultRef = resultRef,
                      er_ObjectRef =
                        \<lparr>or_Kind = Kind gvk, or_Namespace = GetNamespace L object,
                         or_Name = GetName L object, or_UID = GetUID L object,
                         or_APIVersion = GroupVersion_String L (GroupVersion gvk),
                         or_ResourceVersion = GetResourceVersion L object\<rparr>,
                      er_GVK = GroupVersion_String L (GroupVersion gvk),
                      er_OriginConfiguration = origin\<rparr>, w))))"

definition staleTarget :: "Result \<Rightarrow> group_version_kind \<Rightarrow> group_version_kind \<Rightarrow> EligibleResource \<Rightarrow> bool" where
  "staleTarget item originalGVK gvk resource =
     (case rs_TargetRef (res_Spec item) of
        None \<Rightarrow> False
      | Some target \<Rightarrow>
          originalGVK = gvk \<and>
          ((tg_UID target \<noteq> '''' \<and> tg_UID target \<noteq> or_UID (er_ObjectRef resource)) \<or>
           (tg_ResourceVersion target \<noteq> '''' \<and>
            tg_ResourceVersion target \<noteq> or_ResourceVersion (er_ObjectRef resource))))"

text \<open>The body of the loop over the results: the resource of one result, or none.\<close>

definition eligibleOfResult :: "k8s_lib \<Rightarrow> 's kube \<Rightarrow> (Result \<Rightarrow> object_reference go_result)
    \<Rightarrow> K8sGPT option \<Rightarrow> Result \<Rightarrow> 's world \<Rightarrow> EligibleResource option \<times> 's world" where
  "eligibleOfResult L K getReference config item w =
     (case resultTarget L config item of
        Inl err \<Rightarrow> (None, w)
      | Inr (originalGVK, namespace, name) \<Rightarrow>
          (case resolveOwningWorkload L K config (originalGVK, namespace, name) w of
             (Inl err, w) \<Rightarrow> (None, w)
           | (Inr (gvk, namespace, name), w) \<Rightarrow>
               if \<not> AutoRemediationResourceEnabled L config gvk then (None, w)
               else (case getReference item of
                       Inl err \<Rightarrow> (None, w)
                     | Inr resultRef \<Rightarrow>
                         (case eligibleResource L K resultRef (gvk, namespace, name) w of
                            (Inl err, w) \<Rightarrow> (None, w)
                          | (Inr resource, w) \<Rightarrow>
                              if staleTarget item originalGVK gvk resource then (None, w)
                              else (Some resource, w)))))"

fun ResultsToEligibleResources :: "k8s_lib \<Rightarrow> 's kube \<Rightarrow> (Result \<Rightarrow> object_reference go_result)
    \<Rightarrow> K8sGPT option \<Rightarrow> Result list \<Rightarrow> 's world \<Rightarrow> EligibleResource list \<times> 's world" where
  "ResultsToEligibleResources L K getReference config [] w = ([], w)"
| "ResultsToEligibleResources L K getReference config (item # items) w =
     (case eligibleOfResult L K getReference config item w of
        (r, w) \<Rightarrow>
          (case ResultsToEligibleResources L K getReference config items w of
             (eligible, w) \<Rightarrow> ((case r of None \<Rightarrow> eligible | Some x \<Rightarrow> x # eligible), w)))"

section \<open>Facts\<close>

lemma selectorsEnable_iff:
  "selectorsEnable L gvk ss \<longleftrightarrow>
     (\<exists>s \<in> set ss. TrimSpace s \<in> {Kind gvk, Group gvk @ ''/'' @ Kind gvk,
        GroupVersion_String L (GroupVersion gvk) @ ''/'' @ Kind gvk})"
  by (induction ss) (auto simp: Let_def)

lemma enabled_iff:
  "AutoRemediationResourceEnabled L config gvk \<longleftrightarrow>
     (\<exists>c. config = Some c \<and> (\<exists>s \<in> set (selectors c). TrimSpace s \<in>
        {Kind gvk, Group gvk @ ''/'' @ Kind gvk,
         GroupVersion_String L (GroupVersion gvk) @ ''/'' @ Kind gvk}))"
  by (auto simp: AutoRemediationResourceEnabled_def selectors_def selectorsEnable_iff
      split: option.splits)

lemma controllerOwner_Some:
  "controllerOwner owners = Some o' \<Longrightarrow> o' \<in> set owners \<and> own_Controller o' = Some True"
  by (induction owners) (auto split: if_splits)

definition only_gets :: "call list \<Rightarrow> bool" where
  "only_gets cs \<longleftrightarrow> list_all (\<lambda>c. case c of CallGet key object \<Rightarrow> True | _ \<Rightarrow> False) cs"

lemma only_gets_simps [simp]:
  "only_gets []"
  "only_gets (CallGet key object # cs) \<longleftrightarrow> only_gets cs"
  "only_gets (cs @ ds) \<longleftrightarrow> only_gets cs \<and> only_gets ds"
  by (simp_all add: only_gets_def)

text \<open>The walk: what it returns, and that it makes one read per round.\<close>

definition walk_result :: "k8s_lib \<Rightarrow> K8sGPT option \<Rightarrow> target \<Rightarrow> target go_result \<Rightarrow> bool" where
  "walk_result L config t r \<longleftrightarrow>
     (case r of
        Inl _ \<Rightarrow> True
      | Inr (gvk', namespace', name') \<Rightarrow>
          (gvk', namespace', name') = t \<or>
          fst t = PodGVK \<and> namespace' = fst (snd t) \<and> AutoRemediationResourceEnabled L config gvk')"

lemma ownerLoop_sound:
  assumes "ownerLoop L K config (PodGVK, namespace, name) n gvk' name' w = (r, w')"
  shows "\<exists>cs. trace w' = trace w @ cs \<and> length cs \<le> n \<and> only_gets cs \<and>
    walk_result L config (PodGVK, namespace, name) r"
  using assms
proof (induction n arbitrary: gvk' name' w)
  case 0
  then show ?case by (auto simp: walk_result_def)
next
  case (Suc n)
  obtain g v where get: "Get K \<lparr>key_Namespace = namespace, key_Name = name'\<rparr> (empty_of L gvk') w = (g, v)"
    by (cases "Get K \<lparr>key_Namespace = namespace, key_Name = name'\<rparr> (empty_of L gvk') w")
  note tr = perform_trace [OF get]
  show ?case
  proof (cases "\<exists>gvk'' owner. ownerLoop L K config (PodGVK, namespace, name) n gvk'' owner v = (r, w')")
    case True
    then obtain gvk'' owner where "ownerLoop L K config (PodGVK, namespace, name) n gvk'' owner v = (r, w')"
      by blast
    from Suc.IH [OF this] tr show ?thesis by force
  next
    case False
    with Suc.prems get have "w' = v" "walk_result L config (PodGVK, namespace, name) r"
      by (auto simp: walk_result_def Let_def split: sum.splits option.splits if_splits)
    with tr show ?thesis by force
  qed
qed

lemma resolveOwningWorkload_sound:
  assumes "resolveOwningWorkload L K config t w = (r, w')"
  shows "\<exists>cs. trace w' = trace w @ cs \<and> length cs \<le> 8 \<and> only_gets cs \<and> walk_result L config t r"
proof (cases "fst t = PodGVK")
  case True
  obtain gvk namespace name where t: "t = (gvk, namespace, name)" by (cases t)
  with True assms ownerLoop_sound [of L K config namespace name 8 PodGVK name w r w']
  show ?thesis by (auto simp: resolveOwningWorkload_def)
next
  case False
  with assms show ?thesis by (cases t) (auto simp: resolveOwningWorkload_def walk_result_def)
qed

section \<open>The resources that come out\<close>

definition eligible_for :: "k8s_lib \<Rightarrow> (Result \<Rightarrow> object_reference go_result) \<Rightarrow> K8sGPT option \<Rightarrow>
    Result \<Rightarrow> EligibleResource \<Rightarrow> bool" where
  "eligible_for L getReference config item r \<longleftrightarrow>
     getReference item = Inr (er_ResultRef r) \<and>
     (\<exists>gvk. AutoRemediationResourceEnabled L config gvk \<and> or_Kind (er_ObjectRef r) = Kind gvk \<and>
        or_APIVersion (er_ObjectRef r) = GroupVersion_String L (GroupVersion gvk) \<and>
        er_GVK r = GroupVersion_String L (GroupVersion gvk) \<and>
        (\<forall>original. resultTarget L config item = Inr original \<longrightarrow>
           \<not> staleTarget item (fst original) gvk r))"

lemma eligibleResource_calls:
  assumes "eligibleResource L K resultRef t w = (r, w')"
  shows "\<exists>cs. trace w' = trace w @ cs \<and> length cs \<le> 1 \<and> only_gets cs"
  using assms
  by (auto simp: eligibleResource_def Let_def split: prod.splits sum.splits dest!: perform_trace)

lemma eligibleResource_fields:
  assumes "eligibleResource L K resultRef (gvk, namespace, name) w = (Inr r, w')"
  shows "er_ResultRef r = resultRef \<and> or_Kind (er_ObjectRef r) = Kind gvk \<and>
    or_APIVersion (er_ObjectRef r) = GroupVersion_String L (GroupVersion gvk) \<and>
    er_GVK r = GroupVersion_String L (GroupVersion gvk)"
  using assms by (auto simp: eligibleResource_def Let_def split: prod.splits sum.splits)

lemma eligibleOfResult_sound:
  assumes "eligibleOfResult L K getReference config item w = (r, w')"
  shows "\<exists>cs. trace w' = trace w @ cs \<and> length cs \<le> 9 \<and> only_gets cs \<and>
    (\<forall>x. r = Some x \<longrightarrow> eligible_for L getReference config item x)"
proof (cases "resultTarget L config item")
  case (Inl err)
  with assms show ?thesis by (simp add: eligibleOfResult_def)
next
  case (Inr t)
  obtain g0 ns0 n0 where t: "t = (g0, ns0, n0)" by (cases t)
  obtain r1 w1 where res: "resolveOwningWorkload L K config t w = (r1, w1)"
    by (cases "resolveOwningWorkload L K config t w")
  from resolveOwningWorkload_sound [OF res] obtain cs where cs: "trace w1 = trace w @ cs"
    "length cs \<le> 8" "only_gets cs" by blast
  show ?thesis
  proof (cases "\<exists>gvk namespace name resultRef. r1 = Inr (gvk, namespace, name) \<and>
      AutoRemediationResourceEnabled L config gvk \<and> getReference item = Inr resultRef")
    case True
    then obtain gvk namespace name resultRef where en: "r1 = Inr (gvk, namespace, name)"
      "AutoRemediationResourceEnabled L config gvk" "getReference item = Inr resultRef" by blast
    obtain r2 w2 where el: "eligibleResource L K resultRef (gvk, namespace, name) w1 = (r2, w2)"
      by (cases "eligibleResource L K resultRef (gvk, namespace, name) w1")
    from eligibleResource_calls [OF el] obtain ds where ds: "trace w2 = trace w1 @ ds"
      "length ds \<le> 1" "only_gets ds" by blast
    have out: "w' = w2 \<and> (case r of None \<Rightarrow> True | Some x \<Rightarrow> r2 = Inr x \<and> \<not> staleTarget item g0 gvk x)"
      using assms Inr t res en el
      by (auto simp: eligibleOfResult_def split: sum.splits if_splits)
    have "eligible_for L getReference config item x" if "r = Some x" for x
      using out that en eligibleResource_fields [of L K resultRef gvk namespace name w1 x w2] el Inr t
      by (auto simp: eligible_for_def)
    moreover have "trace w' = trace w @ (cs @ ds)" using out cs ds by simp
    moreover have "length (cs @ ds) \<le> 9" "only_gets (cs @ ds)" using cs ds by simp_all
    ultimately show ?thesis by blast
  next
    case False
    with assms Inr t res have "w' = w1 \<and> r = None"
      by (auto simp: eligibleOfResult_def split: sum.splits if_splits)
    with cs show ?thesis by (intro exI [of _ cs]) simp
  qed
qed

lemma ResultsToEligibleResources_sound:
  assumes "ResultsToEligibleResources L K getReference config items w = (rs, w')"
  shows "\<exists>cs. trace w' = trace w @ cs \<and> length cs \<le> 9 * length items \<and> only_gets cs \<and>
    length rs \<le> length items \<and>
    list_all (\<lambda>r. \<exists>item \<in> set items. eligible_for L getReference config item r) rs"
  using assms
proof (induction items arbitrary: w rs w')
  case (Cons item items)
  obtain r w1 where one: "eligibleOfResult L K getReference config item w = (r, w1)"
    by (cases "eligibleOfResult L K getReference config item w")
  obtain rest w2 where more: "ResultsToEligibleResources L K getReference config items w1 = (rest, w2)"
    by (cases "ResultsToEligibleResources L K getReference config items w1")
  from eligibleOfResult_sound [OF one] obtain cs where cs: "trace w1 = trace w @ cs" "length cs \<le> 9"
    "only_gets cs" "\<forall>x. r = Some x \<longrightarrow> eligible_for L getReference config item x" by blast
  from Cons.IH [OF more] obtain ds where ds: "trace w2 = trace w1 @ ds" "length ds \<le> 9 * length items"
    "only_gets ds" "length rest \<le> length items"
    "list_all (\<lambda>r. \<exists>item \<in> set items. eligible_for L getReference config item r) rest" by blast
  have out: "w' = w2" "rs = (case r of None \<Rightarrow> rest | Some x \<Rightarrow> x # rest)"
    using Cons.prems one more by simp_all
  have "list_all (\<lambda>r. \<exists>i \<in> set (item # items). eligible_for L getReference config i r) rs"
    using out(2) cs(4) ds(5) by (auto simp: list_all_iff split: option.splits)
  moreover have "length rs \<le> length (item # items)" using out(2) ds(4) by (simp split: option.splits)
  moreover have "trace w' = trace w @ (cs @ ds)" using out cs ds by simp
  moreover have "length (cs @ ds) \<le> 9 * length (item # items)" "only_gets (cs @ ds)"
    using cs ds by simp_all
  ultimately show ?case by blast
qed simp

section \<open>The nearest enabled owner\<close>

text \<open>
  The specification of the walk, over a cluster that does not change meanwhile: \<open>get\<close> is what a
  read answers, \<open>ownerOf\<close> the controller of an object, and \<open>nearest\<close> the relation between an
  object and its nearest enabled controller, \<open>n\<close> steps up.
\<close>

definition ownerOf :: "k8s_lib \<Rightarrow> (object_key \<Rightarrow> obj \<Rightarrow> obj go_result) \<Rightarrow> string \<Rightarrow>
    group_version_kind \<times> string \<Rightarrow> (group_version_kind \<times> string) option" where
  "ownerOf L get namespace x =
     (case get \<lparr>key_Namespace = namespace, key_Name = snd x\<rparr> (empty_of L (fst x)) of
        Inl _ \<Rightarrow> None
      | Inr object \<Rightarrow>
          (case controllerOwner (GetOwnerReferences L object) of
             None \<Rightarrow> None
           | Some owner \<Rightarrow>
               (case ParseGroupVersion L (own_APIVersion owner) of
                  Inl _ \<Rightarrow> None
                | Inr gv \<Rightarrow> Some (WithKind gv (own_Kind owner), own_Name owner))))"

inductive nearest :: "k8s_lib \<Rightarrow> (object_key \<Rightarrow> obj \<Rightarrow> obj go_result) \<Rightarrow> K8sGPT option \<Rightarrow> string \<Rightarrow>
    group_version_kind \<times> string \<Rightarrow> nat \<Rightarrow> group_version_kind \<times> string \<Rightarrow> bool"
  for L get config namespace where
  here: "ownerOf L get namespace x = Some y \<Longrightarrow> AutoRemediationResourceEnabled L config (fst y) \<Longrightarrow>
    nearest L get config namespace x 1 y"
| above: "ownerOf L get namespace x = Some y \<Longrightarrow> \<not> AutoRemediationResourceEnabled L config (fst y) \<Longrightarrow>
    nearest L get config namespace y n z \<Longrightarrow> nearest L get config namespace x (Suc n) z"

inductive_cases nearest_elim: "nearest L get config namespace x n z"

lemma nearest_unique:
  "nearest L get config namespace x n y \<Longrightarrow> nearest L get config namespace x m z \<Longrightarrow> n = m \<and> y = z"
proof (induction arbitrary: m z rule: nearest.induct)
  case (here x y)
  then show ?case by (auto elim: nearest_elim)
next
  case (above x y n z')
  from above.prems above.hyps obtain k where "m = Suc k" "nearest L get config namespace y k z"
    by (auto elim: nearest_elim)
  with above.IH show ?case by simp
qed

lemma ownerLoop_nearest:
  assumes reads: "\<And>key object s. kGet K key object s = (get key object, s)"
  shows "nearest L get config namespace x n y \<Longrightarrow> n \<le> m \<Longrightarrow>
    fst (ownerLoop L K config (gvk, namespace, name) m (fst x) (snd x) w) = Inr (fst y, namespace, snd y)"
proof (induction arbitrary: m w rule: nearest.induct)
  case (here x y)
  then obtain k where "m = Suc k" by (cases m) auto
  with here show ?case
    by (auto simp: ownerOf_def perform_def reads split: sum.splits option.splits)
next
  case (above x y n z)
  then obtain k where k: "m = Suc k" "n \<le> k" by (cases m) auto
  with above.hyps above.IH [OF k(2)] show ?case
    by (auto simp: ownerOf_def perform_def reads split: sum.splits option.splits)
qed


section \<open>The target of a result, exactly\<close>

lemma fullyQualifiedSelector_kind: "fullyQualifiedSelector L s = Some gvk \<Longrightarrow> Kind gvk \<noteq> ''''"
  by (auto simp: fullyQualifiedSelector_def Let_def WithKind_def split: option.splits if_splits sum.splits)

text \<open>The kinds that the selectors of a K8sGPT name in full, one for each such selector.\<close>

definition configuredGVKs :: "k8s_lib \<Rightarrow> K8sGPT option \<Rightarrow> group_version_kind list" where
  "configuredGVKs L config =
     List.map_filter (\<lambda>s. fullyQualifiedSelector L (TrimSpace s)) (case config of None \<Rightarrow> [] | Some c \<Rightarrow> selectors c)"

lemma matchingGVKs_filter:
  "matchingGVKs L kind ss = filter (\<lambda>g. Kind g = kind) (List.map_filter (\<lambda>s. fullyQualifiedSelector L (TrimSpace s)) ss)"
  by (induction ss) (auto simp: map_filter_simps split: option.splits)

lemma configuredLegacyGVK_iff:
  "configuredLegacyGVK L config kind = Some gvk \<longleftrightarrow> filter (\<lambda>g. Kind g = kind) (configuredGVKs L config) = [gvk]"
  by (auto simp: configuredLegacyGVK_def configuredGVKs_def selectors_def matchingGVKs_filter map_filter_simps
      split: option.splits list.splits)

definition builtin_target :: "group_version_kind \<Rightarrow> bool" where
  "builtin_target gvk \<longleftrightarrow>
     gvk = PodGVK \<or> gvk = \<lparr>Group = ''apps'', Version = ''v1'', Kind = ''Deployment''\<rparr>"

lemma legacyTarget_iff:
  "legacyTarget L config kind namespace name = Inr (gvk, ns, n) \<longleftrightarrow>
     ns = namespace \<and> n = name \<and> Kind gvk = kind \<and>
     (filter (\<lambda>g. Kind g = kind) (configuredGVKs L config) = [gvk] \<or>
      length (filter (\<lambda>g. Kind g = kind) (configuredGVKs L config)) \<noteq> 1 \<and> builtin_target gvk \<and> namespace \<noteq> '''')"
proof (cases "configuredLegacyGVK L config kind")
  case None
  then have "length (filter (\<lambda>g. Kind g = kind) (configuredGVKs L config)) \<noteq> 1"
    using configuredLegacyGVK_iff [of L config kind] by (auto simp: length_Suc_conv)
  with None show ?thesis
    by (auto simp: legacyTarget_def builtin_target_def PodGVK_def split: if_splits)
next
  case (Some g)
  then have "filter (\<lambda>g. Kind g = kind) (configuredGVKs L config) = [g]" by (simp add: configuredLegacyGVK_iff)
  moreover from this have "Kind g = kind" by (auto simp: filter_eq_Cons_iff)
  ultimately show ?thesis using Some by (auto simp: legacyTarget_def)
qed

lemma resultTarget_legacy:
  assumes "rs_TargetRef (res_Spec item) = None"
  shows "resultTarget L config item = Inr (gvk, namespace, name) \<longleftrightarrow>
    name \<noteq> '''' \<and> CHR ''/'' \<notin> set name \<and> CHR ''/'' \<notin> set namespace \<and>
    rs_Name (res_Spec item) = (if namespace = '''' then name else namespace @ ''/'' @ name) \<and>
    legacyTarget L config (rs_Kind (res_Spec item)) namespace name = Inr (gvk, namespace, name)"
    (is "?run \<longleftrightarrow> ?spec")
proof
  obtain p ps where parts: "Split (rs_Name (res_Spec item)) CHR ''/'' = p # ps"
    by (meson Split_nonempty neq_Nil_conv)
  note no_sep = Split_parts_no_sep [of _ "rs_Name (res_Spec item)" "CHR ''/''", unfolded parts]
    and join = Join_Split [of "rs_Name (res_Spec item)" "CHR ''/''", unfolded parts]
  assume run: ?run
  then have short: "\<not> length (p # ps) > 2" "last (p # ps) \<noteq> ''''"
    using assms parts by (auto simp: resultTarget_def Let_def split: if_splits)
  then consider "ps = []" | q where "ps = [q]" by (cases ps; cases "tl ps") auto
  then show ?spec
  proof cases
    case 1
    with assms parts run short have lt: "legacyTarget L config (rs_Kind (res_Spec item)) '''' p = Inr (gvk, namespace, name)"
      by (simp add: resultTarget_def)
    then have "namespace = ''''" "name = p" by (simp_all add: legacyTarget_iff)
    with 1 lt short no_sep join show ?thesis by auto
  next
    case 2
    with assms parts run short have np: "p \<noteq> ''''"
      and lt: "legacyTarget L config (rs_Kind (res_Spec item)) p q = Inr (gvk, namespace, name)"
      by (auto simp: resultTarget_def Let_def split: if_splits)
    from lt have "namespace = p" "name = q" by (simp_all add: legacyTarget_iff)
    with 2 lt np short no_sep join show ?thesis by auto
  qed
next
  assume spec: ?spec
  show ?run
  proof (cases "namespace = ''''")
    case True
    with spec have "Split (rs_Name (res_Spec item)) CHR ''/'' = [name]" by (simp add: Split_no_sep)
    with True spec assms show ?thesis by (simp add: resultTarget_def)
  next
    case False
    with spec have "Split (rs_Name (res_Spec item)) CHR ''/'' = [namespace, name]"
      by (simp add: Split_append Split_no_sep)
    with False spec assms show ?thesis by (simp add: resultTarget_def)
  qed
qed

section \<open>Samples\<close>

definition sampleAI :: "string list \<Rightarrow> AISpec" where
  "sampleAI resources =
     \<lparr>ai_AutoRemediation = \<lparr>ar_Enabled = True, ar_SimilarityRequirement = ''90'', ar_Resources = resources\<rparr>,
      ai_Backend = ''openai'', ai_BackOff = None, ai_BaseUrl = '''', ai_Region = '''',
      ai_AzureAPIType = '''', ai_Model = ''gpt-4o'', ai_Engine = '''', ai_Secret = None,
      ai_Enabled = True, ai_Anonymize = None, ai_Language = ''english'', ai_ProxyEndpoint = '''',
      ai_ProviderId = '''', ai_MaxTokens = ''2048'', ai_Topk = ''50'', ai_CustomHeaders = ''''\<rparr>"

definition sampleK8sGPT :: "string list \<Rightarrow> K8sGPT" where
  "sampleK8sGPT resources =
     \<lparr>k_Kind = ''K8sGPT'', k_APIVersion = ''core.k8sgpt.ai/v1alpha1'',
      k_Meta = new_meta ''k8sgpt'' ''ops'',
      k_Spec = \<lparr>sp_Version = ''v0.4.1'', sp_Repository = ''ghcr.io/k8sgpt-ai/k8sgpt'',
        sp_ImagePullPolicy = '''', sp_ImagePullSecrets = [], sp_Resources = None, sp_NoCache = False,
        sp_CustomAnalyzers = None, sp_Filters = [], sp_ExtraOptions = None, sp_Sink = None,
        sp_AI = Some (sampleAI resources), sp_RemoteCache = None, sp_Integrations = None,
        sp_NodeSelector = [], sp_Tolerations = [], sp_TargetNamespace = '''', sp_Analysis = None,
        sp_Kubeconfig = None, sp_DeploymentLabels = [], sp_DeploymentAnnotations = [],
        sp_PodLabels = [], sp_PodAnnotations = [], sp_SecurityContext = None,
        sp_ContainerSecurityContext = None\<rparr>,
      k_Status = \<lparr>st_LastAnalysisError = '''', st_LastAnalysisErrorTime = None\<rparr>\<rparr>"

definition ownedObject :: "string \<Rightarrow> string \<Rightarrow> string \<Rightarrow> (string \<times> string \<times> string) list \<Rightarrow> obj" where
  "ownedObject apiVersion kind name owners =
     [(''apiVersion'', JStr apiVersion), (''kind'', JStr kind),
      (''metadata'', JObj [(''name'', JStr name), (''namespace'', JStr ''shop''),
         (''uid'', JStr (''uid-'' @ name)), (''resourceVersion'', JStr ''5''),
         (''ownerReferences'', JArr (map (\<lambda>(v, k, n). JObj [(''apiVersion'', JStr v),
            (''kind'', JStr k), (''name'', JStr n), (''uid'', JStr (''uid-'' @ n)),
            (''controller'', JBool True)]) owners))])]"

text \<open>A Pod owned by a ReplicaSet that a Deployment owns.\<close>

definition sampleChain :: "((object_key \<times> string) \<times> obj) list" where
  "sampleChain =
     map (\<lambda>m. (object_slot m, m))
       [ownedObject ''v1'' ''Pod'' ''web-1'' [(''apps/v1'', ''ReplicaSet'', ''web-rs'')],
        ownedObject ''apps/v1'' ''ReplicaSet'' ''web-rs'' [(''apps/v1'', ''Deployment'', ''web'')],
        ownedObject ''apps/v1'' ''Deployment'' ''web'' []]"

definition sampleGet :: "object_key \<Rightarrow> obj \<Rightarrow> obj go_result" where
  "sampleGet key object = lookup_or_not_found sampleChain (key, string_at [''kind''] object)"

definition sampleStore :: store where
  "sampleStore = empty_store\<lparr>s_objects := sampleChain\<rparr>"

definition sampleReader :: "store kube" where
  "sampleReader = std_kube\<lparr>kGet := (\<lambda>key object s. (sampleGet key object, s))\<rparr>"

definition sampleResult :: "string \<Rightarrow> string \<Rightarrow> Result" where
  "sampleResult kind name =
     \<lparr>res_Meta = new_meta ''finding'' ''ops'',
      res_Spec = \<lparr>rs_Backend = ''openai'', rs_Phase = PhaseNotStarted, rs_Kind = kind, rs_Name = name,
        rs_Error = [], rs_Details = ''ImagePullBackOff'', rs_ParentObject = '''', rs_TargetRef = None\<rparr>,
      res_Status = \<lparr>rt_LifeCycle = '''', rt_Webhook = '''', rt_ContentHash = ''''\<rparr>\<rparr>"

section \<open>Properties\<close>

text \<open>
  Only resources the user enabled come out of the conversion: each one is of a kind a
  selector of the K8sGPT resource names, stands for one of the given results, and agrees with the
  UID and the resource version of that result's target when it names them.  Whatever the API
  server answers, there are at most as many as results, and finding them only reads objects, at
  most nine times per result.
\<close>

theorem eligible_resources_enabled:
  "case ResultsToEligibleResources L K getReference config items w of
     (rs, w') \<Rightarrow>
       length rs \<le> length items \<and>
       list_all (\<lambda>r. \<exists>item \<in> set items. eligible_for L getReference config item r) rs \<and>
       (\<exists>cs. trace w' = trace w @ cs \<and> length cs \<le> 9 * length items \<and> only_gets cs)"
proof -
  obtain rs w' where "ResultsToEligibleResources L K getReference config items w = (rs, w')"
    by (cases "ResultsToEligibleResources L K getReference config items w")
  with ResultsToEligibleResources_sound [OF this] show ?thesis by auto
qed

text \<open>
  C20. The walk from a Pod finds the nearest enabled controller: when the cluster does not change
  meanwhile and the nearest enabled ancestor of the Pod is at most eight owners up, it is the
  target, in the namespace of the Pod.
\<close>

theorem resolve_nearest_enabled_owner:
  assumes "\<And>key object s. kGet K key object s = (get key object, s)"
    and "nearest L get config namespace (PodGVK, name) n (gvk', name')" and "n \<le> 8"
  shows "fst (resolveOwningWorkload L K config (PodGVK, namespace, name) w) =
    Inr (gvk', namespace, name')"
  using ownerLoop_nearest [OF assms(1,2,3)] by (simp add: resolveOwningWorkload_def)

theorem resolve_nearest_enabled_owner_witness:
  "fst (resolveOwningWorkload (std_lib [] []) sampleReader (Some (sampleK8sGPT [''apps/Deployment'']))
     (PodGVK, ''shop'', ''web-1'') \<lparr>cluster = sampleStore, trace = []\<rparr>) =
   Inr (\<lparr>Group = ''apps'', Version = ''v1'', Kind = ''Deployment''\<rparr>, ''shop'', ''web'')"
proof (rule resolve_nearest_enabled_owner [where n = 2 and get = sampleGet])
  let ?L = "std_lib [] []" and ?c = "Some (sampleK8sGPT [''apps/Deployment''])"
  let ?rs = "(\<lparr>Group = ''apps'', Version = ''v1'', Kind = ''ReplicaSet''\<rparr>, ''web-rs'')"
  let ?d = "(\<lparr>Group = ''apps'', Version = ''v1'', Kind = ''Deployment''\<rparr>, ''web'')"
  have "ownerOf ?L sampleGet ''shop'' (PodGVK, ''web-1'') = Some ?rs" by code_simp
  moreover have "\<not> AutoRemediationResourceEnabled ?L ?c (fst ?rs)" by code_simp
  moreover have "ownerOf ?L sampleGet ''shop'' ?rs = Some ?d" by code_simp
  moreover have "AutoRemediationResourceEnabled ?L ?c (fst ?d)" by code_simp
  ultimately have "nearest ?L sampleGet ?c ''shop'' (PodGVK, ''web-1'') (Suc 1) ?d"
    by (blast intro: nearest.intros)
  then show "nearest ?L sampleGet ?c ''shop'' (PodGVK, ''web-1'') 2 ?d" by (simp add: numeral_2_eq_2)
qed (simp_all add: sampleReader_def)

text \<open>
  C21. The target of a result is never guessed: exactly this is a target of it.  With a reference,
  which must name an API version that can be parsed, a kind and a name, it is the referenced kind
  and name.  Without one, the namespace and the name are the ones of the result (joined by a slash
  they are its name again), the kind is its kind, and the API group comes from the fully qualified
  selector of that kind, if there is exactly one; otherwise only a Pod or a Deployment with a
  namespace has a target, in its built-in group.  Two selectors for the kind decide nothing.
\<close>

theorem resultTarget_exact:
  "resultTarget L config item = Inr (gvk, namespace, name) \<longleftrightarrow>
    (case rs_TargetRef (res_Spec item) of
       Some target \<Rightarrow>
         tg_APIVersion target \<noteq> '''' \<and> tg_Kind target \<noteq> '''' \<and> tg_Name target \<noteq> '''' \<and>
         ParseGroupVersion L (tg_APIVersion target) = Inr (GroupVersion gvk) \<and>
         Kind gvk = tg_Kind target \<and> namespace = tg_Namespace target \<and> name = tg_Name target
     | None \<Rightarrow>
         name \<noteq> '''' \<and> CHR ''/'' \<notin> set name \<and> CHR ''/'' \<notin> set namespace \<and>
         rs_Name (res_Spec item) = (if namespace = '''' then name else namespace @ ''/'' @ name) \<and>
         Kind gvk = rs_Kind (res_Spec item) \<and>
         (let configured = filter (\<lambda>g. Kind g = rs_Kind (res_Spec item)) (configuredGVKs L config) in
            if length configured = 1 then configured = [gvk] else builtin_target gvk \<and> namespace \<noteq> ''''))"
proof (cases "rs_TargetRef (res_Spec item)")
  case None
  show ?thesis
    unfolding resultTarget_legacy [OF None] legacyTarget_iff using None by (auto simp: Let_def length_Suc_conv)
next
  case (Some target)
  then show ?thesis
    by (auto simp: resultTarget_def WithKind_def GroupVersion_def split: if_splits sum.splits)
qed

theorem resultTarget_exact_witness:
  "resultTarget (std_lib [] []) (Some (sampleK8sGPT [''v1/Pod''])) (sampleResult ''Pod'' ''shop/web-1'') =
     Inr (PodGVK, ''shop'', ''web-1'') \<and>
   (\<forall>x. resultTarget (std_lib [] []) (Some (sampleK8sGPT [''a.io/v1/Widget'', ''b.io/v1/Widget'']))
     (sampleResult ''Widget'' ''shop/web-1'') \<noteq> Inr x)"
proof -
  have one: "configuredGVKs (std_lib [] []) (Some (sampleK8sGPT [''v1/Pod''])) = [PodGVK]" by code_simp
  have two: "map Kind (configuredGVKs (std_lib [] []) (Some (sampleK8sGPT [''a.io/v1/Widget'', ''b.io/v1/Widget'']))) =
      [''Widget'', ''Widget'']" by code_simp
  have "resultTarget (std_lib [] []) (Some (sampleK8sGPT [''v1/Pod''])) (sampleResult ''Pod'' ''shop/web-1'') =
      Inr (PodGVK, ''shop'', ''web-1'')"
    by (rule resultTarget_exact [THEN iffD2]) (simp add: sampleResult_def one PodGVK_def)
  moreover have "resultTarget (std_lib [] []) (Some (sampleK8sGPT [''a.io/v1/Widget'', ''b.io/v1/Widget'']))
      (sampleResult ''Widget'' ''shop/web-1'') \<noteq> Inr x" for x
    using two by (cases x) (auto simp: resultTarget_exact sampleResult_def builtin_target_def PodGVK_def Let_def)
  ultimately show ?thesis by blast
qed


end
