(* ===== verification/Util.thy ===== *)
theory Util
  imports Conversions Complex_Main "HOL-Library.Multiset"
begin

text \<open>
  The helpers of \<^verbatim>\<open>internal/controller/util\<close>: exact membership, the similarity score a mutation
  records, the decoding of a stored configuration, and the deduplication of Pods by their owner.
  The lemmas on \<^verbatim>\<open>Deduplicate\<close> say which resources it keeps, in whatever order Go iterates over
  its map, and that it can drop a Pod for one of another namespace.
\<close>

section \<open>Membership and similarity\<close>

fun IsStringInSlice :: "string \<Rightarrow> string list \<Rightarrow> bool" where
  "IsStringInSlice a [] = False"
| "IsStringInSlice a (i # b) = (if i = a then True else IsStringInSlice a b)"

lemma IsStringInSlice_iff [simp]: "IsStringInSlice a b \<longleftrightarrow> a \<in> set b"
  by (induction b) auto

text \<open>
  float64 arithmetic on the values a score can take (zero, or magnitudes far from the limits of
  the exponent): the exact result of an operation, rounded to 53 bits, ties to even.
\<close>

definition round_even :: "rat \<Rightarrow> int" where
  "round_even x =
     (let n = \<lfloor>x\<rfloor>; r = x - of_int n
      in if r > 1/2 \<or> r = 1/2 \<and> odd n then n + 1 else n)"

fun bit_length :: "nat \<Rightarrow> nat" where
  "bit_length n = (if n = 0 then 0 else Suc (bit_length (n div 2)))"

declare bit_length.simps [simp del]

definition float64 :: "rat \<Rightarrow> rat" where
  "float64 x =
     (if x = 0 then 0
      else (case quotient_of x of (p, q) \<Rightarrow>
        (let e = int (bit_length (nat \<bar>p\<bar>)) - int (bit_length (nat q));
             s = (if \<bar>x\<bar> \<ge> power_int 2 e then 52 - e else 53 - e)
         in of_int (round_even (x * power_int 2 s)) / power_int 2 s)))"

text \<open>
  The distance is the one of the package \<^verbatim>\<open>levenshtein\<close>, a parameter.  For two empty texts the
  division is 0/0: not a number, here \<open>None\<close>.
\<close>

definition SimilarityScore :: "(string \<Rightarrow> string \<Rightarrow> nat) \<Rightarrow> string \<Rightarrow> string \<Rightarrow> rat option" where
  "SimilarityScore ComputeDistance text1 text2 =
     (let distance = ComputeDistance text1 text2;
          maxLength = max (length text1) (length text2)
      in if maxLength = 0 then None
         else Some (float64 (float64 (1 - float64 (of_nat distance / of_nat maxLength)) * 100)))"

text \<open>\<^verbatim>\<open>fmt.Sprintf("%f", score)\<close>.\<close>

definition pad6 :: "string \<Rightarrow> string" where
  "pad6 s = replicate (6 - length s) CHR ''0'' @ s"

definition FormatScore :: "rat option \<Rightarrow> string" where
  "FormatScore score =
     (case score of
        None \<Rightarrow> ''NaN''
      | Some x \<Rightarrow>
          (let n = round_even (\<bar>x\<bar> * 1000000)
           in (if x < 0 then ''-'' else '''') @ Itoa (n div 1000000) @ ''.''
              @ pad6 (Itoa (n mod 1000000))))"

section \<open>Stored configurations\<close>

record FromObjectConfig =
  foc_Config :: string
  foc_GvkStr :: string
  foc_Kind :: string
  foc_Name :: string
  foc_Namespace :: string

definition FromConfig :: "k8s_lib \<Rightarrow> FromObjectConfig \<Rightarrow> obj go_result" where
  "FromConfig L objConfig =
     (case ParseGroupVersion L (foc_GvkStr objConfig) of
        Inl err \<Rightarrow> Inl err
      | Inr gv \<Rightarrow>
          (let gvk = WithKind gv (foc_Kind objConfig);
               object = SetGroupVersionKind L gvk []
           in case yaml_Decode L (foc_Config objConfig) object of
                Inl err \<Rightarrow> Inl err
              | Inr decoded \<Rightarrow>
                  Inr (SetNamespace L (foc_Namespace objConfig) (SetName L (foc_Name objConfig) decoded))))"

section \<open>Deduplication\<close>

definition objectOf :: "k8s_lib \<Rightarrow> EligibleResource \<Rightarrow> obj go_result" where
  "objectOf L resource =
     FromConfig L \<lparr>foc_Config = er_OriginConfiguration resource, foc_GvkStr = er_GVK resource,
       foc_Kind = or_Kind (er_ObjectRef resource), foc_Name = or_Name (er_ObjectRef resource),
       foc_Namespace = or_Namespace (er_ObjectRef resource)\<rparr>"

text \<open>The inner loop: the first resource seen for a name of an owner stays.\<close>

fun registerOwners :: "EligibleResource \<Rightarrow> owner_reference list \<Rightarrow> (string \<times> EligibleResource) list
    \<Rightarrow> (string \<times> EligibleResource) list" where
  "registerOwners resource [] owned = owned"
| "registerOwners resource (owner # owners) owned =
     (case map_of owned (own_Name owner) of
        None \<Rightarrow> registerOwners resource owners (owned @ [(own_Name owner, resource)])
      | Some _ \<Rightarrow> registerOwners resource owners owned)"

fun dedupLoop :: "k8s_lib \<Rightarrow> EligibleResource list \<Rightarrow> EligibleResource list
    \<Rightarrow> (string \<times> EligibleResource) list \<Rightarrow> EligibleResource list \<times> (string \<times> EligibleResource) list" where
  "dedupLoop L [] eligible owned = (eligible, owned)"
| "dedupLoop L (resource # rest) eligible owned =
     (if or_Kind (er_ObjectRef resource) \<noteq> ''Pod''
      then dedupLoop L rest (eligible @ [resource]) owned
      else (case objectOf L resource of
              Inl err \<Rightarrow> dedupLoop L rest eligible owned
            | Inr object \<Rightarrow>
                (let ownerReferences = GetOwnerReferences L object in
                 if ownerReferences = [] then dedupLoop L rest (eligible @ [resource]) owned
                 else dedupLoop L rest eligible (registerOwners resource ownerReferences owned))))"

text \<open>\<open>order\<close> is the order in which Go happens to iterate over the map of the owned Pods.\<close>

definition Deduplicate :: "k8s_lib
    \<Rightarrow> ((string \<times> EligibleResource) list \<Rightarrow> (string \<times> EligibleResource) list)
    \<Rightarrow> EligibleResource list \<Rightarrow> EligibleResource list" where
  "Deduplicate L order inp =
     (case dedupLoop L inp [] [] of
        (eligible, owned) \<Rightarrow> eligible @ map snd (order owned))"

section \<open>Facts\<close>

definition ownersOf :: "k8s_lib \<Rightarrow> EligibleResource \<Rightarrow> string list option" where
  "ownersOf L resource =
     (if or_Kind (er_ObjectRef resource) \<noteq> ''Pod'' then Some []
      else (case objectOf L resource of
              Inl _ \<Rightarrow> None
            | Inr object \<Rightarrow> Some (map own_Name (GetOwnerReferences L object))))"

lemma registerOwners_dom:
  "fst ` set (registerOwners r os owned) = fst ` set owned \<union> own_Name ` set os"
proof (induction os arbitrary: owned)
  case (Cons o' os)
  show ?case
  proof (cases "map_of owned (own_Name o')")
    case (Some x)
    then have "own_Name o' \<in> fst ` set owned" by (force dest: map_of_SomeD)
    with Some Cons show ?thesis by auto
  qed (use Cons in auto)
qed simp

lemma registerOwners_distinct:
  "distinct (map fst owned) \<Longrightarrow> distinct (map fst (registerOwners r os owned))"
  by (induction os arbitrary: owned) (auto split: option.split simp: map_of_eq_None_iff)

lemma registerOwners_entries:
  "(n, x) \<in> set (registerOwners r os owned) \<Longrightarrow>
     (n, x) \<in> set owned \<or> x = r \<and> n \<in> own_Name ` set os"
  by (induction os arbitrary: owned) (force split: option.splits)+

text \<open>The loop: what is kept directly, which owners are known, and whose Pods stand for them.\<close>

lemma dedupLoop_result:
  assumes "dedupLoop L inp eligible owned = (es, os)"
  shows "es = eligible @ filter (\<lambda>r. ownersOf L r = Some []) inp \<and>
    (distinct (map fst owned) \<longrightarrow> distinct (map fst os)) \<and>
    fst ` set os = fst ` set owned \<union> (\<Union>r \<in> set inp. case ownersOf L r of None \<Rightarrow> {} | Some ns \<Rightarrow> set ns) \<and>
    (\<forall>(n, x) \<in> set os. (n, x) \<in> set owned \<or> x \<in> set inp \<and> (\<exists>ns. ownersOf L x = Some ns \<and> n \<in> set ns))"
  using assms
proof (induction inp arbitrary: eligible owned)
  case (Cons r rest)
  consider (keep) "ownersOf L r = Some []" "dedupLoop L rest (eligible @ [r]) owned = (es, os)"
    | (skip) "ownersOf L r = None" "dedupLoop L rest eligible owned = (es, os)"
    | (owned) refs where "ownersOf L r = Some (map own_Name refs)" "refs \<noteq> []"
        "dedupLoop L rest eligible (registerOwners r refs owned) = (es, os)"
  proof (cases "or_Kind (er_ObjectRef r) = ''Pod''")
    case True
    show ?thesis
    proof (cases "objectOf L r")
      case (Inl err)
      with True Cons.prems show ?thesis by (intro skip) (simp_all add: ownersOf_def)
    next
      case (Inr object)
      show ?thesis
      proof (cases "GetOwnerReferences L object = []")
        case True
        with Inr \<open>or_Kind _ = _\<close> Cons.prems show ?thesis by (intro keep) (simp_all add: ownersOf_def)
      next
        case False
        with Inr True Cons.prems show ?thesis
          by (intro owned [of "GetOwnerReferences L object"]) (simp_all add: ownersOf_def)
      qed
    qed
  next
    case False
    with Cons.prems show ?thesis by (intro keep) (simp_all add: ownersOf_def)
  qed
  then show ?case
  proof cases
    case keep
    with Cons.IH [OF keep(2)] show ?thesis by auto
  next
    case skip
    with Cons.IH [OF skip(2)] show ?thesis by auto
  next
    case (owned refs)
    note IH = Cons.IH [OF owned(3)]
    let ?reg = "registerOwners r refs owned"
    have "distinct (map fst owned) \<longrightarrow> distinct (map fst os)"
      using conjunct1 [OF conjunct2 [OF IH]] registerOwners_distinct [of owned r refs] by simp
    moreover have "fst ` set os = fst ` set owned \<union>
        (\<Union>r \<in> set (r # rest). case ownersOf L r of None \<Rightarrow> {} | Some ns \<Rightarrow> set ns)"
      using conjunct1 [OF conjunct2 [OF conjunct2 [OF IH]]] owned(1) by (simp add: registerOwners_dom Un_assoc)
    moreover have "(n, x) \<in> set owned \<or> x \<in> set (r # rest) \<and> (\<exists>ns. ownersOf L x = Some ns \<and> n \<in> set ns)"
      if m: "(n, x) \<in> set os" for n x
    proof -
      from bspec [OF conjunct2 [OF conjunct2 [OF conjunct2 [OF IH]]] m]
      have "(n, x) \<in> set ?reg \<or> x \<in> set rest \<and> (\<exists>ns. ownersOf L x = Some ns \<and> n \<in> set ns)"
        by simp
      then show ?thesis using registerOwners_entries [of n x r refs owned] owned(1) by auto
    qed
    moreover have "es = eligible @ filter (\<lambda>r. ownersOf L r = Some []) (r # rest)"
      using conjunct1 [OF IH] owned(1,2) by simp
    ultimately show ?thesis by blast
  qed
qed simp


section \<open>Properties\<close>

text \<open>
  Deduplication keeps, first and in their order, every resource that is not a Pod and every
  Pod without owners; after them comes, in some order, one resource for each name of an owner of
  an owned Pod, a Pod with such an owner.  Nothing is invented, and every owner of an owned Pod
  is represented, whatever the order in which Go iterates over its map.
\<close>

theorem Deduplicate_one_per_owner:
  assumes "\<And>xs. mset (order xs) = mset xs"
  shows "\<exists>reps.
    Deduplicate L order inp = filter (\<lambda>r. ownersOf L r = Some []) inp @ map snd (order reps) \<and>
    distinct (map fst reps) \<and>
    fst ` set (order reps) = (\<Union>r \<in> set inp. case ownersOf L r of None \<Rightarrow> {} | Some ns \<Rightarrow> set ns) \<and>
    (\<forall>(n, x) \<in> set (order reps). x \<in> set inp \<and> (\<exists>ns. ownersOf L x = Some ns \<and> n \<in> set ns))"
proof -
  obtain es os where l: "dedupLoop L inp [] [] = (es, os)" by (cases "dedupLoop L inp [] []")
  have "set (order os) = set os" using assms by (rule mset_eq_setD)
  with dedupLoop_result [OF l] l show ?thesis by (intro exI [of _ os]) (simp add: Deduplicate_def)
qed

definition samplePod :: "string \<Rightarrow> string \<Rightarrow> obj" where
  "samplePod namespace name =
     [(''apiVersion'', JStr ''v1''), (''kind'', JStr ''Pod''),
      (''metadata'', JObj [(''name'', JStr name), (''namespace'', JStr namespace),
         (''ownerReferences'', JArr [JObj [(''apiVersion'', JStr ''apps/v1''),
            (''kind'', JStr ''StatefulSet''), (''name'', JStr ''db''), (''uid'', JStr ''u'')]])])]"

definition samplePodResource :: "string \<Rightarrow> string \<Rightarrow> EligibleResource" where
  "samplePodResource namespace config =
     \<lparr>er_ResultRef = \<lparr>or_Kind = ''Result'', or_Namespace = ''ops'', or_Name = ''r'' @ config, or_UID = '''',
        or_APIVersion = '''', or_ResourceVersion = ''''\<rparr>,
      er_ObjectRef = \<lparr>or_Kind = ''Pod'', or_Namespace = namespace, or_Name = ''db-0'', or_UID = '''',
        or_APIVersion = ''v1'', or_ResourceVersion = ''''\<rparr>,
      er_GVK = ''v1'', er_OriginConfiguration = config\<rparr>"

definition samplePods :: "EligibleResource list" where
  "samplePods = [samplePodResource ''blue'' ''pod1'', samplePodResource ''green'' ''pod2'']"

definition samplePodLib :: k8s_lib where
  "samplePodLib =
     std_lib [(''pod1'', samplePod ''blue'' ''db-0''), (''pod2'', samplePod ''green'' ''db-0'')] []"

theorem Deduplicate_one_per_owner_witness:
  "\<exists>reps :: (string \<times> EligibleResource) list. Deduplicate samplePodLib rev samplePods =
      filter (\<lambda>r. ownersOf samplePodLib r = Some []) samplePods @ map snd (rev reps) \<and>
    distinct (map fst reps)"
  using Deduplicate_one_per_owner [of rev samplePodLib samplePods, OF mset_rev] by blast

text \<open>
  The owners are told apart by their name alone: of two Pods in different namespaces, each
  owned by a StatefulSet of the same name, only the first one is kept, so the finding on the
  other one gets no mutation.
\<close>

theorem Deduplicate_mixes_namespaces:
  "Deduplicate samplePodLib (\<lambda>xs. xs) samplePods = [samplePodResource ''blue'' ''pod1''] \<and>
   or_Namespace (er_ObjectRef (samplePodResource ''green'' ''pod2'')) = ''green''"
proof
  have "dedupLoop samplePodLib samplePods [] [] = ([], [(''db'', samplePodResource ''blue'' ''pod1'')])"
    by code_simp
  then show "Deduplicate samplePodLib (\<lambda>xs. xs) samplePods = [samplePodResource ''blue'' ''pod1'']"
    by (simp add: Deduplicate_def)
qed (simp add: samplePodResource_def)

end
