(* ===== verification/Policy_Gate.thy ===== *)
theory Policy_Gate
  imports Gate_Diff
begin

text \<open>
  The remediation policy gate (\<^verbatim>\<open>internal/controller/remediation/policy/gate.go\<close>): the registry of
  resource policies, the path rules, and \<^verbatim>\<open>Evaluate\<close>, which admits a proposal only when it is the
  same object, unchanged since the snapshot, and differs from it at a bounded number of
  allowlisted paths.  The lemmas say exactly when a proposal is admitted, that a rejection always
  has one reason and no patch, that every path of an admitted patch is an image of a container
  for the registered kinds, and that the patch turns the live object into the proposal.
\<close>

section \<open>Data\<close>

definition defaultMaxChangedPaths :: int where
  "defaultMaxChangedPaths = 1"

definition AllowedPathsAnnotation :: string where
  "AllowedPathsAnnotation = ''core.k8sgpt.ai/auto-remediation-allowed-paths''"

record Input =
  Original :: "obj option"
  Live :: "obj option"
  Proposed :: "obj option"
  MaxChangedPaths :: int

record Decision =
  Allowed :: bool
  Reasons :: "string list"
  Changes :: "Change list"
  Patch :: "PatchOperation list"

record ResourcePolicy =
  pol_GVK :: group_version_kind
  AllowedPath :: "string \<Rightarrow> bool"

definition rejected :: "string \<Rightarrow> Decision" where
  "rejected reason = \<lparr>Allowed = False, Reasons = [reason], Changes = [], Patch = []\<rparr>"

definition rejectedWithChanges :: "Change list \<Rightarrow> string \<Rightarrow> Decision" where
  "rejectedWithChanges changes reason =
     \<lparr>Allowed = False, Reasons = [reason], Changes = changes, Patch = []\<rparr>"

section \<open>Paths\<close>

definition imagePath :: "string \<Rightarrow> string \<Rightarrow> bool" where
  "imagePath pre path =
     (if \<not> HasPrefix path pre \<or> \<not> HasSuffix path ''/image'' then False
      else (let middle = TrimSuffix (TrimPrefix path pre) ''/image'' in
            if middle = '''' \<or> Contains middle ''/'' then False
            else list_all is_digit middle))"

definition podImagePath :: "string \<Rightarrow> bool" where
  "podImagePath path \<longleftrightarrow>
     imagePath ''/spec/containers/'' path \<or> imagePath ''/spec/initContainers/'' path"

definition podTemplateImagePath :: "string \<Rightarrow> bool" where
  "podTemplateImagePath path \<longleftrightarrow>
     imagePath ''/spec/template/spec/containers/'' path \<or>
     imagePath ''/spec/template/spec/initContainers/'' path"

definition cronJobImagePath :: "string \<Rightarrow> bool" where
  "cronJobImagePath path \<longleftrightarrow>
     imagePath ''/spec/jobTemplate/spec/template/spec/containers/'' path \<or>
     imagePath ''/spec/jobTemplate/spec/template/spec/initContainers/'' path"

definition highRiskPrefixes :: "string list" where
  "highRiskPrefixes =
     [''/metadata/ownerReferences'', ''/metadata/finalizers'', ''/metadata/managedFields'',
      ''/metadata/annotations'', ''/metadata/labels'', ''/status'', ''/spec/serviceAccountName'',
      ''/spec/hostNetwork'', ''/spec/hostPID'', ''/spec/hostIPC'', ''/spec/securityContext'',
      ''/spec/containers'', ''/spec/initContainers'', ''/spec/template/spec/serviceAccountName'',
      ''/spec/template/spec/hostNetwork'', ''/spec/template/spec/hostPID'',
      ''/spec/template/spec/hostIPC'', ''/spec/template/spec/securityContext'',
      ''/spec/template/spec/containers'', ''/spec/template/spec/initContainers'']"

definition isHighRisk :: "string \<Rightarrow> bool" where
  "isHighRisk path =
     list_ex (\<lambda>pre.
         (path = pre \<or> HasPrefix path (pre @ ''/'')) \<and>
         \<not> (HasSuffix path ''/image'' \<and>
            (Contains pre ''/containers'' \<or> Contains pre ''/initContainers'')))
       highRiskPrefixes"

section \<open>The registry\<close>

definition registered :: "string \<Rightarrow> string \<Rightarrow> string \<Rightarrow> (string \<Rightarrow> bool)
    \<Rightarrow> group_version_kind \<times> ResourcePolicy" where
  "registered g v k allowed =
     (let gvk = \<lparr>Group = g, Version = v, Kind = k\<rparr>
      in (gvk, \<lparr>pol_GVK = gvk, AllowedPath = allowed\<rparr>))"

definition registeredPolicies :: "(group_version_kind \<times> ResourcePolicy) list" where
  "registeredPolicies =
     [registered '''' ''v1'' ''Pod'' podImagePath,
      registered ''apps'' ''v1'' ''Deployment'' podTemplateImagePath,
      registered ''apps'' ''v1'' ''DaemonSet'' podTemplateImagePath,
      registered ''apps'' ''v1'' ''StatefulSet'' podTemplateImagePath,
      registered ''apps'' ''v1'' ''ReplicaSet'' podTemplateImagePath,
      registered ''batch'' ''v1'' ''Job'' podTemplateImagePath,
      registered ''batch'' ''v1'' ''CronJob'' cronJobImagePath]"

text \<open>
  The keys of the registry sorted by their text.  The order in which Go iterates over the map
  is irrelevant for keys with different texts; the model iterates in the order of the table.
\<close>

definition RegisteredGVKs :: "k8s_lib \<Rightarrow> group_version_kind list" where
  "RegisteredGVKs L = sort_key (GVK_String L) (map fst registeredPolicies)"

text \<open>The set of allowed paths of the annotation, as the list of its members.\<close>

definition annotationAllowedPaths :: "k8s_lib \<Rightarrow> obj \<Rightarrow> string list" where
  "annotationAllowedPaths L object =
     (let val = (case map_of (GetAnnotations L object) AllowedPathsAnnotation of
                   None \<Rightarrow> '''' | Some v \<Rightarrow> v)
      in remdups (filter (\<lambda>path. HasPrefix path ''/'') (map TrimSpace (Split val CHR '',''))))"

section \<open>Identity\<close>

definition sameIdentity :: "k8s_lib \<Rightarrow> obj \<Rightarrow> obj \<Rightarrow> bool" where
  "sameIdentity L a b \<longleftrightarrow>
     GetAPIVersion L a = GetAPIVersion L b \<and> GetKind L a = GetKind L b \<and>
     GetNamespace L a = GetNamespace L b \<and> GetName L a = GetName L b"

definition liveMatchesOriginal :: "k8s_lib \<Rightarrow> obj \<Rightarrow> obj \<Rightarrow> string" where
  "liveMatchesOriginal L original live =
     (if GetUID L original = '''' \<or> GetUID L live = '''' \<or> GetUID L original \<noteq> GetUID L live
      then ''live object UID does not match the proposal snapshot''
      else if GetResourceVersion L original = '''' \<or> GetResourceVersion L live = '''' \<or>
              GetResourceVersion L original \<noteq> GetResourceVersion L live
      then ''live object resourceVersion does not match the proposal snapshot''
      else if \<not> sameIdentity L original live
      then ''live object identity does not match the proposal snapshot''
      else '''')"

definition proposedMatchesLive :: "k8s_lib \<Rightarrow> obj \<Rightarrow> obj \<Rightarrow> string" where
  "proposedMatchesLive L proposed live =
     (if \<not> sameIdentity L proposed live
      then ''proposed object must exactly match target apiVersion, kind, namespace, and name''
      else if GetUID L proposed \<noteq> '''' \<and> GetUID L proposed \<noteq> GetUID L live
      then ''proposed object UID does not match target''
      else if GetResourceVersion L proposed \<noteq> '''' \<and>
              GetResourceVersion L proposed \<noteq> GetResourceVersion L live
      then ''proposed object resourceVersion does not match target''
      else if GetGenerateName L proposed \<noteq> GetGenerateName L live
      then ''proposed object generateName does not match target''
      else '''')"

section \<open>Evaluate\<close>

text \<open>The loop over the changes: all of them, the ones still to check, and the patch so far.\<close>

fun checkChanges :: "(string \<Rightarrow> bool) \<Rightarrow> Change list \<Rightarrow> Change list \<Rightarrow> PatchOperation list \<Rightarrow> Decision"
where
  "checkChanges allowed changes [] patch =
     \<lparr>Allowed = True, Reasons = [], Changes = changes, Patch = patch\<rparr>"
| "checkChanges allowed changes (c # cs) patch =
     (if isHighRisk (Path c)
      then rejectedWithChanges changes (''high-risk path is forbidden: '' @ Path c)
      else if \<not> allowed (Path c)
      then rejectedWithChanges changes (''path is not allowlisted: '' @ Path c)
      else if Old c = JNull \<or> New c = JNull
      then rejectedWithChanges changes (''add/remove operation is forbidden: '' @ Path c)
      else checkChanges allowed changes cs
             (patch @ [\<lparr>Op = ''replace'', OpPath = Path c, OpValue = New c\<rparr>]))"

text \<open>The checks of the diff, from the normalisation to the end of \<^verbatim>\<open>Evaluate\<close>.\<close>

definition evaluateChanges :: "(string \<Rightarrow> bool) \<Rightarrow> int \<Rightarrow> Change list \<Rightarrow> Decision" where
  "evaluateChanges allowed maxChangedPaths changes =
     (let limit = (if maxChangedPaths = 0 then defaultMaxChangedPaths else maxChangedPaths) in
      if changes = [] then rejectedWithChanges changes ''proposal makes no semantic change''
      else if limit < 0
      then rejectedWithChanges changes ''max changed paths must not be negative''
      else if int (length changes) > limit
      then rejectedWithChanges changes
             (''proposal changes '' @ Itoa (int (length changes)) @ '' paths; maximum is '' @ Itoa limit)
      else checkChanges allowed changes changes [])"

definition resourcePolicyFor :: "k8s_lib \<Rightarrow> obj \<Rightarrow> ResourcePolicy option" where
  "resourcePolicyFor L live =
     (let gvk = GroupVersionKind_of L live in
      case map_of registeredPolicies gvk of
        Some pol \<Rightarrow> Some pol
      | None \<Rightarrow>
          (let paths = annotationAllowedPaths L live in
           if paths = [] then None
           else Some \<lparr>pol_GVK = gvk, AllowedPath = (\<lambda>path. List.member paths path)\<rparr>))"

definition isPod :: "group_version_kind \<Rightarrow> bool" where
  "isPod gvk \<longleftrightarrow> Group gvk = '''' \<and> Version gvk = ''v1'' \<and> Kind gvk = ''Pod''"

definition Evaluate :: "k8s_lib \<Rightarrow> Input \<Rightarrow> Decision" where
  "Evaluate L inp =
     (case (Original inp, Live inp, Proposed inp) of
        (Some original, Some live, Some proposed) \<Rightarrow>
          (let reason = liveMatchesOriginal L original live in
           if reason \<noteq> '''' then rejected reason
           else let reason = proposedMatchesLive L proposed live in
           if reason \<noteq> '''' then rejected reason
           else let gvk = GroupVersionKind_of L live in
           case resourcePolicyFor L live of
             None \<Rightarrow>
               rejected (''no remediation policy registered for GVK '' @ GVK_String L gvk @ ''; set ''
                 @ AllowedPathsAnnotation @ '' to explicit JSON Pointer paths'')
           | Some resourcePolicy \<Rightarrow>
               if isPod gvk \<and> GetOwnerReferences L live \<noteq> []
               then rejected ''owned Pods are not remediated directly; target the owning workload instead''
               else evaluateChanges (AllowedPath resourcePolicy) (MaxChangedPaths inp)
                      (diff '''' (normalized live) (normalized proposed)))
      | _ \<Rightarrow> rejected ''original, live, and proposed objects are required'')"

text \<open>
  \<^verbatim>\<open>ParseYAMLProposal\<close>: YAML to JSON to a map; a text that denotes null or \<^verbatim>\<open>{}\<close> is refused.
\<close>

definition ParseYAMLProposal :: "k8s_lib \<Rightarrow> string \<Rightarrow> obj go_result" where
  "ParseYAMLProposal L data =
     (case ToJSON L data of
        Inl e \<Rightarrow> Inl (Errorf_w ''convert proposed YAML to JSON: '' e)
      | Inr jsonData \<Rightarrow>
          (case json_Unmarshal_object L jsonData of
             Inl e \<Rightarrow> Inl (Errorf_w ''decode proposed object: '' e)
           | Inr object \<Rightarrow>
               if object = [] then Inl (Errorf ''proposed object is empty'') else Inr object))"

section \<open>Path rules\<close>

lemma imagePath_iff [go_path]:
  "imagePath pre path \<longleftrightarrow>
     (\<exists>idx. path = pre @ idx @ ''/image'' \<and> idx \<noteq> [] \<and> list_all is_digit idx)"
proof
  assume img: "imagePath pre path"
  then obtain r where r: "path = pre @ r" by (auto simp: imagePath_def HasPrefix_iff split: if_splits)
  define middle where "middle = TrimSuffix r ''/image''"
  have m: "middle \<noteq> []" "\<not> Contains middle ''/''" "list_all is_digit middle"
    using img by (auto simp: imagePath_def r middle_def Let_def split: if_splits)
  have "HasSuffix r ''/image''"
  proof (rule ccontr)
    assume no: "\<not> HasSuffix r ''/image''"
    then have "middle = r" by (simp add: middle_def TrimSuffix_def)
    then have digits: "list_all is_digit r" "r \<noteq> []" using m by simp_all
    have "HasSuffix path ''/image''" using img by (simp add: imagePath_def split: if_splits)
    then obtain q where q: "pre @ r = q @ ''/image''" by (auto simp: HasSuffix_iff r)
    have "last (pre @ r) = CHR ''e''" using q by (metis last_appendR last_ConsR last.simps list.discI)
    then have "last r = CHR ''e''" using digits(2) by simp
    moreover have "is_digit (last r)" using digits by (simp add: list_all_iff)
    ultimately show False by (simp add: is_digit_iff)
  qed
  then obtain q where "r = q @ ''/image''" by (auto simp: HasSuffix_iff)
  then have "r = middle @ ''/image''" by (simp add: middle_def)
  with r m show "\<exists>idx. path = pre @ idx @ ''/image'' \<and> idx \<noteq> [] \<and> list_all is_digit idx" by blast
next
  assume "\<exists>idx. path = pre @ idx @ ''/image'' \<and> idx \<noteq> [] \<and> list_all is_digit idx"
  then obtain idx where idx: "path = pre @ idx @ ''/image''" "idx \<noteq> []" "list_all is_digit idx" by blast
  have "CHR ''/'' \<notin> set idx" using idx(3) by (auto simp: list_all_iff is_digit_iff)
  moreover have "HasSuffix path ''/image''"
    unfolding HasSuffix_iff using idx(1) by (metis append.assoc)
  ultimately show "imagePath pre path"
    using idx by (simp add: imagePath_def Contains_char)
qed

text \<open>
  What the gate needs of a resource policy: it allows exactly the image paths below its roots,
  and such a path is never high risk.
\<close>

locale image_policy =
  fixes allowed :: "string \<Rightarrow> bool" and roots :: "string list"
  assumes allowed_roots: "allowed p \<longleftrightarrow> (\<exists>r \<in> set roots. imagePath r p)"
    and roots_not_high_risk: "r \<in> set roots \<Longrightarrow> imagePath r p \<Longrightarrow> \<not> isHighRisk p"
begin

lemma allowed_form:
  "allowed p \<longleftrightarrow>
     (\<exists>r \<in> set roots. \<exists>idx. p = r @ idx @ ''/image'' \<and> idx \<noteq> [] \<and> list_all is_digit idx)"
  by (simp add: allowed_roots imagePath_iff)

lemma allowed_not_high_risk: "allowed p \<Longrightarrow> \<not> isHighRisk p"
  using allowed_roots roots_not_high_risk by blast

lemma allowed_ends_in_image: "allowed p \<Longrightarrow> HasSuffix p ''/image''"
  by (auto simp: allowed_form HasSuffix_iff)

end

definition imageRoots :: "string list" where
  "imageRoots =
     [''/spec/containers/'', ''/spec/initContainers/'', ''/spec/template/spec/containers/'',
      ''/spec/template/spec/initContainers/'', ''/spec/jobTemplate/spec/template/spec/containers/'',
      ''/spec/jobTemplate/spec/template/spec/initContainers/'']"

text \<open>No image root is comparable with a high-risk prefix that is not one of containers.\<close>

lemma imageRoots_apart:
  "list_all (\<lambda>r. list_all (\<lambda>q. Contains q ''/containers'' \<or> Contains q ''/initContainers'' \<or>
       \<not> HasPrefix r q \<and> \<not> HasPrefix q r) highRiskPrefixes) imageRoots"
  by code_simp

lemma HasPrefix_comparable: "HasPrefix (r @ s) q \<Longrightarrow> HasPrefix r q \<or> HasPrefix q r"
  by (auto simp: HasPrefix_iff append_eq_append_conv2)

lemma HasPrefix_trans: "HasPrefix s (q @ t) \<Longrightarrow> HasPrefix s q"
  by (auto simp: HasPrefix_iff)

lemma image_root_not_high_risk:
  assumes r: "r \<in> set imageRoots" and p: "imagePath r p"
  shows "\<not> isHighRisk p"
proof
  from p obtain idx where idx: "p = r @ idx @ ''/image''" by (auto simp: imagePath_iff)
  have "HasSuffix p ''/image''" unfolding idx HasSuffix_iff by (metis append.assoc)
  moreover assume "isHighRisk p"
  ultimately obtain q where q: "q \<in> set highRiskPrefixes" "p = q \<or> HasPrefix p (q @ ''/'')"
    "\<not> Contains q ''/containers''" "\<not> Contains q ''/initContainers''"
    by (auto simp: isHighRisk_def list_ex_iff)
  have "HasPrefix p q" using q(2) HasPrefix_append [of q "[]"] HasPrefix_trans by auto
  then have "HasPrefix r q \<or> HasPrefix q r" using HasPrefix_comparable idx by metis
  with q r imageRoots_apart show False by (auto simp: list_all_iff)
qed

interpretation pod_policy: image_policy podImagePath "[''/spec/containers/'', ''/spec/initContainers/'']"
proof unfold_locales
  fix r p assume "r \<in> set [''/spec/containers/'', ''/spec/initContainers/'']" "imagePath r p"
  then show "\<not> isHighRisk p" by (intro image_root_not_high_risk) (auto simp: imageRoots_def)
qed (auto simp: podImagePath_def)

interpretation template_policy: image_policy podTemplateImagePath
  "[''/spec/template/spec/containers/'', ''/spec/template/spec/initContainers/'']"
proof unfold_locales
  fix r p
  assume "r \<in> set [''/spec/template/spec/containers/'', ''/spec/template/spec/initContainers/'']"
    "imagePath r p"
  then show "\<not> isHighRisk p" by (intro image_root_not_high_risk) (auto simp: imageRoots_def)
qed (auto simp: podTemplateImagePath_def)

interpretation cronjob_policy: image_policy cronJobImagePath
  "[''/spec/jobTemplate/spec/template/spec/containers/'',
    ''/spec/jobTemplate/spec/template/spec/initContainers/'']"
proof unfold_locales
  fix r p
  assume "r \<in> set [''/spec/jobTemplate/spec/template/spec/containers/'',
      ''/spec/jobTemplate/spec/template/spec/initContainers/'']" "imagePath r p"
  then show "\<not> isHighRisk p" by (intro image_root_not_high_risk) (auto simp: imageRoots_def)
qed (auto simp: cronJobImagePath_def)

section \<open>Decisions\<close>

definition decisionWellFormed :: "Decision \<Rightarrow> bool" where
  "decisionWellFormed d \<longleftrightarrow>
     (if Allowed d then Reasons d = [] \<and> Patch d = map replace_op (Changes d) \<and> Changes d \<noteq> []
      else length (Reasons d) = 1 \<and> Patch d = [])"

definition change_ok :: "(string \<Rightarrow> bool) \<Rightarrow> Change \<Rightarrow> bool" where
  "change_ok allowed c \<longleftrightarrow>
     \<not> isHighRisk (Path c) \<and> allowed (Path c) \<and> Old c \<noteq> JNull \<and> New c \<noteq> JNull"

lemma rejected_simps [simp]:
  "\<not> Allowed (rejected r)" "Reasons (rejected r) = [r]" "Patch (rejected r) = []"
  "Changes (rejected r) = []" "\<not> Allowed (rejectedWithChanges cs r)"
  "Reasons (rejectedWithChanges cs r) = [r]" "Patch (rejectedWithChanges cs r) = []"
  "Changes (rejectedWithChanges cs r) = cs"
  by (simp_all add: rejected_def rejectedWithChanges_def)

lemma checkChanges_result:
  "if list_all (change_ok allowed) cs
   then checkChanges allowed changes cs patch =
     \<lparr>Allowed = True, Reasons = [], Changes = changes, Patch = patch @ map replace_op cs\<rparr>
   else \<exists>r. checkChanges allowed changes cs patch = rejectedWithChanges changes r"
proof (induction cs arbitrary: patch)
  case (Cons c cs)
  then show ?case
    by (cases "change_ok allowed c") (auto simp: change_ok_def replace_op_def)
qed simp

lemma checkChanges_allowed:
  "Allowed (checkChanges allowed changes cs patch) \<longleftrightarrow> list_all (change_ok allowed) cs"
  using checkChanges_result [of allowed cs changes patch] by (auto split: if_splits)

lemma checkChanges_wf:
  "changes \<noteq> [] \<Longrightarrow> decisionWellFormed (checkChanges allowed changes changes [])"
  using checkChanges_result [of allowed changes changes "[]"]
  by (auto simp: decisionWellFormed_def split: if_splits)

definition path_limit :: "int \<Rightarrow> int" where
  "path_limit n = (if n = 0 then 1 else n)"

lemma evaluateChanges_allowed:
  "Allowed (evaluateChanges allowed n changes) \<longleftrightarrow>
     changes \<noteq> [] \<and> int (length changes) \<le> path_limit n \<and> list_all (change_ok allowed) changes"
  by (auto simp: evaluateChanges_def checkChanges_allowed path_limit_def defaultMaxChangedPaths_def Let_def)

lemma evaluateChanges_changes: "Changes (evaluateChanges allowed n changes) = changes"
  using checkChanges_result [of allowed changes changes "[]"]
  by (auto simp: evaluateChanges_def Let_def split: if_splits)

lemma evaluateChanges_wf: "decisionWellFormed (evaluateChanges allowed n changes)"
  by (auto simp: evaluateChanges_def checkChanges_wf Let_def) (simp_all add: decisionWellFormed_def)

text \<open>The checks on identity that do not look at the difference.\<close>

definition sameObject :: "k8s_lib \<Rightarrow> obj \<Rightarrow> obj \<Rightarrow> obj \<Rightarrow> bool" where
  "sameObject L original live proposed \<longleftrightarrow>
     GetUID L original \<noteq> '''' \<and> GetUID L original = GetUID L live \<and>
     GetResourceVersion L original \<noteq> '''' \<and>
     GetResourceVersion L original = GetResourceVersion L live \<and>
     sameIdentity L original live \<and> sameIdentity L proposed live \<and>
     GetUID L proposed \<in> {'''', GetUID L live} \<and>
     GetResourceVersion L proposed \<in> {'''', GetResourceVersion L live} \<and>
     GetGenerateName L proposed = GetGenerateName L live"

lemma sameObject_iff:
  "sameObject L original live proposed \<longleftrightarrow>
     liveMatchesOriginal L original live = '''' \<and> proposedMatchesLive L proposed live = ''''"
  by (auto simp: sameObject_def liveMatchesOriginal_def proposedMatchesLive_def)

definition gate_changes :: "obj \<Rightarrow> obj \<Rightarrow> Change list" where
  "gate_changes live proposed = diff '''' (normalized live) (normalized proposed)"

lemma Evaluate_cases:
  obtains (nil) "Original inp = None \<or> Live inp = None \<or> Proposed inp = None" "\<not> Allowed (Evaluate L inp)"
      "decisionWellFormed (Evaluate L inp)"
  | (rejected) original live proposed r where "Original inp = Some original" "Live inp = Some live"
      "Proposed inp = Some proposed" "Evaluate L inp = rejected r"
      "\<not> (sameObject L original live proposed \<and> resourcePolicyFor L live \<noteq> None \<and>
          \<not> (isPod (GroupVersionKind_of L live) \<and> GetOwnerReferences L live \<noteq> []))"
  | (checked) original live proposed pol where "Original inp = Some original" "Live inp = Some live"
      "Proposed inp = Some proposed" "sameObject L original live proposed"
      "resourcePolicyFor L live = Some pol"
      "\<not> (isPod (GroupVersionKind_of L live) \<and> GetOwnerReferences L live \<noteq> [])"
      "Evaluate L inp = evaluateChanges (AllowedPath pol) (MaxChangedPaths inp) (gate_changes live proposed)"
proof (cases "Original inp = None \<or> Live inp = None \<or> Proposed inp = None")
  case True
  then show ?thesis
    by (intro nil) (auto simp: Evaluate_def decisionWellFormed_def split: option.splits)
next
  case False
  then obtain original live proposed where some: "Original inp = Some original"
    "Live inp = Some live" "Proposed inp = Some proposed" by auto
  show ?thesis
  proof (cases "sameObject L original live proposed \<and> resourcePolicyFor L live \<noteq> None \<and>
      \<not> (isPod (GroupVersionKind_of L live) \<and> GetOwnerReferences L live \<noteq> [])")
    case True
    then obtain pol where "resourcePolicyFor L live = Some pol" by auto
    with True some show ?thesis
      by (intro checked [OF some]) (auto simp: Evaluate_def sameObject_iff gate_changes_def)
  next
    case no: False
    then have "\<exists>r. Evaluate L inp = rejected r"
      using some by (auto simp: Evaluate_def sameObject_iff Let_def split: option.splits)
    then show ?thesis using rejected [OF some] no by blast
  qed
qed

lemma Evaluate_wf: "decisionWellFormed (Evaluate L inp)"
proof (cases rule: Evaluate_cases [of inp L])
  case (checked original live proposed pol)
  then show ?thesis by (simp only: evaluateChanges_wf)
next
  case (rejected original live proposed r)
  then show ?thesis by (simp add: decisionWellFormed_def)
qed

lemma Evaluate_allowed_iff:
  "Allowed (Evaluate L inp) \<longleftrightarrow>
     (\<exists>original live proposed pol.
        Original inp = Some original \<and> Live inp = Some live \<and> Proposed inp = Some proposed \<and>
        sameObject L original live proposed \<and> resourcePolicyFor L live = Some pol \<and>
        \<not> (isPod (GroupVersionKind_of L live) \<and> GetOwnerReferences L live \<noteq> []) \<and>
        gate_changes live proposed \<noteq> [] \<and>
        int (length (gate_changes live proposed)) \<le> path_limit (MaxChangedPaths inp) \<and>
        list_all (change_ok (AllowedPath pol)) (gate_changes live proposed))"
  by (cases rule: Evaluate_cases [of inp L]) (auto simp: evaluateChanges_allowed)

lemma Evaluate_allowed_parts:
  assumes "Allowed (Evaluate L inp)"
  obtains original live proposed pol where "Original inp = Some original" "Live inp = Some live"
    "Proposed inp = Some proposed" "sameObject L original live proposed"
    "resourcePolicyFor L live = Some pol"
    "\<not> (isPod (GroupVersionKind_of L live) \<and> GetOwnerReferences L live \<noteq> [])"
    "Changes (Evaluate L inp) = gate_changes live proposed" "Changes (Evaluate L inp) \<noteq> []"
    "Patch (Evaluate L inp) = map replace_op (gate_changes live proposed)"
    "int (length (Changes (Evaluate L inp))) \<le> path_limit (MaxChangedPaths inp)"
    "list_all (change_ok (AllowedPath pol)) (gate_changes live proposed)"
proof (cases rule: Evaluate_cases [of inp L])
  case (checked original live proposed pol)
  have "decisionWellFormed (Evaluate L inp)" by (rule Evaluate_wf)
  with checked assms that [of original live proposed pol] show ?thesis
    by (auto simp: evaluateChanges_allowed evaluateChanges_changes decisionWellFormed_def)
qed (use assms in auto)

lemma Evaluate_allowed_at:
  assumes "Allowed (Evaluate L inp)" and "Live inp = Some live" and "Proposed inp = Some proposed"
  shows "Patch (Evaluate L inp) = map replace_op (gate_changes live proposed) \<and>
    (\<exists>pol. resourcePolicyFor L live = Some pol \<and>
       list_all (change_ok (AllowedPath pol)) (gate_changes live proposed))"
proof -
  from assms(1) obtain original live' proposed' pol where "Live inp = Some live'"
    "Proposed inp = Some proposed'" "resourcePolicyFor L live' = Some pol"
    "Patch (Evaluate L inp) = map replace_op (gate_changes live' proposed')"
    "list_all (change_ok (AllowedPath pol)) (gate_changes live' proposed')"
    by (rule Evaluate_allowed_parts)
  with assms(2,3) show ?thesis by simp
qed

section \<open>A sample object\<close>

text \<open>A Deployment with one container, on which the theorems are applied.\<close>

definition sampleDeployment :: "string \<Rightarrow> obj" where
  "sampleDeployment img =
     [(''apiVersion'', JStr ''apps/v1''), (''kind'', JStr ''Deployment''),
      (''metadata'', JObj [(''name'', JStr ''web''), (''namespace'', JStr ''shop''),
         (''uid'', JStr ''u1''), (''resourceVersion'', JStr ''10'')]),
      (''spec'', JObj [(''paused'', JBool False),
         (''template'', JObj [(''spec'', JObj [(''containers'', JArr [JObj
            [(''name'', JStr ''app''), (''image'', JStr img)]])])])])]"

definition sampleInput :: "string \<Rightarrow> Input" where
  "sampleInput img =
     \<lparr>Original = Some (sampleDeployment ''app:1''), Live = Some (sampleDeployment ''app:1''),
      Proposed = Some (sampleDeployment img), MaxChangedPaths = 0\<rparr>"

text \<open>A ConfigMap whose owner opts one data key into remediation.\<close>

definition sampleConfigMap :: "string \<Rightarrow> obj" where
  "sampleConfigMap level =
     [(''apiVersion'', JStr ''v1''), (''kind'', JStr ''ConfigMap''),
      (''metadata'', JObj [(''name'', JStr ''settings''), (''namespace'', JStr ''shop''),
         (''uid'', JStr ''u2''), (''resourceVersion'', JStr ''7''),
         (''annotations'', JObj [(AllowedPathsAnnotation, JStr ''/data/log-level'')])]),
      (''data'', JObj [(''log-level'', JStr level)])]"

definition sampleConfigInput :: "string \<Rightarrow> Input" where
  "sampleConfigInput level =
     \<lparr>Original = Some (sampleConfigMap ''info''), Live = Some (sampleConfigMap ''info''),
      Proposed = Some (sampleConfigMap level), MaxChangedPaths = 0\<rparr>"

lemma sample_allowed: "Allowed (Evaluate (std_lib [] []) (sampleInput ''app:2''))"
  by code_simp

lemma sample_config_allowed: "Allowed (Evaluate (std_lib [] []) (sampleConfigInput ''debug''))"
  by code_simp

section \<open>Properties\<close>

text \<open>
  C1. Admission, exactly: a proposal is admitted if and only if the snapshot, the live object
  and the proposal are there, they are the same object with the UID and the resource version of
  the snapshot, a policy applies to it, it is not an owned Pod, and the semantic difference has
  at least one change, at most the permitted number of changes, and only replacements of a value
  by a value at paths the policy allows and that are not high risk.
\<close>

theorem gate_admission:
  "Allowed (Evaluate L inp) \<longleftrightarrow>
     (\<exists>original live proposed pol.
        Original inp = Some original \<and> Live inp = Some live \<and> Proposed inp = Some proposed \<and>
        sameObject L original live proposed \<and> resourcePolicyFor L live = Some pol \<and>
        \<not> (isPod (GroupVersionKind_of L live) \<and> GetOwnerReferences L live \<noteq> []) \<and>
        gate_changes live proposed \<noteq> [] \<and>
        int (length (gate_changes live proposed)) \<le> path_limit (MaxChangedPaths inp) \<and>
        list_all (change_ok (AllowedPath pol)) (gate_changes live proposed))"
  by (rule Evaluate_allowed_iff)

text \<open>
  C2. The patch of an admitted proposal, applied to the live object as RFC 6902 says, succeeds;
  the object it gives agrees with the proposal everywhere but in the status and the metadata the
  API server owns, and it is the live object at every location that is not at or below a path of
  the patch.
\<close>

theorem gate_patch_realises_proposal:
  assumes "Allowed (Evaluate L inp)" and "Live inp = Some live" and "Proposed inp = Some proposed"
  shows "\<exists>r. apply_patch (Patch (Evaluate L inp)) (deepCopy (JObj live)) = Some r \<and>
    (\<forall>us. \<not> volatile us \<longrightarrow> shape (at r us) = shape (at (deepCopy (JObj proposed)) us)) \<and>
    (\<forall>us. (\<forall>ts. pointer ts \<in> OpPath ` set (Patch (Evaluate L inp)) \<longrightarrow> \<not> prefix ts us) \<longrightarrow>
       shape (at r us) = shape (at (deepCopy (JObj live)) us))"
proof -
  note at = Evaluate_allowed_at [OF assms]
  then have patch: "Patch (Evaluate L inp) = map replace_op (gate_changes live proposed)" by simp
  from at obtain pol :: ResourcePolicy where ok: "list_all (change_ok (AllowedPath pol)) (gate_changes live proposed)"
    by blast
  have paths: "OpPath ` set (map replace_op cs) = Path ` set cs" for cs
    by (auto simp: replace_op_def image_iff)
  have nn: "Old c \<noteq> JNull" if "c \<in> set (diff '''' (normalized live) (normalized proposed))" for c
    using ok that by (auto simp: list_all_iff change_ok_def gate_changes_def)
  show ?thesis unfolding patch paths gate_changes_def by (rule diff_patch_correct [OF nn])
qed

theorem gate_patch_realises_proposal_witness:
  "\<exists>r. apply_patch (Patch (Evaluate (std_lib [] []) (sampleInput ''app:2'')))
      (deepCopy (JObj (sampleDeployment ''app:1''))) = Some r \<and>
    at r [''spec'', ''template'', ''spec'', ''containers'', ''0'', ''image''] = JStr ''app:2''"
proof -
  let ?us = "[''spec'', ''template'', ''spec'', ''containers'', ''0'', ''image'']"
  obtain r where r: "apply_patch (Patch (Evaluate (std_lib [] []) (sampleInput ''app:2'')))
      (deepCopy (JObj (sampleDeployment ''app:1''))) = Some r"
    "\<And>us. \<not> volatile us \<Longrightarrow> shape (at r us) = shape (at (deepCopy (JObj (sampleDeployment ''app:2''))) us)"
    using gate_patch_realises_proposal [OF sample_allowed, of "sampleDeployment ''app:1''"
        "sampleDeployment ''app:2''"]
    by (auto simp: sampleInput_def)
  have nv: "\<not> volatile ?us" by simp
  have "at (deepCopy (JObj (sampleDeployment ''app:2''))) ?us = JStr ''app:2''" by code_simp
  with r(2) [OF nv] have "shape (at r ?us) = JStr ''app:2''" by simp
  then have "at r ?us = JStr ''app:2''" by (simp only: shape_eq_simps)
  with r(1) show ?thesis by blast
qed

text \<open>What the policies of the registered kinds allow.\<close>

lemma registered_images:
  assumes "Allowed (Evaluate L inp)" and "Live inp = Some live"
    and "map_of registeredPolicies (GroupVersionKind_of L live) = Some pol"
    and "op \<in> set (Patch (Evaluate L inp))"
  shows "Op op = ''replace'' \<and>
    (\<exists>root idx. root \<in> set imageRoots \<and> OpPath op = root @ idx @ ''/image'' \<and>
       idx \<noteq> [] \<and> list_all is_digit idx)"
proof -
  from assms(1) obtain proposed where "Patch (Evaluate L inp) = map replace_op (gate_changes live proposed)"
    "list_all (change_ok (AllowedPath pol)) (gate_changes live proposed)"
    by (rule Evaluate_allowed_parts) (use assms(2,3) in \<open>auto simp: resourcePolicyFor_def\<close>)
  with assms(4) have op: "Op op = ''replace''" "AllowedPath pol (OpPath op)"
    by (auto simp: replace_op_def list_all_iff change_ok_def)
  have "AllowedPath pol \<in> {podImagePath, podTemplateImagePath, cronJobImagePath}"
    using assms(3) by (auto simp: registeredPolicies_def registered_def Let_def split: if_splits)
  with op(2) have "\<exists>root \<in> set imageRoots. imagePath root (OpPath op)"
    by (auto simp: imageRoots_def pod_policy.allowed_roots template_policy.allowed_roots
        cronjob_policy.allowed_roots)
  with op(1) show ?thesis by (auto simp: imagePath_iff)
qed

text \<open>
  C6. For a registered kind (the workloads the operator may repair) every operation of an
  admitted patch replaces the image of one container or init container: its path is one of the
  container lists, a decimal index, and \<^verbatim>\<open>/image\<close>.
\<close>

theorem gate_registered_image_only:
  assumes "Allowed (Evaluate L inp)" and "Live inp = Some live"
    and "map_of registeredPolicies (GroupVersionKind_of L live) = Some pol"
    and "op \<in> set (Patch (Evaluate L inp))"
  shows "Op op = ''replace'' \<and>
    (\<exists>root idx. root \<in> set imageRoots \<and> OpPath op = root @ idx @ ''/image'' \<and>
       idx \<noteq> [] \<and> list_all is_digit idx)"
  using assms by (rule registered_images)

theorem gate_registered_image_only_witness:
  "list_all (\<lambda>op. \<exists>root idx. root \<in> set imageRoots \<and> OpPath op = root @ idx @ ''/image'' \<and>
       idx \<noteq> [] \<and> list_all is_digit idx) (Patch (Evaluate (std_lib [] []) (sampleInput ''app:2'')))"
proof (rule iffD2 [OF list_all_iff], rule ballI)
  fix op assume op: "op \<in> set (Patch (Evaluate (std_lib [] []) (sampleInput ''app:2'')))"
  have live: "Live (sampleInput ''app:2'') = Some (sampleDeployment ''app:1'')"
    by (simp add: sampleInput_def)
  have "GroupVersionKind_of (std_lib [] []) (sampleDeployment ''app:1'') =
      \<lparr>Group = ''apps'', Version = ''v1'', Kind = ''Deployment''\<rparr>" by code_simp
  then have "map_of registeredPolicies (GroupVersionKind_of (std_lib [] []) (sampleDeployment ''app:1'')) =
      Some (snd (registered ''apps'' ''v1'' ''Deployment'' podTemplateImagePath))"
    by (simp add: registeredPolicies_def registered_def Let_def)
  from gate_registered_image_only [OF sample_allowed live this op]
  show "\<exists>root idx. root \<in> set imageRoots \<and> OpPath op = root @ idx @ ''/image'' \<and>
       idx \<noteq> [] \<and> list_all is_digit idx" by blast
qed

text \<open>
  What no repair may touch, written out: the status, the parts of the metadata that other controllers
  own, and the identity, the host namespaces and the security settings of a pod, for a pod and for the
  template of a workload.  Of their containers, only the image.
\<close>

definition podSpecRoots :: "string list" where
  "podSpecRoots = [''/spec'', ''/spec/template/spec'']"

definition protectedAreas :: "string list" where
  "protectedAreas =
     ''/status'' # map ((@) ''/metadata/'') [''ownerReferences'', ''finalizers'', ''managedFields'', ''annotations'', ''labels''] @
     [root @ ''/'' @ part. root \<leftarrow> podSpecRoots,
        part \<leftarrow> [''serviceAccountName'', ''hostNetwork'', ''hostPID'', ''hostIPC'', ''securityContext'']]"

definition containerAreas :: "string list" where
  "containerAreas = [root @ ''/'' @ part. root \<leftarrow> podSpecRoots, part \<leftarrow> [''containers'', ''initContainers'']]"

definition at_or_below :: "string \<Rightarrow> string \<Rightarrow> bool" where
  "at_or_below area path \<longleftrightarrow> path = area \<or> (\<exists>rest. path = area @ ''/'' @ rest)"

lemma isHighRisk_iff:
  "isHighRisk path \<longleftrightarrow> list_ex (\<lambda>area. at_or_below area path) protectedAreas \<or>
     list_ex (\<lambda>area. at_or_below area path) containerAreas \<and> \<not> HasSuffix path ''/image''"
proof -
  have areas: "map (\<lambda>q. (q, Contains q ''/containers'' \<or> Contains q ''/initContainers'')) highRiskPrefixes =
      map (\<lambda>q. (q, q \<in> set containerAreas)) highRiskPrefixes"
    "set highRiskPrefixes = set protectedAreas \<union> set containerAreas" "set protectedAreas \<inter> set containerAreas = {}"
    by code_simp+
  have exempt: "Contains q ''/containers'' \<or> Contains q ''/initContainers'' \<longleftrightarrow> q \<in> set containerAreas"
    if "q \<in> set highRiskPrefixes" for q
    using areas(1) that by simp
  have below: "path = q \<or> HasPrefix path (q @ ''/'') \<longleftrightarrow> at_or_below q path" for q
    by (simp add: at_or_below_def HasPrefix_iff)
  have "isHighRisk path \<longleftrightarrow> (\<exists>q \<in> set highRiskPrefixes. at_or_below q path \<and>
      \<not> (HasSuffix path ''/image'' \<and> q \<in> set containerAreas))"
    unfolding isHighRisk_def list_ex_iff below by (rule bex_cong) (simp_all add: exempt)
  then show ?thesis unfolding areas(2) list_ex_iff using areas(3) by blast
qed

text \<open>
  C19. For a kind that is not registered, an admitted patch changes only paths that the owner of
  the live object listed in its annotation.  And whatever the policy, no operation of an admitted
  patch is at or below the status, the owner references, finalizers, managed fields, annotations or
  labels of the object, or the service account, a host namespace or the security context of a pod
  or of the template of a workload; and of their containers and init containers it changes nothing
  but an image.
\<close>

theorem gate_scope:
  assumes "Allowed (Evaluate L inp)" and "Live inp = Some live"
    and "op \<in> set (Patch (Evaluate L inp))"
  shows "(map_of registeredPolicies (GroupVersionKind_of L live) = None \<longrightarrow>
      OpPath op \<in> set (annotationAllowedPaths L live)) \<and>
    (\<forall>area \<in> set protectedAreas. \<not> at_or_below area (OpPath op)) \<and>
    (\<forall>area \<in> set containerAreas. at_or_below area (OpPath op) \<longrightarrow> HasSuffix (OpPath op) ''/image'')"
proof -
  from assms(1) obtain proposed pol where "Patch (Evaluate L inp) = map replace_op (gate_changes live proposed)"
    and pol: "resourcePolicyFor L live = Some pol"
    and "list_all (change_ok (AllowedPath pol)) (gate_changes live proposed)"
    by (rule Evaluate_allowed_parts) (use assms(2) in auto)
  with assms(3) have op: "\<not> isHighRisk (OpPath op)" "AllowedPath pol (OpPath op)"
    by (auto simp: replace_op_def list_all_iff change_ok_def)
  have "OpPath op \<in> set (annotationAllowedPaths L live)"
    if "map_of registeredPolicies (GroupVersionKind_of L live) = None"
    using that pol op(2) by (auto simp: resourcePolicyFor_def Let_def split: if_splits)
  with op(1) show ?thesis by (auto simp: isHighRisk_iff list_ex_iff)
qed

theorem gate_scope_witness:
  "list_all (\<lambda>op. OpPath op \<in> set (annotationAllowedPaths (std_lib [] []) (sampleConfigMap ''info'')) \<and>
       list_all (\<lambda>area. \<not> at_or_below area (OpPath op)) protectedAreas)
     (Patch (Evaluate (std_lib [] []) (sampleConfigInput ''debug'')))"
proof (rule iffD2 [OF list_all_iff], rule ballI)
  fix op assume op: "op \<in> set (Patch (Evaluate (std_lib [] []) (sampleConfigInput ''debug'')))"
  have live: "Live (sampleConfigInput ''debug'') = Some (sampleConfigMap ''info'')"
    by (simp add: sampleConfigInput_def)
  have "GroupVersionKind_of (std_lib [] []) (sampleConfigMap ''info'') =
      \<lparr>Group = '''', Version = ''v1'', Kind = ''ConfigMap''\<rparr>" by code_simp
  then have "map_of registeredPolicies (GroupVersionKind_of (std_lib [] []) (sampleConfigMap ''info'')) = None"
    by (simp add: registeredPolicies_def registered_def Let_def)
  with gate_scope [OF sample_config_allowed live op]
  show "OpPath op \<in> set (annotationAllowedPaths (std_lib [] []) (sampleConfigMap ''info'')) \<and>
       list_all (\<lambda>area. \<not> at_or_below area (OpPath op)) protectedAreas"
    unfolding list_all_iff by (elim conjE) (intro conjI; blast)
qed

text \<open>
  Every decision can be audited: a rejection gives exactly one reason (so that reading the
  first reason is safe) and no patch, an admission no reason, at least one change and one
  replacement per change, in their order.
\<close>

theorem gate_decision_auditable:
  "(if Allowed (Evaluate L inp)
    then Reasons (Evaluate L inp) = [] \<and> Changes (Evaluate L inp) \<noteq> [] \<and>
      Patch (Evaluate L inp) = map replace_op (Changes (Evaluate L inp))
    else length (Reasons (Evaluate L inp)) = 1 \<and> Patch (Evaluate L inp) = [])"
  using Evaluate_wf [of L inp] by (auto simp: decisionWellFormed_def)

text \<open>
  C24. The paths of a difference are unambiguous: no two changes have the same path, and each
  path is the JSON Pointer of a location where the live and the proposed object differ, holding
  the old and the new value of the change.
\<close>

theorem diff_paths_unambiguous:
  "distinct (map Path (diff '''' old new)) \<and>
   list_all (\<lambda>c. \<exists>ts. parse_pointer (Path c) = Some ts \<and> Old c = at old ts \<and> New c = at new ts \<and>
      shape (Old c) \<noteq> shape (New c)) (diff '''' old new)"
proof
  show "list_all (\<lambda>c. \<exists>ts. parse_pointer (Path c) = Some ts \<and> Old c = at old ts \<and> New c = at new ts \<and>
      shape (Old c) \<noteq> shape (New c)) (diff '''' old new)"
    unfolding list_all_iff by (auto elim!: diff_mem)
qed (rule diff_paths_distinct)

text \<open>
  The gate reports no change exactly when the proposal agrees with the live object at every
  location outside the status and the metadata the API server owns.
\<close>

theorem gate_no_change_iff:
  "gate_changes live proposed = [] \<longleftrightarrow>
     (\<forall>us. volatile us \<or>
        shape (at (deepCopy (JObj live)) us) = shape (at (deepCopy (JObj proposed)) us))"
  by (auto simp: gate_changes_def diff_Nil_iff shape_at_normalized)

text \<open>
  The registry: the sorted list of the registered kinds is ordered by their text and holds
  each registered kind once, whatever text the library gives them.
\<close>

theorem RegisteredGVKs_sorted:
  "sorted (map (GVK_String L) (RegisteredGVKs L)) \<and> distinct (RegisteredGVKs L) \<and>
   set (RegisteredGVKs L) = dom (map_of registeredPolicies)"
proof -
  have "distinct (map fst registeredPolicies)"
    by (simp add: registeredPolicies_def registered_def Let_def)
  then show ?thesis by (simp add: RegisteredGVKs_def dom_map_of_conv_image_fst)
qed

end
