(* ===== verification/Image_Proposal.thy ===== *)
theory Image_Proposal
  imports Policy_Gate
begin

text \<open>
  The candidate object of a remediation (\<^verbatim>\<open>internal/controller/mutation/image_proposal.go\<close>): the
  compact answer of the query service names one container and one image, and the operator writes
  that image into its own copy of the manifest.  The lemmas show that such a candidate differs
  from the manifest, for the gate, at most at the image of one container.
\<close>

section \<open>The code\<close>

definition containerPaths :: "string list list" where
  "containerPaths =
     [[''spec'', ''containers''], [''spec'', ''initContainers''],
      [''spec'', ''template'', ''spec'', ''containers''],
      [''spec'', ''template'', ''spec'', ''initContainers''],
      [''spec'', ''jobTemplate'', ''spec'', ''template'', ''spec'', ''containers''],
      [''spec'', ''jobTemplate'', ''spec'', ''template'', ''spec'', ''initContainers'']]"

text \<open>The inner loop: the list with the image of the first container of that name replaced.\<close>

fun replaceImage :: "string \<Rightarrow> string \<Rightarrow> val list \<Rightarrow> val list option" where
  "replaceImage name img [] = None"
| "replaceImage name img (v # vs) =
     (case v of
        JObj container \<Rightarrow>
          if field container ''name'' \<noteq> JStr name then map_option ((#) v) (replaceImage name img vs)
          else Some (JObj (AList.update ''image'' (JStr img) container) # vs)
      | _ \<Rightarrow> map_option ((#) v) (replaceImage name img vs))"

text \<open>
  The outer loop.  The Go function writes into its object and returns whether it did; here the
  written object is the result, and \<open>None\<close> is false.
\<close>

fun setImageIn :: "k8s_lib \<Rightarrow> obj \<Rightarrow> string \<Rightarrow> string \<Rightarrow> string list list \<Rightarrow> obj option" where
  "setImageIn L object name img [] = None"
| "setImageIn L object name img (path # paths) =
     (case NestedSlice L object path of
        Inl err \<Rightarrow> setImageIn L object name img paths
      | Inr None \<Rightarrow> setImageIn L object name img paths
      | Inr (Some containers) \<Rightarrow>
          (case replaceImage name img containers of
             None \<Rightarrow> setImageIn L object name img paths
           | Some containers' \<Rightarrow>
               (case SetNestedSlice L object containers' path of
                  Inl err \<Rightarrow> None
                | Inr object' \<Rightarrow> Some object')))"

definition setContainerImage :: "k8s_lib \<Rightarrow> obj \<Rightarrow> string \<Rightarrow> string \<Rightarrow> obj option" where
  "setContainerImage L object name img = setImageIn L object name img containerPaths"

definition stripFence :: "string \<Rightarrow> string" where
  "stripFence response = TrimSpace (TrimPrefix (TrimSuffix (TrimSpace response) ''```'') ''```json'')"

definition isManifest :: "k8s_lib \<Rightarrow> string \<Rightarrow> bool" where
  "isManifest L response =
     (case ParseYAMLProposal L response of
        Inl err \<Rightarrow> False
      | Inr object \<Rightarrow> GetAPIVersion L object \<noteq> '''' \<and> GetKind L object \<noteq> '''')"

definition imageSelectionProposal :: "k8s_lib \<Rightarrow> string \<Rightarrow> string \<Rightarrow> string go_result" where
  "imageSelectionProposal L origin response =
     (if isManifest L response then Inr response
      else (case json_Unmarshal_selection L (stripFence response) of
              Inl err \<Rightarrow> Inl (Errorf_w ''response must be a JSON image selection: '' err)
            | Inr selection \<Rightarrow>
                if sel_Container selection = '''' \<or> sel_Image selection = '''' \<or>
                   ContainsAny (sel_Image selection) [CHR 0x0A, CHR 0x0D]
                then Inl (Errorf ''response must include non-empty container and image'')
                else (case ParseYAMLProposal L origin of
                        Inl err \<Rightarrow> Inl err
                      | Inr object \<Rightarrow>
                          (case setContainerImage L object (sel_Container selection) (sel_Image selection) of
                             None \<Rightarrow> Inl (Errorf (''container '' @ Quote (sel_Container selection)
                                      @ '' is not present in the target manifest''))
                           | Some object' \<Rightarrow> yaml_Marshal L object'))))"

section \<open>One difference\<close>

lemma at_deepCopy: "at (deepCopy v) us = deepCopy (at v us)"
proof (induction v us rule: at.induct)
  case (3 xs t ts)
  show ?case
  proof (cases "array_index t (length xs)")
    case (Some i)
    then have "i < length xs" by (simp add: array_index_Some)
    with Some 3 show ?thesis by simp
  qed simp
qed simp_all

lemma sorted_wrt_parallelD:
  "sorted_wrt parallel xs \<Longrightarrow> a \<in> set xs \<Longrightarrow> b \<in> set xs \<Longrightarrow> prefix a b \<Longrightarrow> a = b"
  by (induction xs) (auto simp: parallel_def)

lemma shape_deepCopy: "shape v = shape w \<Longrightarrow> shape (deepCopy v) = shape (deepCopy w)"
  by (cases v; cases w) auto

lemma one_path:
  assumes "\<forall>c \<in> set cs. Path c = p \<and> New c = x" and "distinct (map Path cs)"
  shows "cs = [] \<or> (\<exists>c. cs = [c] \<and> Path c = p \<and> New c = x)"
proof (cases cs)
  case (Cons c ds)
  with assms show ?thesis by (cases ds) auto
qed simp

text \<open>
  Two values that agree outside the location \<open>p\<close>, where the new one is a string, differ at most
  there.
\<close>

lemma diff_one:
  assumes same: "\<And>us. \<not> prefix p us \<Longrightarrow> shape (at old us) = shape (at new us)"
    and new: "at new p = JStr s"
  shows "diff '''' old new = [] \<or>
    (\<exists>c. diff '''' old new = [c] \<and> Path c = pointer p \<and> New c = JStr s)"
proof -
  have here: "Path c = pointer p \<and> New c = JStr s" if c: "c \<in> set (diff '''' old new)" for c
  proof -
    from c obtain ts where ts: "Path c = pointer ts" "New c = at new ts"
      "shape (Old c) \<noteq> shape (New c)" "Old c = at old ts" "(ts, Old c, New c) \<in> set (tdiff old new)"
      by (auto elim!: diff_mem)
    have "prefix p ts" using same ts by metis
    then obtain us where us: "ts = p @ us" by (auto elim: prefixE)
    have "us = []"
    proof (rule ccontr)
      assume ne: "us \<noteq> []"
      then have nj: "at new ts = JNull" using us new by (cases us) (simp_all add: at_append)
      have "shape (at old p) \<noteq> shape (at new p)"
      proof
        assume "shape (at old p) = shape (at new p)"
        then have "at old p = JStr s" using new by simp
        then have "at old ts = JNull" using us ne by (cases us) (simp_all add: at_append)
        with nj ts show False by simp
      qed
      then obtain ts' where t': "ts' \<in> fst ` set (tdiff old new)" "prefix ts' p"
        using tdiff_complete by blast
      then have "prefix ts' ts" "ts' \<noteq> ts" using us ne by (auto simp: prefix_def)
      moreover have "ts \<in> fst ` set (tdiff old new)" using ts(5) by force
      ultimately show False
        using sorted_wrt_parallelD [OF tdiff_parallel, of ts' old new ts] t'(1) by simp
    qed
    with us ts new show ?thesis by simp
  qed
  moreover have "distinct (map Path (diff '''' old new))" by (rule diff_paths_distinct)
  ultimately show ?thesis by (intro one_path) blast+
qed

section \<open>Lists inside an object\<close>

text \<open>
  What the proposal needs of the library: \<^verbatim>\<open>NestedSlice\<close> returns the list at a path, and
  \<^verbatim>\<open>SetNestedSlice\<close> stores a list at a path that holds one and changes nothing beside it.
\<close>

locale nested_slices =
  fixes L :: k8s_lib
  assumes read: "NestedSlice L m path = Inr (Some xs) \<Longrightarrow> at (JObj m) path = JArr xs"
    and write_below: "NestedSlice L m path = Inr (Some ys) \<Longrightarrow> SetNestedSlice L m xs path = Inr m' \<Longrightarrow>
      at (JObj m') (path @ us) = at (JArr xs) us"
    and write_beside: "NestedSlice L m path = Inr (Some ys) \<Longrightarrow> SetNestedSlice L m xs path = Inr m' \<Longrightarrow>
      \<not> prefix path us \<Longrightarrow> shape (at (JObj m') us) = shape (at (JObj m) us)"

lemma replaceImage_Some:
  assumes "replaceImage name img vs = Some vs'"
  shows "\<exists>i m. i < length vs \<and> vs ! i = JObj m \<and> field m ''name'' = JStr name \<and>
    vs' = vs[i := JObj (AList.update ''image'' (JStr img) m)]"
  using assms
proof (induction vs arbitrary: vs')
  case (Cons v vs)
  show ?case
  proof (cases "\<exists>m. v = JObj m \<and> field m ''name'' = JStr name")
    case True
    with Cons.prems show ?thesis by (intro exI [of _ 0]) auto
  next
    case False
    with Cons.prems obtain ws where "replaceImage name img vs = Some ws" "vs' = v # ws"
      by (cases v) auto
    with Cons.IH [of ws] obtain i m where "i < length vs" "vs ! i = JObj m"
      "field m ''name'' = JStr name" "vs' = (v # vs)[Suc i := JObj (AList.update ''image'' (JStr img) m)]"
      by auto
    then show ?thesis by (intro exI [of _ "Suc i"]) auto
  qed
qed simp

lemma setImageIn_Some:
  assumes "setImageIn L object name img paths = Some object'"
  shows "\<exists>path containers containers'. path \<in> set paths \<and>
    NestedSlice L object path = Inr (Some containers) \<and> replaceImage name img containers = Some containers' \<and>
    SetNestedSlice L object containers' path = Inr object'"
  using assms by (induction paths) (auto split: sum.splits option.splits)

text \<open>Updating one field of one element of a list changes only that field.\<close>

lemma at_update_image:
  assumes "i < length xs" and "xs ! i = JObj m"
    and "\<not> prefix [Itoa_nat i, k] us"
  shows "shape (at (JArr (xs[i := JObj (AList.update k v m)])) us) = shape (at (JArr xs) us)"
proof (cases us)
  case (Cons t ts)
  show ?thesis
  proof (cases "t = Itoa_nat i")
    case True
    with assms Cons show ?thesis
      by (cases ts) (auto simp: at_JArr_index elem_or_nil_def simp del: at.simps(3))
  next
    case False
    show ?thesis by (simp only: Cons at_update_other [OF assms(1) False])
  qed
qed simp

lemma containerPaths_roots:
  assumes "path \<in> set containerPaths"
  shows "(\<exists>root \<in> set imageRoots. pointer (path @ [Itoa_nat i, ''image'']) = root @ Itoa_nat i @ ''/image'')
    \<and> (\<exists>ts. path = ''spec'' # ts)"
  using assms unfolding containerPaths_def list.set insert_iff empty_iff
  by (elim disjE; simp add: imageRoots_def)

context nested_slices
begin

lemma setContainerImage_at:
  assumes "setContainerImage L object name img = Some object'"
  shows "\<exists>path i. path \<in> set containerPaths \<and>
    at (JObj object') (path @ [Itoa_nat i, ''image'']) = JStr img \<and>
    at (JObj object) (path @ [Itoa_nat i, ''name'']) = JStr name \<and>
    (\<forall>us. \<not> prefix (path @ [Itoa_nat i, ''image'']) us \<longrightarrow>
       shape (at (JObj object') us) = shape (at (JObj object) us))"
proof -
  from assms obtain path cs cs' where p: "path \<in> set containerPaths"
    "NestedSlice L object path = Inr (Some cs)" "replaceImage name img cs = Some cs'"
    "SetNestedSlice L object cs' path = Inr object'"
    unfolding setContainerImage_def by (meson setImageIn_Some)
  from replaceImage_Some [OF p(3)] obtain i m where i: "i < length cs" "cs ! i = JObj m"
    "field m ''name'' = JStr name" "cs' = cs[i := JObj (AList.update ''image'' (JStr img) m)]" by blast
  note below = write_below [OF p(2,4)] and old = read [OF p(2)]
  have "at (JObj object') (path @ [Itoa_nat i, ''image'']) = JStr img"
    unfolding below using i by (simp add: at_JArr_index elem_or_nil_def del: at.simps(3))
  moreover have "at (JObj object) (path @ [Itoa_nat i, ''name'']) = JStr name"
    unfolding at_append old using i by (simp add: at_JArr_index elem_or_nil_def del: at.simps(3))
  moreover have "shape (at (JObj object') us) = shape (at (JObj object) us)"
    if np: "\<not> prefix (path @ [Itoa_nat i, ''image'']) us" for us
  proof (cases "prefix path us")
    case True
    then obtain vs where vs: "us = path @ vs" by (auto elim: prefixE)
    with np have "\<not> prefix [Itoa_nat i, ''image''] vs" by simp
    from at_update_image [OF i(1,2) this] have "shape (at (JArr cs') vs) = shape (at (JArr cs) vs)"
      by (simp only: i(4))
    moreover have "at (JObj object) us = at (JArr cs) vs" unfolding vs at_append old ..
    moreover have "at (JObj object') us = at (JArr cs') vs" unfolding vs by (rule below)
    ultimately show ?thesis by simp
  next
    case False
    from write_beside [OF p(2,4) this] show ?thesis .
  qed
  ultimately show ?thesis using p(1) by blast
qed

text \<open>For the gate, the candidate differs from the manifest at most at that image.\<close>

lemma setContainerImage_changes:
  assumes "setContainerImage L object name img = Some object'"
  shows "gate_changes object object' = [] \<or>
    (\<exists>c root idx. gate_changes object object' = [c] \<and> New c = JStr img \<and> root \<in> set imageRoots \<and>
       idx \<noteq> [] \<and> list_all is_digit idx \<and> Path c = root @ idx @ ''/image'')"
proof -
  from assms obtain path i where p: "path \<in> set containerPaths"
    "at (JObj object') (path @ [Itoa_nat i, ''image'']) = JStr img"
    "\<And>us. \<not> prefix (path @ [Itoa_nat i, ''image'']) us \<Longrightarrow>
       shape (at (JObj object') us) = shape (at (JObj object) us)"
    using setContainerImage_at by meson
  let ?p = "path @ [Itoa_nat i, ''image'']"
  from containerPaths_roots [OF p(1)] obtain root where
    root: "root \<in> set imageRoots" "pointer ?p = root @ Itoa_nat i @ ''/image''"
    and spec: "\<exists>ts. path = ''spec'' # ts" by blast
  have same: "shape (at (normalized object) us) = shape (at (normalized object') us)"
    if "\<not> prefix ?p us" for us
    using shape_deepCopy [OF p(3) [OF that]] by (simp only: shape_at_normalized at_deepCopy)
  have "shape (at (normalized object') ?p) = JStr img"
    using spec p(2) by (cases path; cases "tl path") (auto simp: shape_at_normalized at_deepCopy)
  then have new: "at (normalized object') ?p = JStr img" by (simp only: shape_eq_simps)
  from diff_one [OF same new] have "gate_changes object object' = [] \<or>
      (\<exists>c. gate_changes object object' = [c] \<and> Path c = pointer ?p \<and> New c = JStr img)"
    unfolding gate_changes_def .
  moreover have "Itoa_nat i \<noteq> []" "list_all is_digit (Itoa_nat i)"
    using Itoa_nat_digits by (simp_all add: list_all_iff)
  ultimately show ?thesis using root by metis
qed

end

section \<open>The instance\<close>

lemma val_at_path_at: "val_at_path v path = Some x \<Longrightarrow> at v path = x"
  by (induction v path rule: val_at_path.induct) (auto simp: field_def split: option.splits)

lemma set_at_path_at:
  assumes "set_at_path path v m = Some m'" and "val_at_path (JObj m) path = Some x"
  shows "at (JObj m') (path @ us) = at v us \<and>
    (\<not> prefix path us \<longrightarrow> shape (at (JObj m') us) = shape (at (JObj m) us))"
  using assms
proof (induction path v m arbitrary: m' us rule: set_at_path.induct)
  case (2 k v m)
  then show ?case by (cases us) auto
next
  case (3 k k2 ks v m)
  from "3.prems"(2) obtain w where w: "map_of m k = Some w" "val_at_path w (k2 # ks) = Some x"
    by (auto split: option.splits)
  then obtain mm where mm: "w = JObj mm" by (cases w) auto
  with "3.prems"(1) w obtain m2 where m2: "set_at_path (k2 # ks) v mm = Some m2"
    "m' = AList.update k (JObj m2) m" by auto
  have f: "field m k = JObj mm" using w mm by (simp add: field_def)
  note IH = "3.IH"(2) [OF w(1) mm m2(1) w(2) [unfolded mm]]
  have "at (JObj m') ((k # k2 # ks) @ us) = at v us" using IH m2(2) by simp
  moreover have "shape (at (JObj m') us) = shape (at (JObj m) us)" if "\<not> prefix (k # k2 # ks) us"
    using that IH m2(2) f by (cases us) (auto simp del: at.simps(3))
  ultimately show ?case by blast
qed auto

interpretation std_slices: nested_slices "std_lib docs sels"
proof unfold_locales
  fix m path xs
  assume "NestedSlice (std_lib docs sels) m path = Inr (Some xs)"
  then have "val_at_path (JObj m) path = Some (JArr xs)"
    by (auto simp: std_lib_def split: option.splits json.splits)
  then show "at (JObj m) path = JArr xs" by (rule val_at_path_at)
next
  fix m path ys xs m' us
  assume "NestedSlice (std_lib docs sels) m path = Inr (Some ys)"
    and "SetNestedSlice (std_lib docs sels) m xs path = Inr m'"
  then have *: "set_at_path path (JArr xs) m = Some m'" "val_at_path (JObj m) path = Some (JArr ys)"
    by (auto simp: std_lib_def split: option.splits json.splits)
  from set_at_path_at [OF *] show "at (JObj m') (path @ us) = at (JArr xs) us"
    and "\<not> prefix path us \<Longrightarrow> shape (at (JObj m') us) = shape (at (JObj m) us)" by auto
qed


section \<open>Properties\<close>

text \<open>
  C10. The compact answer of the query service can only ask for one image.  When the answer is
  not a manifest of its own, the candidate that is stored is the text of an object that differs
  from the original manifest, for the gate, at no path or at exactly one: the image of one
  container or init container, whose new value is the image of the answer; and the answer named
  a container and an image without line breaks.
\<close>

theorem selection_changes_one_image:
  assumes "nested_slices L" and "\<not> isManifest L response"
    and "imageSelectionProposal L origin response = Inr proposal"
  shows "\<exists>selection object object'.
    json_Unmarshal_selection L (stripFence response) = Inr selection \<and>
    ParseYAMLProposal L origin = Inr object \<and> yaml_Marshal L object' = Inr proposal \<and>
    sel_Container selection \<noteq> '''' \<and> sel_Image selection \<noteq> '''' \<and>
    CHR 0x0A \<notin> set (sel_Image selection) \<and> CHR 0x0D \<notin> set (sel_Image selection) \<and>
    (gate_changes object object' = [] \<or>
     (\<exists>c root idx. gate_changes object object' = [c] \<and> New c = JStr (sel_Image selection) \<and>
        root \<in> set imageRoots \<and> idx \<noteq> [] \<and> list_all is_digit idx \<and> Path c = root @ idx @ ''/image''))"
proof -
  from assms(2,3) obtain selection object object' where
    s: "json_Unmarshal_selection L (stripFence response) = Inr selection"
      "ParseYAMLProposal L origin = Inr object" "yaml_Marshal L object' = Inr proposal"
      "sel_Container selection \<noteq> ''''" "sel_Image selection \<noteq> ''''"
      "\<not> ContainsAny (sel_Image selection) [CHR 0x0A, CHR 0x0D]"
      "setContainerImage L object (sel_Container selection) (sel_Image selection) = Some object'"
    by (auto simp: imageSelectionProposal_def split: sum.splits option.splits if_splits)
  from nested_slices.setContainerImage_changes [OF assms(1) s(7)] s show ?thesis
    by (auto simp: ContainsAny_iff)
qed

definition sampleDocs :: "(string \<times> obj) list" where
  "sampleDocs = [(''one'', sampleDeployment ''app:1''), (''two'', sampleDeployment ''app:2'')]"

definition sampleAnswers :: "(string \<times> image_selection) list" where
  "sampleAnswers = [(''pick'', \<lparr>sel_Container = ''app'', sel_Image = ''app:2''\<rparr>)]"

theorem selection_changes_one_image_witness:
  "\<exists>object'. yaml_Marshal (std_lib sampleDocs sampleAnswers) object' = Inr ''two'' \<and>
     (gate_changes (sampleDeployment ''app:1'') object' = [] \<or>
      (\<exists>c. gate_changes (sampleDeployment ''app:1'') object' = [c] \<and> New c = JStr ''app:2''))"
proof -
  let ?L = "std_lib sampleDocs sampleAnswers"
  have "\<not> isManifest ?L ''pick''" by code_simp
  moreover have "imageSelectionProposal ?L ''one'' ''pick'' = Inr ''two''" by code_simp
  ultimately obtain selection object object' where
    "json_Unmarshal_selection ?L (stripFence ''pick'') = Inr selection"
    "ParseYAMLProposal ?L ''one'' = Inr object" "yaml_Marshal ?L object' = Inr ''two''"
    "gate_changes object object' = [] \<or>
     (\<exists>c. gate_changes object object' = [c] \<and> New c = JStr (sel_Image selection))"
    using selection_changes_one_image [OF std_slices.nested_slices_axioms, of sampleDocs
        sampleAnswers "''pick''" "''one''" "''two''"] by metis
  moreover have "json_Unmarshal_selection ?L (stripFence ''pick'') =
      Inr \<lparr>sel_Container = ''app'', sel_Image = ''app:2''\<rparr>" by code_simp
  moreover have "ParseYAMLProposal ?L ''one'' = Inr (sampleDeployment ''app:1'')" by code_simp
  ultimately show ?thesis by auto
qed

end
