(* ===== verification/Execution.thy ===== *)
theory Execution
  imports Util Image_Proposal
begin

text \<open>
  The execution of a remediation (\<^verbatim>\<open>internal/controller/conversions/object_to_execution.go\<close>):
  the live object is fetched, the gate decides, the patch is tried as a dry run and only then made
  persistent, and the outcome is stored in the mutation.  The lemmas give every sequence of calls
  the function can make; a persistent patch is made in one of them only, after the gate has
  admitted the very operations and a dry run of them has succeeded.
\<close>

section \<open>The code\<close>

text \<open>A \<^verbatim>\<open>client.Object\<close>: an unstructured object, or a typed one with its kind and its key.\<close>

datatype client_object = Unstructured obj | Typed group_version_kind object_key

definition objectGVK :: "k8s_lib \<Rightarrow> client_object \<Rightarrow> group_version_kind" where
  "objectGVK L object = (case object of Unstructured m \<Rightarrow> GroupVersionKind_of L m | Typed gvk key \<Rightarrow> gvk)"

definition ObjectKeyFromObject :: "k8s_lib \<Rightarrow> client_object \<Rightarrow> object_key" where
  "ObjectKeyFromObject L object =
     (case object of
        Unstructured m \<Rightarrow> \<lparr>key_Namespace = GetNamespace L m, key_Name = GetName L m\<rparr>
      | Typed gvk key \<Rightarrow> key)"

record ObjectExecutionConfig =
  oec_Obj :: client_object
  oec_Mutation :: Mutation

definition no_decision :: Decision where
  "no_decision = \<lparr>Allowed = False, Reasons = [], Changes = [], Patch = []\<rparr>"

definition decisionPaths :: "Decision \<Rightarrow> string list" where
  "decisionPaths decision = map Path (Changes decision)"

definition abortedMutation :: "Mutation \<Rightarrow> string \<Rightarrow> Decision \<Rightarrow> Mutation" where
  "abortedMutation m reason decision =
     m\<lparr>mu_Status := (mu_Status m)\<lparr>mt_Phase := PhaseAborted, mt_Message := reason,
         mt_PolicyDecision := ''rejected'', mt_ChangedPaths := decisionPaths decision\<rparr>\<rparr>"

definition rejectMutation :: "'s kube \<Rightarrow> ObjectExecutionConfig \<Rightarrow> string \<Rightarrow> Decision \<Rightarrow> 's world
    \<Rightarrow> reconcile_result \<times> 's world" where
  "rejectMutation K config reason decision w =
     (case UpdateMutation K (abortedMutation (oec_Mutation config) reason decision) w of
        (Inl err, w) \<Rightarrow> ((requeue_after ErrorRequeueTime, Some err), w)
      | (Inr _, w) \<Rightarrow> ((no_requeue, None), w))"

definition completedMutation :: "Mutation \<Rightarrow> Decision \<Rightarrow> nat \<Rightarrow> Mutation" where
  "completedMutation m decision now =
     m\<lparr>mu_Status := (mu_Status m)\<lparr>mt_Phase := PhaseCompleted,
         mt_Message := ''Completed: policy-approved patch applied'',
         mt_PolicyDecision := ''approved'', mt_ChangedPaths := decisionPaths decision,
         mt_AppliedAt := Some now\<rparr>\<rparr>"

text \<open>
  The operations sent to the API server.  The values come from decoded JSON, so encoding them
  does not fail.
\<close>

definition patchOperations :: "k8s_lib \<Rightarrow> obj \<Rightarrow> Decision \<Rightarrow> PatchOperation list" where
  "patchOperations L live decision =
     \<lparr>Op = ''test'', OpPath = ''/metadata/resourceVersion'', OpValue = JStr (GetResourceVersion L live)\<rparr>
       # Patch decision"

text \<open>The second half of \<^verbatim>\<open>ResourceToExecution\<close>, from the admitted decision on.\<close>

definition applyDecision :: "k8s_lib \<Rightarrow> 's kube \<Rightarrow> ObjectExecutionConfig \<Rightarrow> obj \<Rightarrow> Decision \<Rightarrow> 's world
    \<Rightarrow> reconcile_result \<times> 's world" where
  "applyDecision L K config live decision w =
     (let patch = patchOperations L live decision in
      case Patch_call K live patch True w of
        (Inl err, w) \<Rightarrow> ((requeue_after ErrorRequeueTime, Some err), w)
      | (Inr _, w) \<Rightarrow>
          (case Patch_call K live patch False w of
             (Inl err, w) \<Rightarrow> ((requeue_after ErrorRequeueTime, Some err), w)
           | (Inr _, w) \<Rightarrow>
               (case UpdateMutation K
                       (completedMutation (oec_Mutation config) decision (kNow K (cluster w))) w of
                  (Inl err, w) \<Rightarrow> ((requeue_after ErrorRequeueTime, Some err), w)
                | (Inr _, w) \<Rightarrow> ((requeue_after SuccessfulRequeueTime, None), w))))"

text \<open>Reading \<^verbatim>\<open>decision.Reasons[0]\<close> of a decision without reasons panics.\<close>

definition ResourceToExecution :: "k8s_lib \<Rightarrow> 's kube \<Rightarrow> ObjectExecutionConfig \<Rightarrow> 's world
    \<Rightarrow> reconcile_result outcome \<times> 's world" where
  "ResourceToExecution L K config w =
     (let done = (\<lambda>(r, w). (Done r, w)) in
      case Get K (ObjectKeyFromObject L (oec_Obj config)) (empty_of L (objectGVK L (oec_Obj config))) w of
        (Inl err, w) \<Rightarrow> (Done (requeue_after ErrorRequeueTime, Some err), w)
      | (Inr live, w) \<Rightarrow>
          (case ParseYAMLProposal L (ms_OriginConfiguration (mu_Spec (oec_Mutation config))) of
             Inl err \<Rightarrow> done (rejectMutation K config (''Invalid origin snapshot: '' @ Error err) no_decision w)
           | Inr original \<Rightarrow>
               (case oec_Obj config of
                  Typed gvk key \<Rightarrow>
                    done (rejectMutation K config
                      ''Proposed remediation is not an unstructured Kubernetes object'' no_decision w)
                | Unstructured proposed \<Rightarrow>
                    (let decision = Evaluate L \<lparr>Original = Some original, Live = Some live,
                           Proposed = Some proposed, MaxChangedPaths = 0\<rparr> in
                     if \<not> Allowed decision then
                       (case Reasons decision of
                          [] \<Rightarrow> (Panic, w)
                        | reason # _ \<Rightarrow>
                            done (rejectMutation K config (''Policy rejected remediation: '' @ reason) decision w))
                     else done (applyDecision L K config live decision w)))))"

section \<open>The calls of an execution\<close>

text \<open>
  The decision of the gate on a fetched object: on the snapshot and the proposal, if there are such.
\<close>

definition gate_decision :: "k8s_lib \<Rightarrow> ObjectExecutionConfig \<Rightarrow> obj \<Rightarrow> Decision" where
  "gate_decision L config live =
     (case (ParseYAMLProposal L (ms_OriginConfiguration (mu_Spec (oec_Mutation config))), oec_Obj config) of
        (Inr original, Unstructured proposed) \<Rightarrow>
          Evaluate L \<lparr>Original = Some original, Live = Some live, Proposed = Some proposed, MaxChangedPaths = 0\<rparr>
      | _ \<Rightarrow> no_decision)"

text \<open>
  The possible executions, with their calls and their result: \<open>ok\<close> says whether a call succeeded.
\<close>

inductive execution :: "k8s_lib \<Rightarrow> 's kube \<Rightarrow> ObjectExecutionConfig \<Rightarrow> 's world \<Rightarrow>
    call list \<Rightarrow> reconcile_result \<Rightarrow> bool" for L K config w where
  unread: "fst (kGet K (ObjectKeyFromObject L (oec_Obj config)) (empty_of L (objectGVK L (oec_Obj config))) (cluster w)) = Inl err \<Longrightarrow>
    execution L K config w [CallGet (ObjectKeyFromObject L (oec_Obj config)) (empty_of L (objectGVK L (oec_Obj config)))]
      (requeue_after ErrorRequeueTime, Some err)"
| refused: "fst (kGet K (ObjectKeyFromObject L (oec_Obj config)) (empty_of L (objectGVK L (oec_Obj config))) (cluster w)) = Inr live \<Longrightarrow>
    \<not> Allowed (gate_decision L config live) \<Longrightarrow>
    execution L K config w
      [CallGet (ObjectKeyFromObject L (oec_Obj config)) (empty_of L (objectGVK L (oec_Obj config))),
       CallUpdateMutation (abortedMutation (oec_Mutation config) reason (gate_decision L config live)) ok]
      (if ok then (no_requeue, None) else (requeue_after ErrorRequeueTime, Some err))"
| attempt: "oec_Obj config = Unstructured proposed \<Longrightarrow>
    ParseYAMLProposal L (ms_OriginConfiguration (mu_Spec (oec_Mutation config))) = Inr original \<Longrightarrow>
    fst (kGet K key object (cluster w)) = Inr live \<Longrightarrow>
    key = ObjectKeyFromObject L (oec_Obj config) \<Longrightarrow>
    object = empty_of L (objectGVK L (oec_Obj config)) \<Longrightarrow>
    decision = Evaluate L \<lparr>Original = Some original, Live = Some live,
      Proposed = Some proposed, MaxChangedPaths = 0\<rparr> \<Longrightarrow>
    Allowed decision \<Longrightarrow> ops = patchOperations L live decision \<Longrightarrow>
    cs = [CallGet key object, CallPatch live ops True False] \<and>
      r = (requeue_after ErrorRequeueTime, Some err) \<or>
    cs = [CallGet key object, CallPatch live ops True True, CallPatch live ops False False] \<and>
      r = (requeue_after ErrorRequeueTime, Some err) \<or>
    cs = [CallGet key object, CallPatch live ops True True, CallPatch live ops False True,
      CallUpdateMutation (completedMutation (oec_Mutation config) decision now) ok] \<and>
      r = (if ok then (requeue_after SuccessfulRequeueTime, None)
           else (requeue_after ErrorRequeueTime, Some err)) \<Longrightarrow>
    execution L K config w cs r"

lemma rejectMutation_calls:
  assumes "rejectMutation K config reason decision w = (r, w')"
  shows "\<exists>ok err. trace w' = trace w @ [CallUpdateMutation (abortedMutation (oec_Mutation config) reason decision) ok]
    \<and> r = (if ok then (no_requeue, None) else (requeue_after ErrorRequeueTime, Some err))"
  using assms
  by (auto simp: rejectMutation_def split: prod.splits sum.splits dest!: perform_trace)

lemma applyDecision_calls:
  assumes "applyDecision L K config live decision w = (r, w')"
  shows "\<exists>ok err now. let ops = patchOperations L live decision in
    trace w' = trace w @ [CallPatch live ops True False] \<and>
      r = (requeue_after ErrorRequeueTime, Some err) \<or>
    trace w' = trace w @ [CallPatch live ops True True, CallPatch live ops False False] \<and>
      r = (requeue_after ErrorRequeueTime, Some err) \<or>
    trace w' = trace w @ [CallPatch live ops True True, CallPatch live ops False True,
      CallUpdateMutation (completedMutation (oec_Mutation config) decision now) ok] \<and>
      r = (if ok then (requeue_after SuccessfulRequeueTime, None)
           else (requeue_after ErrorRequeueTime, Some err))"
proof -
  let ?ops = "patchOperations L live decision"
  obtain r1 w1 where p1: "Patch_call K live ?ops True w = (r1, w1)"
    by (cases "Patch_call K live ?ops True w")
  note t1 = perform_trace [OF p1]
  show ?thesis
  proof (cases r1)
    case (Inl err)
    with assms p1 t1 show ?thesis by (intro exI [of _ False] exI [of _ err]) (simp add: applyDecision_def)
  next
    case ok1: (Inr x)
    obtain r2 w2 where p2: "Patch_call K live ?ops False w1 = (r2, w2)"
      by (cases "Patch_call K live ?ops False w1")
    note t2 = perform_trace [OF p2]
    show ?thesis
    proof (cases r2)
      case (Inl err)
      with assms p1 t1 ok1 p2 t2 show ?thesis
        by (intro exI [of _ False] exI [of _ err]) (simp add: applyDecision_def)
    next
      case ok2: (Inr y)
      let ?m = "completedMutation (oec_Mutation config) decision (kNow K (cluster w2))"
      obtain r3 w3 where p3: "UpdateMutation K ?m w2 = (r3, w3)" by (cases "UpdateMutation K ?m w2")
      note t3 = perform_trace [OF p3]
      show ?thesis
      proof (cases r3)
        case (Inl err)
        with assms p1 t1 ok1 p2 t2 ok2 p3 t3 show ?thesis
          by (intro exI [of _ False] exI [of _ err] exI [of _ "kNow K (cluster w2)"])
            (simp add: applyDecision_def)
      next
        case (Inr z)
        with assms p1 t1 ok1 p2 t2 ok2 p3 t3 show ?thesis
          by (intro exI [of _ True] exI [of _ undefined] exI [of _ "kNow K (cluster w2)"])
            (simp add: applyDecision_def)
      qed
    qed
  qed
qed

lemma execution_refusedI:
  assumes "rejectMutation K config reason (gate_decision L config live) v = (r, w')"
    and "fst (kGet K (ObjectKeyFromObject L (oec_Obj config)) (empty_of L (objectGVK L (oec_Obj config))) (cluster w)) = Inr live"
    and "\<not> Allowed (gate_decision L config live)"
    and "trace v = trace w @ [CallGet (ObjectKeyFromObject L (oec_Obj config)) (empty_of L (objectGVK L (oec_Obj config)))]"
  shows "execution L K config w (calls w w') r"
proof -
  from rejectMutation_calls [OF assms(1)] obtain ok err where
    "trace w' = trace w @ [CallGet (ObjectKeyFromObject L (oec_Obj config)) (empty_of L (objectGVK L (oec_Obj config))),
       CallUpdateMutation (abortedMutation (oec_Mutation config) reason (gate_decision L config live)) ok]"
    "r = (if ok then (no_requeue, None) else (requeue_after ErrorRequeueTime, Some err))"
    using assms(4) by auto
  then show ?thesis using execution.refused [OF assms(2,3)] by (simp only: calls_eq)
qed

lemma Evaluate_reason:
  "\<not> Allowed (Evaluate L inp) \<Longrightarrow> \<exists>reason. Reasons (Evaluate L inp) = [reason]"
  using Evaluate_wf [of L inp] by (auto simp: decisionWellFormed_def length_Suc_conv)

lemma ResourceToExecution_execution:
  assumes "ResourceToExecution L K config w = (out, w')"
  shows "\<exists>r. out = Done r \<and> execution L K config w (calls w w') r"
proof -
  let ?key = "ObjectKeyFromObject L (oec_Obj config)" and ?obj = "empty_of L (objectGVK L (oec_Obj config))"
  obtain g v where get: "Get K ?key ?obj w = (g, v)" by (cases "Get K ?key ?obj w")
  have tr: "trace v = trace w @ [CallGet ?key ?obj]" by (rule perform_trace [OF get])
  have g: "g = fst (kGet K ?key ?obj (cluster w))"
    using get by (auto simp: perform_def split: prod.splits)
  have refusal: "\<exists>r. out = Done r \<and> execution L K config w (calls w w') r"
    if "(out, w') = (\<lambda>(r, w). (Done r, w)) (rejectMutation K config reason (gate_decision L config live) v)"
      "g = Inr live" "\<not> Allowed (gate_decision L config live)" for reason live
  proof -
    obtain r w1 where rej: "rejectMutation K config reason (gate_decision L config live) v = (r, w1)"
      by (cases "rejectMutation K config reason (gate_decision L config live) v")
    with that have "out = Done r" "w1 = w'" by simp_all
    with execution_refusedI [OF rej _ that(3) tr] that(2) g show ?thesis by metis
  qed
  show ?thesis
  proof (cases g)
    case (Inl err)
    then have "execution L K config w [CallGet ?key ?obj] (requeue_after ErrorRequeueTime, Some err)"
      using g execution.unread by metis
    with Inl assms get tr show ?thesis by (auto simp: ResourceToExecution_def calls_eq)
  next
    case (Inr live)
    show ?thesis
    proof (cases "ParseYAMLProposal L (ms_OriginConfiguration (mu_Spec (oec_Mutation config)))")
      case (Inl err)
      with assms get Inr show ?thesis
        by (intro refusal [of "''Invalid origin snapshot: '' @ Error err" live])
          (auto simp: ResourceToExecution_def gate_decision_def no_decision_def)
    next
      case orig: (Inr original)
      show ?thesis
      proof (cases "oec_Obj config")
        case (Typed gvk key)
        with assms get Inr orig show ?thesis
          by (intro refusal [of "''Proposed remediation is not an unstructured Kubernetes object''" live])
            (auto simp: ResourceToExecution_def gate_decision_def no_decision_def)
      next
        case (Unstructured proposed)
        define inp where "inp = \<lparr>Original = Some original, Live = Some live,
           Proposed = Some proposed, MaxChangedPaths = 0\<rparr>"
        show ?thesis
        proof (cases "Allowed (Evaluate L inp)")
          case False
          then obtain reason where "Reasons (Evaluate L inp) = [reason]"
            using Evaluate_reason by blast
          with assms get Inr orig Unstructured False show ?thesis
            by (intro refusal [of "''Policy rejected remediation: '' @ reason" live])
              (auto simp: ResourceToExecution_def gate_decision_def inp_def)
        next
          case True
          obtain r w1 where app: "applyDecision L K config live (Evaluate L inp) v = (r, w1)"
            by (cases "applyDecision L K config live (Evaluate L inp) v")
          with assms get Inr orig Unstructured True have out: "out = Done r" "w' = w1"
            by (auto simp: ResourceToExecution_def gate_decision_def inp_def)
          from applyDecision_calls [OF app] obtain ok err now where sh:
            "let ops = patchOperations L live (Evaluate L inp) in
             trace w1 = trace v @ [CallPatch live ops True False] \<and>
               r = (requeue_after ErrorRequeueTime, Some err) \<or>
             trace w1 = trace v @ [CallPatch live ops True True, CallPatch live ops False False] \<and>
               r = (requeue_after ErrorRequeueTime, Some err) \<or>
             trace w1 = trace v @ [CallPatch live ops True True, CallPatch live ops False True,
               CallUpdateMutation (completedMutation (oec_Mutation config) (Evaluate L inp) now) ok] \<and>
               r = (if ok then (requeue_after SuccessfulRequeueTime, None)
                    else (requeue_after ErrorRequeueTime, Some err))" by blast
          have g': "fst (kGet K ?key ?obj (cluster w)) = Inr live" using g Inr by simp
          have "execution L K config w (calls w w1) r"
          proof (rule execution.attempt [where now = now and ok = ok and err = err, OF Unstructured orig g' refl refl _ True refl])
            show "Evaluate L inp = Evaluate L \<lparr>Original = Some original, Live = Some live,
                Proposed = Some proposed, MaxChangedPaths = 0\<rparr>" by (simp add: inp_def)
          qed (use sh tr in \<open>auto simp: Let_def calls_eq\<close>)
          with out show ?thesis by blast
        qed
      qed
    qed
  qed
qed


lemma rejectMutation_prefix: "rejectMutation K config reason decision w = (r, v) \<Longrightarrow> prefix (trace w) (trace v)"
  using rejectMutation_calls by (fastforce simp: prefix_def)

lemma applyDecision_prefix: "applyDecision L K config live decision w = (r, v) \<Longrightarrow> prefix (trace w) (trace v)"
  by (drule applyDecision_calls) (auto simp: prefix_def Let_def)

lemma ResourceToExecution_extends:
  assumes "ResourceToExecution L K config w = (out, w')"
  shows "trace w' = trace w @ calls w w'"
proof -
  obtain g v where get: "Get K (ObjectKeyFromObject L (oec_Obj config))
      (empty_of L (objectGVK L (oec_Obj config))) w = (g, v)"
    by (cases "Get K (ObjectKeyFromObject L (oec_Obj config)) (empty_of L (objectGVK L (oec_Obj config))) w")
  have "prefix (trace v) (trace w')"
    using assms get
    by (auto simp: ResourceToExecution_def Let_def dest!: rejectMutation_prefix applyDecision_prefix
        split: sum.splits client_object.splits if_splits list.splits prod.splits)
  with perform_trace [OF get] show ?thesis by (auto simp: calls_def prefix_def)
qed

section \<open>A sample execution\<close>

definition sampleMutation :: "AutoRemediationPhase \<Rightarrow> string \<Rightarrow> Mutation" where
  "sampleMutation phase target =
     \<lparr>mu_Meta = new_meta ''web-fix'' ''ops'',
      mu_Spec = \<lparr>ms_SimilarityScore = '''', ms_ResourceGVK = ''apps/v1'',
        ms_ResourceRef = \<lparr>or_Kind = ''Deployment'', or_Namespace = ''shop'', or_Name = ''web'',
          or_UID = ''u1'', or_APIVersion = ''apps/v1'', or_ResourceVersion = ''10''\<rparr>,
        ms_ResultRef = \<lparr>or_Kind = ''Result'', or_Namespace = ''ops'', or_Name = ''finding'',
          or_UID = '''', or_APIVersion = ''core.k8sgpt.ai/v1alpha1'', or_ResourceVersion = ''''\<rparr>,
        ms_OriginConfiguration = ''one'', ms_TargetConfiguration = target\<rparr>,
      mu_Status = \<lparr>mt_Phase = phase, mt_Message = '''', mt_PolicyDecision = '''',
        mt_ChangedPaths = [], mt_AppliedAt = None\<rparr>\<rparr>"

definition sampleLib :: k8s_lib where
  "sampleLib = std_lib sampleDocs sampleAnswers"

definition sampleWorld :: "Mutation list \<Rightarrow> store world" where
  "sampleWorld ms =
     \<lparr>cluster = empty_store\<lparr>s_objects := [(object_slot (sampleDeployment ''app:1''), sampleDeployment ''app:1'')],
        s_results := [(\<lparr>key_Namespace = ''ops'', key_Name = ''finding''\<rparr>, sampleResult ''Deployment'' ''shop/web'')],
        s_mutations := map (\<lambda>m. (key_of_meta (mu_Meta m), m)) ms, s_answer := Some ''pick''\<rparr>,
      trace = []\<rparr>"

definition sampleConfig :: ObjectExecutionConfig where
  "sampleConfig = \<lparr>oec_Obj = Unstructured (sampleDeployment ''app:2''),
     oec_Mutation = sampleMutation PhaseInProgress ''two''\<rparr>"

section \<open>Properties\<close>

text \<open>
  C3. No object is changed without the gate.  Whatever the API server answers, a persistent
  patch is made only on the object just fetched, with the operations of a decision by which the
  gate admitted the proposal against that object and the stored snapshot, preceded by a test of
  its resource version; and only after a dry run of the same operations has succeeded.
\<close>

theorem patch_needs_gate_and_dry_run:
  assumes "ResourceToExecution L K config w = (out, w')"
    and "CallPatch object ops False ok \<in> set (calls w w')"
  shows "\<exists>original proposed.
    oec_Obj config = Unstructured proposed \<and>
    fst (kGet K (ObjectKeyFromObject L (oec_Obj config)) (empty_of L (objectGVK L (oec_Obj config)))
      (cluster w)) = Inr object \<and>
    ParseYAMLProposal L (ms_OriginConfiguration (mu_Spec (oec_Mutation config))) = Inr original \<and>
    (let decision = Evaluate L \<lparr>Original = Some original, Live = Some object,
           Proposed = Some proposed, MaxChangedPaths = 0\<rparr>
     in Allowed decision \<and> ops = patchOperations L object decision) \<and>
    take 3 (calls w w') =
      [CallGet (ObjectKeyFromObject L (oec_Obj config)) (empty_of L (objectGVK L (oec_Obj config))),
       CallPatch object ops True True, CallPatch object ops False ok]"
proof -
  from ResourceToExecution_execution [OF assms(1)] obtain r where
    "execution L K config w (calls w w') r" by blast
  then show ?thesis using assms(2) by cases (auto simp: Let_def)
qed

theorem patch_needs_gate_and_dry_run_witness:
  "\<exists>w'. ResourceToExecution sampleLib std_kube sampleConfig (sampleWorld []) =
      (Done (requeue_after 60, None), w') \<and>
    list_all (\<lambda>c. case c of CallPatch object ops dryRun ok \<Rightarrow> dryRun \<or> object = sampleDeployment ''app:1''
      | _ \<Rightarrow> True) (calls (sampleWorld []) w')"
proof -
  let ?run = "ResourceToExecution sampleLib std_kube sampleConfig (sampleWorld [])"
  have "fst ?run = Done (requeue_after 60, None)" by code_simp
  then obtain w' where w': "?run = (Done (requeue_after 60, None), w')" by (cases ?run) auto
  have got: "fst (kGet std_kube (ObjectKeyFromObject sampleLib (oec_Obj sampleConfig))
      (empty_of sampleLib (objectGVK sampleLib (oec_Obj sampleConfig))) (cluster (sampleWorld []))) =
      Inr (sampleDeployment ''app:1'')" by code_simp
  have "object = sampleDeployment ''app:1''"
    if "CallPatch object ops False ok \<in> set (calls (sampleWorld []) w')" for object ops ok
    using patch_needs_gate_and_dry_run [OF w' that] got by auto
  then have "list_all (\<lambda>c. case c of CallPatch object ops dryRun ok \<Rightarrow> dryRun \<or> object = sampleDeployment ''app:1''
      | _ \<Rightarrow> True) (calls (sampleWorld []) w')"
    by (fastforce simp: list_all_iff split: call.split)
  with w' show ?thesis by blast
qed

text \<open>What the status of the mutation says after an execution; everything else of it is kept.\<close>

definition says :: "AutoRemediationPhase \<Rightarrow> string \<Rightarrow> string list \<Rightarrow> Mutation \<Rightarrow> Mutation \<Rightarrow> bool" where
  "says phase decision paths m m' \<longleftrightarrow>
     mu_Meta m' = mu_Meta m \<and> mu_Spec m' = mu_Spec m \<and> mt_Phase (mu_Status m') = phase \<and>
     mt_PolicyDecision (mu_Status m') = decision \<and> mt_ChangedPaths (mu_Status m') = paths"

lemma execution_says:
  assumes "execution L K config w cs r"
  shows "let m = oec_Mutation config; key = ObjectKeyFromObject L (oec_Obj config);
            object = empty_of L (objectGVK L (oec_Obj config)) in
     case fst (kGet K key object (cluster w)) of
       Inl err \<Rightarrow> cs = [CallGet key object] \<and> snd r = Some err
     | Inr live \<Rightarrow>
         if \<not> Allowed (gate_decision L config live) then
           \<exists>m' ok. cs = [CallGet key object, CallUpdateMutation m' ok] \<and> (snd r = None \<longleftrightarrow> ok) \<and>
             says PhaseAborted ''rejected'' (map Path (Changes (gate_decision L config live))) m m'
         else
           (let ops = patchOperations L live (gate_decision L config live) in
            cs = [CallGet key object, CallPatch live ops True False] \<and> snd r \<noteq> None \<or>
            cs = [CallGet key object, CallPatch live ops True True, CallPatch live ops False False] \<and> snd r \<noteq> None \<or>
            (\<exists>m' ok. cs = [CallGet key object, CallPatch live ops True True, CallPatch live ops False True,
                 CallUpdateMutation m' ok] \<and> (snd r = None \<longleftrightarrow> ok) \<and>
               says PhaseCompleted ''approved'' (map OpPath (tl ops)) m m' \<and> mt_AppliedAt (mu_Status m') \<noteq> None))"
  using assms
proof cases
  case (unread err)
  then show ?thesis by simp
next
  case (refused live reason ok)
  then show ?thesis by (auto simp: says_def abortedMutation_def decisionPaths_def)
next
  case (attempt proposed original key object live decision ops err now ok)
  then have d: "gate_decision L config live = decision" by (simp add: gate_decision_def)
  have "map OpPath (tl ops) = decisionPaths decision"
    using attempt(7,8) Evaluate_wf unfolding attempt(6)
    by (simp add: patchOperations_def decisionPaths_def decisionWellFormed_def replace_op_def)
  with attempt d show ?thesis by (auto simp: says_def completedMutation_def Let_def)
qed

text \<open>
  C9. The mutation records exactly what happened, and the execution never panics.  If the object
  cannot be read, that is the error returned, and nothing is written.  If the gate does not admit the
  proposal, no patch is sent, not even as a dry run, and the one update that follows says Aborted and
  rejected, with the paths of the decision.  If it does, the patch is sent as a dry run and then
  persistently; an error of either ends the execution with an error, and the phase is left as it is.
  Once the persistent patch has succeeded, the one update that follows says Completed and approved,
  with the paths of the operations sent and a time.  No error is returned exactly when an update was
  made and succeeded.
\<close>

theorem execution_records_outcome:
  "case ResourceToExecution L K config w of
     (out, w') \<Rightarrow>
       (\<exists>r. out = Done r \<and>
         (let m = oec_Mutation config; key = ObjectKeyFromObject L (oec_Obj config);
              object = empty_of L (objectGVK L (oec_Obj config)); cs = calls w w' in
          case fst (kGet K key object (cluster w)) of
            Inl err \<Rightarrow> cs = [CallGet key object] \<and> snd r = Some err
          | Inr live \<Rightarrow>
              if \<not> Allowed (gate_decision L config live) then
                \<exists>m' ok. cs = [CallGet key object, CallUpdateMutation m' ok] \<and> (snd r = None \<longleftrightarrow> ok) \<and>
                  says PhaseAborted ''rejected'' (map Path (Changes (gate_decision L config live))) m m'
              else
                (let ops = patchOperations L live (gate_decision L config live) in
                 cs = [CallGet key object, CallPatch live ops True False] \<and> snd r \<noteq> None \<or>
                 cs = [CallGet key object, CallPatch live ops True True, CallPatch live ops False False] \<and> snd r \<noteq> None \<or>
                 (\<exists>m' ok. cs = [CallGet key object, CallPatch live ops True True, CallPatch live ops False True,
                      CallUpdateMutation m' ok] \<and> (snd r = None \<longleftrightarrow> ok) \<and>
                    says PhaseCompleted ''approved'' (map OpPath (tl ops)) m m' \<and> mt_AppliedAt (mu_Status m') \<noteq> None))))"
proof -
  obtain out w' where run: "ResourceToExecution L K config w = (out, w')"
    by (cases "ResourceToExecution L K config w")
  from ResourceToExecution_execution [OF run] obtain r where
    r: "out = Done r" "execution L K config w (calls w w') r" by blast
  from r(1) execution_says [OF r(2)] show ?thesis unfolding run prod.case Let_def by blast
qed

text \<open>
  A concurrent change makes the patch fail: the operations sent for an object do not apply
  to a stored object with another resource version, and to one with the resource version of the
  fetched object they apply exactly as the patch of the decision does.
\<close>

theorem stale_object_is_not_patched:
  "apply_patch (patchOperations L live decision) (deepCopy (JObj stored)) =
     (if Json_Pointer.at (deepCopy (JObj stored)) [''metadata'', ''resourceVersion''] = JStr (GetResourceVersion L live)
      then apply_patch (Patch decision) (deepCopy (JObj stored)) else None)"
proof -
  have "parse_pointer ''/metadata/resourceVersion'' = Some [''metadata'', ''resourceVersion'']"
    by code_simp
  then show ?thesis by (simp add: patchOperations_def apply_operation_def del: Json_Pointer.at.simps deepCopy_simps)
qed

end
