(* ===== verification/Mutation_Controller.thy ===== *)
theory Mutation_Controller
  imports Execution
begin

text \<open>
  The mutation controller (\<^verbatim>\<open>internal/controller/mutation/mutation_controller.go\<close>): the state
  machine that takes a Mutation from the query for a repair, over the execution of the patch, to
  the check that the finding is gone.  The lemmas say which phase changes a reconciliation makes,
  when it writes to the cluster, when a mutation becomes successful, and how it is requeued.
\<close>

section \<open>The code\<close>

text \<open>\<^verbatim>\<open>prompts.Mutation_prompt\<close>, filled in with \<^verbatim>\<open>fmt.Sprintf\<close>.\<close>

definition newline :: string where "newline = [CHR 0x0A]"
definition quote :: string where "quote = [CHR 0x22]"

definition Mutation_prompt :: "string \<Rightarrow> string \<Rightarrow> string" where
  "Mutation_prompt details manifest =
     ''Choose a safe image-only repair for this Kubernetes finding: '' @ details @ newline @ newline @
     ''Manifest:'' @ newline @ manifest @ newline @ newline @
     ''Return exactly one JSON object and nothing else: {'' @ quote @ ''container'' @ quote @ '':'' @
     quote @ ''the existing container or init-container name'' @ quote @ '','' @ quote @ ''image'' @
     quote @ '':'' @ quote @ ''the corrected image reference'' @ quote @
     ''}. Do not use Markdown, prose, a YAML manifest, or additional keys. The container must already exist and only its image may change.''"

text \<open>The cells of \<^verbatim>\<open>internal/controller/shared/client.go\<close>; a client is known by a number.\<close>

record shared_cells =
  serverQueryClient :: "nat option"
  remoteBackend :: string
  k8sgptConfig :: "K8sGPT option"

definition SetServerQueryClient :: "nat option \<Rightarrow> shared_cells \<Rightarrow> shared_cells" where
  "SetServerQueryClient client cells = cells\<lparr>serverQueryClient := client\<rparr>"

definition GetServerQueryClient :: "shared_cells \<Rightarrow> nat option" where
  "GetServerQueryClient cells = serverQueryClient cells"

definition SetRemoteBackend :: "string \<Rightarrow> shared_cells \<Rightarrow> shared_cells" where
  "SetRemoteBackend backend cells = cells\<lparr>remoteBackend := backend\<rparr>"

definition GetRemoteBackend :: "shared_cells \<Rightarrow> string" where
  "GetRemoteBackend cells = remoteBackend cells"

definition SetK8sGPTConfig :: "K8sGPT option \<Rightarrow> shared_cells \<Rightarrow> shared_cells" where
  "SetK8sGPTConfig config cells = cells\<lparr>k8sgptConfig := config\<rparr>"

definition GetK8sGPTConfig :: "shared_cells \<Rightarrow> K8sGPT option" where
  "GetK8sGPTConfig cells = k8sgptConfig cells"

text \<open>The state of the reconciler that it changes: its cached query client.\<close>

record MutationReconciler =
  ServerQueryClient :: "nat option"

definition mutationFinalizer :: string where
  "mutationFinalizer = ''mutation.finalizer.k8sgpt.ai''"

fun removeFinalizer :: "string list \<Rightarrow> string \<Rightarrow> string list" where
  "removeFinalizer [] target = []"
| "removeFinalizer (finalizer # finalizers) target =
     (if finalizer \<noteq> target then finalizer # removeFinalizer finalizers target
      else removeFinalizer finalizers target)"

definition set_status :: "AutoRemediationPhase \<Rightarrow> string \<Rightarrow> Mutation \<Rightarrow> Mutation" where
  "set_status phase message m =
     m\<lparr>mu_Status := (mu_Status m)\<lparr>mt_Phase := phase, mt_Message := message\<rparr>\<rparr>"

subsection \<open>Is the target ready?\<close>

definition rolledOut :: "k8s_lib \<Rightarrow> obj \<Rightarrow> bool go_result" where
  "rolledOut L target =
     (case NestedInt64 L target [''spec'', ''replicas''] of
        Inl err \<Rightarrow> Inl err
      | Inr replicas \<Rightarrow>
          (let expectedReplicas = (case replicas of None \<Rightarrow> 1 | Some n \<Rightarrow> n) in
           case NestedInt64 L target [''status'', ''observedGeneration''] of
             Inl err \<Rightarrow> Inl err
           | Inr observed \<Rightarrow>
               (let observedGeneration = (case observed of None \<Rightarrow> 0 | Some n \<Rightarrow> n) in
                case NestedInt64 L target [''status'', ''availableReplicas''] of
                  Inl err \<Rightarrow> Inl err
                | Inr available \<Rightarrow>
                    (let availableReplicas = (case available of None \<Rightarrow> 0 | Some n \<Rightarrow> n) in
                     Inr (observedGeneration \<ge> GetGeneration L target \<and>
                          availableReplicas \<ge> expectedReplicas)))))"

definition DeploymentGVK :: group_version_kind where
  "DeploymentGVK = \<lparr>Group = ''apps'', Version = ''v1'', Kind = ''Deployment''\<rparr>"

definition targetReady :: "k8s_lib \<Rightarrow> 's kube \<Rightarrow> Mutation \<Rightarrow> 's world \<Rightarrow> bool go_result \<times> 's world" where
  "targetReady L K m w =
     (case ParseGroupVersion L (ms_ResourceGVK (mu_Spec m)) of
        Inl err \<Rightarrow> (Inl (Errorf_w ''parse target GVK: '' err), w)
      | Inr gv \<Rightarrow>
          (let ref = ms_ResourceRef (mu_Spec m); gvk = WithKind gv (or_Kind ref) in
           if Group gvk \<noteq> ''apps'' \<or> Version gvk \<noteq> ''v1'' \<or> Kind gvk \<noteq> ''Deployment''
           then (Inr True, w)
           else (case Get K \<lparr>key_Namespace = or_Namespace ref, key_Name = or_Name ref\<rparr> (empty_of L gvk) w of
                   (Inl err, w) \<Rightarrow> (Inl err, w)
                 | (Inr target, w) \<Rightarrow>
                     if or_UID ref \<noteq> '''' \<and> GetUID L target \<noteq> or_UID ref
                     then (Inl (Errorf ''target Deployment UID changed since proposal''), w)
                     else (rolledOut L target, w))))"

subsection \<open>Is the finding gone?\<close>

definition updateThen :: "'s kube \<Rightarrow> Mutation \<Rightarrow> ctrl_result \<Rightarrow> 's world \<Rightarrow> reconcile_result \<times> 's world" where
  "updateThen K m r w =
     (case UpdateMutation K m w of
        (Inl err, w) \<Rightarrow> ((requeue_after ErrorRequeueTime, Some err), w)
      | (Inr _, w) \<Rightarrow> ((r, None), w))"

definition resultKey :: "Mutation \<Rightarrow> object_key" where
  "resultKey m =
     \<lparr>key_Namespace = or_Namespace (ms_ResultRef (mu_Spec m)), key_Name = or_Name (ms_ResultRef (mu_Spec m))\<rparr>"

definition doesResultExist :: "k8s_lib \<Rightarrow> 's kube \<Rightarrow> Mutation \<Rightarrow> 's world \<Rightarrow> reconcile_result \<times> 's world" where
  "doesResultExist L K m w =
     (case targetReady L K m w of
        (Inl err, w) \<Rightarrow> ((requeue_after ErrorRequeueTime, Some err), w)
      | (Inr ready, w) \<Rightarrow>
          if \<not> ready then
            updateThen K (set_status PhasePending ''Waiting for target rollout'' m)
              (requeue_after PendingRequeueTime) w
          else
            (case GetResult K (resultKey m) w of
               (Inl err, w) \<Rightarrow>
                 if \<not> IsNotFound err then ((requeue_after ErrorRequeueTime, Some err), w)
                 else updateThen K (set_status PhaseSuccessful ''Successful'' m)
                        (requeue_after CompletedRequeueTime) w
             | (Inr _, w) \<Rightarrow>
                 updateThen K (set_status PhasePending ''Pending'' m) (requeue_after PendingRequeueTime) w))"

subsection \<open>Reconcile\<close>

definition proposedMutation :: "(string \<Rightarrow> string \<Rightarrow> nat) \<Rightarrow> string \<Rightarrow> Mutation \<Rightarrow> Mutation" where
  "proposedMutation ComputeDistance proposal m =
     set_status PhaseInProgress ''In Progress''
       (m\<lparr>mu_Spec := (mu_Spec m)\<lparr>ms_TargetConfiguration := proposal,
            ms_SimilarityScore := FormatScore
              (SimilarityScore ComputeDistance (ms_OriginConfiguration (mu_Spec m)) proposal)\<rparr>\<rparr>)"

definition invalidProposal :: "string \<Rightarrow> Mutation \<Rightarrow> Mutation" where
  "invalidProposal message m =
     (let m' = set_status PhaseAborted (''Invalid image selection proposal: '' @ message) m
      in m'\<lparr>mu_Status := (mu_Status m')\<lparr>mt_PolicyDecision := ''rejected''\<rparr>\<rparr>)"

definition noKnownFix :: "Mutation \<Rightarrow> Mutation" where
  "noKnownFix m = m\<lparr>mu_Status := (mu_Status m)\<lparr>mt_Message := ''No known fix''\<rparr>\<rparr>"

text \<open>The phase \<^verbatim>\<open>NotStarted\<close>, for a reconciler whose query client is \<open>client\<close>.\<close>

definition requestProposal :: "k8s_lib \<Rightarrow> 's kube \<Rightarrow> (string \<Rightarrow> string \<Rightarrow> nat) \<Rightarrow> nat option \<Rightarrow> string
    \<Rightarrow> Mutation \<Rightarrow> 's world \<Rightarrow> reconcile_result \<times> 's world" where
  "requestProposal L K ComputeDistance client backend m w =
     (case client of
        None \<Rightarrow> ((requeue_after ErrorRequeueTime, None), w)
      | Some c \<Rightarrow>
          (case GetResult K (resultKey m) w of
             (Inl err, w) \<Rightarrow> ((no_requeue, Some err), w)
           | (Inr result, w) \<Rightarrow>
               (case Query K c backend
                       (Mutation_prompt (rs_Details (res_Spec result)) (ms_OriginConfiguration (mu_Spec m))) w of
                  (Inl err, w) \<Rightarrow> ((requeue_after ErrorRequeueTime, None), w)
                | (Inr response, w) \<Rightarrow>
                    if response = ''{null}'' then
                      (case StatusUpdateMutation K (noKnownFix m) w of
                         (Inl err, w) \<Rightarrow> ((requeue_after ErrorRequeueTime, Some err), w)
                       | (Inr _, w) \<Rightarrow> ((requeue_after (ErrorRequeueTime * 10), None), w))
                    else
                      (case imageSelectionProposal L (ms_OriginConfiguration (mu_Spec m)) response of
                         Inl err \<Rightarrow> updateThen K (invalidProposal (Error err) m) no_requeue w
                       | Inr proposal \<Rightarrow>
                           updateThen K (proposedMutation ComputeDistance proposal m)
                             (requeue_after NotStartedRequeueTime) w))))"

text \<open>The phase \<^verbatim>\<open>InProgress\<close>.\<close>

definition executeProposal :: "k8s_lib \<Rightarrow> 's kube \<Rightarrow> Mutation \<Rightarrow> 's world \<Rightarrow> reconcile_result outcome \<times> 's world" where
  "executeProposal L K m w =
     (if ms_TargetConfiguration (mu_Spec m) = '''' then (Done (requeue_after ErrorRequeueTime, None), w)
      else (let ref = ms_ResourceRef (mu_Spec m) in
            case FromConfig L \<lparr>foc_Config = ms_TargetConfiguration (mu_Spec m),
                   foc_GvkStr = ms_ResourceGVK (mu_Spec m), foc_Kind = or_Kind ref,
                   foc_Name = or_Name ref, foc_Namespace = or_Namespace ref\<rparr> of
              Inl err \<Rightarrow> (Done (requeue_after ErrorRequeueTime, Some err), w)
            | Inr object \<Rightarrow>
                ResourceToExecution L K \<lparr>oec_Obj = Unstructured object, oec_Mutation = m\<rparr> w))"

text \<open>The switch over the phase, on the mutation as it was last read or written.\<close>

definition reconcilePhase :: "k8s_lib \<Rightarrow> 's kube \<Rightarrow> (string \<Rightarrow> string \<Rightarrow> nat) \<Rightarrow> string \<Rightarrow> shared_cells
    \<Rightarrow> MutationReconciler \<Rightarrow> Mutation \<Rightarrow> 's world
    \<Rightarrow> reconcile_result outcome \<times> MutationReconciler \<times> 's world" where
  "reconcilePhase L K ComputeDistance backend cells r m w =
     (case mt_Phase (mu_Status m) of
        PhaseNotStarted \<Rightarrow>
          (let r' = (if ServerQueryClient r = None
                     then r\<lparr>ServerQueryClient := GetServerQueryClient cells\<rparr> else r) in
           case requestProposal L K ComputeDistance (ServerQueryClient r') backend m w of
             (out, w) \<Rightarrow> (Done out, r', w))
      | PhaseInProgress \<Rightarrow> (case executeProposal L K m w of (out, w) \<Rightarrow> (out, r, w))
      | PhaseCompleted \<Rightarrow> (case doesResultExist L K m w of (out, w) \<Rightarrow> (Done out, r, w))
      | PhaseSuccessful \<Rightarrow> (Done (requeue_after SuccessfulRequeueTime, None), r, w)
      | PhasePending \<Rightarrow> (case doesResultExist L K m w of (out, w) \<Rightarrow> (Done out, r, w))
      | _ \<Rightarrow> (Done (no_requeue, None), r, w))"

text \<open>A decoded list of finalizers is never empty and not nil.\<close>

definition beingDeleted :: "Mutation \<Rightarrow> bool" where
  "beingDeleted m \<longleftrightarrow> om_Finalizers (mu_Meta m) \<noteq> [] \<and> om_DeletionTimestamp (mu_Meta m) \<noteq> None"

definition releaseFinalizer :: "Mutation \<Rightarrow> Mutation" where
  "releaseFinalizer m =
     m\<lparr>mu_Meta := (mu_Meta m)\<lparr>om_Finalizers := removeFinalizer (om_Finalizers (mu_Meta m)) mutationFinalizer\<rparr>\<rparr>"

text \<open>
  The backend is read before the finalizer is released and the client after it: \<open>cells\<close> and \<open>cells'\<close>
  are the shared cells at these two moments, between which the goroutine may have written them.
\<close>

definition Reconcile :: "k8s_lib \<Rightarrow> 's kube \<Rightarrow> (string \<Rightarrow> string \<Rightarrow> nat) \<Rightarrow> shared_cells \<Rightarrow> shared_cells
    \<Rightarrow> MutationReconciler \<Rightarrow> object_key \<Rightarrow> 's world
    \<Rightarrow> reconcile_result outcome \<times> MutationReconciler \<times> 's world" where
  "Reconcile L K ComputeDistance cells cells' r key w =
     (case GetMutation K key w of
        (Inl err, w) \<Rightarrow> (Done (no_requeue, IgnoreNotFound err), r, w)
      | (Inr m, w) \<Rightarrow>
          let backend = GetRemoteBackend cells in
          if beingDeleted m then
            (case UpdateMutation K (releaseFinalizer m) w of
               (Inl err, w) \<Rightarrow> (Done (requeue_after ErrorRequeueTime, Some err), r, w)
             | (Inr m', w) \<Rightarrow> reconcilePhase L K ComputeDistance backend cells' r m' w)
          else reconcilePhase L K ComputeDistance backend cells' r m w)"


section \<open>The state machine\<close>

text \<open>The phase changes a reconciliation may store.\<close>

inductive phase_step :: "AutoRemediationPhase \<Rightarrow> AutoRemediationPhase \<Rightarrow> bool" where
  proposed: "phase_step PhaseNotStarted PhaseInProgress"
| unusable: "phase_step PhaseNotStarted PhaseAborted"
| applied: "phase_step PhaseInProgress PhaseCompleted"
| refused: "phase_step PhaseInProgress PhaseAborted"
| waiting: "phase_step PhaseCompleted PhasePending"
| gone: "phase_step PhaseCompleted PhaseSuccessful"
| still_waiting: "phase_step PhasePending PhasePending"
| gone_later: "phase_step PhasePending PhaseSuccessful"

inductive_simps phase_step_from [simp]:
  "phase_step PhaseNotStarted q" "phase_step PhaseInProgress q" "phase_step PhaseCompleted q"
  "phase_step PhasePending q" "phase_step PhaseSuccessful q" "phase_step PhaseAborted q"
  "phase_step (PhaseOther i) q"

text \<open>An update moves the phase along a step and keeps what identifies the remediation.\<close>

definition transition :: "Mutation \<Rightarrow> Mutation \<Rightarrow> bool" where
  "transition m m' \<longleftrightarrow>
     phase_step (mt_Phase (mu_Status m)) (mt_Phase (mu_Status m')) \<and> mu_Meta m' = mu_Meta m \<and>
     ms_ResourceGVK (mu_Spec m') = ms_ResourceGVK (mu_Spec m) \<and>
     ms_ResourceRef (mu_Spec m') = ms_ResourceRef (mu_Spec m) \<and>
     ms_ResultRef (mu_Spec m') = ms_ResultRef (mu_Spec m) \<and>
     ms_OriginConfiguration (mu_Spec m') = ms_OriginConfiguration (mu_Spec m)"

text \<open>The mutations sent to the API server, in order, to be stored in full or for their status.\<close>

definition mutation_updates :: "call list \<Rightarrow> Mutation list" where
  "mutation_updates cs =
     concat (map (\<lambda>c. case c of CallUpdateMutation m ok \<Rightarrow> [m] | CallStatusUpdateMutation m ok \<Rightarrow> [m] | _ \<Rightarrow> []) cs)"

text \<open>Nothing but the message of the status is changed.\<close>

definition remark :: "Mutation \<Rightarrow> Mutation \<Rightarrow> bool" where
  "remark m m' \<longleftrightarrow> m' = m\<lparr>mu_Status := (mu_Status m)\<lparr>mt_Message := mt_Message (mu_Status m')\<rparr>\<rparr>"

text \<open>At most one mutation is sent, and it moves the phase along a step or only has a new message.\<close>

definition moves :: "Mutation \<Rightarrow> call list \<Rightarrow> bool" where
  "moves m cs \<longleftrightarrow>
     mutation_updates cs = [] \<or> (\<exists>m'. mutation_updates cs = [m'] \<and> (transition m m' \<or> remark m m'))"

definition no_patch :: "call list \<Rightarrow> bool" where
  "no_patch cs \<longleftrightarrow> list_all (\<lambda>c. case c of CallPatch object ops dryRun ok \<Rightarrow> False | _ \<Rightarrow> True) cs"

definition query_clients :: "call list \<Rightarrow> nat list" where
  "query_clients cs = concat (map (\<lambda>c. case c of CallQuery client backend query \<Rightarrow> [client] | _ \<Rightarrow> []) cs)"

text \<open>
  A mutation is looked at again: after a time, after an error (the controller retries), or else
  its last update aborted it.
\<close>

definition looked_at_again :: "call list \<Rightarrow> reconcile_result \<Rightarrow> bool" where
  "looked_at_again cs r \<longleftrightarrow>
     RequeueAfter (fst r) > 0 \<or> snd r \<noteq> None \<or>
     (\<exists>m. mutation_updates cs = [m] \<and> mt_Phase (mu_Status m) = PhaseAborted)"

lemma mutation_updates_simps [simp]:
  "mutation_updates [] = []"
  "mutation_updates (CallUpdateMutation m ok # cs) = m # mutation_updates cs"
  "mutation_updates (CallGet key object # cs) = mutation_updates cs"
  "mutation_updates (CallPatch object ops dryRun ok # cs) = mutation_updates cs"
  "mutation_updates (CallGetResult key # cs) = mutation_updates cs"
  "mutation_updates (CallGetMutation key # cs) = mutation_updates cs"
  "mutation_updates (CallStatusUpdateMutation m ok # cs) = m # mutation_updates cs"
  "mutation_updates (CallQuery client backend query # cs) = mutation_updates cs"
  "mutation_updates (cs @ ds) = mutation_updates cs @ mutation_updates ds"
  by (simp_all add: mutation_updates_def)

lemma no_patch_simps [simp]:
  "no_patch []" "no_patch (CallUpdateMutation m ok # cs) \<longleftrightarrow> no_patch cs"
  "no_patch (CallGet key object # cs) \<longleftrightarrow> no_patch cs"
  "\<not> no_patch (CallPatch object ops dryRun ok # cs)"
  "no_patch (CallGetResult key # cs) \<longleftrightarrow> no_patch cs"
  "no_patch (CallGetMutation key # cs) \<longleftrightarrow> no_patch cs"
  "no_patch (CallStatusUpdateMutation m ok # cs) \<longleftrightarrow> no_patch cs"
  "no_patch (CallQuery client backend query # cs) \<longleftrightarrow> no_patch cs"
  "no_patch (cs @ ds) \<longleftrightarrow> no_patch cs \<and> no_patch ds"
  by (simp_all add: no_patch_def)

lemma query_clients_simps [simp]:
  "query_clients []  = []" "query_clients (CallUpdateMutation m ok # cs) = query_clients cs"
  "query_clients (CallGet key object # cs) = query_clients cs"
  "query_clients (CallPatch object ops dryRun ok # cs) = query_clients cs"
  "query_clients (CallGetResult key # cs) = query_clients cs"
  "query_clients (CallGetMutation key # cs) = query_clients cs"
  "query_clients (CallStatusUpdateMutation m ok # cs) = query_clients cs"
  "query_clients (CallQuery client backend query # cs) = client # query_clients cs"
  "query_clients (cs @ ds) = query_clients cs @ query_clients ds"
  by (simp_all add: query_clients_def)

lemma phase_updates [simp]:
  "mt_Phase (mu_Status (set_status p s m)) = p"
  "mt_Phase (mu_Status (proposedMutation D q m)) = PhaseInProgress"
  "mt_Phase (mu_Status (invalidProposal s m)) = PhaseAborted"
  "mt_Phase (mu_Status (abortedMutation m s d)) = PhaseAborted"
  "mt_Phase (mu_Status (completedMutation m d n)) = PhaseCompleted"
  "mt_Phase (mu_Status (releaseFinalizer m)) = mt_Phase (mu_Status m)"
  by (simp_all add: set_status_def proposedMutation_def invalidProposal_def abortedMutation_def
      completedMutation_def releaseFinalizer_def Let_def)

lemma update_keeps:
  "transition m (set_status p s m) \<longleftrightarrow> phase_step (mt_Phase (mu_Status m)) p"
  "transition m (proposedMutation D q m) \<longleftrightarrow> phase_step (mt_Phase (mu_Status m)) PhaseInProgress"
  "transition m (invalidProposal s m) \<longleftrightarrow> phase_step (mt_Phase (mu_Status m)) PhaseAborted"
  "transition m (abortedMutation m s d) \<longleftrightarrow> phase_step (mt_Phase (mu_Status m)) PhaseAborted"
  "transition m (completedMutation m d n) \<longleftrightarrow> phase_step (mt_Phase (mu_Status m)) PhaseCompleted"
  unfolding transition_def phase_updates
  by (simp_all add: set_status_def proposedMutation_def invalidProposal_def abortedMutation_def
      completedMutation_def Let_def)

lemma requeue_simps [simp]:
  "RequeueAfter (requeue_after t) = t" "RequeueAfter no_requeue = 0"
  by (simp_all add: requeue_after_def no_requeue_def)

text \<open>What a phase handler does: from \<open>w\<close> to \<open>w'\<close> with the result \<open>r\<close>.\<close>

definition handled :: "Mutation \<Rightarrow> nat option \<Rightarrow> 's world \<Rightarrow> 's world \<Rightarrow> reconcile_result \<Rightarrow> bool" where
  "handled m client w w' r \<longleftrightarrow>
     (\<exists>cs. trace w' = trace w @ cs \<and> moves m cs \<and> looked_at_again cs r \<and>
        (no_patch cs \<or> mt_Phase (mu_Status m) = PhaseInProgress) \<and>
        set (query_clients cs) \<subseteq> set_option client)"

lemma handledI:
  assumes "trace w' = trace w @ cs" and "moves m cs" and "looked_at_again cs r"
    and "no_patch cs \<or> mt_Phase (mu_Status m) = PhaseInProgress"
    and "set (query_clients cs) \<subseteq> set_option client"
  shows "handled m client w w' r"
  using assms by (auto simp: handled_def)

lemma updateThen_calls:
  assumes "updateThen K m' res w = (r, w')"
  shows "\<exists>ok. trace w' = trace w @ [CallUpdateMutation m' ok] \<and>
    (r = (res, None) \<or> (\<exists>err. r = (requeue_after ErrorRequeueTime, Some err)))"
  using assms by (auto simp: updateThen_def split: prod.splits sum.splits dest!: perform_trace)

lemma updateThen_handled:
  assumes "updateThen K m' res v = (r, w')" and "trace v = trace w @ cs"
    and "mutation_updates cs = []" and "transition m m'"
    and "RequeueAfter res > 0 \<or> mt_Phase (mu_Status m') = PhaseAborted"
    and "no_patch cs" and "set (query_clients cs) \<subseteq> set_option client"
  shows "handled m client w w' r"
proof -
  from updateThen_calls [OF assms(1)] obtain ok where
    tr: "trace w' = trace w @ (cs @ [CallUpdateMutation m' ok])"
    and r: "r = (res, None) \<or> (\<exists>err. r = (requeue_after ErrorRequeueTime, Some err))"
    using assms(2) by auto
  show ?thesis
    by (rule handledI [OF tr]) (use r assms(3-) in \<open>auto simp: moves_def looked_at_again_def\<close>)
qed

text \<open>The handlers, one by one.\<close>

lemma handled_silent:
  assumes "trace w' = trace w @ cs" and "mutation_updates cs = []"
    and "RequeueAfter (fst r) > 0 \<or> snd r \<noteq> None"
    and "no_patch cs" and "set (query_clients cs) \<subseteq> set_option client"
  shows "handled m client w w' r"
  using assms(2-) by (intro handledI [OF assms(1)]) (auto simp: moves_def looked_at_again_def)

lemma handled_remark:
  assumes "trace w' = trace w @ cs @ [CallStatusUpdateMutation m' ok]" and "mutation_updates cs = []" and "remark m m'"
    and "RequeueAfter (fst r) > 0 \<or> snd r \<noteq> None"
    and "no_patch cs" and "set (query_clients cs) \<subseteq> set_option client"
  shows "handled m client w w' r"
  using assms(2-) by (intro handledI [OF assms(1)]) (auto simp: moves_def looked_at_again_def)

lemma remark_noKnownFix: "remark m (noKnownFix m)"
  by (simp add: remark_def noKnownFix_def)

lemma requestProposal_handled:
  assumes "requestProposal L K D client backend m w = (r, w')"
    and "mt_Phase (mu_Status m) = PhaseNotStarted"
  shows "handled m client w w' r"

proof (cases client)
  case None
  with assms show ?thesis
    by (intro handled_silent [of w' w "[]"]) (auto simp: requestProposal_def ErrorRequeueTime_def)
next
  case (Some c)
  obtain g w1 where get: "GetResult K (resultKey m) w = (g, w1)"
    by (cases "GetResult K (resultKey m) w")
  note t1 = perform_trace [OF get]
  show ?thesis
  proof (cases g)
    case (Inl err)
    with assms Some get t1 show ?thesis
      by (intro handled_silent [of w' w "[CallGetResult (resultKey m)]"]) (auto simp: requestProposal_def)
  next
    case (Inr result)
    define prompt where "prompt =
      Mutation_prompt (rs_Details (res_Spec result)) (ms_OriginConfiguration (mu_Spec m))"
    obtain a w2 where query: "Query K c backend prompt w1 = (a, w2)" by (cases "Query K c backend prompt w1")
    let ?cs = "[CallGetResult (resultKey m), CallQuery c backend prompt]"
    have t2: "trace w2 = trace w @ ?cs" using perform_trace [OF query] t1 by simp
    show ?thesis
    proof (cases a)
      case (Inl err)
      with assms Some get Inr query t2 show ?thesis
        by (intro handled_silent [of w' w ?cs]) (auto simp: requestProposal_def prompt_def ErrorRequeueTime_def)
    next
      case answer: (Inr response)
      show ?thesis
      proof (cases "response = ''{null}''")
        case True
        obtain u w3 where st: "StatusUpdateMutation K (noKnownFix m) w2 = (u, w3)"
          by (cases "StatusUpdateMutation K (noKnownFix m) w2")
        with assms Some get Inr query answer True perform_trace [OF st] t2 show ?thesis
          by (intro handled_remark [of w' w ?cs "noKnownFix m" "is_ok u", OF _ _ remark_noKnownFix])
            (auto simp: requestProposal_def prompt_def ErrorRequeueTime_def split: sum.splits)
      next
        case False
        with assms Some get Inr query answer have
          "\<exists>m' res. updateThen K m' res w2 = (r, w') \<and> transition m m' \<and>
             (RequeueAfter res > 0 \<or> mt_Phase (mu_Status m') = PhaseAborted)"
          by (auto simp: requestProposal_def prompt_def NotStartedRequeueTime_def update_keeps
              split: sum.splits intro!: exI)
        then obtain m' res where "updateThen K m' res w2 = (r, w')" "transition m m'"
          "RequeueAfter res > 0 \<or> mt_Phase (mu_Status m') = PhaseAborted" by blast
        from updateThen_handled [OF this(1) t2 _ this(2,3)] Some show ?thesis by simp
      qed
    qed
  qed
qed

lemma targetReady_calls:
  assumes "targetReady L K m w = (r, w')"
  shows "\<exists>cs. trace w' = trace w @ cs \<and> only_gets cs"
  using assms
  by (auto simp: targetReady_def Let_def split: prod.splits sum.splits if_splits dest!: perform_trace)

lemma only_gets_no_effect:
  "only_gets cs \<Longrightarrow> mutation_updates cs = [] \<and> no_patch cs \<and> query_clients cs = []"
proof (induction cs)
  case (Cons c cs)
  then show ?case by (cases c) (auto simp: only_gets_def)
qed simp

lemma doesResultExist_handled:
  assumes "doesResultExist L K m w = (r, w')"
    and "mt_Phase (mu_Status m) = PhaseCompleted \<or> mt_Phase (mu_Status m) = PhasePending"
  shows "handled m client w w' r"
proof -
  obtain t w1 where ready: "targetReady L K m w = (t, w1)" by (cases "targetReady L K m w")
  from targetReady_calls [OF this] obtain cs where t1: "trace w1 = trace w @ cs" "only_gets cs" by blast
  note silent = only_gets_no_effect [OF t1(2)]
  have steps: "transition m (set_status PhasePending s m)" "transition m (set_status PhaseSuccessful s m)" for s
    using assms(2) by (auto simp: update_keeps)
  consider (error) err where "t = Inl err" | (waiting) "t = Inr False" | (ready) "t = Inr True"
    by (cases t) auto
  then show ?thesis
  proof cases
    case error
    with assms ready t1 silent show ?thesis
      by (intro handled_silent [of w' w cs]) (auto simp: doesResultExist_def)
  next
    case waiting
    with assms(1) ready have
      "updateThen K (set_status PhasePending ''Waiting for target rollout'' m) (requeue_after PendingRequeueTime) w1 = (r, w')"
      by (simp add: doesResultExist_def)
    from updateThen_handled [OF this t1(1) _ steps(1)] silent show ?thesis
      by (simp add: PendingRequeueTime_def)
  next
    case ready': ready
    obtain g w2 where get: "GetResult K (resultKey m) w1 = (g, w2)" by (cases "GetResult K (resultKey m) w1")
    let ?cs = "cs @ [CallGetResult (resultKey m)]"
    have t2: "trace w2 = trace w @ ?cs" using perform_trace [OF get] t1 by simp
    show ?thesis
    proof (cases "\<exists>err. g = Inl err \<and> \<not> IsNotFound err")
      case True
      with assms ready ready' get t2 silent show ?thesis
        by (intro handled_silent [of w' w ?cs]) (auto simp: doesResultExist_def)
    next
      case False
      with assms(1) ready ready' get have
        "\<exists>p s res. updateThen K (set_status p s m) res w2 = (r, w') \<and> transition m (set_status p s m) \<and>
           RequeueAfter res > 0"
        using steps by (auto simp: doesResultExist_def requeue_defs split: sum.splits if_splits intro!: exI)
      then obtain p s res where "updateThen K (set_status p s m) res w2 = (r, w')"
        "transition m (set_status p s m)" "RequeueAfter res > 0" by blast
      from updateThen_handled [OF this(1) t2 _ this(2)] this(3) silent show ?thesis by simp
    qed
  qed
qed


lemma execution_handled:
  assumes "execution L K \<lparr>oec_Obj = x, oec_Mutation = m\<rparr> w cs r"
    and "mt_Phase (mu_Status m) = PhaseInProgress"
  shows "moves m cs \<and> looked_at_again cs r \<and> query_clients cs = []"
  using assms
  by cases (auto simp: moves_def looked_at_again_def update_keeps requeue_defs split: if_splits)

lemma executeProposal_handled:
  assumes "executeProposal L K m w = (out, w')" and "mt_Phase (mu_Status m) = PhaseInProgress"
  shows "\<exists>r. out = Done r \<and> handled m client w w' r"
proof -
  consider (quiet) r where "w' = w" "out = Done r" "RequeueAfter (fst r) > 0"
    | (runs) x where "ResourceToExecution L K \<lparr>oec_Obj = x, oec_Mutation = m\<rparr> w = (out, w')"
    using assms(1) by (auto simp: executeProposal_def Let_def ErrorRequeueTime_def split: if_splits sum.splits)
  then show ?thesis
  proof cases
    case quiet
    then show ?thesis
      using handled_silent [where cs = "[]" and w = w and w' = w' and r = r and m = m and client = client]
      by simp
  next
    case runs
    from ResourceToExecution_execution [OF this] obtain r where
      r: "out = Done r" "execution L K \<lparr>oec_Obj = x, oec_Mutation = m\<rparr> w (calls w w') r" by blast
    from execution_handled [OF r(2) assms(2)]
    have h: "moves m (calls w w')" "looked_at_again (calls w w') r" "query_clients (calls w w') = []"
      by auto
    have "trace w' = trace w @ calls w w'" by (rule ResourceToExecution_extends [OF runs])
    then have "handled m client w w' r" using h assms(2) by (intro handledI) auto
    with r(1) show ?thesis by blast
  qed
qed

lemma reconcilePhase_handled:
  assumes "reconcilePhase L K D backend cells r m w = (out, r', w')"
  shows "(\<exists>x. out = Done x \<and>
      (handled m (ServerQueryClient r') w w' x \<or>
       w' = w \<and> mt_Phase (mu_Status m) \<notin> {PhaseNotStarted, PhaseInProgress, PhaseCompleted, PhasePending})) \<and>
    (r' = r \<or> ServerQueryClient r = None \<and> mt_Phase (mu_Status m) = PhaseNotStarted \<and>
       r' = r\<lparr>ServerQueryClient := GetServerQueryClient cells\<rparr>)"
proof (cases "mt_Phase (mu_Status m)")
  case PhaseNotStarted
  define r1 where "r1 = (if ServerQueryClient r = None
    then r\<lparr>ServerQueryClient := GetServerQueryClient cells\<rparr> else r)"
  obtain x v where req: "requestProposal L K D (ServerQueryClient r1) backend m w = (x, v)"
    by (cases "requestProposal L K D (ServerQueryClient r1) backend m w")
  with assms PhaseNotStarted have "out = Done x" "r' = r1" "w' = v"
    by (auto simp: reconcilePhase_def r1_def [symmetric] Let_def)
  with requestProposal_handled [OF req PhaseNotStarted] PhaseNotStarted show ?thesis
    by (auto simp: r1_def)
next
  case PhaseInProgress
  then obtain "executeProposal L K m w = (out, w')" "r' = r"
    using assms by (auto simp: reconcilePhase_def split: prod.splits)
  with executeProposal_handled [OF this(1) PhaseInProgress] show ?thesis by blast
next
  case PhaseCompleted
  then obtain x where "doesResultExist L K m w = (x, w')" "out = Done x" "r' = r"
    using assms by (auto simp: reconcilePhase_def split: prod.splits)
  with doesResultExist_handled [OF this(1)] PhaseCompleted show ?thesis by blast
next
  case PhasePending
  then obtain x where "doesResultExist L K m w = (x, w')" "out = Done x" "r' = r"
    using assms by (auto simp: reconcilePhase_def split: prod.splits)
  with doesResultExist_handled [OF this(1)] PhasePending show ?thesis by blast
qed (use assms in \<open>auto simp: reconcilePhase_def\<close>)


section \<open>A reconciliation\<close>

lemma Reconcile_parts:
  assumes "Reconcile L K D cells cells' r key w = (out, r', w')"
    and "fst (kGetMutation K key (cluster w)) = Inr m"
  obtains (stop) err where "beingDeleted m" "out = Done (requeue_after ErrorRequeueTime, Some err)" "r' = r"
      "trace w' = trace w @ [CallGetMutation key, CallUpdateMutation (releaseFinalizer m) False]"
  | (phase) m' v pre where "reconcilePhase L K D (GetRemoteBackend cells) cells' r m' v = (out, r', w')" "trace v = trace w @ pre"
      "beingDeleted m \<Longrightarrow> pre = [CallGetMutation key, CallUpdateMutation (releaseFinalizer m) True] \<and>
         fst (kUpdateMutation K (releaseFinalizer m) (snd (kGetMutation K key (cluster w)))) = Inr m'"
      "\<not> beingDeleted m \<Longrightarrow> pre = [CallGetMutation key] \<and> m' = m"
proof -
  obtain v where get: "GetMutation K key w = (Inr m, v)"
    and s: "cluster v = snd (kGetMutation K key (cluster w))"
    using assms(2) by (cases "kGetMutation K key (cluster w)") (auto simp: perform_def)
  note t1 = perform_trace [OF get]
  show thesis
  proof (cases "beingDeleted m")
    case False
    with assms(1) get t1 show thesis by (intro phase [of m v "[CallGetMutation key]"]) (auto simp: Reconcile_def Let_def)
  next
    case True
    obtain u v2 where up: "UpdateMutation K (releaseFinalizer m) v = (u, v2)"
      by (cases "UpdateMutation K (releaseFinalizer m) v")
    note t2 = perform_trace [OF up]
    have u: "u = fst (kUpdateMutation K (releaseFinalizer m) (snd (kGetMutation K key (cluster w))))"
      using up s by (auto simp: perform_def split: prod.splits)
    show thesis
    proof (cases u)
      case (Inl err)
      with True assms(1) get up t1 t2 show thesis by (intro stop [of err]) (auto simp: Reconcile_def Let_def)
    next
      case (Inr m')
      with t1 t2 have "trace v2 = trace w @ [CallGetMutation key, CallUpdateMutation (releaseFinalizer m) True]"
        by simp
      moreover from True assms(1) get up Inr have "reconcilePhase L K D (GetRemoteBackend cells) cells' r m' v2 = (out, r', w')"
        by (simp add: Reconcile_def Let_def)
      moreover have "fst (kUpdateMutation K (releaseFinalizer m) (snd (kGetMutation K key (cluster w)))) = Inr m'"
        using u Inr by simp
      ultimately show thesis
        using True by (intro phase [of m' v2 "[CallGetMutation key, CallUpdateMutation (releaseFinalizer m) True]"]) auto
    qed
  qed
qed

lemma reconcilePhase_calls:
  assumes "reconcilePhase L K D backend cells r m v = (out, r', w')"
  obtains cs where "trace w' = trace v @ cs" "moves m cs" "out \<noteq> Panic"
    "no_patch cs \<or> mt_Phase (mu_Status m) = PhaseInProgress"
    "set (query_clients cs) \<subseteq> set_option (ServerQueryClient r')"
  using reconcilePhase_handled [OF assms]
  by (elim conjE exE disjE) (fastforce simp: handled_def moves_def intro: that)+

section \<open>Properties\<close>

text \<open>
  C5. A reconciliation follows the state machine and never panics.  At most one mutation is sent to
  the API server, in full or for its status, and either it is one step of the machine away (so a
  finished or aborted mutation stays what it is) and keeps the identity, the target and the snapshot
  of the mutation, or nothing but the message of its status is new.  Objects are patched only in the
  phase InProgress.  A mutation that is being deleted first has its finalizer released, and the same
  then holds of the mutation the API server answered.
\<close>

theorem reconcile_follows_state_machine:
  assumes "Reconcile L K D cells cells' r key w = (out, r', w')"
    and "fst (kGetMutation K key (cluster w)) = Inr m"
  shows "out \<noteq> Panic \<and>
    (\<exists>current pre cs. calls w w' = pre @ cs \<and> moves current cs \<and>
       (no_patch cs \<or> mt_Phase (mu_Status current) = PhaseInProgress) \<and> no_patch pre \<and>
       (if beingDeleted m
        then mutation_updates pre = [releaseFinalizer m] \<and>
          (cs = [] \<or> fst (kUpdateMutation K (releaseFinalizer m)
             (snd (kGetMutation K key (cluster w)))) = Inr current)
        else mutation_updates pre = [] \<and> current = m))"
  using assms
proof (cases rule: Reconcile_parts)
  case (stop err)
  then show ?thesis
    by (intro conjI exI [of _ m] exI [of _ "calls w w'"] exI [of _ "[]"]) (simp_all add: calls_eq moves_def)
next
  case (phase m' v pre)
  obtain cs where cs: "trace w' = trace v @ cs" "moves m' cs" "out \<noteq> Panic"
    "no_patch cs \<or> mt_Phase (mu_Status m') = PhaseInProgress"
    by (rule reconcilePhase_calls [OF phase(1)])
  have c: "calls w w' = pre @ cs" using cs(1) phase(2) by (simp add: calls_eq)
  have pre: "no_patch pre \<and> (if beingDeleted m
      then mutation_updates pre = [releaseFinalizer m] \<and>
        (cs = [] \<or> fst (kUpdateMutation K (releaseFinalizer m)
           (snd (kGetMutation K key (cluster w)))) = Inr m')
      else mutation_updates pre = [] \<and> m' = m)"
    using phase(3,4) by (cases "beingDeleted m") simp_all
  have "calls w w' = pre @ cs \<and> moves m' cs \<and>
      (no_patch cs \<or> mt_Phase (mu_Status m') = PhaseInProgress) \<and> no_patch pre \<and> (if beingDeleted m
      then mutation_updates pre = [releaseFinalizer m] \<and>
        (cs = [] \<or> fst (kUpdateMutation K (releaseFinalizer m)
           (snd (kGetMutation K key (cluster w)))) = Inr m')
      else mutation_updates pre = [] \<and> m' = m)"
    using c cs pre by blast
  with cs(3) show ?thesis by blast
qed

text \<open>
  C8. A mutation is never forgotten before it is finished: after a reconciliation of a mutation
  in one of the phases NotStarted, InProgress, Completed or Pending, either it is requeued after
  some time, or an error is returned (which the controller retries), or it has just been aborted.
\<close>

theorem unfinished_mutation_is_requeued:
  assumes "reconcilePhase L K D backend cells r m w = (out, r', w')"
    and "mt_Phase (mu_Status m) \<in> {PhaseNotStarted, PhaseInProgress, PhaseCompleted, PhasePending}"
  shows "\<exists>res err. out = Done (res, err) \<and>
    (RequeueAfter res > 0 \<or> err \<noteq> None \<or>
     (\<exists>m'. mutation_updates (calls w w') = [m'] \<and> mt_Phase (mu_Status m') = PhaseAborted))"
proof -
  from reconcilePhase_handled [OF assms(1)] assms(2) obtain x where
    "out = Done x" "handled m (ServerQueryClient r') w w' x" by auto
  then show ?thesis by (cases x) (auto simp: handled_def looked_at_again_def calls_eq)
qed

text \<open>A Deployment has rolled out: the generation is observed, and as many replicas are available as specified.\<close>

definition rollout_complete :: "k8s_lib \<Rightarrow> obj \<Rightarrow> bool" where
  "rollout_complete L target \<longleftrightarrow>
     (\<exists>specified observed available.
        NestedInt64 L target [''spec'', ''replicas''] = Inr specified \<and>
        NestedInt64 L target [''status'', ''observedGeneration''] = Inr observed \<and>
        NestedInt64 L target [''status'', ''availableReplicas''] = Inr available \<and>
        GetGeneration L target \<le> (case observed of None \<Rightarrow> 0 | Some n \<Rightarrow> n) \<and>
        (case specified of None \<Rightarrow> 1 | Some n \<Rightarrow> n) \<le> (case available of None \<Rightarrow> 0 | Some n \<Rightarrow> n))"

lemma rolledOut_iff: "rolledOut L target = Inr True \<longleftrightarrow> rollout_complete L target"
  by (auto simp: rolledOut_def rollout_complete_def Let_def split: sum.splits)

text \<open>
  C7. Success means the finding is gone.  A mutation is sent to be stored as Successful only when the
  API server has answered that the result of the finding does not exist, after the target was found
  ready; and a Deployment is ready only when the object fetched is the one of the proposal, its
  controller has observed its generation, and as many replicas are available as it specifies, one if
  it does not say.
\<close>

theorem success_means_gone:
  assumes "doesResultExist L K m w = (r, w')"
    and "m' \<in> set (mutation_updates (calls w w'))" and "mt_Phase (mu_Status m') = PhaseSuccessful"
  shows "\<exists>w1 err gv. targetReady L K m w = (Inr True, w1) \<and>
    fst (kGetResult K (resultKey m) (cluster w1)) = Inl err \<and> IsNotFound err \<and>
    ParseGroupVersion L (ms_ResourceGVK (mu_Spec m)) = Inr gv \<and>
    (WithKind gv (or_Kind (ms_ResourceRef (mu_Spec m))) \<noteq> DeploymentGVK \<or>
     (\<exists>target. fst (kGet K \<lparr>key_Namespace = or_Namespace (ms_ResourceRef (mu_Spec m)),
          key_Name = or_Name (ms_ResourceRef (mu_Spec m))\<rparr> (empty_of L DeploymentGVK) (cluster w)) = Inr target \<and>
        or_UID (ms_ResourceRef (mu_Spec m)) \<in> {'''', GetUID L target} \<and> rollout_complete L target))"
proof -
  obtain t w1 where ready: "targetReady L K m w = (t, w1)" by (cases "targetReady L K m w")
  from targetReady_calls [OF this] obtain cs where t1: "trace w1 = trace w @ cs" "only_gets cs" by blast
  have old: "mutation_updates cs = []" using only_gets_no_effect [OF t1(2)] by blast
  obtain g w2 where get: "GetResult K (resultKey m) w1 = (g, w2)" by (cases "GetResult K (resultKey m) w1")
  note t2 = perform_trace [OF get]
  have "t = Inr True \<and> (\<exists>err. g = Inl err \<and> IsNotFound err)"
    using assms ready get t1 t2 old
    by (auto simp: doesResultExist_def calls_eq split: sum.splits if_splits dest!: updateThen_calls)
  then obtain err where ge: "t = Inr True" "g = Inl err" "IsNotFound err" by blast
  have "fst (kGetResult K (resultKey m) (cluster w1)) = Inl err"
    using get ge by (auto simp: perform_def split: prod.splits)
  moreover obtain gv where gv: "ParseGroupVersion L (ms_ResourceGVK (mu_Spec m)) = Inr gv"
    using ready ge by (auto simp: targetReady_def split: sum.splits)
  moreover have "\<exists>target. fst (kGet K \<lparr>key_Namespace = or_Namespace (ms_ResourceRef (mu_Spec m)),
        key_Name = or_Name (ms_ResourceRef (mu_Spec m))\<rparr> (empty_of L DeploymentGVK) (cluster w)) = Inr target \<and>
      or_UID (ms_ResourceRef (mu_Spec m)) \<in> {'''', GetUID L target} \<and> rollout_complete L target"
    if "WithKind gv (or_Kind (ms_ResourceRef (mu_Spec m))) = DeploymentGVK"
    using that ready ge(1) gv unfolding rolledOut_iff [symmetric]
    by (auto simp: targetReady_def DeploymentGVK_def perform_def Let_def split: prod.splits sum.splits if_splits)
  ultimately show ?thesis using ready ge by blast
qed

text \<open>
  The query client is fetched once.  A reconciler that has a client keeps it and sends every
  query to it, whatever client the analysis controller has shared since, so that a client whose
  connection has been closed is never replaced.
\<close>

theorem query_client_never_refreshed:
  assumes "reconcilePhase L K D backend cells r m w = (out, r', w')" and "ServerQueryClient r = Some c"
  shows "r' = r \<and> set (query_clients (calls w w')) \<subseteq> {c}"
proof -
  have "r' = r" using reconcilePhase_handled [OF assms(1)] assms(2) by auto
  moreover obtain cs where "trace w' = trace w @ cs" "set (query_clients cs) \<subseteq> set_option (ServerQueryClient r')"
    by (rule reconcilePhase_calls [OF assms(1)])
  ultimately show ?thesis using assms(2) by (simp add: calls_eq)
qed


section \<open>Applications\<close>

definition sampleCells :: shared_cells where
  "sampleCells = \<lparr>serverQueryClient = Some 1, remoteBackend = ''openai'', k8sgptConfig = None\<rparr>"

definition sampleReconciler :: MutationReconciler where
  "sampleReconciler = \<lparr>ServerQueryClient = Some 0\<rparr>"

definition sampleKey :: object_key where
  "sampleKey = \<lparr>key_Namespace = ''ops'', key_Name = ''web-fix''\<rparr>"

theorem reconcile_follows_state_machine_witness:
  "\<exists>out r' w'.
     Reconcile sampleLib std_kube (\<lambda>a b. 1) sampleCells sampleCells sampleReconciler sampleKey
       (sampleWorld [sampleMutation PhaseInProgress ''two'']) = (out, r', w') \<and> out \<noteq> Panic \<and>
     (\<exists>pre cs. calls (sampleWorld [sampleMutation PhaseInProgress ''two'']) w' = pre @ cs \<and>
        moves (sampleMutation PhaseInProgress ''two'') cs \<and> mutation_updates pre = [])"
proof -
  let ?w = "sampleWorld [sampleMutation PhaseInProgress ''two'']"
  obtain out r' w' where run: "Reconcile sampleLib std_kube (\<lambda>a b. 1) sampleCells sampleCells sampleReconciler
      sampleKey ?w = (out, r', w')" by (metis prod_cases3)
  have "fst (kGetMutation std_kube sampleKey (cluster ?w)) = Inr (sampleMutation PhaseInProgress ''two'')"
    by code_simp
  moreover have "\<not> beingDeleted (sampleMutation PhaseInProgress ''two'')" by code_simp
  ultimately show ?thesis using reconcile_follows_state_machine [OF run] run by auto
qed

theorem unfinished_mutation_is_requeued_witness:
  "\<exists>res err. fst (reconcilePhase sampleLib std_kube (\<lambda>a b. 1) ''openai'' sampleCells \<lparr>ServerQueryClient = None\<rparr>
     (sampleMutation PhasePending ''two'') (sampleWorld [])) = Done (res, err)"
proof -
  obtain out r' w' where run: "reconcilePhase sampleLib std_kube (\<lambda>a b. 1) ''openai'' sampleCells
      \<lparr>ServerQueryClient = None\<rparr> (sampleMutation PhasePending ''two'') (sampleWorld []) = (out, r', w')"
    by (metis prod_cases3)
  from unfinished_mutation_is_requeued [OF run] run show ?thesis by (auto simp: sampleMutation_def)
qed

definition sampleRolledOut :: obj where
  "sampleRolledOut = sampleDeployment ''app:2'' @
     [(''status'', JObj [(''observedGeneration'', JNum (Int64 1)), (''availableReplicas'', JNum (Int64 1))])]"

definition sampleFixedWorld :: "store world" where
  "sampleFixedWorld =
     \<lparr>cluster = empty_store\<lparr>s_objects := [(object_slot sampleRolledOut, sampleRolledOut)]\<rparr>, trace = []\<rparr>"

theorem success_means_gone_witness:
  "rolledOut sampleLib sampleRolledOut = Inr True \<and>
   (\<exists>err. fst (kGetResult std_kube (resultKey (sampleMutation PhaseCompleted ''two''))
      (cluster sampleFixedWorld)) = Inl err \<and> IsNotFound err)"
proof -
  let ?m = "sampleMutation PhaseCompleted ''two''"
  let ?run = "doesResultExist sampleLib std_kube ?m sampleFixedWorld"
  obtain r w' where run: "?run = (r, w')" by (cases ?run)
  have "calls sampleFixedWorld (snd ?run) =
      [CallGet \<lparr>key_Namespace = ''shop'', key_Name = ''web''\<rparr> (empty_of sampleLib DeploymentGVK),
       CallGetResult (resultKey ?m),
       CallUpdateMutation (set_status PhaseSuccessful ''Successful'' ?m) True]" by code_simp
  then have "set_status PhaseSuccessful ''Successful'' ?m \<in> set (mutation_updates (calls sampleFixedWorld w'))"
    using run by simp
  from success_means_gone [OF run this phase_updates(1)] obtain w1 err where
    ready: "targetReady sampleLib std_kube ?m sampleFixedWorld = (Inr True, w1)"
    and gone: "fst (kGetResult std_kube (resultKey ?m) (cluster w1)) = Inl err" "IsNotFound err" by blast
  have "cluster (snd (targetReady sampleLib std_kube ?m sampleFixedWorld)) = cluster sampleFixedWorld"
    by code_simp
  with ready gone have "\<exists>err. fst (kGetResult std_kube (resultKey ?m) (cluster sampleFixedWorld)) = Inl err \<and>
      IsNotFound err" by auto
  moreover have "rolledOut sampleLib sampleRolledOut = Inr True" by code_simp
  ultimately show ?thesis by blast
qed

theorem query_client_never_refreshed_witness:
  "GetServerQueryClient sampleCells = Some 1 \<and>
   fst (snd (reconcilePhase sampleLib std_kube (\<lambda>a b. 1) ''openai'' sampleCells sampleReconciler
     (sampleMutation PhaseNotStarted '''') (sampleWorld []))) = sampleReconciler"
proof -
  obtain out r' w' where run: "reconcilePhase sampleLib std_kube (\<lambda>a b. 1) ''openai'' sampleCells sampleReconciler
      (sampleMutation PhaseNotStarted '''') (sampleWorld []) = (out, r', w')" by (metis prod_cases3)
  have "r' = sampleReconciler"
    using query_client_never_refreshed [OF run, of 0] by (simp add: sampleReconciler_def)
  with run show ?thesis by (simp add: GetServerQueryClient_def sampleCells_def)
qed

definition deletedMutation :: Mutation where
  "deletedMutation = (sampleMutation PhaseInProgress ''two'')\<lparr>mu_Meta :=
     (new_meta ''web-fix'' ''ops'')\<lparr>om_DeletionTimestamp := Some 3, om_Finalizers := [mutationFinalizer]\<rparr>\<rparr>"

definition persistentPatches :: "call list \<Rightarrow> nat" where
  "persistentPatches cs =
     length (filter (\<lambda>c. case c of CallPatch object ops dryRun ok \<Rightarrow> \<not> dryRun \<and> ok | _ \<Rightarrow> False) cs)"

text \<open>
  Deleting a mutation does not stop it: a mutation that is being deleted while it is
  InProgress has its finalizer released and its patch applied in the same reconciliation.
\<close>

theorem deleted_mutation_is_still_executed:
  "beingDeleted deletedMutation \<and>
   (case Reconcile sampleLib std_kube (\<lambda>a b. 1) sampleCells sampleCells sampleReconciler sampleKey
       (sampleWorld [deletedMutation]) of
      (out, r', w') \<Rightarrow>
        persistentPatches (calls (sampleWorld [deletedMutation]) w') = 1 \<and>
        map (\<lambda>m. om_Finalizers (mu_Meta m)) (mutation_updates (calls (sampleWorld [deletedMutation]) w'))
          = [[], []])"
  by code_simp

end
