(* ===== verification/Actions.thy ===== *)
theory Actions
  imports Cluster
begin

text \<open>
  Operations that read and write the world, return a value or an error, and may panic: the Go
  functions with the signature \<^verbatim>\<open>(T, error)\<close> whose body dereferences pointers.  The theory holds their
  sequencing (an error or a panic ends the function), loops over a slice, the retries of
  \<^verbatim>\<open>k8s.io/client-go/util/retry\<close>, and the rules for what an operation appends to the trace.
\<close>

section \<open>Sequencing\<close>

type_synonym ('a, 'w) action = "'w \<Rightarrow> 'a go_result outcome \<times> 'w"

definition succeed :: "'a \<Rightarrow> ('a, 'w) action" where
  "succeed x w = (Done (Inr x), w)"

definition fail :: "error \<Rightarrow> ('a, 'w) action" where
  "fail err w = (Done (Inl err), w)"

definition crash :: "('a, 'w) action" where
  "crash w = (Panic, w)"

text \<open>A dereference of a pointer.\<close>

definition deref :: "'a option \<Rightarrow> ('a, 'w) action" where
  "deref p = (case p of None \<Rightarrow> crash | Some x \<Rightarrow> succeed x)"

text \<open>A call of the API server or of the K8sGPT server.\<close>

definition request :: "('w \<Rightarrow> 'a go_result \<times> 'w) \<Rightarrow> ('a, 'w) action" where
  "request f w = (case f w of (r, w') \<Rightarrow> (Done r, w'))"

definition and_then :: "('a, 'w) action \<Rightarrow> ('a \<Rightarrow> ('b, 'w) action) \<Rightarrow> ('b, 'w) action" where
  "and_then m f w =
     (case m w of
        (Panic, w') \<Rightarrow> (Panic, w')
      | (Done (Inl err), w') \<Rightarrow> (Done (Inl err), w')
      | (Done (Inr x), w') \<Rightarrow> f x w')"

text \<open>The error of an action handled by another one, as \<^verbatim>\<open>if err != nil\<close> does when it goes on.\<close>

definition on_error :: "('a, 'w) action \<Rightarrow> (error \<Rightarrow> ('a, 'w) action) \<Rightarrow> ('a, 'w) action" where
  "on_error m f w =
     (case m w of
        (Panic, w') \<Rightarrow> (Panic, w')
      | (Done (Inl err), w') \<Rightarrow> f err w'
      | (Done (Inr x), w') \<Rightarrow> (Done (Inr x), w'))"

fun for_each :: "('x \<Rightarrow> (unit, 'w) action) \<Rightarrow> 'x list \<Rightarrow> (unit, 'w) action" where
  "for_each f [] = succeed ()"
| "for_each f (x # xs) = and_then (f x) (\<lambda>_. for_each f xs)"

lemmas action_defs = succeed_def fail_def crash_def deref_def request_def and_then_def on_error_def

lemma and_then_simps [simp]:
  "and_then (succeed x) f = f x"
  "and_then (fail err) f = fail err"
  "and_then crash f = crash"
  by (rule ext, simp add: action_defs)+

lemma and_then_Pair [simp]:
  "and_then (Pair (Done (Inr x))) f = f x"
  "and_then (Pair (Done (Inl err))) f = Pair (Done (Inl err))"
  "and_then (Pair Panic) f = Pair Panic"
  by (rule ext, simp add: action_defs)+

lemma deref_simps [simp]: "deref None = crash" "deref (Some x) = succeed x"
  by (simp_all add: deref_def)

lemma action_eval:
  "succeed x w = (Done (Inr x), w)" "fail err w = (Done (Inl err), w)" "crash w = (Panic, w)"
  by (simp_all add: action_defs)

lemma and_then_done:
  "and_then m f w = (Done (Inr y), w') \<longleftrightarrow>
   (\<exists>x w1. m w = (Done (Inr x), w1) \<and> f x w1 = (Done (Inr y), w'))"
  by (auto simp: and_then_def split: prod.splits outcome.splits sum.splits)

section \<open>What an action appends to the trace\<close>

text \<open>
  \<open>emits tr P m\<close>: the action only appends to the trace, and every call it appends satisfies \<open>P\<close>.
  The rules follow the structure of an action.
\<close>

definition emits :: "('w \<Rightarrow> call list) \<Rightarrow> (call \<Rightarrow> bool) \<Rightarrow> ('w \<Rightarrow> 'r \<times> 'w) \<Rightarrow> bool" where
  "emits tr P m \<longleftrightarrow> (\<forall>w r w'. m w = (r, w') \<longrightarrow> (\<exists>cs. tr w' = tr w @ cs \<and> list_all P cs))"

named_theorems emits_rules \<open>rules for the calls of an action\<close>

lemma emits_D: "emits tr P m \<Longrightarrow> m w = (r, w') \<Longrightarrow> \<exists>cs. tr w' = tr w @ cs \<and> list_all P cs"
  unfolding emits_def by blast

lemma emits_I: "(\<And>w r w'. m w = (r, w') \<Longrightarrow> \<exists>cs. tr w' = tr w @ cs \<and> list_all P cs) \<Longrightarrow> emits tr P m"
  unfolding emits_def by blast

lemma emits_silent: "(\<And>w r w'. m w = (r, w') \<Longrightarrow> tr w' = tr w) \<Longrightarrow> emits tr P m"
  by (rule emits_I) (rule exI [of _ "[]"], simp)

lemma emits_mono: "emits tr P m \<Longrightarrow> (\<And>c. P c \<Longrightarrow> Q c) \<Longrightarrow> emits tr Q m"
  unfolding emits_def by (meson list.pred_mono_strong)

lemma emits_perform [emits_rules]: "(\<And>r. P (c r)) \<Longrightarrow> emits trace P (perform f c)"
  by (rule emits_I) (auto dest: perform_trace)

lemma emits_succeed [emits_rules]: "emits tr P (succeed x)"
  and emits_fail [emits_rules]: "emits tr P (fail err)"
  and emits_crash [emits_rules]: "emits tr P crash"
  by (rule emits_silent, simp add: action_defs)+

lemma emits_deref [emits_rules]: "emits tr P (deref p)"
  by (cases p) (simp_all add: emits_rules)

lemma emits_request [emits_rules]: "emits tr P m \<Longrightarrow> emits tr P (request m)"
  unfolding emits_def request_def by (auto split: prod.splits)

lemma emits_append:
  "\<exists>cs. tr b = tr a @ cs \<and> list_all P cs \<Longrightarrow> \<exists>cs. tr c = tr b @ cs \<and> list_all P cs \<Longrightarrow>
   \<exists>cs. tr c = tr a @ cs \<and> list_all P cs"
  by (metis append.assoc list_all_append)

lemma emits_and_then [emits_rules]:
  assumes "emits tr P m" and "\<And>x. emits tr P (f x)"
  shows "emits tr P (and_then m f)"
proof (rule emits_I)
  fix w r w'
  assume run: "and_then m f w = (r, w')"
  obtain x w1 where m: "m w = (x, w1)" by (cases "m w")
  note first = emits_D [OF assms(1) m]
  show "\<exists>cs. tr w' = tr w @ cs \<and> list_all P cs"
  proof (cases "\<exists>y. x = Done (Inr y)")
    case True
    then obtain y where "x = Done (Inr y)" by blast
    with run m have "f y w1 = (r, w')" by (simp add: and_then_def)
    from emits_append [where tr = tr, OF first emits_D [OF assms(2) this]] show ?thesis .
  next
    case False
    with run m have "w' = w1" by (auto simp: and_then_def split: outcome.splits sum.splits)
    with first show ?thesis by simp
  qed
qed

lemma emits_on_error [emits_rules]:
  assumes "emits tr P m" and "\<And>err. emits tr P (f err)"
  shows "emits tr P (on_error m f)"
proof (rule emits_I)
  fix w r w'
  assume run: "on_error m f w = (r, w')"
  obtain x w1 where m: "m w = (x, w1)" by (cases "m w")
  note first = emits_D [OF assms(1) m]
  show "\<exists>cs. tr w' = tr w @ cs \<and> list_all P cs"
  proof (cases "\<exists>y. x = Done (Inl y)")
    case True
    then obtain y where "x = Done (Inl y)" by blast
    with run m have "f y w1 = (r, w')" by (simp add: on_error_def)
    from emits_append [where tr = tr, OF first emits_D [OF assms(2) this]] show ?thesis .
  next
    case False
    with run m have "w' = w1" by (auto simp: on_error_def split: outcome.splits sum.splits)
    with first show ?thesis by simp
  qed
qed

lemma emits_for_each [emits_rules]: "(\<And>x. emits tr P (f x)) \<Longrightarrow> emits tr P (for_each f xs)"
  by (induction xs) (simp_all add: emits_rules)

lemma emits_if [emits_rules]: "emits tr P m \<Longrightarrow> emits tr P n \<Longrightarrow> emits tr P (if b then m else n)"
  by simp

lemma emits_sum [emits_rules]:
  "(\<And>e. emits tr P (g e)) \<Longrightarrow> (\<And>x. emits tr P (h x)) \<Longrightarrow> emits tr P (case y of Inl e \<Rightarrow> g e | Inr x \<Rightarrow> h x)"
  by (cases y) simp_all

lemma emits_option [emits_rules]:
  "emits tr P m \<Longrightarrow> (\<And>x. emits tr P (f x)) \<Longrightarrow> emits tr P (case p of None \<Rightarrow> m | Some x \<Rightarrow> f x)"
  by (cases p) simp_all

text \<open>\<open>keeps f m\<close>: the action leaves the part \<open>f\<close> of its state as it is.\<close>

definition keeps :: "('w \<Rightarrow> 'p) \<Rightarrow> ('w \<Rightarrow> 'r \<times> 'w) \<Rightarrow> bool" where
  "keeps f m \<longleftrightarrow> (\<forall>w r w'. m w = (r, w') \<longrightarrow> f w' = f w)"

named_theorems keeps_rules \<open>rules for the part of the state an action keeps\<close>

lemma keeps_D: "keeps f m \<Longrightarrow> m w = (r, w') \<Longrightarrow> f w' = f w"
  unfolding keeps_def by blast

lemma keeps_I: "(\<And>w r w'. m w = (r, w') \<Longrightarrow> f w' = f w) \<Longrightarrow> keeps f m"
  unfolding keeps_def by blast

lemma keeps_basic [keeps_rules]: "keeps f (succeed x)" "keeps f (fail err)" "keeps f crash" "keeps f (deref p)"
  by (auto intro!: keeps_I simp: action_defs split: option.splits)

lemma keeps_request [keeps_rules]: "keeps f m \<Longrightarrow> keeps f (request m)"
  by (auto simp: keeps_def request_def split: prod.splits)

lemma keeps_and_then [keeps_rules]: "keeps f m \<Longrightarrow> (\<And>x. keeps f (g x)) \<Longrightarrow> keeps f (and_then m g)"
  unfolding keeps_def and_then_def by (simp split: prod.splits outcome.splits sum.splits)

lemma keeps_on_error [keeps_rules]: "keeps f m \<Longrightarrow> (\<And>err. keeps f (g err)) \<Longrightarrow> keeps f (on_error m g)"
  unfolding keeps_def on_error_def by (simp split: prod.splits outcome.splits sum.splits)

lemma keeps_if [keeps_rules]: "keeps f m \<Longrightarrow> keeps f n \<Longrightarrow> keeps f (if b then m else n)"
  by simp

lemma keeps_option [keeps_rules]:
  "keeps f m \<Longrightarrow> (\<And>x. keeps f (g x)) \<Longrightarrow> keeps f (case p of None \<Rightarrow> m | Some x \<Rightarrow> g x)"
  by (cases p) simp_all

lemma keeps_for_each [keeps_rules]: "(\<And>x. keeps f (g x)) \<Longrightarrow> keeps f (for_each g xs)"
  by (induction xs) (simp_all add: keeps_rules)

text \<open>\<open>maintains I m\<close>: the action keeps the invariant \<open>I\<close> of its state.\<close>

definition maintains :: "('w \<Rightarrow> bool) \<Rightarrow> ('w \<Rightarrow> 'r \<times> 'w) \<Rightarrow> bool" where
  "maintains I m \<longleftrightarrow> (\<forall>w r w'. I w \<longrightarrow> m w = (r, w') \<longrightarrow> I w')"

named_theorems maintains_rules \<open>rules for the invariants of an action\<close>

lemma maintains_D: "maintains I m \<Longrightarrow> I w \<Longrightarrow> m w = (r, w') \<Longrightarrow> I w'"
  unfolding maintains_def by blast

lemma maintains_I: "(\<And>w r w'. I w \<Longrightarrow> m w = (r, w') \<Longrightarrow> I w') \<Longrightarrow> maintains I m"
  unfolding maintains_def by blast

lemma maintains_basic [maintains_rules]:
  "maintains I (succeed x)" "maintains I (fail err)" "maintains I crash" "maintains I (deref p)"
  by (auto intro!: maintains_I simp: action_defs split: option.splits)

lemma maintains_and_then [maintains_rules]:
  assumes "maintains I m" and "\<And>x. maintains I (g x)"
  shows "maintains I (and_then m g)"
proof (rule maintains_I)
  fix w r w' assume "I w" and run: "and_then m g w = (r, w')"
  obtain x w1 where m: "m w = (x, w1)" by (cases "m w")
  with assms(1) \<open>I w\<close> have "I w1" by (blast dest: maintains_D)
  with run m maintains_D [OF assms(2)] show "I w'"
    by (cases x) (auto simp: and_then_def split: sum.splits)
qed

lemma maintains_on_error [maintains_rules]:
  assumes "maintains I m" and "\<And>err. maintains I (g err)"
  shows "maintains I (on_error m g)"
proof (rule maintains_I)
  fix w r w' assume "I w" and run: "on_error m g w = (r, w')"
  obtain x w1 where m: "m w = (x, w1)" by (cases "m w")
  with assms(1) \<open>I w\<close> have "I w1" by (blast dest: maintains_D)
  with run m maintains_D [OF assms(2)] show "I w'"
    by (cases x) (auto simp: on_error_def split: sum.splits)
qed

lemma maintains_if [maintains_rules]: "maintains I m \<Longrightarrow> maintains I n \<Longrightarrow> maintains I (if b then m else n)"
  by simp

lemma maintains_option [maintains_rules]:
  "maintains I m \<Longrightarrow> (\<And>x. maintains I (g x)) \<Longrightarrow> maintains I (case p of None \<Rightarrow> m | Some x \<Rightarrow> g x)"
  by (cases p) simp_all

lemma maintains_for_each [maintains_rules]: "(\<And>x. maintains I (g x)) \<Longrightarrow> maintains I (for_each g xs)"
  by (induction xs) (simp_all add: maintains_rules)

section \<open>Retries\<close>

text \<open>
  \<^verbatim>\<open>retry.RetryOnConflict\<close>: the function is run again while it fails with a conflict, at most
  \<open>n\<close> times in all; the state it works on is kept between the runs.
\<close>

fun retryOnConflict :: "nat \<Rightarrow> ('a \<Rightarrow> 'b go_result \<times> 'a) \<Rightarrow> 'a \<Rightarrow> 'b go_result \<times> 'a" where
  "retryOnConflict 0 f a = (Inl (Errorf ''timed out waiting for the condition''), a)"
| "retryOnConflict (Suc n) f a =
     (case f a of
        (Inl err, a') \<Rightarrow> if IsConflict err \<and> n \<noteq> 0 then retryOnConflict n f a' else (Inl err, a')
      | (Inr x, a') \<Rightarrow> (Inr x, a'))"

text \<open>\<^verbatim>\<open>retry.DefaultRetry\<close> makes five attempts.\<close>

definition retrySteps :: nat where "retrySteps = 5"

text \<open>
  What a retried function promises: one run appends at most \<open>m\<close> calls to the trace of its state.
  The last run of a retried function gives its result, and the runs before it are bounded.
\<close>

locale retried =
  fixes f :: "'a \<Rightarrow> 'b go_result \<times> 'a" and calls_of :: "'a \<Rightarrow> call list" and m :: nat
  assumes run: "f a = (r, b) \<Longrightarrow> \<exists>cs. calls_of b = calls_of a @ cs \<and> length cs \<le> m"
begin

lemma last_run:
  assumes "retryOnConflict (Suc n) f a = (r, b)"
  shows "\<exists>c cs. f c = (r, b) \<and> calls_of c = calls_of a @ cs \<and> length cs \<le> m * n"
  using assms
proof (induction n arbitrary: a)
  case 0
  then have "f a = (r, b)" by (auto split: prod.splits sum.splits if_splits)
  then show ?case by (intro exI [of _ a] exI [of _ "[]"]) simp
next
  case (Suc n)
  obtain x a' where fa: "f a = (x, a')" by (cases "f a")
  show ?case
  proof (cases "\<exists>err. x = Inl err \<and> IsConflict err")
    case True
    with Suc.prems fa have "retryOnConflict (Suc n) f a' = (r, b)" by auto
    from Suc.IH [OF this] obtain c cs where c: "f c = (r, b)" "calls_of c = calls_of a' @ cs"
      "length cs \<le> m * n" by blast
    from run [OF fa] obtain ds where "calls_of a' = calls_of a @ ds" "length ds \<le> m" by blast
    with c show ?thesis by (intro exI [of _ c] exI [of _ "ds @ cs"]) simp
  next
    case False
    with Suc.prems fa have "f a = (r, b)" by (auto split: sum.splits)
    then show ?thesis by (intro exI [of _ a] exI [of _ "[]"]) simp
  qed
qed

lemma all_runs:
  assumes "retryOnConflict (Suc n) f a = (r, b)"
  shows "\<exists>cs. calls_of b = calls_of a @ cs \<and> length cs \<le> m * Suc n"
proof -
  from last_run [OF assms] obtain c cs where c: "f c = (r, b)" "calls_of c = calls_of a @ cs"
    "length cs \<le> m * n" by blast
  from run [OF c(1)] obtain ds where "calls_of b = calls_of c @ ds" "length ds \<le> m" by blast
  with c show ?thesis by (intro exI [of _ "cs @ ds"]) simp
qed

end

end
