(* ===== verification/Deployment.thy ===== *)
theory Deployment
  imports Actions
begin

text \<open>
  The objects of a K8sGPT server (\<^verbatim>\<open>pkg/resources/k8sgpt.go\<close>): its service account, role and
  binding, its Service and its Deployment with the environment of the container.  The process
  environment and the digest are parameters.  The lemmas compute the environment of a Deployment
  that was built, say which configurations have one, and what it depends on.
\<close>

section \<open>The host\<close>

text \<open>
  What the functions take from outside the repository: the environment variables, the digest of an
  encoded value and of a text (in hexadecimal), whether a text is an IPv4 address, the duration a
  text denotes (in nanoseconds), the error of a text that is no URL, a fresh identifier, the
  encoding of a cloud event, and the order in which a map of results is ranged over.
\<close>

record host =
  LookupEnv :: "string \<Rightarrow> string option"
  sha256_json :: "gonum token list \<Rightarrow> string"
  sha256_text :: "string \<Rightarrow> string"
  is_IPv4 :: "string \<Rightarrow> bool"
  ParseDuration :: "string \<Rightarrow> int go_result"
  url_error :: "string \<Rightarrow> error option"
  new_uuid :: "nat \<Rightarrow> string"
  event_json :: "cloud_event \<Rightarrow> opaque go_result"
  range_results :: "(string \<times> Result) list \<Rightarrow> (string \<times> Result) list"

definition dynamicRBACEnvVar :: string where
  "dynamicRBACEnvVar = ''K8SGPT_ENABLE_DYNAMIC_RBAC''"

definition defaultServiceAccountName :: string where
  "defaultServiceAccountName = ''k8sgpt''"

definition aiSecretChecksumAnnotation :: string where
  "aiSecretChecksumAnnotation = ''core.k8sgpt.ai/ai-secret-checksum''"

text \<open>\<^verbatim>\<open>strconv.ParseBool\<close>.\<close>

definition ParseBool :: "string \<Rightarrow> bool go_result" where
  "ParseBool s =
     (if s \<in> set [''1'', ''t'', ''T'', ''true'', ''TRUE'', ''True''] then Inr True
      else if s \<in> set [''0'', ''f'', ''F'', ''false'', ''FALSE'', ''False''] then Inr False
      else Inl (Errorf (''strconv.ParseBool: parsing '' @ Quote s @ '': invalid syntax'')))"

definition dynamicRBACEnabled :: "host \<Rightarrow> bool" where
  "dynamicRBACEnabled H =
     (case LookupEnv H dynamicRBACEnvVar of
        None \<Rightarrow> True
      | Some v \<Rightarrow> (case ParseBool v of Inl err \<Rightarrow> True | Inr enabled \<Rightarrow> enabled))"

section \<open>Secrets\<close>

text \<open>The standard base64 encoding, as which \<^verbatim>\<open>encoding/json\<close> writes a \<^verbatim>\<open>[]byte\<close>.\<close>

definition sextet :: "nat \<Rightarrow> char" where
  "sextet n = ''ABCDEFGHIJKLMNOPQRSTUVWXYZabcdefghijklmnopqrstuvwxyz0123456789+/'' ! n"

fun base64 :: "string \<Rightarrow> string" where
  "base64 (a # b # c # s) =
     (let n = of_char a * 65536 + of_char b * 256 + of_char c :: nat
      in sextet (n div 262144) # sextet (n div 4096 mod 64) # sextet (n div 64 mod 64) # sextet (n mod 64) # base64 s)"
| "base64 [a, b] =
     (let n = of_char a * 65536 + of_char b * 256 :: nat
      in [sextet (n div 262144), sextet (n div 4096 mod 64), sextet (n div 64 mod 64), CHR ''=''])"
| "base64 [a] =
     (let n = of_char a * 65536 :: nat in [sextet (n div 262144), sextet (n div 4096 mod 64), CHR ''='', CHR ''=''])"
| "base64 [] = []"

definition calculateSecretChecksum :: "host \<Rightarrow> Secret \<Rightarrow> string" where
  "calculateSecretChecksum H secret =
     (if sec_Data secret = [] then ''''
      else sha256_json H (json_Marshal (JObj (map (\<lambda>(k, v). (k, JStr (base64 v))) (sec_Data secret)))))"

section \<open>Building blocks\<close>

definition ownerOf :: "K8sGPT \<Rightarrow> owner_reference" where
  "ownerOf config =
     \<lparr>own_APIVersion = k_APIVersion config, own_Kind = k_Kind config,
      own_Name = om_Name (k_Meta config), own_UID = om_UID (k_Meta config),
      own_Controller = Some True, own_BlockOwnerDeletion = Some True\<rparr>"

definition literalEnv :: "string \<Rightarrow> string \<Rightarrow> EnvVar" where
  "literalEnv name v = \<lparr>ev_Name = name, ev_Source = Literal v\<rparr>"

definition secretEnv :: "string \<Rightarrow> string \<Rightarrow> string \<Rightarrow> EnvVar" where
  "secretEnv name secretName key = \<lparr>ev_Name = name, ev_Source = SecretKeyRef secretName key\<rparr>"

text \<open>Changes of \<^verbatim>\<open>deployment.Spec.Template.Spec\<close> and of its first container.\<close>

definition on_pod :: "(PodSpec \<Rightarrow> PodSpec) \<Rightarrow> Deployment \<Rightarrow> Deployment" where
  "on_pod f d =
     d\<lparr>d_Spec := (d_Spec d)\<lparr>ds_Template := (ds_Template (d_Spec d))\<lparr>pt_Spec := f (pt_Spec (ds_Template (d_Spec d)))\<rparr>\<rparr>\<rparr>"

definition pod_of :: "Deployment \<Rightarrow> PodSpec" where
  "pod_of d = pt_Spec (ds_Template (d_Spec d))"

definition on_container :: "(Container \<Rightarrow> Container) \<Rightarrow> Deployment \<Rightarrow> Deployment" where
  "on_container f = on_pod (\<lambda>p. p\<lparr>ps_Containers :=
     (case ps_Containers p of [] \<Rightarrow> [] | c # cs \<Rightarrow> f c # cs)\<rparr>)"

definition append_env :: "EnvVar list \<Rightarrow> Deployment \<Rightarrow> Deployment" where
  "append_env es = on_container (\<lambda>c. c\<lparr>c_Env := c_Env c @ es\<rparr>)"

definition addSecretAsEnvToDeployment ::
  "'s kube \<Rightarrow> string \<Rightarrow> string \<Rightarrow> K8sGPT \<Rightarrow> Deployment \<Rightarrow> (Deployment, 's world) action" where
  "addSecretAsEnvToDeployment K secretName secretKey config deployment =
     and_then
       (on_error (request (GetSecret K \<lparr>key_Namespace = om_Namespace (k_Meta config), key_Name = secretName\<rparr>))
          (\<lambda>er. fail (Errorf ''secret does not exist, cannot add to env of deployment'')))
       (\<lambda>secret. succeed (append_env [secretEnv secretKey secretName secretKey] deployment))"

section \<open>The service account, the Service, the role and its binding\<close>

definition GetServiceAccount :: "K8sGPT \<Rightarrow> string \<Rightarrow> ServiceAccount" where
  "GetServiceAccount config serviceAccountName =
     \<lparr>sa_Meta = (new_meta serviceAccountName (om_Namespace (k_Meta config)))
        \<lparr>om_OwnerReferences := [ownerOf config],
         om_Annotations :=
           (case sp_ExtraOptions (k_Spec config) of
              None \<Rightarrow> []
            | Some options \<Rightarrow>
                if eo_ServiceAccountIRSA options \<noteq> ''''
                then [(''eks.amazonaws.com/role-arn'', eo_ServiceAccountIRSA options)] else [])\<rparr>\<rparr>"

definition GetService :: "K8sGPT \<Rightarrow> Service" where
  "GetService config =
     \<lparr>svc_Meta = (new_meta (om_Name (k_Meta config)) (om_Namespace (k_Meta config)))
        \<lparr>om_OwnerReferences := [ownerOf config]\<rparr>,
      svc_Spec = \<lparr>ss_Selector = [(''app'', om_Name (k_Meta config))], ss_Ports = [8080], ss_ClusterIP = ''''\<rparr>\<rparr>"

definition GetClusterRoleBinding :: "K8sGPT \<Rightarrow> string \<Rightarrow> string \<Rightarrow> string \<Rightarrow> ClusterRoleBinding" where
  "GetClusterRoleBinding config serviceAccountName crbName clusterRoleName =
     \<lparr>crb_Meta = (new_meta crbName '''')\<lparr>om_OwnerReferences := [ownerOf config]\<rparr>,
      crb_Subjects = [\<lparr>sub_Kind = ''ServiceAccount'', sub_Name = serviceAccountName,
        sub_Namespace = om_Namespace (k_Meta config)\<rparr>],
      crb_RoleRef = \<lparr>rref_Kind = ''ClusterRole'', rref_Name = clusterRoleName\<rparr>\<rparr>"

definition rule_of :: "string \<Rightarrow> string list \<Rightarrow> string list \<Rightarrow> PolicyRule" where
  "rule_of apiGroup resources verbs =
     \<lparr>pr_APIGroups = [apiGroup], pr_Resources = resources, pr_Verbs = verbs\<rparr>"

definition GetClusterRole :: "K8sGPT \<Rightarrow> string \<Rightarrow> ClusterRole" where
  "GetClusterRole config serviceAccountName =
     (let read = [''get'', ''list'', ''watch''] in
     \<lparr>clr_Meta = (new_meta (serviceAccountName @ ''-clusterrole'') '''')\<lparr>om_OwnerReferences := [ownerOf config]\<rparr>,
      clr_Rules =
       [rule_of '''' [''pods'', ''services'', ''secrets'', ''endpoints'', ''nodes'', ''configmaps'', ''namespaces''] read,
        rule_of '''' [''persistentvolumeclaims''] [''list''],
        rule_of '''' [''events''] [''list''],
        rule_of ''apps'' [''deployments'', ''replicasets'', ''statefulsets'', ''daemonsets'', ''replicationcontrollers''] read,
        rule_of ''batch'' [''cronjobs'', ''jobs''] read,
        rule_of ''autoscaling'' [''horizontalpodautoscalers''] read,
        rule_of ''networking.k8s.io'' [''ingresses'', ''networkpolicies''] read,
        rule_of ''admissionregistration.k8s.io''
          [''validatingwebhookconfigurations'', ''mutatingwebhookconfigurations''] read,
        rule_of ''policy'' [''poddisruptionbudgets''] read,
        rule_of ''storage.k8s.io'' [''storageclasses''] read,
        rule_of ''gateway.networking.k8s.io'' [''gatewayclasses'', ''gateways'', ''httproutes''] read,
        rule_of '''' [''pods/log''] read]\<rparr>)"

section \<open>The Deployment\<close>

definition buildK8sGPTArgs :: "K8sGPT \<Rightarrow> string list" where
  "buildK8sGPTArgs config = [''serve'']"

definition deploymentImage :: "K8sGPT \<Rightarrow> string" where
  "deploymentImage config =
     (let version = (if sp_Version (k_Spec config) = '''' then ''latest'' else sp_Version (k_Spec config))
      in sp_Repository (k_Spec config) @ '':'' @ version)"

definition podLabels :: "K8sGPT \<Rightarrow> str_map" where
  "podLabels config = add_labels (sp_PodLabels (k_Spec config)) [(''app'', om_Name (k_Meta config))]"

text \<open>The checksum of the AI secret, empty if there is none.\<close>

definition aiSecretChecksum :: "host \<Rightarrow> 's kube \<Rightarrow> K8sGPT \<Rightarrow> AISpec \<Rightarrow> (string, 's world) action" where
  "aiSecretChecksum H K config ai =
     (case ai_Secret ai of
        None \<Rightarrow> succeed ''''
      | Some ref \<Rightarrow>
          if sr_Name ref = '''' then succeed ''''
          else
            and_then
              (on_error (request (GetSecret K \<lparr>key_Namespace = om_Namespace (k_Meta config), key_Name = sr_Name ref\<rparr>))
                (\<lambda>err. fail (Errorf_w (''failed to get AI Secret '' @ om_Namespace (k_Meta config) @ ''/'' @ sr_Name ref @ '': '') err)))
              (\<lambda>secret. succeed (calculateSecretChecksum H secret)))"

definition podAnnotations :: "K8sGPT \<Rightarrow> string \<Rightarrow> str_map" where
  "podAnnotations config checksum =
     (let annotations = add_labels (sp_PodAnnotations (k_Spec config)) []
      in if checksum \<noteq> '''' then AList.update aiSecretChecksumAnnotation checksum annotations else annotations)"

definition deploymentMeta :: "K8sGPT \<Rightarrow> object_meta" where
  "deploymentMeta config =
     (new_meta (om_Name (k_Meta config)) (om_Namespace (k_Meta config)))
       \<lparr>om_Labels := add_labels (sp_DeploymentLabels (k_Spec config)) [(''app'', om_Name (k_Meta config))],
        om_Annotations := add_labels (sp_DeploymentAnnotations (k_Spec config)) [],
        om_OwnerReferences := [ownerOf config]\<rparr>"

definition quantity :: "str_map option \<Rightarrow> string \<Rightarrow> string \<Rightarrow> string" where
  "quantity configured name fallback =
     (case configured of
        None \<Rightarrow> fallback
      | Some m \<Rightarrow> (case map_of m name of None \<Rightarrow> fallback | Some q \<Rightarrow> q))"

definition defaultResources :: "K8sGPT \<Rightarrow> ResourceRequirements" where
  "defaultResources config =
     (let limits = (case sp_Resources (k_Spec config) of None \<Rightarrow> None | Some r \<Rightarrow> rr_Limits r);
          requests = (case sp_Resources (k_Spec config) of None \<Rightarrow> None | Some r \<Rightarrow> rr_Requests r)
      in \<lparr>rr_Limits = Some [(''cpu'', quantity limits ''cpu'' ''1''), (''memory'', quantity limits ''memory'' ''512Mi'')],
          rr_Requests = Some [(''cpu'', quantity requests ''cpu'' ''0.2''), (''memory'', quantity requests ''memory'' ''256Mi'')],
          rr_Claims = JNull\<rparr>)"

definition baseEnv :: "AISpec \<Rightarrow> EnvVar list" where
  "baseEnv ai =
     [literalEnv ''K8SGPT_MODEL'' (ai_Model ai),
      literalEnv ''K8SGPT_BACKEND'' (EffectiveBackend (ai_Backend ai)),
      literalEnv ''K8SGPT_MAX_TOKENS'' (ai_MaxTokens ai),
      literalEnv ''K8SGPT_TOP_K'' (ai_Topk ai),
      literalEnv ''XDG_CONFIG_HOME'' ''/k8sgpt-data/.config'',
      literalEnv ''XDG_CACHE_HOME'' ''/k8sgpt-data/.cache'',
      literalEnv ''K8SGPT_TOP_P'' ''0'']"

definition baseContainer :: "K8sGPT \<Rightarrow> AISpec \<Rightarrow> Container" where
  "baseContainer config ai =
     \<lparr>c_Name = ''k8sgpt'', c_ImagePullPolicy = sp_ImagePullPolicy (k_Spec config),
      c_Image = deploymentImage config, c_Args = buildK8sGPTArgs config, c_Env = baseEnv ai,
      c_Ports = [8080], c_Resources = defaultResources config,
      c_VolumeMounts = [\<lparr>vm_Name = ''k8sgpt-vol'', vm_ReadOnly = False, vm_MountPath = ''/k8sgpt-data''\<rparr>],
      c_SecurityContext = sp_ContainerSecurityContext (k_Spec config)\<rparr>"

definition baseDeployment :: "K8sGPT \<Rightarrow> AISpec \<Rightarrow> string \<Rightarrow> string \<Rightarrow> Deployment" where
  "baseDeployment config ai serviceAccountName checksum =
     \<lparr>d_Meta = deploymentMeta config,
      d_Spec =
        \<lparr>ds_Replicas = 1, ds_MatchLabels = [(''app'', om_Name (k_Meta config))],
         ds_Template =
           \<lparr>pt_Labels = podLabels config, pt_Annotations = podAnnotations config checksum,
            pt_Spec =
              \<lparr>ps_ServiceAccountName = serviceAccountName, ps_AutomountServiceAccountToken = None,
               ps_Containers = [baseContainer config ai],
               ps_Volumes = [\<lparr>vol_Name = ''k8sgpt-vol'', vol_Source = EmptyDir\<rparr>],
               ps_NodeSelector = sp_NodeSelector (k_Spec config),
               ps_Tolerations = sp_Tolerations (k_Spec config),
               ps_SecurityContext = sp_SecurityContext (k_Spec config)\<rparr>\<rparr>\<rparr>,
      d_AvailableReplicas = 0\<rparr>"

text \<open>A server that analyses another cluster gets the kubeconfig mounted.\<close>

definition kubeconfigPath :: "K8sGPT \<Rightarrow> string" where
  "kubeconfigPath config = ''/tmp/'' @ om_Name (k_Meta config)"

definition needsServiceAccount :: "K8sGPT \<Rightarrow> AISpec \<Rightarrow> bool" where
  "needsServiceAccount config ai \<longleftrightarrow>
     ai_Backend ai = AmazonBedrock \<and>
     (case sp_ExtraOptions (k_Spec config) of None \<Rightarrow> False | Some options \<Rightarrow> eo_ServiceAccountIRSA options \<noteq> '''')"

definition outOfCluster :: "K8sGPT \<Rightarrow> AISpec \<Rightarrow> bool \<Rightarrow> Deployment \<Rightarrow> (Deployment, 's world) action" where
  "outOfCluster config ai outOfClusterMode d =
     (if outOfClusterMode then
        (let d = (if needsServiceAccount config ai then d
                  else on_pod (\<lambda>p. p\<lparr>ps_ServiceAccountName := '''', ps_AutomountServiceAccountToken := Some False\<rparr>) d);
             path = kubeconfigPath config;
             d = on_container (\<lambda>c. c\<lparr>c_Args := c_Args c @ [''--kubeconfig='' @ path @ ''/kubeconfig''],
                   c_VolumeMounts := c_VolumeMounts c @ [\<lparr>vm_Name = ''kubeconfig'', vm_ReadOnly = True, vm_MountPath = path\<rparr>]\<rparr>) d
         in and_then (deref (sp_Kubeconfig (k_Spec config))) (\<lambda>kubeconfig.
              succeed (on_pod (\<lambda>p. p\<lparr>ps_Volumes := ps_Volumes p @
                [\<lparr>vol_Name = ''kubeconfig'', vol_Source = SecretVolume (sr_Name kubeconfig) [(sr_Key kubeconfig, ''kubeconfig'')]\<rparr>]\<rparr>) d)))
      else succeed d)"

text \<open>The environment of the container, in the order in which it is extended.\<close>

definition passwordEnv :: "AISpec \<Rightarrow> Deployment \<Rightarrow> Deployment" where
  "passwordEnv ai d =
     (case ai_Secret ai of
        None \<Rightarrow> d
      | Some ref \<Rightarrow>
          if ai_Backend ai \<noteq> AmazonBedrock
          then append_env [secretEnv ''K8SGPT_PASSWORD'' (sr_Name ref) (sr_Key ref)] d else d)"

definition addRemoteCacheEnvVar ::
  "RemoteCacheRef \<Rightarrow> string \<Rightarrow> string \<Rightarrow> Deployment \<Rightarrow> (Deployment, 's world) action" where
  "addRemoteCacheEnvVar cache name key d =
     and_then (deref (rc_Credentials cache)) (\<lambda>credentials.
       succeed (append_env [secretEnv name (cr_Name credentials) key] d))"

definition remoteCacheEnv :: "K8sGPT \<Rightarrow> Deployment \<Rightarrow> (Deployment, 's world) action" where
  "remoteCacheEnv config d =
     (case sp_RemoteCache (k_Spec config) of
        None \<Rightarrow> succeed d
      | Some cache \<Rightarrow>
          (if rc_Azure cache \<noteq> None then
             and_then (addRemoteCacheEnvVar cache ''AZURE_CLIENT_ID'' ''azure_client_id'' d) (\<lambda>d.
             and_then (addRemoteCacheEnvVar cache ''AZURE_TENANT_ID'' ''azure_tenant_id'' d) (\<lambda>d.
             addRemoteCacheEnvVar cache ''AZURE_CLIENT_SECRET'' ''azure_client_secret'' d))
           else if rc_S3 cache \<noteq> None then
             and_then (addRemoteCacheEnvVar cache ''AWS_ACCESS_KEY_ID'' ''aws_access_key_id'' d) (\<lambda>d.
             addRemoteCacheEnvVar cache ''AWS_SECRET_ACCESS_KEY'' ''aws_secret_access_key'' d)
           else succeed d))"

definition nonempty_env :: "string \<Rightarrow> string \<Rightarrow> Deployment \<Rightarrow> Deployment" where
  "nonempty_env name v d = (if v \<noteq> '''' then append_env [literalEnv name v] d else d)"

definition providerIdEnv :: "AISpec \<Rightarrow> Deployment \<Rightarrow> Deployment" where
  "providerIdEnv ai = nonempty_env ''K8SGPT_PROVIDER_ID'' (ai_ProviderId ai)"

definition baseURLEnv :: "AISpec \<Rightarrow> Deployment \<Rightarrow> Deployment" where
  "baseURLEnv ai = nonempty_env ''K8SGPT_BASEURL'' (EffectiveBaseURL ai)"

definition containerResources :: "K8sGPT \<Rightarrow> Deployment \<Rightarrow> Deployment" where
  "containerResources config d =
     (case sp_Resources (k_Spec config) of
        None \<Rightarrow> d
      | Some r \<Rightarrow> on_container (\<lambda>c. c\<lparr>c_Resources := r\<rparr>) d)"

definition engineEnv :: "AISpec \<Rightarrow> Deployment \<Rightarrow> (Deployment, 's world) action" where
  "engineEnv ai d =
     (if ai_Engine ai \<noteq> '''' \<and> ai_Backend ai = AzureOpenAI
      then succeed (append_env [literalEnv ''K8SGPT_ENGINE'' (ai_Engine ai)] d)
      else if ai_Engine ai \<noteq> '''' \<and> ai_Backend ai \<noteq> AzureOpenAI
      then fail (Errorf ''engine is supported only by azureopenai provider'')
      else succeed d)"

definition apiTypeEnv :: "AISpec \<Rightarrow> Deployment \<Rightarrow> (Deployment, 's world) action" where
  "apiTypeEnv ai d =
     (if ai_AzureAPIType ai \<noteq> '''' \<and> ai_Backend ai = AzureOpenAI
      then succeed (append_env [literalEnv ''K8SGPT_AZURE_API_TYPE'' (ai_AzureAPIType ai)] d)
      else if ai_AzureAPIType ai \<noteq> '''' \<and> ai_Backend ai \<noteq> AzureOpenAI
      then fail (Errorf ''azureAPIType is supported only by azureopenai provider'')
      else succeed d)"

definition customHeadersEnv :: "AISpec \<Rightarrow> Deployment \<Rightarrow> Deployment" where
  "customHeadersEnv ai = nonempty_env ''K8SGPT_CUSTOM_HEADERS'' (ai_CustomHeaders ai)"

definition proxyEnv :: "AISpec \<Rightarrow> Deployment \<Rightarrow> Deployment" where
  "proxyEnv ai = nonempty_env ''K8SGPT_PROXY_ENDPOINT'' (ai_ProxyEndpoint ai)"

definition bedrockEnv :: "'s kube \<Rightarrow> K8sGPT \<Rightarrow> AISpec \<Rightarrow> Deployment \<Rightarrow> (Deployment, 's world) action" where
  "bedrockEnv K config ai d =
     (if ai_Backend ai = AmazonBedrock then
        and_then
          (case ai_Secret ai of
             None \<Rightarrow> succeed d
           | Some ref \<Rightarrow>
               and_then (addSecretAsEnvToDeployment K (sr_Name ref) ''AWS_ACCESS_KEY_ID'' config d) (\<lambda>d.
               addSecretAsEnvToDeployment K (sr_Name ref) ''AWS_SECRET_ACCESS_KEY'' config d))
          (\<lambda>d. if ai_Region ai = '''' then fail (Errorf ''default region is required for amazonbedrock backend'')
                else succeed (append_env [literalEnv ''AWS_DEFAULT_REGION'' (ai_Region ai)] d))
      else succeed d)"

definition vertexEnv :: "AISpec \<Rightarrow> Deployment \<Rightarrow> Deployment" where
  "vertexEnv ai d =
     (if ai_Backend ai = GoogleVertexAI then nonempty_env ''K8SGPT_PROVIDER_REGION'' (ai_Region ai) d else d)"

definition watsonxEnv :: "'s kube \<Rightarrow> K8sGPT \<Rightarrow> AISpec \<Rightarrow> Deployment \<Rightarrow> (Deployment, 's world) action" where
  "watsonxEnv K config ai d =
     (if ai_Backend ai = IBMWatsonxAI then
        (case ai_Secret ai of
           None \<Rightarrow> succeed d
         | Some ref \<Rightarrow> addSecretAsEnvToDeployment K (sr_Name ref) ''K8SGPT_PROVIDER_ID'' config d)
      else succeed d)"

definition GetDeployment :: "host \<Rightarrow> 's kube \<Rightarrow> K8sGPT \<Rightarrow> bool \<Rightarrow> string \<Rightarrow> (Deployment, 's world) action" where
  "GetDeployment H K config outOfClusterMode serviceAccountName =
     and_then (deref (sp_AI (k_Spec config))) (\<lambda>ai.
     and_then (aiSecretChecksum H K config ai) (\<lambda>checksum.
     and_then (outOfCluster config ai outOfClusterMode (baseDeployment config ai serviceAccountName checksum)) (\<lambda>d.
     and_then (remoteCacheEnv config (passwordEnv ai d)) (\<lambda>d.
     and_then (engineEnv ai (containerResources config (baseURLEnv ai (providerIdEnv ai d)))) (\<lambda>d.
     and_then (apiTypeEnv ai d) (\<lambda>d.
     and_then (bedrockEnv K config ai (proxyEnv ai (customHeadersEnv ai d))) (\<lambda>d.
     watsonxEnv K config ai (vertexEnv ai d))))))))"

section \<open>The environment of the container\<close>

definition containers_of :: "Deployment \<Rightarrow> Container list" where
  "containers_of d = ps_Containers (pod_of d)"

definition env_of :: "Deployment \<Rightarrow> EnvVar list" where
  "env_of d = (case containers_of d of [] \<Rightarrow> [] | c # cs \<Rightarrow> c_Env c)"

named_theorems deployment_simps \<open>the environment after a change of the Deployment\<close>

lemma containers_of_on_pod [deployment_simps]:
  "(\<And>p. ps_Containers (f p) = ps_Containers p) \<Longrightarrow> containers_of (on_pod f d) = containers_of d"
  "(\<And>p. ps_Containers (f p) = ps_Containers p) \<Longrightarrow> env_of (on_pod f d) = env_of d"
  by (simp_all add: containers_of_def pod_of_def on_pod_def env_of_def)

lemma containers_of_on_container:
  "containers_of (on_container f d) = (case containers_of d of [] \<Rightarrow> [] | c # cs \<Rightarrow> f c # cs)"
  by (simp add: containers_of_def pod_of_def on_pod_def on_container_def)

lemma containers_append_env [deployment_simps]: "containers_of (append_env es d) = [] \<longleftrightarrow> containers_of d = []"
  by (simp add: append_env_def containers_of_on_container split: list.splits)

lemma env_of_append [deployment_simps]:
  "containers_of d \<noteq> [] \<Longrightarrow> env_of (append_env es d) = env_of d @ es"
  by (auto simp: append_env_def env_of_def containers_of_on_container split: list.splits)

lemma append_env_append: "append_env fs (append_env es d) = append_env (es @ fs) d"
  by (simp add: append_env_def on_container_def on_pod_def split: list.splits)

lemma env_of_same [deployment_simps]:
  "(\<And>c. c_Env (f c) = c_Env c) \<Longrightarrow> env_of (on_container f d) = env_of d"
  "containers_of (on_container f d) = [] \<longleftrightarrow> containers_of d = []"
  by (auto simp: env_of_def containers_of_on_container split: list.splits)

text \<open>
  What a function from Deployments to Deployments adds to the environment; \<open>extends\<close> composes.
\<close>

definition frame_of :: "Deployment \<Rightarrow> object_meta \<times> int \<times> str_map \<times> str_map \<times> str_map" where
  "frame_of d =
     (d_Meta d, ds_Replicas (d_Spec d), ds_MatchLabels (d_Spec d), pt_Labels (ds_Template (d_Spec d)),
      pt_Annotations (ds_Template (d_Spec d)))"

definition extends :: "EnvVar list \<Rightarrow> Deployment \<Rightarrow> Deployment \<Rightarrow> bool" where
  "extends es d d' \<longleftrightarrow> (containers_of d' = [] \<longleftrightarrow> containers_of d = []) \<and>
     (if containers_of d = [] then True else env_of d' = env_of d @ es) \<and> frame_of d' = frame_of d"

lemma frame_on_pod [simp]: "frame_of (on_pod f d) = frame_of d" "frame_of (on_container g d) = frame_of d"
  "frame_of (append_env es d) = frame_of d"
  by (simp_all add: frame_of_def on_pod_def on_container_def append_env_def)

lemma extends_trans [trans]: "extends es d d' \<Longrightarrow> extends fs d' d'' \<Longrightarrow> extends (es @ fs) d d''"
  by (auto simp: extends_def split: if_splits)

lemma extends_refl: "extends [] d d"
  by (simp add: extends_def)

lemma extends_append: "extends es d (append_env es d)"
  by (simp add: extends_def deployment_simps)

lemma extends_nonempty: "extends (if v \<noteq> '''' then [literalEnv name v] else []) d (nonempty_env name v d)"
  by (simp add: nonempty_env_def extends_refl extends_append)

lemma extends_password:
  "extends (case ai_Secret ai of None \<Rightarrow> []
            | Some ref \<Rightarrow> if ai_Backend ai = AmazonBedrock then []
                else [secretEnv ''K8SGPT_PASSWORD'' (sr_Name ref) (sr_Key ref)]) d (passwordEnv ai d)"
  by (simp add: passwordEnv_def extends_refl extends_append split: option.splits)

lemma extends_resources: "extends [] d (containerResources config d)"
  by (simp add: containerResources_def extends_def deployment_simps split: option.splits)

text \<open>The variables each part of the configuration adds.\<close>

definition cacheVars :: "K8sGPT \<Rightarrow> EnvVar list" where
  "cacheVars config =
     (case sp_RemoteCache (k_Spec config) of
        None \<Rightarrow> []
      | Some cache \<Rightarrow>
          (case rc_Credentials cache of
             None \<Rightarrow> []
           | Some credentials \<Rightarrow>
               map (\<lambda>(name, key). secretEnv name (cr_Name credentials) key)
                 (if rc_Azure cache \<noteq> None
                  then [(''AZURE_CLIENT_ID'', ''azure_client_id''), (''AZURE_TENANT_ID'', ''azure_tenant_id''),
                        (''AZURE_CLIENT_SECRET'', ''azure_client_secret'')]
                  else if rc_S3 cache \<noteq> None
                  then [(''AWS_ACCESS_KEY_ID'', ''aws_access_key_id''), (''AWS_SECRET_ACCESS_KEY'', ''aws_secret_access_key'')]
                  else [])))"

definition secretVars :: "AISpec \<Rightarrow> string list \<Rightarrow> EnvVar list" where
  "secretVars ai names =
     (case ai_Secret ai of None \<Rightarrow> [] | Some ref \<Rightarrow> map (\<lambda>name. secretEnv name (sr_Name ref) name) names)"

lemma addSecret_done:
  "addSecretAsEnvToDeployment K secretName key config d w = (Done (Inr d'), w') \<Longrightarrow>
   d' = append_env [secretEnv key secretName key] d"
  by (auto simp: addSecretAsEnvToDeployment_def action_defs split: prod.splits sum.splits)

lemma outOfCluster_extends:
  "outOfCluster config ai m d w = (Done (Inr d'), w') \<Longrightarrow> extends [] d d'"
  by (cases "sp_Kubeconfig (k_Spec config)")
    (auto simp: outOfCluster_def Let_def action_eval extends_def deployment_simps split: if_splits)

lemma remoteCache_extends:
  "remoteCacheEnv config d w = (Done (Inr d'), w') \<Longrightarrow> extends (cacheVars config) d d'"
proof (cases "sp_RemoteCache (k_Spec config)")
  case (Some cache)
  assume "remoteCacheEnv config d w = (Done (Inr d'), w')"
  with Some show ?thesis
    by (cases "rc_Credentials cache")
      (auto simp: remoteCacheEnv_def addRemoteCacheEnvVar_def cacheVars_def action_eval
        append_env_append extends_append extends_refl split: if_splits)
qed (simp add: remoteCacheEnv_def cacheVars_def action_eval extends_refl)

lemma engine_extends:
  "engineEnv ai d w = (Done (Inr d'), w') \<Longrightarrow>
   extends (if ai_Engine ai \<noteq> '''' then [literalEnv ''K8SGPT_ENGINE'' (ai_Engine ai)] else []) d d'"
  by (auto simp: engineEnv_def action_eval extends_refl extends_append split: if_splits)

lemma apiType_extends:
  "apiTypeEnv ai d w = (Done (Inr d'), w') \<Longrightarrow>
   extends (if ai_AzureAPIType ai \<noteq> '''' then [literalEnv ''K8SGPT_AZURE_API_TYPE'' (ai_AzureAPIType ai)] else []) d d'"
  by (auto simp: apiTypeEnv_def action_eval extends_refl extends_append split: if_splits)

lemma bedrock_extends:
  assumes "bedrockEnv K config ai d w = (Done (Inr d'), w')"
  shows "extends (if ai_Backend ai = AmazonBedrock
    then secretVars ai [''AWS_ACCESS_KEY_ID'', ''AWS_SECRET_ACCESS_KEY''] @ [literalEnv ''AWS_DEFAULT_REGION'' (ai_Region ai)]
    else []) d d'"
proof (cases "ai_Secret ai")
  case None
  with assms show ?thesis
    by (auto simp: bedrockEnv_def secretVars_def action_eval extends_refl extends_append split: if_splits)
next
  case (Some ref)
  with assms show ?thesis
    by (auto simp: bedrockEnv_def secretVars_def action_eval extends_refl extends_append and_then_done
        append_env_append dest!: addSecret_done split: if_splits)
qed

lemma watsonx_extends:
  "watsonxEnv K config ai d w = (Done (Inr d'), w') \<Longrightarrow>
   extends (if ai_Backend ai = IBMWatsonxAI then secretVars ai [''K8SGPT_PROVIDER_ID''] else []) d d'"
  by (auto simp: watsonxEnv_def secretVars_def action_eval extends_refl extends_append
      dest!: addSecret_done split: if_splits option.splits)

definition serverEnv :: "K8sGPT \<Rightarrow> AISpec \<Rightarrow> EnvVar list" where
  "serverEnv config ai =
     baseEnv ai @
     (case ai_Secret ai of None \<Rightarrow> []
      | Some ref \<Rightarrow> if ai_Backend ai = AmazonBedrock then []
          else [secretEnv ''K8SGPT_PASSWORD'' (sr_Name ref) (sr_Key ref)]) @
     cacheVars config @
     (if ai_ProviderId ai \<noteq> '''' then [literalEnv ''K8SGPT_PROVIDER_ID'' (ai_ProviderId ai)] else []) @
     (if EffectiveBaseURL ai \<noteq> '''' then [literalEnv ''K8SGPT_BASEURL'' (EffectiveBaseURL ai)] else []) @
     (if ai_Engine ai \<noteq> '''' then [literalEnv ''K8SGPT_ENGINE'' (ai_Engine ai)] else []) @
     (if ai_AzureAPIType ai \<noteq> '''' then [literalEnv ''K8SGPT_AZURE_API_TYPE'' (ai_AzureAPIType ai)] else []) @
     (if ai_CustomHeaders ai \<noteq> '''' then [literalEnv ''K8SGPT_CUSTOM_HEADERS'' (ai_CustomHeaders ai)] else []) @
     (if ai_ProxyEndpoint ai \<noteq> '''' then [literalEnv ''K8SGPT_PROXY_ENDPOINT'' (ai_ProxyEndpoint ai)] else []) @
     (if ai_Backend ai = AmazonBedrock
      then secretVars ai [''AWS_ACCESS_KEY_ID'', ''AWS_SECRET_ACCESS_KEY''] @ [literalEnv ''AWS_DEFAULT_REGION'' (ai_Region ai)]
      else []) @
     (if ai_Backend ai = GoogleVertexAI
      then (if ai_Region ai \<noteq> '''' then [literalEnv ''K8SGPT_PROVIDER_REGION'' (ai_Region ai)] else []) else []) @
     (if ai_Backend ai = IBMWatsonxAI then secretVars ai [''K8SGPT_PROVIDER_ID''] else [])"

lemma vertex_extends:
  "extends (if ai_Backend ai = GoogleVertexAI
      then (if ai_Region ai \<noteq> '''' then [literalEnv ''K8SGPT_PROVIDER_REGION'' (ai_Region ai)] else []) else [])
     d (vertexEnv ai d)"
  using extends_nonempty by (simp add: vertexEnv_def extends_refl)

lemma base_env: "containers_of (baseDeployment config ai sa checksum) \<noteq> []"
  "env_of (baseDeployment config ai sa checksum) = baseEnv ai"
  "frame_of (baseDeployment config ai sa checksum) =
     (deploymentMeta config, 1, [(''app'', om_Name (k_Meta config))], podLabels config, podAnnotations config checksum)"
  by (simp_all add: frame_of_def containers_of_def env_of_def pod_of_def baseDeployment_def baseContainer_def)

lemma GetDeployment_env:
  assumes "GetDeployment H K config m sa w = (Done (Inr d), w')"
  obtains ai checksum w1 where "sp_AI (k_Spec config) = Some ai" and "env_of d = serverEnv config ai"
    and "aiSecretChecksum H K config ai w = (Done (Inr checksum), w1)"
    and "frame_of d = (deploymentMeta config, 1, [(''app'', om_Name (k_Meta config))], podLabels config,
      podAnnotations config checksum)"
proof -
  from assms obtain ai where ai: "sp_AI (k_Spec config) = Some ai"
    by (cases "sp_AI (k_Spec config)") (simp_all add: GetDeployment_def action_eval)
  with assms obtain checksum d1 d2 d3 d4 d5 w1 w2 w3 w4 w5 w6 where
    0: "aiSecretChecksum H K config ai w = (Done (Inr checksum), w1)" and
    1: "outOfCluster config ai m (baseDeployment config ai sa checksum) w1 = (Done (Inr d1), w2)" and
    2: "remoteCacheEnv config (passwordEnv ai d1) w2 = (Done (Inr d2), w3)" and
    3: "engineEnv ai (containerResources config (baseURLEnv ai (providerIdEnv ai d2))) w3 = (Done (Inr d3), w4)" and
    4: "apiTypeEnv ai d3 w4 = (Done (Inr d4), w5)" and
    5: "bedrockEnv K config ai (proxyEnv ai (customHeadersEnv ai d4)) w5 = (Done (Inr d5), w6)" and
    6: "watsonxEnv K config ai (vertexEnv ai d5) w6 = (Done (Inr d), w')"
    by (auto simp: GetDeployment_def and_then_done)
  note outOfCluster_extends [OF 1]
  also note extends_password [of ai d1]
  also note remoteCache_extends [OF 2]
  also note extends_nonempty [of "ai_ProviderId ai" "''K8SGPT_PROVIDER_ID''" d2]
  also note extends_nonempty [of "EffectiveBaseURL ai" "''K8SGPT_BASEURL''"
      "nonempty_env ''K8SGPT_PROVIDER_ID'' (ai_ProviderId ai) d2"]
  also note extends_resources [of _ config, folded baseURLEnv_def providerIdEnv_def]
  also note engine_extends [OF 3, unfolded baseURLEnv_def providerIdEnv_def]
  also note apiType_extends [OF 4]
  also note extends_nonempty [of "ai_CustomHeaders ai" "''K8SGPT_CUSTOM_HEADERS''" d4]
  also note extends_nonempty [of "ai_ProxyEndpoint ai" "''K8SGPT_PROXY_ENDPOINT''"
      "nonempty_env ''K8SGPT_CUSTOM_HEADERS'' (ai_CustomHeaders ai) d4"]
  also note bedrock_extends [OF 5, unfolded proxyEnv_def customHeadersEnv_def]
  also note vertex_extends [of ai d5]
  also note watsonx_extends [OF 6]
  finally obtain es where es: "extends es (baseDeployment config ai sa checksum) d"
    and "baseEnv ai @ es = serverEnv config ai"
    by (rule that) (simp only: serverEnv_def append_assoc append_Nil)
  then have "env_of d = serverEnv config ai" and "frame_of d =
      (deploymentMeta config, 1, [(''app'', om_Name (k_Meta config))], podLabels config, podAnnotations config checksum)"
    by (simp_all add: extends_def base_env)
  then show ?thesis by (rule that [OF ai _ 0])
qed

section \<open>Properties of the Deployment\<close>

text \<open>Which configurations have two variables of one name.\<close>

definition s3Cache :: "K8sGPT \<Rightarrow> bool" where
  "s3Cache config \<longleftrightarrow>
     (case sp_RemoteCache (k_Spec config) of
        None \<Rightarrow> False
      | Some cache \<Rightarrow> rc_Credentials cache \<noteq> None \<and> rc_Azure cache = None \<and> rc_S3 cache \<noteq> None)"

definition env_clash :: "K8sGPT \<Rightarrow> AISpec \<Rightarrow> bool" where
  "env_clash config ai \<longleftrightarrow>
     ai_Secret ai \<noteq> None \<and>
     (ai_Backend ai = AmazonBedrock \<and> s3Cache config \<or>
      ai_Backend ai = IBMWatsonxAI \<and> ai_ProviderId ai \<noteq> '''')"

text \<open>The names that can occur, in their order; the two flags choose between the places of equal names.\<close>

definition allNames :: "bool \<Rightarrow> bool \<Rightarrow> string list" where
  "allNames bedrock watsonx =
     [''K8SGPT_MODEL'', ''K8SGPT_BACKEND'', ''K8SGPT_MAX_TOKENS'', ''K8SGPT_TOP_K'', ''XDG_CONFIG_HOME'',
      ''XDG_CACHE_HOME'', ''K8SGPT_TOP_P'', ''K8SGPT_PASSWORD''] @
     ([''AZURE_CLIENT_ID'', ''AZURE_TENANT_ID'', ''AZURE_CLIENT_SECRET''] @
      (if bedrock then [] else [''AWS_ACCESS_KEY_ID'', ''AWS_SECRET_ACCESS_KEY''])) @
     (if watsonx then [] else [''K8SGPT_PROVIDER_ID'']) @
     ([''K8SGPT_BASEURL''] @ [''K8SGPT_ENGINE''] @ [''K8SGPT_AZURE_API_TYPE''] @ [''K8SGPT_CUSTOM_HEADERS''] @
      [''K8SGPT_PROXY_ENDPOINT'']) @
     ((if bedrock then [''AWS_ACCESS_KEY_ID'', ''AWS_SECRET_ACCESS_KEY''] else []) @ [''AWS_DEFAULT_REGION'']) @
     [''K8SGPT_PROVIDER_REGION''] @
     (if watsonx then [''K8SGPT_PROVIDER_ID''] else [])"

lemma distinct_allNames: "distinct (allNames bedrock watsonx)"
proof -
  have "distinct (allNames True True)" "distinct (allNames True False)"
    "distinct (allNames False True)" "distinct (allNames False False)"
    by code_simp+
  then show ?thesis by (cases bedrock; cases watsonx) simp_all
qed

lemma names_simps [simp]:
  "ev_Name (literalEnv name v) = name" "ev_Name (secretEnv name s k) = name"
  by (simp_all add: literalEnv_def secretEnv_def)

lemma names_secretVars: "map ev_Name (secretVars ai names) = (if ai_Secret ai = None then [] else names)"
  by (simp add: secretVars_def comp_def split: option.splits)

definition earlyNames :: "K8sGPT \<Rightarrow> AISpec \<Rightarrow> string list" where
  "earlyNames config ai =
     (map ev_Name (baseEnv ai) @
      (if ai_Secret ai = None \<or> ai_Backend ai = AmazonBedrock then [] else [''K8SGPT_PASSWORD''])) @
     map ev_Name (cacheVars config) @
     (if ai_ProviderId ai \<noteq> '''' then [''K8SGPT_PROVIDER_ID''] else [])"

definition lateNames :: "AISpec \<Rightarrow> string list" where
  "lateNames ai =
     ((if EffectiveBaseURL ai \<noteq> '''' then [''K8SGPT_BASEURL''] else []) @
      (if ai_Engine ai \<noteq> '''' then [''K8SGPT_ENGINE''] else []) @
      (if ai_AzureAPIType ai \<noteq> '''' then [''K8SGPT_AZURE_API_TYPE''] else []) @
      (if ai_CustomHeaders ai \<noteq> '''' then [''K8SGPT_CUSTOM_HEADERS''] else []) @
      (if ai_ProxyEndpoint ai \<noteq> '''' then [''K8SGPT_PROXY_ENDPOINT''] else [])) @
     (if ai_Backend ai = AmazonBedrock
      then (if ai_Secret ai = None then [] else [''AWS_ACCESS_KEY_ID'', ''AWS_SECRET_ACCESS_KEY'']) @ [''AWS_DEFAULT_REGION'']
      else []) @
     (if ai_Backend ai = GoogleVertexAI
      then (if ai_Region ai \<noteq> '''' then [''K8SGPT_PROVIDER_REGION''] else []) else []) @
     (if ai_Backend ai = IBMWatsonxAI
      then (if ai_Secret ai = None then [] else [''K8SGPT_PROVIDER_ID'']) else [])"

lemma names_password:
  "map ev_Name (case ai_Secret ai of None \<Rightarrow> []
     | Some ref \<Rightarrow> if ai_Backend ai = AmazonBedrock then []
         else [secretEnv ''K8SGPT_PASSWORD'' (sr_Name ref) (sr_Key ref)]) =
   (if ai_Secret ai = None \<or> ai_Backend ai = AmazonBedrock then [] else [''K8SGPT_PASSWORD''])"
  by (simp split: option.splits)

lemma names_serverEnv: "map ev_Name (serverEnv config ai) = earlyNames config ai @ lateNames ai"
  unfolding serverEnv_def earlyNames_def lateNames_def map_append append_assoc names_password
    if_distrib [of "map ev_Name"] names_secretVars list.map names_simps ..

text \<open>The bedrock place of the AWS keys, and the watsonx place of the provider, are used.\<close>

definition bedrockKeys :: "AISpec \<Rightarrow> bool" where
  "bedrockKeys ai \<longleftrightarrow> ai_Backend ai = AmazonBedrock \<and> ai_Secret ai \<noteq> None"

definition watsonxKey :: "AISpec \<Rightarrow> bool" where
  "watsonxKey ai \<longleftrightarrow> ai_Backend ai = IBMWatsonxAI \<and> ai_Secret ai \<noteq> None"

lemma env_clash_iff:
  "env_clash config ai \<longleftrightarrow> bedrockKeys ai \<and> s3Cache config \<or> watsonxKey ai \<and> ai_ProviderId ai \<noteq> ''''"
  by (auto simp: env_clash_def bedrockKeys_def watsonxKey_def)

lemma subseq_append: "subseq a c \<Longrightarrow> subseq b d \<Longrightarrow> subseq (a @ b) (c @ d)"
  by (rule list_emb_append_mono)

lemma subseq_distinct: "subseq xs ys \<Longrightarrow> distinct ys \<Longrightarrow> distinct xs"
proof (induction rule: list_emb.induct)
  case (list_emb_Cons2 x y xs ys)
  then show ?case by (auto dest: list_emb_set)
qed simp_all

lemma serverEnv_subseq:
  assumes "\<not> env_clash config ai"
  shows "subseq (earlyNames config ai @ lateNames ai) (allNames (bedrockKeys ai) (watsonxKey ai))"
proof -
  let ?b = "bedrockKeys ai" and ?x = "watsonxKey ai"
  have "subseq (map ev_Name (baseEnv ai) @
      (if ai_Secret ai = None \<or> ai_Backend ai = AmazonBedrock then [] else [''K8SGPT_PASSWORD'']))
     [''K8SGPT_MODEL'', ''K8SGPT_BACKEND'', ''K8SGPT_MAX_TOKENS'', ''K8SGPT_TOP_K'', ''XDG_CONFIG_HOME'',
      ''XDG_CACHE_HOME'', ''K8SGPT_TOP_P'', ''K8SGPT_PASSWORD'']"
    by (simp add: baseEnv_def)
  moreover have "subseq (map ev_Name (cacheVars config))
      ([''AZURE_CLIENT_ID'', ''AZURE_TENANT_ID'', ''AZURE_CLIENT_SECRET''] @
       (if ?b then [] else [''AWS_ACCESS_KEY_ID'', ''AWS_SECRET_ACCESS_KEY'']))"
    using assms by (auto simp: env_clash_iff cacheVars_def s3Cache_def split: option.splits)
  moreover have "subseq (if ai_ProviderId ai \<noteq> '''' then [''K8SGPT_PROVIDER_ID''] else [])
      (if ?x then [] else [''K8SGPT_PROVIDER_ID''])"
    using assms by (simp add: env_clash_iff)
  moreover have "subseq
      ((if EffectiveBaseURL ai \<noteq> '''' then [''K8SGPT_BASEURL''] else []) @
       (if ai_Engine ai \<noteq> '''' then [''K8SGPT_ENGINE''] else []) @
       (if ai_AzureAPIType ai \<noteq> '''' then [''K8SGPT_AZURE_API_TYPE''] else []) @
       (if ai_CustomHeaders ai \<noteq> '''' then [''K8SGPT_CUSTOM_HEADERS''] else []) @
       (if ai_ProxyEndpoint ai \<noteq> '''' then [''K8SGPT_PROXY_ENDPOINT''] else []))
      ([''K8SGPT_BASEURL''] @ [''K8SGPT_ENGINE''] @ [''K8SGPT_AZURE_API_TYPE''] @ [''K8SGPT_CUSTOM_HEADERS''] @
       [''K8SGPT_PROXY_ENDPOINT''])"
    by (intro subseq_append) simp_all
  moreover have "subseq
      (if ai_Backend ai = AmazonBedrock
       then (if ai_Secret ai = None then [] else [''AWS_ACCESS_KEY_ID'', ''AWS_SECRET_ACCESS_KEY'']) @ [''AWS_DEFAULT_REGION'']
       else [])
      ((if ?b then [''AWS_ACCESS_KEY_ID'', ''AWS_SECRET_ACCESS_KEY''] else []) @ [''AWS_DEFAULT_REGION''])"
    by (simp add: bedrockKeys_def)
  moreover have "subseq
      (if ai_Backend ai = GoogleVertexAI
       then (if ai_Region ai \<noteq> '''' then [''K8SGPT_PROVIDER_REGION''] else []) else [])
      [''K8SGPT_PROVIDER_REGION'']"
    by simp
  moreover have "subseq
      (if ai_Backend ai = IBMWatsonxAI
       then (if ai_Secret ai = None then [] else [''K8SGPT_PROVIDER_ID'']) else [])
      (if ?x then [''K8SGPT_PROVIDER_ID''] else [])"
    by (simp add: watsonxKey_def)
  ultimately have "subseq (earlyNames config ai @ lateNames ai)
      (([''K8SGPT_MODEL'', ''K8SGPT_BACKEND'', ''K8SGPT_MAX_TOKENS'', ''K8SGPT_TOP_K'', ''XDG_CONFIG_HOME'',
         ''XDG_CACHE_HOME'', ''K8SGPT_TOP_P'', ''K8SGPT_PASSWORD''] @
        ([''AZURE_CLIENT_ID'', ''AZURE_TENANT_ID'', ''AZURE_CLIENT_SECRET''] @
         (if ?b then [] else [''AWS_ACCESS_KEY_ID'', ''AWS_SECRET_ACCESS_KEY''])) @
        (if ?x then [] else [''K8SGPT_PROVIDER_ID''])) @
       ([''K8SGPT_BASEURL''] @ [''K8SGPT_ENGINE''] @ [''K8SGPT_AZURE_API_TYPE''] @ [''K8SGPT_CUSTOM_HEADERS''] @
        [''K8SGPT_PROXY_ENDPOINT'']) @
       ((if ?b then [''AWS_ACCESS_KEY_ID'', ''AWS_SECRET_ACCESS_KEY''] else []) @ [''AWS_DEFAULT_REGION'']) @
       [''K8SGPT_PROVIDER_REGION''] @ (if ?x then [''K8SGPT_PROVIDER_ID''] else []))"
    unfolding earlyNames_def lateNames_def
    by (intro subseq_append [OF subseq_append [OF _ subseq_append] subseq_append [OF _ subseq_append [OF _ subseq_append]]])
  then show ?thesis by (simp add: allNames_def)
qed

lemma distinct_serverEnv: "distinct (map ev_Name (serverEnv config ai)) \<longleftrightarrow> \<not> env_clash config ai"
proof
  assume "\<not> env_clash config ai"
  from serverEnv_subseq [OF this] show "distinct (map ev_Name (serverEnv config ai))"
    unfolding names_serverEnv by (rule subseq_distinct) (rule distinct_allNames)
next
  assume dist: "distinct (map ev_Name (serverEnv config ai))"
  then have disjoint: "set (earlyNames config ai) \<inter> set (lateNames ai) = {}"
    by (simp add: names_serverEnv)
  show "\<not> env_clash config ai"
  proof
    assume "env_clash config ai"
    then consider "bedrockKeys ai" "s3Cache config" | "watsonxKey ai" "ai_ProviderId ai \<noteq> ''''"
      by (auto simp: env_clash_iff)
    then show False
    proof cases
      case 1
      then have "map ev_Name (cacheVars config) = [''AWS_ACCESS_KEY_ID'', ''AWS_SECRET_ACCESS_KEY'']"
        by (auto simp: s3Cache_def cacheVars_def split: option.splits)
      with 1 have "''AWS_ACCESS_KEY_ID'' \<in> set (earlyNames config ai)" "''AWS_ACCESS_KEY_ID'' \<in> set (lateNames ai)"
        by (simp_all only: earlyNames_def lateNames_def set_append) (simp_all add: bedrockKeys_def)
      with disjoint show False by blast
    next
      case 2
      then have "''K8SGPT_PROVIDER_ID'' \<in> set (earlyNames config ai)" "''K8SGPT_PROVIDER_ID'' \<in> set (lateNames ai)"
        by (simp_all add: earlyNames_def lateNames_def watsonxKey_def)
      with disjoint show False by blast
    qed
  qed
qed

text \<open>
  C31. When a Deployment is built, the names of the environment variables of its container are
  distinct, except in two configurations: Amazon Bedrock with a secret and an S3 cache defines the
  AWS keys twice (the pair of the cache is overridden by the pair of the backend), and watsonx with
  a secret and a provider id defines the provider id twice.
\<close>

theorem deployment_env_names_distinct:
  "case GetDeployment H K config m sa w of
     (Done (Inr d), w') \<Rightarrow>
       (case sp_AI (k_Spec config) of
          None \<Rightarrow> False
        | Some ai \<Rightarrow> env_of d = serverEnv config ai \<and>
            (distinct (map ev_Name (env_of d)) \<longleftrightarrow> \<not> env_clash config ai))
   | _ \<Rightarrow> True"
proof -
  obtain r w' where run: "GetDeployment H K config m sa w = (r, w')" by (cases "GetDeployment H K config m sa w")
  show ?thesis
  proof (cases "\<exists>d. r = Done (Inr d)")
    case True
    then obtain d where r: "r = Done (Inr d)" by blast
    with run show ?thesis
      by (auto simp: distinct_serverEnv elim!: GetDeployment_env)
  next
    case False
    with run show ?thesis by (auto split: outcome.splits sum.splits)
  qed
qed


subsection \<open>The configurations that have a Deployment\<close>

definition caches_ok :: "K8sGPT \<Rightarrow> bool" where
  "caches_ok config \<longleftrightarrow>
     (case sp_RemoteCache (k_Spec config) of
        None \<Rightarrow> True
      | Some cache \<Rightarrow> rc_Credentials cache \<noteq> None \<or> rc_Azure cache = None \<and> rc_S3 cache = None)"

definition server_config_ok :: "K8sGPT \<Rightarrow> bool \<Rightarrow> bool" where
  "server_config_ok config outOfClusterMode \<longleftrightarrow>
     (case sp_AI (k_Spec config) of
        None \<Rightarrow> False
      | Some ai \<Rightarrow>
          (outOfClusterMode \<longrightarrow> sp_Kubeconfig (k_Spec config) \<noteq> None) \<and> caches_ok config \<and>
          (ai_Engine ai = '''' \<or> ai_Backend ai = AzureOpenAI) \<and>
          (ai_AzureAPIType ai = '''' \<or> ai_Backend ai = AzureOpenAI) \<and>
          (ai_Backend ai \<noteq> AmazonBedrock \<or> ai_Region ai \<noteq> ''''))"

text \<open>\<open>succeeds m\<close>: the action always returns a value without an error.\<close>

definition gives :: "('a, 'w) action \<Rightarrow> 'w \<Rightarrow> bool" where
  "gives m w \<longleftrightarrow> (\<exists>x w'. m w = (Done (Inr x), w'))"

lemma gives_simps [simp]:
  "gives (succeed x) w" "\<not> gives (fail err) w" "\<not> gives crash w"
  "gives (deref p) w \<longleftrightarrow> p \<noteq> None"
  by (auto simp: gives_def action_defs split: option.splits)

lemma gives_request: "gives (request f) w \<longleftrightarrow> is_ok (fst (f w))"
  by (auto simp: gives_def request_def is_ok_def split: prod.splits sum.splits)

lemma gives_and_then:
  "gives (and_then m f) w \<longleftrightarrow> (\<exists>x w'. m w = (Done (Inr x), w') \<and> gives (f x) w')"
  by (auto simp: gives_def and_then_done)

text \<open>Two actions in sequence, when the second one succeeds or fails whatever the first one returns.\<close>

lemma gives_seq:
  assumes "gives m w \<longleftrightarrow> A" and "\<And>x w. gives (f x) w \<longleftrightarrow> B"
  shows "gives (and_then m f) w \<longleftrightarrow> A \<and> B"
  using assms unfolding gives_and_then by (auto simp: gives_def)

lemma gives_on_error: "gives m w \<Longrightarrow> gives (on_error m f) w"
  by (auto simp: gives_def on_error_def split: prod.splits)

definition secrets_readable :: "'s kube \<Rightarrow> bool" where
  "secrets_readable K \<longleftrightarrow> (\<forall>key s. is_ok (fst (kGetSecret K key s)))"

lemma gives_secret: "secrets_readable K \<Longrightarrow> gives (request (GetSecret K key)) w"
  unfolding secrets_readable_def gives_request perform_def
  by (cases "kGetSecret K key (cluster w)") (metis (no_types, lifting) case_prod_conv fst_conv)

lemma gives_secret_or: "secrets_readable K \<Longrightarrow> gives (on_error (request (GetSecret K key)) f) w \<longleftrightarrow> True"
  using gives_on_error [OF gives_secret] by simp

lemma gives_addSecret: "secrets_readable K \<Longrightarrow> gives (addSecretAsEnvToDeployment K name key config d) w"
  unfolding addSecretAsEnvToDeployment_def by (simp add: gives_seq [OF gives_secret_or, where B = True])

lemma gives_checksum: "secrets_readable K \<Longrightarrow> gives (aiSecretChecksum H K config ai) w"
  unfolding aiSecretChecksum_def
  by (simp add: gives_seq [OF gives_secret_or, where B = True] split: option.splits)

lemma deployment_valid_iff:
  assumes "secrets_readable K"
  shows "gives (GetDeployment H K config m sa) w \<longleftrightarrow> server_config_ok config m"
proof (cases "sp_AI (k_Spec config)")
  case None
  then show ?thesis by (simp add: GetDeployment_def server_config_ok_def)
next
  case (Some ai)
  note secret = gives_addSecret [OF assms]
  have 0: "gives (aiSecretChecksum H K config ai) w \<longleftrightarrow> True" for w
    using gives_checksum [OF assms] by simp
  have 1: "gives (outOfCluster config ai m d) w \<longleftrightarrow> (m \<longrightarrow> sp_Kubeconfig (k_Spec config) \<noteq> None)" for d w
    by (cases "sp_Kubeconfig (k_Spec config)") (simp_all add: outOfCluster_def Let_def)
  have 2: "gives (remoteCacheEnv config d) w \<longleftrightarrow> caches_ok config" for d w
    by (cases "sp_RemoteCache (k_Spec config)"; cases "rc_Credentials (the (sp_RemoteCache (k_Spec config)))")
      (auto simp: remoteCacheEnv_def addRemoteCacheEnvVar_def caches_ok_def)
  have 3: "gives (engineEnv ai d) w \<longleftrightarrow> ai_Engine ai = '''' \<or> ai_Backend ai = AzureOpenAI" for d w
    by (simp add: engineEnv_def)
  have 4: "gives (apiTypeEnv ai d) w \<longleftrightarrow> ai_AzureAPIType ai = '''' \<or> ai_Backend ai = AzureOpenAI" for d w
    by (simp add: apiTypeEnv_def)
  have 5: "gives (bedrockEnv K config ai d) w \<longleftrightarrow> ai_Backend ai \<noteq> AmazonBedrock \<or> ai_Region ai \<noteq> ''''" for d w
  proof -
    have "gives (case ai_Secret ai of None \<Rightarrow> succeed d
       | Some ref \<Rightarrow> and_then (addSecretAsEnvToDeployment K (sr_Name ref) ''AWS_ACCESS_KEY_ID'' config d) (\<lambda>d.
           addSecretAsEnvToDeployment K (sr_Name ref) ''AWS_SECRET_ACCESS_KEY'' config d)) w \<longleftrightarrow> True"
      using secret by (simp add: gives_seq [where A = True and B = True] split: option.splits)
    note region = gives_seq [OF this, where B = "ai_Region ai \<noteq> ''''"]
    show ?thesis
      by (cases "ai_Backend ai = AmazonBedrock") (simp_all add: bedrockEnv_def region)
  qed
  have 6: "gives (watsonxEnv K config ai d) w \<longleftrightarrow> True" for d w
    using secret by (simp add: watsonxEnv_def split: option.splits)
  have "gives (GetDeployment H K config m sa) w \<longleftrightarrow>
      True \<and> (m \<longrightarrow> sp_Kubeconfig (k_Spec config) \<noteq> None) \<and> caches_ok config \<and>
      (ai_Engine ai = '''' \<or> ai_Backend ai = AzureOpenAI) \<and> (ai_AzureAPIType ai = '''' \<or> ai_Backend ai = AzureOpenAI) \<and>
      (ai_Backend ai \<noteq> AmazonBedrock \<or> ai_Region ai \<noteq> '''') \<and> True"
    unfolding GetDeployment_def Some deref_simps and_then_simps
    by (intro gives_seq 0 1 2 3 4 5 6)
  then show ?thesis by (simp add: server_config_ok_def Some)
qed

lemma deployment_valid: "secrets_readable K \<Longrightarrow> server_config_ok config m \<Longrightarrow> gives (GetDeployment H K config m sa) w"
  by (simp add: deployment_valid_iff)

text \<open>
  C27. If the secrets can be read, a Deployment is built exactly for the valid configurations: the AI
  section is there, the kubeconfig when the server is out of the cluster, the credentials of an
  Azure or S3 cache; engine and API type are given for Azure OpenAI only, and a region for Bedrock.
\<close>

theorem deployment_iff_valid_config:
  assumes "secrets_readable K"
  shows "gives (GetDeployment H K config m sa) w \<longleftrightarrow> server_config_ok config m"
  using assms by (rule deployment_valid_iff)

text \<open>A configuration for the witnesses, and a host.\<close>

definition sampleAI :: AISpec where
  "sampleAI =
     \<lparr>ai_AutoRemediation = \<lparr>ar_Enabled = True, ar_SimilarityRequirement = ''90'', ar_Resources = [''Deployment'']\<rparr>,
      ai_Backend = ''openai'', ai_BackOff = Some \<lparr>bo_Enabled = True, bo_MaxRetries = 5\<rparr>, ai_BaseUrl = '''',
      ai_Region = '''', ai_AzureAPIType = '''', ai_Model = ''gpt-4o'', ai_Engine = '''',
      ai_Secret = Some \<lparr>sr_Name = ''ai'', sr_Key = ''key''\<rparr>, ai_Enabled = True, ai_Anonymize = Some True,
      ai_Language = ''english'', ai_ProxyEndpoint = '''', ai_ProviderId = '''', ai_MaxTokens = ''2048'',
      ai_Topk = ''50'', ai_CustomHeaders = ''''\<rparr>"

definition sampleK8sGPT :: K8sGPT where
  "sampleK8sGPT =
     \<lparr>k_Kind = ''K8sGPT'', k_APIVersion = ''core.k8sgpt.ai/v1alpha1'', k_Meta = new_meta ''main'' ''ops'',
      k_Spec =
        \<lparr>sp_Version = ''v0.4.1'', sp_Repository = ''ghcr.io/k8sgpt-ai/k8sgpt'', sp_ImagePullPolicy = ''IfNotPresent'',
         sp_ImagePullSecrets = [], sp_Resources = None, sp_NoCache = False, sp_CustomAnalyzers = None, sp_Filters = [],
         sp_ExtraOptions = None, sp_Sink = None, sp_AI = Some sampleAI, sp_RemoteCache = None,
         sp_Integrations = None, sp_NodeSelector = [], sp_Tolerations = [], sp_TargetNamespace = '''',
         sp_Analysis = None, sp_Kubeconfig = None, sp_DeploymentLabels = [], sp_DeploymentAnnotations = [],
         sp_PodLabels = [], sp_PodAnnotations = [], sp_SecurityContext = None, sp_ContainerSecurityContext = None\<rparr>,
      k_Status = \<lparr>st_LastAnalysisError = '''', st_LastAnalysisErrorTime = None\<rparr>\<rparr>"

definition sampleHost :: host where
  "sampleHost =
     \<lparr>LookupEnv = (\<lambda>name. None), sha256_json = (\<lambda>t. ''d1''), sha256_text = (\<lambda>t. ''0a1b2c3d''),
      is_IPv4 = (\<lambda>s. True), ParseDuration = (\<lambda>s. Inr 60000000000), url_error = (\<lambda>s. None),
      new_uuid = (\<lambda>n. ''id''), event_json = (\<lambda>e. Inr (ce_Data e)), range_results = (\<lambda>xs. xs)\<rparr>"

text \<open>A cluster whose secrets can all be read.\<close>

definition open_kube :: "store kube" where
  "open_kube = std_kube\<lparr>kGetSecret := \<lambda>key s. (Inr \<lparr>sec_Data = [(''key'', ''abc'')]\<rparr>, s)\<rparr>"

lemma open_kube_secrets: "secrets_readable open_kube"
  by (simp add: secrets_readable_def open_kube_def)

theorem deployment_iff_valid_config_witness:
  "gives (GetDeployment sampleHost open_kube sampleK8sGPT False ''k8sgpt-ops'') \<lparr>cluster = empty_store, trace = []\<rparr> \<longleftrightarrow>
   server_config_ok sampleK8sGPT False"
  by (rule deployment_iff_valid_config) (rule open_kube_secrets)

subsection \<open>The pods the Deployment selects\<close>

lemma map_of_add_labels:
  "map_of (add_labels new labels) k = (case map_of (rev new) k of None \<Rightarrow> map_of labels k | Some v \<Rightarrow> Some v)"
proof (induction new arbitrary: labels)
  case (Cons kv new)
  then show ?case
    by (cases kv) (auto simp: add_labels_def update_conv' map_add_def split: option.splits)
qed (simp add: add_labels_def)

text \<open>
  The selector of the Deployment is the label \<^verbatim>\<open>app\<close> with the name of the K8sGPT; its pods carry
  that label unless the pod labels of the specification override it with another value.  Then the
  selector does not match the template, which the API server rejects.
\<close>

theorem deployment_selects_its_pods:
  "case GetDeployment H K config m sa w of
     (Done (Inr d), w') \<Rightarrow>
       ds_MatchLabels (d_Spec d) = [(''app'', om_Name (k_Meta config))] \<and>
       (map_of (pt_Labels (ds_Template (d_Spec d))) ''app'' = Some (om_Name (k_Meta config)) \<longleftrightarrow>
        map_of (rev (sp_PodLabels (k_Spec config))) ''app'' \<in> {None, Some (om_Name (k_Meta config))})
   | _ \<Rightarrow> True"
proof -
  have labels: "map_of (podLabels config) ''app'' = Some (om_Name (k_Meta config)) \<longleftrightarrow>
      map_of (rev (sp_PodLabels (k_Spec config))) ''app'' \<in> {None, Some (om_Name (k_Meta config))}"
    by (simp add: podLabels_def map_of_add_labels split: option.splits)
  obtain r w' where run: "GetDeployment H K config m sa w = (r, w')" by (cases "GetDeployment H K config m sa w")
  show ?thesis
  proof (cases "\<exists>d. r = Done (Inr d)")
    case True
    then obtain d where r: "r = Done (Inr d)" by blast
    from GetDeployment_env [OF run [unfolded r]] obtain checksum where
      "frame_of d = (deploymentMeta config, 1, [(''app'', om_Name (k_Meta config))], podLabels config,
        podAnnotations config checksum)" by metis
    with run r labels show ?thesis by (simp add: frame_of_def)
  next
    case False
    with run show ?thesis by (auto split: outcome.splits sum.splits)
  qed
qed

section \<open>What the Deployment depends on\<close>

definition is_secret_read :: "call \<Rightarrow> bool" where
  "is_secret_read c = (case c of CallGetSecret key \<Rightarrow> True | _ \<Rightarrow> False)"

lemma emits_secret [emits_rules]: "emits trace is_secret_read (request (GetSecret K key))"
  by (intro emits_rules) (simp add: is_secret_read_def)

lemma emits_GetDeployment: "emits trace is_secret_read (GetDeployment H K config m sa)"
  unfolding GetDeployment_def aiSecretChecksum_def outOfCluster_def Let_def remoteCacheEnv_def
    addRemoteCacheEnvVar_def engineEnv_def apiTypeEnv_def bedrockEnv_def watsonxEnv_def
    addSecretAsEnvToDeployment_def
  by (intro emits_rules)

text \<open>
  The answers of two clusters to a read of a secret, as far as the Deployment may depend on it:
  whether the secret can be read, and the checksum of its data.
\<close>

definition same_checksum :: "host \<Rightarrow> Secret go_result \<times> 's \<Rightarrow> Secret go_result \<times> 's \<Rightarrow> bool" where
  "same_checksum H a b \<longleftrightarrow> snd a = snd b \<and>
     (case (fst a, fst b) of
        (Inl e, Inl f) \<Rightarrow> e = f
      | (Inr x, Inr y) \<Rightarrow> calculateSecretChecksum H x = calculateSecretChecksum H y
      | _ \<Rightarrow> False)"

lemma secret_then_cong:
  assumes "\<And>key s. same_checksum H (kGetSecret K key s) (kGetSecret K' key s)"
    and "\<And>x y. calculateSecretChecksum H x = calculateSecretChecksum H y \<Longrightarrow> f x = f y"
  shows "and_then (on_error (request (GetSecret K key)) (\<lambda>err. fail (g err))) f w =
    and_then (on_error (request (GetSecret K' key)) (\<lambda>err. fail (g err))) f w"
proof -
  obtain a s where a: "kGetSecret K key (cluster w) = (a, s)" by (cases "kGetSecret K key (cluster w)")
  obtain b t where b: "kGetSecret K' key (cluster w) = (b, t)" by (cases "kGetSecret K' key (cluster w)")
  note same = assms(1) [of key "cluster w", unfolded a b]
  show ?thesis
  proof (cases a)
    case (Inl err)
    with same a b show ?thesis
      by (cases b) (simp_all add: same_checksum_def action_defs perform_def)
  next
    case x: (Inr x)
    with same obtain y where y: "b = Inr y" by (cases b) (simp_all add: same_checksum_def)
    with x same have eq: "calculateSecretChecksum H x = calculateSecretChecksum H y" "s = t"
      by (simp_all add: same_checksum_def)
    from assms(2) [OF eq(1)] eq(2) x y a b show ?thesis by (simp add: action_defs perform_def)
  qed
qed

text \<open>
  C29. The Deployment holds no secret data: two clusters whose secrets have the same checksums get the
  same Deployment by the same calls, whatever the secrets hold.
\<close>

theorem deployment_hides_secrets:
  assumes "\<And>key s. same_checksum H (kGetSecret K key s) (kGetSecret K' key s)"
  shows "GetDeployment H K config m sa w = GetDeployment H K' config m sa w"
proof -
  have 1: "aiSecretChecksum H K config ai = aiSecretChecksum H K' config ai" for ai
    unfolding aiSecretChecksum_def
    by (rule ext) (simp split: option.splits add: secret_then_cong [OF assms])
  have 2: "addSecretAsEnvToDeployment K name key config d = addSecretAsEnvToDeployment K' name key config d"
    for name key d
    unfolding addSecretAsEnvToDeployment_def by (rule ext) (simp add: secret_then_cong [OF assms])
  show ?thesis unfolding GetDeployment_def bedrockEnv_def watsonxEnv_def 1 2 ..
qed

text \<open>Two clusters with different secrets: the digest of the sample host does not tell them apart.\<close>

theorem deployment_hides_secrets_witness:
  "GetDeployment sampleHost open_kube sampleK8sGPT False ''sa'' \<lparr>cluster = empty_store, trace = []\<rparr> =
   GetDeployment sampleHost (open_kube\<lparr>kGetSecret := \<lambda>key s. (Inr \<lparr>sec_Data = [(''key'', ''xyz'')]\<rparr>, s)\<rparr>)
     sampleK8sGPT False ''sa'' \<lparr>cluster = empty_store, trace = []\<rparr>"
  by (rule deployment_hides_secrets)
    (simp add: open_kube_def same_checksum_def calculateSecretChecksum_def sampleHost_def)

end
