(* ===== verification/Synchronisation.thy ===== *)
theory Synchronisation
  imports Deployment
begin

text \<open>
  The creation and the deletion of the objects of a K8sGPT server: \<^verbatim>\<open>Sync\<close> and \<^verbatim>\<open>doSync\<close> of
  \<^verbatim>\<open>pkg/resources/k8sgpt.go\<close>.  The lemmas give the calls of a synchronisation, and the objects that
  exist after sequences of synchronisations.
\<close>

section \<open>Creating and deleting the resources\<close>

datatype SyncOrDestroy = SyncOp | DestroyOp

text \<open>A zero Deployment but for its metadata, and the Deployment that is deleted.\<close>

definition emptyDeployment :: "object_meta \<Rightarrow> Deployment" where
  "emptyDeployment m =
     \<lparr>d_Meta = m,
      d_Spec = \<lparr>ds_Replicas = 0, ds_MatchLabels = [],
        ds_Template = \<lparr>pt_Labels = [], pt_Annotations = [],
          pt_Spec = \<lparr>ps_ServiceAccountName = '''', ps_AutomountServiceAccountToken = None, ps_Containers = [],
            ps_Volumes = [], ps_NodeSelector = [], ps_Tolerations = [], ps_SecurityContext = None\<rparr>\<rparr>\<rparr>,
      d_AvailableReplicas = 0\<rparr>"

definition deploymentStub :: "K8sGPT \<Rightarrow> Deployment" where
  "deploymentStub config = emptyDeployment (new_meta (om_Name (k_Meta config)) (om_Namespace (k_Meta config)))"

text \<open>
  \<^verbatim>\<open>doSync\<close>: the object to patch is the existing one, if there is one, and only for a Deployment
  or a Service is there a mutate function, which copies the specification.
\<close>

definition existingOr :: "('s world \<Rightarrow> 'x go_result \<times> 's world) \<Rightarrow> ('x \<Rightarrow> kube_object) \<Rightarrow> kube_object
    \<Rightarrow> (kube_object \<times> kube_object option, 's world) action" where
  "existingOr get wrap obj =
     on_error (and_then (request get) (\<lambda>exist. succeed (wrap exist, Some obj)))
       (\<lambda>err. if \<not> IsNotFound err then fail err else succeed (obj, None))"

fun syncTarget :: "'s kube \<Rightarrow> kube_object \<Rightarrow> (kube_object \<times> kube_object option, 's world) action" where
  "syncTarget K (TheDeployment expect) =
     existingOr (GetDeploymentObject K (key_of_meta (d_Meta expect))) TheDeployment (TheDeployment expect)"
| "syncTarget K (TheService expect) =
     existingOr (GetServiceObject K (key_of_meta (svc_Meta expect))) TheService (TheService expect)"
| "syncTarget K obj = succeed (obj, None)"

definition doSync :: "'s kube \<Rightarrow> kube_object \<Rightarrow> (unit, 's world) action" where
  "doSync K obj =
     and_then (syncTarget K obj) (\<lambda>(obj, expect).
       request (retryOnConflict retrySteps (CreateOrPatch K obj expect)))"

definition syncObjects :: "host \<Rightarrow> 's kube \<Rightarrow> K8sGPT \<Rightarrow> SyncOrDestroy \<Rightarrow> (kube_object list, 's world) action" where
  "syncObjects H K config i =
     (let outOfClusterMode = sp_Kubeconfig (k_Spec config) \<noteq> None;
          useDynamicRBAC = dynamicRBACEnabled H;
          serviceAccountName =
            (if useDynamicRBAC then ''k8sgpt-'' @ om_Namespace (k_Meta config) else defaultServiceAccountName);
          clusterRoleName = serviceAccountName @ ''-clusterrole'';
          clusterRoleNameBinding = clusterRoleName @ ''-binding''
      in and_then
           (case i of
              SyncOp \<Rightarrow> GetDeployment H K config outOfClusterMode serviceAccountName
            | DestroyOp \<Rightarrow> succeed (deploymentStub config))
           (\<lambda>deployment. succeed
              ((if useDynamicRBAC then [TheServiceAccount (GetServiceAccount config serviceAccountName)] else []) @
               [TheService (GetService config), TheDeployment deployment] @
               (if useDynamicRBAC then
                  [TheClusterRole (GetClusterRole config serviceAccountName),
                   TheClusterRoleBinding (GetClusterRoleBinding config serviceAccountName clusterRoleNameBinding clusterRoleName)]
                else []))))"

definition syncObject :: "'s kube \<Rightarrow> SyncOrDestroy \<Rightarrow> kube_object \<Rightarrow> (unit, 's world) action" where
  "syncObject K i obj =
     (case i of
        SyncOp \<Rightarrow> on_error (doSync K obj) (\<lambda>err. if \<not> IsAlreadyExists err then fail err else succeed ())
      | DestroyOp \<Rightarrow> on_error (request (Delete K obj)) (\<lambda>err. if \<not> IsNotFound err then fail err else succeed ()))"

definition Sync :: "host \<Rightarrow> 's kube \<Rightarrow> K8sGPT \<Rightarrow> SyncOrDestroy \<Rightarrow> (unit, 's world) action" where
  "Sync H K config i = and_then (syncObjects H K config i) (for_each (syncObject K i))"

section \<open>Properties of the synchronisation\<close>

definition serviceAccountNameOf :: "host \<Rightarrow> K8sGPT \<Rightarrow> string" where
  "serviceAccountNameOf H config =
     (if dynamicRBACEnabled H then ''k8sgpt-'' @ om_Namespace (k_Meta config) else defaultServiceAccountName)"

definition owned_objects :: "host \<Rightarrow> K8sGPT \<Rightarrow> Deployment \<Rightarrow> kube_object list" where
  "owned_objects H config deployment =
     (let sa = serviceAccountNameOf H config; role = sa @ ''-clusterrole'' in
      (if dynamicRBACEnabled H then [TheServiceAccount (GetServiceAccount config sa)] else []) @
      [TheService (GetService config), TheDeployment deployment] @
      (if dynamicRBACEnabled H
       then [TheClusterRole (GetClusterRole config sa),
             TheClusterRoleBinding (GetClusterRoleBinding config sa (role @ ''-binding'') role)]
       else []))"

lemma syncObjects_eq:
  "syncObjects H K config SyncOp =
     and_then (GetDeployment H K config (sp_Kubeconfig (k_Spec config) \<noteq> None) (serviceAccountNameOf H config))
       (\<lambda>d. succeed (owned_objects H config d))"
  "syncObjects H K config DestroyOp = succeed (owned_objects H config (deploymentStub config))"
  by (simp_all add: syncObjects_def owned_objects_def serviceAccountNameOf_def Let_def)

text \<open>
  C28. Nothing is written for a K8sGPT whose Deployment cannot be built: the synchronisation then fails
  or panics as the construction does, and it has only read secrets.
\<close>

theorem sync_validates_before_writing:
  "case GetDeployment H K config (sp_Kubeconfig (k_Spec config) \<noteq> None) (serviceAccountNameOf H config) w of
     (Done (Inr d), w1) \<Rightarrow> True
   | (Done (Inl err), w1) \<Rightarrow> Sync H K config SyncOp w = (Done (Inl err), w1) \<and> list_all is_secret_read (calls w w1)
   | (Panic, w1) \<Rightarrow> Sync H K config SyncOp w = (Panic, w1) \<and> list_all is_secret_read (calls w w1)"
proof -
  let ?g = "GetDeployment H K config (sp_Kubeconfig (k_Spec config) \<noteq> None) (serviceAccountNameOf H config)"
  obtain r w1 where run: "?g w = (r, w1)" by (cases "?g w")
  from emits_D [OF emits_GetDeployment run] have reads: "list_all is_secret_read (calls w w1)"
    by (auto simp: calls_eq)
  show ?thesis
    using run reads
    by (auto simp: Sync_def syncObjects_eq and_then_def [of _ _ w] split: outcome.splits sum.splits)
qed

text \<open>
  What the API server answers to the deletions of the objects, one after the other, and its state
  after them.
\<close>

fun delete_answers :: "'s kube \<Rightarrow> kube_object list \<Rightarrow> 's \<Rightarrow> unit go_result list" where
  "delete_answers K [] s = []"
| "delete_answers K (obj # objs) s = (case kDelete K obj s of (answer, s') \<Rightarrow> answer # delete_answers K objs s')"

definition after_deletes :: "'s kube \<Rightarrow> kube_object list \<Rightarrow> 's \<Rightarrow> 's" where
  "after_deletes K objs s = fold (\<lambda>obj s. snd (kDelete K obj s)) objs s"

definition deleted_or_gone :: "unit go_result \<Rightarrow> bool" where
  "deleted_or_gone answer = (case answer of Inl err \<Rightarrow> IsNotFound err | Inr u \<Rightarrow> True)"

text \<open>The number of deletions until one fails.\<close>

definition deletions_done :: "unit go_result list \<Rightarrow> nat" where
  "deletions_done answers = length (takeWhile deleted_or_gone answers)"

definition deletions :: "kube_object list \<Rightarrow> unit go_result list \<Rightarrow> call list" where
  "deletions objs answers =
     (let n = Suc (deletions_done answers) in map2 CallDelete (take n objs) (map is_ok (take n answers)))"

lemma length_delete_answers [simp]: "length (delete_answers K objs s) = length objs"
  by (induction objs arbitrary: s) (simp_all split: prod.split)

lemma all_deleted: "list_all deleted_or_gone answers \<longleftrightarrow> deletions_done answers = length answers"
proof (induction answers)
  case (Cons a as)
  then show ?case by (auto simp: deletions_done_def)
qed (simp add: deletions_done_def)

lemma failed_deletion:
  "\<not> list_all deleted_or_gone answers \<Longrightarrow> \<exists>err. answers ! deletions_done answers = Inl err \<and> \<not> IsNotFound err"
  by (induction answers) (auto simp: deletions_done_def deleted_or_gone_def split: sum.splits)

lemma delete_run:
  "for_each (syncObject K DestroyOp) objs w = (r, w') \<Longrightarrow> answers = delete_answers K objs (cluster w) \<Longrightarrow>
   r = Done (if list_all deleted_or_gone answers then Inr () else answers ! deletions_done answers) \<and>
   trace w' = trace w @ deletions objs answers \<and>
   (list_all deleted_or_gone answers \<longrightarrow> cluster w' = after_deletes K objs (cluster w))"
proof (induction objs arbitrary: w answers)
  case Nil
  then show ?case by (simp add: succeed_def deletions_def after_deletes_def)
next
  case (Cons obj objs)
  obtain a s1 where a: "kDelete K obj (cluster w) = (a, s1)" by (cases "kDelete K obj (cluster w)")
  let ?w1 = "\<lparr>cluster = s1, trace = trace w @ [CallDelete obj (is_ok a)]\<rparr>"
  let ?rest = "delete_answers K objs s1"
  have del: "Delete K obj w = (a, ?w1)" using a by (simp add: perform_def)
  have answers: "answers = a # ?rest" using Cons.prems(2) a by simp
  show ?case
  proof (cases "deleted_or_gone a")
    case False
    then obtain err where "a = Inl err" "\<not> IsNotFound err" by (auto simp: deleted_or_gone_def split: sum.splits)
    with del Cons.prems(1) answers False show ?thesis
      by (auto simp: syncObject_def and_then_def on_error_def request_def fail_def deletions_def deletions_done_def)
  next
    case True
    then have "for_each (syncObject K DestroyOp) (obj # objs) w = for_each (syncObject K DestroyOp) objs ?w1"
      using del
      by (cases a) (auto simp: deleted_or_gone_def syncObject_def and_then_def on_error_def request_def fail_def succeed_def)
    with Cons.prems(1) have "for_each (syncObject K DestroyOp) objs ?w1 = (r, w')" by simp
    from Cons.IH [OF this refl] True answers a show ?thesis
      by (auto simp: deletions_def deletions_done_def after_deletes_def Let_def)
  qed
qed

text \<open>
  C30. Destroying a K8sGPT deletes its objects in order and never panics.  It succeeds exactly when
  the API server answers each deletion with success or that the object is not there.  Otherwise it
  stops at the first deletion that is answered with another error, and that is the error returned;
  no object is skipped before it, and none is deleted after it.
\<close>

theorem destroy_deletes_all:
  "case Sync H K config DestroyOp w of (r, w') \<Rightarrow>
     (let objs = owned_objects H config (deploymentStub config); answers = delete_answers K objs (cluster w);
          n = length (takeWhile deleted_or_gone answers) in
      (r = Done (Inr ()) \<longleftrightarrow> list_all deleted_or_gone answers) \<and>
      r = Done (if n < length objs then answers ! n else Inr ()) \<and>
      calls w w' = map2 CallDelete (take (Suc n) objs) (map is_ok (take (Suc n) answers)))"
proof -
  let ?objs = "owned_objects H config (deploymentStub config)"
  let ?answers = "delete_answers K ?objs (cluster w)"
  obtain r w' where run: "for_each (syncObject K DestroyOp) ?objs w = (r, w')"
    by (cases "for_each (syncObject K DestroyOp) ?objs w")
  then have sync: "Sync H K config DestroyOp w = (r, w')" by (simp add: Sync_def syncObjects_eq)
  note d = delete_run [OF run refl]
  show ?thesis
  proof (cases "list_all deleted_or_gone ?answers")
    case True
    with d show ?thesis unfolding sync
      by (simp add: Let_def calls_eq deletions_def all_deleted [unfolded deletions_done_def] deletions_done_def)
  next
    case False
    then have "deletions_done ?answers < length ?objs"
      using all_deleted [of ?answers] length_takeWhile_le [of deleted_or_gone ?answers]
      by (simp add: deletions_done_def del: length_takeWhile_le)
    with False d failed_deletion [OF False] show ?thesis unfolding sync
      by (auto simp: Let_def calls_eq deletions_def deletions_done_def)
  qed
qed

text \<open>The slots of the store that a synchronisation fills, and that a deletion frees.\<close>

definition slots :: "store world \<Rightarrow> (object_key \<times> nat) list" where
  "slots w = map fst (s_children (cluster w))"

definition is_rbac :: "kube_object \<Rightarrow> bool" where
  "is_rbac obj \<longleftrightarrow> object_type obj \<notin> {1, 2}"

lemma open_kube_ops:
  "kCreateOrPatch open_kube = store_create_or_patch"
  "kGetDeployment open_kube key s =
     (case map_of (s_children s) (key, 2) of Some (TheDeployment x) \<Rightarrow> Inr x | _ \<Rightarrow> not_found, s)"
  "kGetService open_kube key s =
     (case map_of (s_children s) (key, 1) of Some (TheService x) \<Rightarrow> Inr x | _ \<Rightarrow> not_found, s)"
  "kDelete open_kube x s =
     (case map_of (s_children s) (owned_slot x) of
        None \<Rightarrow> (not_found, s)
      | Some _ \<Rightarrow> (Inr (), s\<lparr>s_children := AList.delete (owned_slot x) (s_children s)\<rparr>))"
  "kGetSecret open_kube key s = (Inr \<lparr>sec_Data = [(''key'', ''abc'')]\<rparr>, s)"
  by (simp_all add: open_kube_def std_kube_def)

lemma syncTarget_new:
  assumes "is_rbac obj \<or> owned_slot obj \<notin> set (slots w)"
  shows "\<exists>t. syncTarget open_kube obj w = (Done (Inr (obj, None)), \<lparr>cluster = cluster w, trace = t\<rparr>)"
proof -
  have "map_of (s_children (cluster w)) (owned_slot obj) = None" if "\<not> is_rbac obj"
    using assms that by (auto simp: slots_def map_of_eq_None_iff)
  then show ?thesis
    by (cases obj) (auto simp: is_rbac_def existingOr_def action_defs perform_def open_kube_ops
        owned_slot_def not_found_def IsNotFound_def intro!: exI [of _ "trace w"])
qed

lemma syncObject_slots:
  assumes "is_rbac obj \<or> owned_slot obj \<notin> set (slots w)"
  shows "\<exists>w'. syncObject open_kube SyncOp obj w = (Done (Inr ()), w') \<and>
    slots w' = slots w @ (if owned_slot obj \<in> set (slots w) then [] else [owned_slot obj])"
proof -
  from syncTarget_new [OF assms] obtain t where
    t: "syncTarget open_kube obj w = (Done (Inr (obj, None)), \<lparr>cluster = cluster w, trace = t\<rparr>)" by blast
  obtain s where s: "store_create_or_patch obj None (cluster w) = (Inr (), s)"
    and keys: "map fst (s_children s) = slots w @ (if owned_slot obj \<in> set (slots w) then [] else [owned_slot obj])"
    by (simp add: store_create_or_patch_def Let_def slots_def update_keys)
  let ?w = "\<lparr>cluster = s, trace = t @ [CallCreateOrPatch obj None True]\<rparr>"
  have "retryOnConflict retrySteps (CreateOrPatch open_kube obj None) \<lparr>cluster = cluster w, trace = t\<rparr> = (Inr (), ?w)"
    by (simp add: retrySteps_def numeral_eq_Suc perform_def open_kube_ops s)
  with t have "syncObject open_kube SyncOp obj w = (Done (Inr ()), ?w)"
    by (simp add: syncObject_def doSync_def on_error_def and_then_def request_def)
  with keys show ?thesis by (auto simp: slots_def)
qed

lemma sync_slots:
  assumes "list_all (\<lambda>obj. is_rbac obj \<or> owned_slot obj \<notin> set (slots w)) objs" and "distinct (map owned_slot objs)"
  shows "\<exists>w'. for_each (syncObject open_kube SyncOp) objs w = (Done (Inr ()), w') \<and>
    slots w' = slots w @ filter (\<lambda>s. s \<notin> set (slots w)) (map owned_slot objs)"
  using assms
proof (induction objs arbitrary: w)
  case Nil
  then show ?case by (simp add: succeed_def)
next
  case (Cons obj objs)
  from Cons.prems have "is_rbac obj \<or> owned_slot obj \<notin> set (slots w)" by simp
  from syncObject_slots [OF this] obtain w1 where w1: "syncObject open_kube SyncOp obj w = (Done (Inr ()), w1)"
    "slots w1 = slots w @ (if owned_slot obj \<in> set (slots w) then [] else [owned_slot obj])" by blast
  from Cons.prems w1(2) have "list_all (\<lambda>obj. is_rbac obj \<or> owned_slot obj \<notin> set (slots w1)) objs"
    by (auto simp: list_all_iff) (metis image_eqI)+
  with Cons.IH [of w1] Cons.prems obtain w2 where
    "for_each (syncObject open_kube SyncOp) objs w1 = (Done (Inr ()), w2)"
    "slots w2 = slots w1 @ filter (\<lambda>s. s \<notin> set (slots w1)) (map owned_slot objs)" by auto
  moreover have "filter (\<lambda>s. s \<notin> set (slots w1)) (map owned_slot objs) = filter (\<lambda>s. s \<notin> set (slots w)) (map owned_slot objs)"
    using Cons.prems(2) w1(2) by (intro filter_cong) auto
  ultimately show ?case using w1 by (auto simp: and_then_def)
qed

lemma destroy_slots:
  "\<exists>w'. for_each (syncObject open_kube DestroyOp) objs w = (Done (Inr ()), w') \<and>
    slots w' = filter (\<lambda>s. s \<notin> owned_slot ` set objs) (slots w)"
proof (induction objs arbitrary: w)
  case Nil
  then show ?case by (simp add: succeed_def)
next
  case (Cons obj objs)
  obtain w1 where w1: "syncObject open_kube DestroyOp obj w = (Done (Inr ()), w1)"
    "slots w1 = filter (\<lambda>s. s \<noteq> owned_slot obj) (slots w)"
  proof (cases "map_of (s_children (cluster w)) (owned_slot obj)")
    case None
    then have "filter (\<lambda>s. s \<noteq> owned_slot obj) (slots w) = slots w"
      by (auto simp: slots_def map_of_eq_None_iff filter_id_conv image_iff)
    with None show ?thesis
      by (intro that [of "\<lparr>cluster = cluster w, trace = trace w @ [CallDelete obj False]\<rparr>"])
        (simp_all add: syncObject_def action_defs perform_def open_kube_ops not_found_def IsNotFound_def slots_def)
  next
    case (Some x)
    then show ?thesis
      by (intro that [of "\<lparr>cluster = (cluster w)\<lparr>s_children := AList.delete (owned_slot obj) (s_children (cluster w))\<rparr>,
            trace = trace w @ [CallDelete obj True]\<rparr>"])
        (auto simp: syncObject_def action_defs perform_def open_kube_ops slots_def delete_keys
          removeAll_filter_not_eq intro!: filter_cong)
  qed
  with Cons.IH [of w1] obtain w2 where
    "for_each (syncObject open_kube DestroyOp) objs w1 = (Done (Inr ()), w2)"
    "slots w2 = filter (\<lambda>s. s \<notin> owned_slot ` set objs) (slots w1)" by blast
  with w1 show ?case by (auto simp: and_then_def intro!: filter_cong)
qed

lemma keeps_GetDeployment: "keeps cluster (GetDeployment H open_kube config m sa)"
proof -
  have secret: "keeps cluster (request (GetSecret open_kube key))" for key
    by (intro keeps_rules keeps_I) (auto simp: perform_def open_kube_ops)
  show ?thesis
    unfolding GetDeployment_def aiSecretChecksum_def outOfCluster_def Let_def remoteCacheEnv_def
      addRemoteCacheEnvVar_def engineEnv_def apiTypeEnv_def bedrockEnv_def watsonxEnv_def
      addSecretAsEnvToDeployment_def
    by (intro keeps_and_then keeps_on_error keeps_if keeps_option keeps_basic secret)
qed

lemma open_sync:
  assumes "server_config_ok config (sp_Kubeconfig (k_Spec config) \<noteq> None)"
  obtains d w1 where "Sync H open_kube config SyncOp w = for_each (syncObject open_kube SyncOp) (owned_objects H config d) w1"
    and "cluster w1 = cluster w" and "d_Meta d = deploymentMeta config"
proof -
  let ?m = "GetDeployment H open_kube config (sp_Kubeconfig (k_Spec config) \<noteq> None) (serviceAccountNameOf H config)"
  from deployment_valid [OF open_kube_secrets assms] obtain d w1 where d: "?m w = (Done (Inr d), w1)"
    unfolding gives_def by blast
  show ?thesis
  proof (rule that [of d w1])
    show "Sync H open_kube config SyncOp w = for_each (syncObject open_kube SyncOp) (owned_objects H config d) w1"
      using d by (simp add: Sync_def syncObjects_eq) (simp add: and_then_def succeed_def)
    show "d_Meta d = deploymentMeta config"
      using GetDeployment_env [OF d] by (metis frame_of_def prod.inject)
    show "cluster w1 = cluster w"
      using d by (rule keeps_D [OF keeps_GetDeployment])
  qed
qed

definition owned_slots :: "host \<Rightarrow> K8sGPT \<Rightarrow> (object_key \<times> nat) list" where
  "owned_slots H config = map owned_slot (owned_objects H config (deploymentStub config))"

definition slots_after :: "host \<Rightarrow> (K8sGPT \<times> SyncOrDestroy) list \<Rightarrow> (object_key \<times> nat) list" where
  "slots_after H steps =
     slots (fold (\<lambda>(config, i) w. snd (Sync H open_kube config i w)) steps \<lparr>cluster = empty_store, trace = []\<rparr>)"

lemma owned_slots_eq:
  "owned_slots H config =
     (if dynamicRBACEnabled H then [(\<lparr>key_Namespace = om_Namespace (k_Meta config), key_Name = serviceAccountNameOf H config\<rparr>, 0)] else []) @
     [(key_of_meta (k_Meta config), 1), (key_of_meta (k_Meta config), 2)] @
     (if dynamicRBACEnabled H
      then [(\<lparr>key_Namespace = '''', key_Name = serviceAccountNameOf H config @ ''-clusterrole''\<rparr>, 3),
            (\<lparr>key_Namespace = '''', key_Name = serviceAccountNameOf H config @ ''-clusterrole-binding''\<rparr>, 4)]
      else [])"
  by (simp add: owned_slots_def owned_objects_def Let_def owned_slot_def key_of_meta_def new_meta_def
      GetServiceAccount_def GetService_def GetClusterRole_def GetClusterRoleBinding_def deploymentStub_def emptyDeployment_def)

lemma owned_slots_deployment:
  "d_Meta d = deploymentMeta config \<Longrightarrow> map owned_slot (owned_objects H config d) = owned_slots H config"
  by (simp add: owned_slots_def owned_objects_def Let_def owned_slot_def key_of_meta_def new_meta_def
      deploymentMeta_def deploymentStub_def emptyDeployment_def)

lemma distinct_owned_slots: "distinct (owned_slots H config)"
  by (simp add: owned_slots_eq)

lemma sync_fills_slots:
  assumes "server_config_ok config (sp_Kubeconfig (k_Spec config) \<noteq> None)"
    and "(key_of_meta (k_Meta config), 1) \<notin> set (slots w)" "(key_of_meta (k_Meta config), 2) \<notin> set (slots w)"
  shows "slots (snd (Sync H open_kube config SyncOp w)) =
    slots w @ filter (\<lambda>s. s \<notin> set (slots w)) (owned_slots H config)"
proof -
  from open_sync [OF assms(1)] obtain d w1 where
    sync: "Sync H open_kube config SyncOp w = for_each (syncObject open_kube SyncOp) (owned_objects H config d) w1"
    and w1: "cluster w1 = cluster w" and d: "d_Meta d = deploymentMeta config" by blast
  from w1 have same: "slots w1 = slots w" by (simp add: slots_def)
  have "list_all (\<lambda>obj. is_rbac obj \<or> owned_slot obj \<notin> set (slots w1)) (owned_objects H config d)"
    using assms(2,3) d same
    by (simp add: owned_objects_def Let_def is_rbac_def owned_slot_def GetService_def deploymentMeta_def
        key_of_meta_def new_meta_def)
  from sync_slots [OF this] show ?thesis
    using sync same d by (auto simp: owned_slots_deployment distinct_owned_slots)
qed

lemma destroy_frees_slots:
  "slots (snd (Sync H open_kube config DestroyOp w)) = filter (\<lambda>s. s \<notin> set (owned_slots H config)) (slots w)"
  using destroy_slots [of "owned_objects H config (deploymentStub config)" w]
  by (auto simp: Sync_def syncObjects_eq owned_slots_def)

text \<open>
  The service account, the role and the binding are named by the namespace only.  Of two K8sGPTs
  in one namespace the deletion of the first therefore deletes those of the second as well: what is
  left are its Service and its Deployment, without the service account the Deployment names.
\<close>

theorem destroy_removes_rbac_of_namespace:
  assumes "dynamicRBACEnabled H"
    and "server_config_ok a (sp_Kubeconfig (k_Spec a) \<noteq> None)" and "server_config_ok b (sp_Kubeconfig (k_Spec b) \<noteq> None)"
    and "om_Namespace (k_Meta a) = om_Namespace (k_Meta b)" and "om_Name (k_Meta a) \<noteq> om_Name (k_Meta b)"
  shows "slots_after H [(a, SyncOp), (b, SyncOp), (a, DestroyOp)] =
    [(key_of_meta (k_Meta b), 1), (key_of_meta (k_Meta b), 2)]"
proof -
  let ?w0 = "\<lparr>cluster = empty_store, trace = []\<rparr> :: store world"
  let ?w1 = "snd (Sync H open_kube a SyncOp ?w0)"
  let ?w2 = "snd (Sync H open_kube b SyncOp ?w1)"
  have names: "serviceAccountNameOf H a = serviceAccountNameOf H b"
    using assms(4) by (simp add: serviceAccountNameOf_def)
  have keys: "key_of_meta (k_Meta a) \<noteq> key_of_meta (k_Meta b)"
    using assms(5) by (simp add: key_of_meta_def)
  have empty: "slots ?w0 = []" by (simp add: slots_def empty_store_def)
  have 1: "slots ?w1 = owned_slots H a"
    using sync_fills_slots [OF assms(2), where w = ?w0] empty by simp
  have 2: "slots ?w2 = owned_slots H a @ [(key_of_meta (k_Meta b), 1), (key_of_meta (k_Meta b), 2)]"
    using sync_fills_slots [OF assms(3), of ?w1 H] keys assms(1,4) names
    unfolding 1 by (simp add: owned_slots_eq)
  show ?thesis
    using keys unfolding slots_after_def by (simp add: destroy_frees_slots 2) (simp add: owned_slots_eq)
qed

definition secondK8sGPT :: K8sGPT where
  "secondK8sGPT = sampleK8sGPT\<lparr>k_Meta := new_meta ''second'' ''ops''\<rparr>"

theorem destroy_removes_rbac_of_namespace_witness:
  "slots_after sampleHost [(sampleK8sGPT, SyncOp), (secondK8sGPT, SyncOp), (sampleK8sGPT, DestroyOp)] =
    [(key_of_meta (k_Meta secondK8sGPT), 1), (key_of_meta (k_Meta secondK8sGPT), 2)]"
  by (rule destroy_removes_rbac_of_namespace)
    (simp_all add: dynamicRBACEnabled_def sampleHost_def server_config_ok_def sampleK8sGPT_def secondK8sGPT_def
      sampleAI_def caches_ok_def backend_defs new_meta_def)

end
