(* ===== verification/Metrics.thy ===== *)
theory Metrics
  imports Actions
begin

text \<open>
  The metrics of the operator (\<^verbatim>\<open>pkg/metrics/metrics.go\<close>): the builder with the configuration of each
  metric, what is registered, and the calls the controllers make on the vectors of the Prometheus
  library, which the model keeps as a list.  The lemmas say that every metric that is looked up is
  there, and read the value of a gauge off the calls.
\<close>

section \<open>The builder\<close>

datatype MetricType = Counter | Gauge

record MetricConfig =
  mc_Name :: string
  mc_Help :: string
  mc_Labels :: "string list"
  mc_Type :: MetricType

text \<open>
  The builder maps names to vectors; a vector is identified by the configuration it was made from.
\<close>

type_synonym MetricBuilder = "(string \<times> MetricConfig) list"

definition NewMetricBuilder :: MetricBuilder where
  "NewMetricBuilder = []"

definition AddMetric :: "MetricConfig \<Rightarrow> MetricBuilder \<Rightarrow> MetricBuilder" where
  "AddMetric config b =
     (case mc_Type config of
        Counter \<Rightarrow> AList.update (mc_Name config) config b
      | Gauge \<Rightarrow> AList.update (mc_Name config) config b)"

text \<open>The vectors that are registered; a vector of any other type is passed over.\<close>

definition RegisterMetrics :: "MetricBuilder \<Rightarrow> MetricConfig list" where
  "RegisterMetrics b =
     concat (map (\<lambda>(name, m). case mc_Type m of Counter \<Rightarrow> [m] | Gauge \<Rightarrow> [m]) b)"

definition GetCounterVec :: "MetricBuilder \<Rightarrow> string \<Rightarrow> MetricConfig option" where
  "GetCounterVec b name =
     (case map_of b name of
        Some m \<Rightarrow> if mc_Type m = Counter then Some m else None
      | None \<Rightarrow> None)"

definition GetGaugeVec :: "MetricBuilder \<Rightarrow> string \<Rightarrow> MetricConfig option" where
  "GetGaugeVec b name =
     (case map_of b name of
        Some m \<Rightarrow> if mc_Type m = Gauge then Some m else None
      | None \<Rightarrow> None)"

definition InitializeMetrics :: "MetricBuilder \<times> MetricConfig list" where
  "InitializeMetrics =
     (let builder =
        (AddMetric \<lparr>mc_Name = ''k8sgpt_mutations_count'', mc_Help = ''The total number of mutations'',
           mc_Labels = [''mutations'', ''k8sgpt''], mc_Type = Gauge\<rparr>
        (AddMetric \<lparr>mc_Name = ''k8sgpt_number_of_failed_backend_ai_calls'',
           mc_Help = ''The total number of failed backend AI calls'',
           mc_Labels = [''backend'', ''deployment'', ''namespace'', ''k8sgpt''], mc_Type = Counter\<rparr>
        (AddMetric \<lparr>mc_Name = ''k8sgpt_number_of_backend_ai_calls'', mc_Help = ''The total number of backend AI calls'',
           mc_Labels = [''backend'', ''deployment'', ''namespace'', ''k8sgpt''], mc_Type = Counter\<rparr>
        (AddMetric \<lparr>mc_Name = ''k8sgpt_number_of_results_by_type'', mc_Help = ''The total number of results by type'',
           mc_Labels = [''object_namespace'', ''kind'', ''name'', ''k8sgpt''], mc_Type = Gauge\<rparr>
        (AddMetric \<lparr>mc_Name = ''k8sgpt_number_of_results'', mc_Help = ''The total number of results'',
           mc_Labels = [''object_namespace'', ''k8sgpt''], mc_Type = Gauge\<rparr>
        (AddMetric \<lparr>mc_Name = ''k8sgpt_reconcile_error_count'', mc_Help = ''The total number of errors during reconcile'',
           mc_Labels = [''k8sgpt''], mc_Type = Counter\<rparr>
         NewMetricBuilder))))))
      in (builder, RegisterMetrics builder))"

text \<open>What the controllers register with the registry of controller-runtime; nil for a metric that is not there.\<close>

definition controllerMetrics :: "MetricBuilder \<Rightarrow> MetricConfig option list" where
  "controllerMetrics b =
     [GetCounterVec b ''k8sgpt_reconcile_error_count'', GetGaugeVec b ''k8sgpt_number_of_results'',
      GetGaugeVec b ''k8sgpt_number_of_results_by_type'', GetCounterVec b ''k8sgpt_number_of_backend_ai_calls'',
      GetCounterVec b ''k8sgpt_number_of_failed_backend_ai_calls'']"

definition mutationMetrics :: "MetricBuilder \<Rightarrow> MetricConfig option list" where
  "mutationMetrics b = [GetGaugeVec b ''k8sgpt_mutations_count'']"

section \<open>Calls on the vectors\<close>

datatype metric_call =
    IncCounter string "string list"
  | IncGauge string "string list"
  | SetGauge string "string list" int
  | DescGauge string "string list"
  | ResetGauge string

fun metric_name :: "metric_call \<Rightarrow> string" where
  "metric_name (IncCounter name labels) = name"
| "metric_name (IncGauge name labels) = name"
| "metric_name (SetGauge name labels v) = name"
| "metric_name (DescGauge name labels) = name"
| "metric_name (ResetGauge name) = name"

text \<open>
  \<^verbatim>\<open>WithLabelValues\<close> panics unless it gets one value for each label; a call fits a builder if the metric
  is there, of the type that is asked for, and has as many labels as the call has values.
\<close>

fun fits :: "MetricBuilder \<Rightarrow> metric_call \<Rightarrow> bool" where
  "fits b (IncCounter name labels) = (case GetCounterVec b name of None \<Rightarrow> False | Some m \<Rightarrow> length labels = length (mc_Labels m))"
| "fits b (IncGauge name labels) = (case GetGaugeVec b name of None \<Rightarrow> False | Some m \<Rightarrow> length labels = length (mc_Labels m))"
| "fits b (SetGauge name labels v) = (case GetGaugeVec b name of None \<Rightarrow> False | Some m \<Rightarrow> length labels = length (mc_Labels m))"
| "fits b (DescGauge name labels) = (case GetGaugeVec b name of None \<Rightarrow> False | Some m \<Rightarrow> length labels = length (mc_Labels m))"
| "fits b (ResetGauge name) = (GetGaugeVec b name \<noteq> None)"

text \<open>The value that a gauge has after some calls, for given label values; \<open>None\<close> if there is no such series.\<close>

fun gauge_after :: "string \<Rightarrow> string list \<Rightarrow> metric_call \<Rightarrow> int option \<Rightarrow> int option" where
  "gauge_after g ls (SetGauge name labels v) x = (if name = g \<and> labels = ls then Some v else x)"
| "gauge_after g ls (IncGauge name labels) x =
     (if name = g \<and> labels = ls then Some ((case x of None \<Rightarrow> 0 | Some n \<Rightarrow> n) + 1) else x)"
| "gauge_after g ls (DescGauge name labels) x =
     (if name = g \<and> labels = ls then Some (case x of None \<Rightarrow> 0 | Some n \<Rightarrow> n) else x)"
| "gauge_after g ls (ResetGauge name) x = (if name = g then None else x)"
| "gauge_after g ls (IncCounter name labels) x = x"

definition gauge :: "metric_call list \<Rightarrow> string \<Rightarrow> string list \<Rightarrow> int option" where
  "gauge cs g ls = fold (gauge_after g ls) cs None"

lemma gauge_append: "gauge (as @ bs) g ls = fold (gauge_after g ls) bs (gauge as g ls)"
  by (simp add: gauge_def)

text \<open>
  The six metrics are found under their names, and each is registered once with the default registry and
  once with that of controller-runtime, by one of the two controllers.
\<close>

lemma metrics_found:
  "map_of (fst InitializeMetrics) ''k8sgpt_mutations_count'' \<noteq> None"
  "fits (fst InitializeMetrics) (IncCounter ''k8sgpt_reconcile_error_count'' [a])"
  "fits (fst InitializeMetrics) (IncCounter ''k8sgpt_number_of_failed_backend_ai_calls'' [a, b, c, d])"
  "fits (fst InitializeMetrics) (SetGauge ''k8sgpt_number_of_results'' [a, b] v)"
  "fits (fst InitializeMetrics) (SetGauge ''k8sgpt_mutations_count'' [a, b] v)"
  "fits (fst InitializeMetrics) (IncGauge ''k8sgpt_number_of_results_by_type'' [a, b, c, d])"
  "fits (fst InitializeMetrics) (DescGauge ''k8sgpt_number_of_results_by_type'' [a, b, c, d])"
  "fits (fst InitializeMetrics) (ResetGauge ''k8sgpt_number_of_results_by_type'')"
  by (simp_all add: InitializeMetrics_def Let_def AddMetric_def NewMetricBuilder_def GetCounterVec_def GetGaugeVec_def)

lemma metrics_registered_once:
  "case InitializeMetrics of (b, registered) \<Rightarrow>
     distinct (map mc_Name registered) \<and> map mc_Name registered = map fst b \<and>
     list_all (\<lambda>m. m \<noteq> None) (controllerMetrics b @ mutationMetrics b) \<and>
     distinct (controllerMetrics b @ mutationMetrics b) \<and>
     set (controllerMetrics b @ mutationMetrics b) = set (map Some registered)"
  by (auto simp: InitializeMetrics_def Let_def AddMetric_def NewMetricBuilder_def RegisterMetrics_def controllerMetrics_def
      mutationMetrics_def GetCounterVec_def GetGaugeVec_def)

end
