(* ===== verification/Server_Client.thy ===== *)
theory Server_Client
  imports Synchronisation Metrics "HOL-Library.Multiset"
begin

text \<open>
  The client of the K8sGPT server (\<^verbatim>\<open>pkg/client\<close>): the address of the server, the requests built
  from the specification, and the cache of connections of the K8sGPT controller (\<^verbatim>\<open>clientFor\<close> and
  \<^verbatim>\<open>closeClientFor\<close> of \<^verbatim>\<open>k8sgpt_controller.go\<close>).  The lemmas say what the requests hold.
\<close>

section \<open>The address\<close>

definition Getenv :: "host \<Rightarrow> string \<Rightarrow> string" where
  "Getenv H name = (case LookupEnv H name of None \<Rightarrow> '''' | Some v \<Rightarrow> v)"

definition key_of_config :: "K8sGPT \<Rightarrow> object_key" where
  "key_of_config config = key_of_meta (k_Meta config)"

definition first_of :: "'a list \<Rightarrow> 'a option" where
  "first_of xs = (case xs of [] \<Rightarrow> None | x # _ \<Rightarrow> Some x)"

definition serviceAddress :: "host \<Rightarrow> Service \<Rightarrow> int \<Rightarrow> string" where
  "serviceAddress H svc port =
     (let ip = ss_ClusterIP (svc_Spec svc) in
      if is_IPv4 H ip then ip @ '':'' @ Itoa port else ''['' @ ip @ '']:'' @ Itoa port)"

text \<open>The service's first port is read without a test: a service without ports panics.\<close>

definition GenerateAddress :: "host \<Rightarrow> 's kube \<Rightarrow> K8sGPT \<Rightarrow> (string, 's world) action" where
  "GenerateAddress H K config =
     and_then
       (if Getenv H ''LOCAL_MODE'' \<noteq> '''' then succeed ''localhost:8080''
        else and_then (request (GetServiceObject K (key_of_config config))) (\<lambda>svc.
               and_then (deref (first_of (ss_Ports (svc_Spec svc)))) (\<lambda>port.
                 succeed (serviceAddress H svc port))))
       (\<lambda>address. and_then (request (Probe K address)) (\<lambda>_. succeed address))"

section \<open>Requests\<close>

definition NewClient :: "'s kube \<Rightarrow> string \<Rightarrow> (nat, 's world) action" where
  "NewClient K address =
     on_error (request (Dial K address)) (\<lambda>err. fail (Errorf_v ''failed to create context: '' err))"

definition required :: "string \<Rightarrow> string \<Rightarrow> (unit, 'w) action" where
  "required v message = (if v = '''' then fail (Errorf message) else succeed ())"

text \<open>The cache of the request: S3 comes first, then Azure, GCS and Interplex.\<close>

definition requestCache :: "RemoteCacheRef \<Rightarrow> (cache_config option, 'w) action" where
  "requestCache cache =
     (case rc_S3 cache of
        Some s3 \<Rightarrow>
          and_then (required (s3_BucketName s3) ''s3 bucket name is required'') (\<lambda>_.
          and_then (required (s3_Region s3) ''s3 region is required'') (\<lambda>_.
          succeed (Some (S3Cache (s3_BucketName s3) (s3_Region s3)))))
      | None \<Rightarrow>
     (case rc_Azure cache of
        Some az \<Rightarrow>
          and_then (required (az_StorageAccount az) ''azure storage account is required'') (\<lambda>_.
          and_then (required (az_ContainerName az) ''azure container name is required'') (\<lambda>_.
          succeed (Some (AzureCache (az_StorageAccount az) (az_ContainerName az)))))
      | None \<Rightarrow>
     (case rc_GCS cache of
        Some gcs \<Rightarrow>
          and_then (required (gcs_BucketName gcs) ''gcs bucket name is required'') (\<lambda>_.
          and_then (required (gcs_Region gcs) ''gcs region is required'') (\<lambda>_.
          and_then (required (gcs_ProjectId gcs) ''gcs project id is required'') (\<lambda>_.
          succeed (Some (GCSCache (gcs_BucketName gcs) (gcs_Region gcs) (gcs_ProjectId gcs))))))
      | None \<Rightarrow>
     (case rc_Interplex cache of
        Some ib \<Rightarrow>
          and_then (required (ib_Endpoint ib) ''interplex endpoint is required'') (\<lambda>_.
          succeed (Some (InterplexCache (ib_Endpoint ib))))
      | None \<Rightarrow> succeed None))))"

text \<open>The connection of a custom analyzer is read without a test.\<close>

fun requestAnalyzers :: "CustomAnalyzer list \<Rightarrow> (analyzer_config list, 'w) action" where
  "requestAnalyzers [] = succeed []"
| "requestAnalyzers (a # as) =
     and_then (deref (ca_Connection a)) (\<lambda>c.
     and_then (requestAnalyzers as) (\<lambda>rest.
     succeed (\<lparr>anc_Name = ca_Name a, anc_Url = conn_Url c, anc_Port = Itoa (conn_Port c)\<rparr> # rest)))"

definition AddConfig :: "'s kube \<Rightarrow> nat \<Rightarrow> K8sGPT \<Rightarrow> (unit, 's world) action" where
  "AddConfig K conn config =
     and_then (case sp_RemoteCache (k_Spec config) of None \<Rightarrow> succeed None | Some cache \<Rightarrow> requestCache cache) (\<lambda>cache.
     and_then (case sp_CustomAnalyzers (k_Spec config) of None \<Rightarrow> succeed [] | Some as \<Rightarrow> requestAnalyzers as) (\<lambda>analyzers.
     on_error
       (request (AddConfigRPC K conn \<lparr>acr_Cache = cache, acr_CustomAnalyzers = analyzers, acr_Trivy = None\<rparr>))
       (\<lambda>err. fail (Errorf_v ''failed to call AddConfig RPC: '' err))))"

text \<open>
  \<^verbatim>\<open>RemoveConfig\<close>, which nothing calls: its remote call is an argument.  The request names an empty cache
  and nothing else, whatever the K8sGPT.
\<close>

record RemoveConfigRequest =
  rcr_Cache :: "cache_config option option"
  rcr_Integrations :: "Trivy option"
  rcr_CustomAnalyzers :: "analyzer_config list"

definition RemoveConfig :: "(nat \<Rightarrow> RemoveConfigRequest \<Rightarrow> 's world \<Rightarrow> unit go_result \<times> 's world) \<Rightarrow> nat \<Rightarrow> K8sGPT
    \<Rightarrow> (unit, 's world) action" where
  "RemoveConfig rpc conn config =
     on_error (request (rpc conn \<lparr>rcr_Cache = Some None, rcr_Integrations = None, rcr_CustomAnalyzers = []\<rparr>))
       (\<lambda>err. fail (Errorf_v ''failed to call RemoveConfig RPC: '' err))"

text \<open>The section of the integrations is tested by the caller, its Trivy section is not.\<close>

definition AddIntegration :: "'s kube \<Rightarrow> nat \<Rightarrow> Integrations \<Rightarrow> (unit, 's world) action" where
  "AddIntegration K conn integrations =
     and_then (request (TrivyEnabled K conn)) (\<lambda>enabled.
     and_then (deref (int_Trivy integrations)) (\<lambda>trivy.
     if enabled = tr_Enabled trivy then succeed ()
     else
       on_error (request (AddConfigRPC K conn \<lparr>acr_Cache = None, acr_CustomAnalyzers = [], acr_Trivy = Some trivy\<rparr>))
         (\<lambda>err. fail (Errorf_v ''failed to call AddConfig RPC: '' err))))"

definition ProcessAnalysis :: "'s kube \<Rightarrow> nat \<Rightarrow> K8sGPT \<Rightarrow> bool \<Rightarrow> (K8sGPTResponse, 's world) action" where
  "ProcessAnalysis K conn config allowAIRequest =
     and_then (deref (sp_AI (k_Spec config))) (\<lambda>ai.
     and_then (deref (ai_Anonymize ai)) (\<lambda>anonymize.
     and_then (on_error
       (request (Analyze K conn
          \<lparr>rq_Explain = ai_Enabled ai \<and> allowAIRequest, rq_Nocache = sp_NoCache (k_Spec config),
           rq_Backend = EffectiveBackend (ai_Backend ai), rq_Namespace = sp_TargetNamespace (k_Spec config),
           rq_Filters = sp_Filters (k_Spec config), rq_Anonymize = anonymize, rq_Language = ai_Language ai\<rparr>))
       (\<lambda>err. fail (Errorf_v ''failed to call Analyze RPC: '' err))) (\<lambda>res.
     and_then (case re_Results res of Inl err \<Rightarrow> fail err | Inr target \<Rightarrow> succeed target) (\<lambda>target.
     succeed \<lparr>kr_Status = re_Status res, kr_Problems = re_Problems res, kr_Results = target\<rparr>))))"

section \<open>The cache of connections\<close>

text \<open>
  The state of the controller that a reconciliation sees besides the world, as far as the
  connections and the metrics go: one cached connection for each K8sGPT, the builder of the metrics, and
  the calls made on them.  Access to the cache is under a lock, so that a call of either function is
  one step.
\<close>

record cachedClient =
  cc_address :: string
  cc_client :: nat

record 's csys =
  cs_world :: "'s world"
  kclients :: "(object_key \<times> cachedClient) list"
  metricsBuilder :: MetricBuilder
  metric_calls :: "metric_call list"

text \<open>
  A call on a vector that was looked up in the builder: left out if the vector is nil and the code tests
  that, and a panic if it does not.
\<close>

definition if_metric :: "(MetricBuilder \<Rightarrow> string \<Rightarrow> MetricConfig option) \<Rightarrow> metric_call
    \<Rightarrow> (unit, ('s, 'm) csys_scheme) action" where
  "if_metric get call s =
     (case get (metricsBuilder s) (metric_name call) of
        None \<Rightarrow> (Done (Inr ()), s)
      | Some vec \<Rightarrow> (Done (Inr ()), s\<lparr>metric_calls := metric_calls s @ [call]\<rparr>))"

definition must_metric :: "(MetricBuilder \<Rightarrow> string \<Rightarrow> MetricConfig option) \<Rightarrow> metric_call
    \<Rightarrow> (unit, ('s, 'm) csys_scheme) action" where
  "must_metric get call s =
     (case get (metricsBuilder s) (metric_name call) of
        None \<Rightarrow> (Panic, s)
      | Some vec \<Rightarrow> (Done (Inr ()), s\<lparr>metric_calls := metric_calls s @ [call]\<rparr>))"

definition on_world :: "('s world \<Rightarrow> 'r \<times> 's world) \<Rightarrow> ('s, 'm) csys_scheme \<Rightarrow> 'r \<times> ('s, 'm) csys_scheme" where
  "on_world f s = (case f (cs_world s) of (r, w) \<Rightarrow> (r, s\<lparr>cs_world := w\<rparr>))"

text \<open>\<^verbatim>\<open>delete(r.kclients, key)\<close> after the connection was closed, whatever the close answered.\<close>

definition dropClient :: "'s kube \<Rightarrow> object_key \<Rightarrow> cachedClient \<Rightarrow> (unit, ('s, 'm) csys_scheme) action" where
  "dropClient K key cached s =
     (case on_world (Close K (cc_client cached)) s of
        (r, s) \<Rightarrow> (Done (Inr ()), s\<lparr>kclients := AList.delete key (kclients s)\<rparr>))"

definition dialClient :: "'s kube \<Rightarrow> object_key \<Rightarrow> string \<Rightarrow> (nat, ('s, 'm) csys_scheme) action" where
  "dialClient K key address =
     and_then (on_world (NewClient K address)) (\<lambda>c s.
       (Done (Inr c), s\<lparr>kclients := AList.update key \<lparr>cc_address = address, cc_client = c\<rparr> (kclients s)\<rparr>))"

definition clientFor :: "'s kube \<Rightarrow> K8sGPT \<Rightarrow> string \<Rightarrow> (nat, ('s, 'm) csys_scheme) action" where
  "clientFor K config address s =
     (let key = key_of_config config in
      case map_of (kclients s) key of
        None \<Rightarrow> dialClient K key address s
      | Some cached \<Rightarrow>
          if cc_address cached = address then (Done (Inr (cc_client cached)), s)
          else and_then (dropClient K key cached) (\<lambda>_. dialClient K key address) s)"

definition closeClientFor :: "'s kube \<Rightarrow> K8sGPT \<Rightarrow> (unit, ('s, 'm) csys_scheme) action" where
  "closeClientFor K config s =
     (let key = key_of_config config in
      case map_of (kclients s) key of
        None \<Rightarrow> (Done (Inr ()), s)
      | Some cached \<Rightarrow> dropClient K key cached s)"

section \<open>No connection is lost\<close>

fun dialled :: "call list \<Rightarrow> nat list" where
  "dialled [] = []"
| "dialled (CallDial address (Some c) # cs) = c # dialled cs"
| "dialled (_ # cs) = dialled cs"

fun closings :: "call list \<Rightarrow> nat list" where
  "closings [] = []"
| "closings (CallClose c # cs) = c # closings cs"
| "closings (_ # cs) = closings cs"

lemma dialled_append: "dialled (as @ bs) = dialled as @ dialled bs"
  by (induction as rule: dialled.induct) simp_all

lemma closings_append: "closings (as @ bs) = closings as @ closings bs"
  by (induction as rule: closings.induct) simp_all

definition held :: "('s, 'm) csys_scheme \<Rightarrow> nat list" where
  "held s = map (cc_client \<circ> snd) (kclients s)"

text \<open>
  The invariant: every connection that was ever dialled has been closed or is held in the cache,
  and the cache holds one connection for each resource.
\<close>

definition accounted :: "('s, 'm) csys_scheme \<Rightarrow> bool" where
  "accounted s \<longleftrightarrow>
     mset (dialled (trace (cs_world s))) = mset (closings (trace (cs_world s))) + mset (held s) \<and>
     distinct (map fst (kclients s))"

text \<open>A call that neither opens nor closes a connection.\<close>

definition no_connection :: "call \<Rightarrow> bool" where
  "no_connection c \<longleftrightarrow> dialled [c] = [] \<and> closings [c] = []"

lemma no_connection_calls: "list_all no_connection cs \<Longrightarrow> dialled cs = [] \<and> closings cs = []"
proof (induction cs)
  case (Cons c cs)
  then show ?case
    using dialled_append [of "[c]" cs] closings_append [of "[c]" cs] by (simp add: no_connection_def)
qed simp

lemma on_world_parts:
  assumes "on_world f s = (r, s')"
  shows "\<exists>w. f (cs_world s) = (r, w) \<and> s' = s\<lparr>cs_world := w\<rparr>"
  using assms by (cases "f (cs_world s)") (simp add: on_world_def)

lemma maintains_on_world:
  assumes "emits trace no_connection f"
  shows "maintains accounted (on_world f)"
proof (rule maintains_I)
  fix s r s' assume acc: "accounted s" and run: "on_world f s = (r, s')"
  from on_world_parts [OF run] obtain w where w: "f (cs_world s) = (r, w)" "s' = s\<lparr>cs_world := w\<rparr>" by blast
  from emits_D [OF assms w(1)] no_connection_calls obtain cs where
    "trace w = trace (cs_world s) @ cs" "dialled cs = []" "closings cs = []" by blast
  with acc w(2) show "accounted s'" by (simp add: accounted_def held_def dialled_append closings_append)
qed

lemma mset_delete_key:
  "distinct (map fst m) \<Longrightarrow> map_of m k = Some v \<Longrightarrow>
   mset (map (f \<circ> snd) m) = mset (map (f \<circ> snd) (AList.delete k m)) + {#f v#}"
proof (induction m)
  case (Cons kv m)
  show ?case
  proof (cases "fst kv = k")
    case True
    with Cons.prems have "k \<notin> fst ` set m" by auto
    then have "AList.delete k m = m" by (simp add: AList.delete_eq filter_id_conv image_iff) force
    with True Cons.prems show ?thesis by (cases kv) (simp add: AList.delete_eq)
  next
    case False
    with Cons show ?thesis by (cases kv) (simp add: AList.delete_eq)
  qed
qed simp

lemma update_new: "k \<notin> fst ` set m \<Longrightarrow> AList.update k v m = m @ [(k, v)]"
  by (induction m) auto

lemma dropClient_accounted:
  assumes "accounted s" and "map_of (kclients s) key = Some cached" and "dropClient K key cached s = (r, s')"
  shows "accounted s' \<and> map_of (kclients s') key = None \<and> r = Done (Inr ()) \<and>
    trace (cs_world s') = trace (cs_world s) @ [CallClose (cc_client cached)] \<and>
    (\<forall>k. k \<noteq> key \<longrightarrow> map_of (kclients s') k = map_of (kclients s) k)"
proof -
  obtain x w where close: "Close K (cc_client cached) (cs_world s) = (x, w)"
    by (cases "Close K (cc_client cached) (cs_world s)")
  then have s': "s' = s\<lparr>cs_world := w, kclients := AList.delete key (kclients s)\<rparr>" "r = Done (Inr ())"
    using assms(3) by (simp_all add: dropClient_def on_world_def)
  from perform_trace [OF close] have "trace w = trace (cs_world s) @ [CallClose (cc_client cached)]" .
  with assms(1) s' mset_delete_key [of "kclients s" key cached cc_client] assms(2) show ?thesis
    by (auto simp: accounted_def held_def dialled_append closings_append delete_conv' distinct_delete comp_def)
qed

lemma dialClient_accounted:
  assumes "accounted s" and "map_of (kclients s) key = None" and "dialClient K key address s = (r, s')"
  shows "accounted s' \<and> r \<noteq> Panic \<and> (\<forall>k. k \<noteq> key \<longrightarrow> map_of (kclients s') k = map_of (kclients s) k) \<and>
    (case r of Done (Inr c) \<Rightarrow> map_of (kclients s') key = Some \<lparr>cc_address = address, cc_client = c\<rparr>
     | _ \<Rightarrow> map_of (kclients s') key = None) \<and>
    (\<exists>d. trace (cs_world s') = trace (cs_world s) @ [CallDial address d])"
proof -
  obtain x w where dial: "Dial K address (cs_world s) = (x, w)" by (cases "Dial K address (cs_world s)")
  note t = perform_trace [OF dial]
  have new: "key \<notin> fst ` set (kclients s)" using assms(2) by (simp add: map_of_eq_None_iff)
  show ?thesis
  proof (cases x)
    case (Inl err)
    with dial assms have "r = Done (Inl (Errorf_v ''failed to create context: '' err))" "s' = s\<lparr>cs_world := w\<rparr>"
      by (simp_all add: dialClient_def NewClient_def on_world_def action_defs)
    with assms t Inl show ?thesis by (simp add: accounted_def held_def dialled_append closings_append)
  next
    case (Inr c)
    with dial assms have s': "r = Done (Inr c)"
      "s' = s\<lparr>cs_world := w, kclients := AList.update key \<lparr>cc_address = address, cc_client = c\<rparr> (kclients s)\<rparr>"
      by (simp_all add: dialClient_def NewClient_def on_world_def action_defs)
    have "AList.update key \<lparr>cc_address = address, cc_client = c\<rparr> (kclients s) =
        kclients s @ [(key, \<lparr>cc_address = address, cc_client = c\<rparr>)]"
      using new by (rule update_new)
    then have kc: "kclients s' = kclients s @ [(key, \<lparr>cc_address = address, cc_client = c\<rparr>)]"
      and w: "cs_world s' = w"
      using s'(2) by simp_all
    have "accounted s'"
      using assms(1) new t Inr unfolding accounted_def held_def kc w
      by (simp add: dialled_append closings_append)
    moreover have "map_of (kclients s') k = (if k = key then Some \<lparr>cc_address = address, cc_client = c\<rparr> else map_of (kclients s) k)" for k
      unfolding s'(2) by (simp add: update_conv')
    ultimately show ?thesis using s'(1) t w by simp
  qed
qed

text \<open>
  The client a reconciliation gets.  If the cached connection has the address, it is returned and
  nothing is called; otherwise the old one, if any, is closed and one is dialled.  The connections
  of other resources are never touched, what is returned is cached under the address, and a failed
  dial leaves nothing cached.
\<close>

lemma clientFor_run:
  assumes "accounted s" and "clientFor K config address s = (r, s')"
  shows "accounted s' \<and> r \<noteq> Panic \<and>
    (\<forall>k. k \<noteq> key_of_config config \<longrightarrow> map_of (kclients s') k = map_of (kclients s) k) \<and>
    (case r of Done (Inr c) \<Rightarrow> map_of (kclients s') (key_of_config config) = Some \<lparr>cc_address = address, cc_client = c\<rparr>
     | _ \<Rightarrow> map_of (kclients s') (key_of_config config) = None) \<and>
    (\<exists>d. calls (cs_world s) (cs_world s') =
       (case map_of (kclients s) (key_of_config config) of
          None \<Rightarrow> [CallDial address d]
        | Some old \<Rightarrow> if cc_address old = address then [] else [CallClose (cc_client old), CallDial address d]))"
proof (cases "map_of (kclients s) (key_of_config config)")
  case None
  with assms have "dialClient K (key_of_config config) address s = (r, s')" by (simp add: clientFor_def)
  from dialClient_accounted [OF assms(1) None this] None show ?thesis by (auto simp: calls_eq)
next
  case (Some old)
  show ?thesis
  proof (cases "cc_address old = address")
    case True
    with Some assms show ?thesis by (auto simp: clientFor_def)
  next
    case False
    obtain x s1 where drop: "dropClient K (key_of_config config) old s = (x, s1)"
      by (cases "dropClient K (key_of_config config) old s")
    note d = dropClient_accounted [OF assms(1) Some drop]
    with Some False drop assms have "dialClient K (key_of_config config) address s1 = (r, s')"
      by (simp add: clientFor_def Let_def and_then_def)
    with dialClient_accounted [of s1 "key_of_config config" K address r s'] d Some False
    show ?thesis by (auto simp: calls_def)
  qed
qed

lemma maintains_clientFor: "maintains accounted (clientFor K config address)"
  by (rule maintains_I) (use clientFor_run in blast)

lemma maintains_closeClientFor: "maintains accounted (closeClientFor K config)"
proof (rule maintains_I)
  fix s r s' assume "accounted s" "closeClientFor K config s = (r, s')"
  then show "accounted s'"
    by (cases "map_of (kclients s) (key_of_config config)")
      (auto simp: closeClientFor_def dest: dropClient_accounted)
qed

section \<open>The requests that are sent\<close>

definition cache_complete :: "cache_config \<Rightarrow> bool" where
  "cache_complete c \<longleftrightarrow>
     (case c of
        S3Cache b r \<Rightarrow> b \<noteq> '''' \<and> r \<noteq> ''''
      | AzureCache a n \<Rightarrow> a \<noteq> '''' \<and> n \<noteq> ''''
      | GCSCache b r p \<Rightarrow> b \<noteq> '''' \<and> r \<noteq> '''' \<and> p \<noteq> ''''
      | InterplexCache e \<Rightarrow> e \<noteq> '''')"

text \<open>The cache of a specification: the first section that is there, in the order of precedence.\<close>

definition chosenCache :: "RemoteCacheRef \<Rightarrow> cache_config option" where
  "chosenCache cache =
     (case rc_S3 cache of Some s3 \<Rightarrow> Some (S3Cache (s3_BucketName s3) (s3_Region s3))
      | None \<Rightarrow> (case rc_Azure cache of Some az \<Rightarrow> Some (AzureCache (az_StorageAccount az) (az_ContainerName az))
      | None \<Rightarrow> (case rc_GCS cache of Some gcs \<Rightarrow> Some (GCSCache (gcs_BucketName gcs) (gcs_Region gcs) (gcs_ProjectId gcs))
      | None \<Rightarrow> (case rc_Interplex cache of Some ib \<Rightarrow> Some (InterplexCache (ib_Endpoint ib)) | None \<Rightarrow> None))))"

definition valid_cache :: "K8sGPT \<Rightarrow> bool" where
  "valid_cache config \<longleftrightarrow>
     (case sp_RemoteCache (k_Spec config) of
        None \<Rightarrow> True
      | Some cache \<Rightarrow> (case chosenCache cache of None \<Rightarrow> True | Some c \<Rightarrow> cache_complete c))"

definition valid_analyzers :: "K8sGPT \<Rightarrow> bool" where
  "valid_analyzers config \<longleftrightarrow>
     (case sp_CustomAnalyzers (k_Spec config) of
        None \<Rightarrow> True
      | Some as \<Rightarrow> list_all (\<lambda>a. ca_Connection a \<noteq> None) as)"

lemma required_eq: "required v message = (if v = '''' then fail (Errorf message) else succeed ())"
  by (rule ext) (simp add: required_def)

lemma requestCache_eq:
  "case chosenCache cache of
     None \<Rightarrow> requestCache cache = succeed None
   | Some c \<Rightarrow> if cache_complete c then requestCache cache = succeed (Some c) else (\<exists>m. requestCache cache = fail (Errorf m))"
  by (auto simp: requestCache_def chosenCache_def cache_complete_def required_eq split: option.splits)

lemma requestAnalyzers_eq:
  "if list_all (\<lambda>a. ca_Connection a \<noteq> None) as
   then requestAnalyzers as = succeed (map (\<lambda>a. case ca_Connection a of Some c \<Rightarrow>
      \<lparr>anc_Name = ca_Name a, anc_Url = conn_Url c, anc_Port = Itoa (conn_Port c)\<rparr>) as)
   else requestAnalyzers as = crash"
proof (induction as)
  case (Cons a as)
  then show ?case by (cases "ca_Connection a") (auto split: if_splits)
qed simp

text \<open>
  A configuration is sent to the server exactly when it is valid: the chosen cache is complete and
  every custom analyzer has a connection.  Then one request is sent, with the cache that comes
  first in the order of precedence, and the result is that of the request.  An incomplete cache is
  an error, an analyzer without a connection a panic, and nothing is sent.
\<close>

theorem AddConfig_sends_valid_config:
  fixes K :: "'s kube" and w :: "'s world"
  shows "case AddConfig K conn config w of (r, w') \<Rightarrow>
     if valid_cache config \<and> valid_analyzers config then
       (\<exists>req ok. calls w w' = [CallAddConfig conn req ok] \<and> (r = Done (Inr ()) \<longleftrightarrow> ok) \<and> r \<noteq> Panic \<and>
          acr_Cache req = (case sp_RemoteCache (k_Spec config) of None \<Rightarrow> None | Some cache \<Rightarrow> chosenCache cache) \<and>
          acr_Trivy req = None)
     else w' = w \<and> (r = Panic \<longleftrightarrow> valid_cache config) \<and> r \<noteq> Done (Inr ())"
proof -
  let ?cache = "(case sp_RemoteCache (k_Spec config) of None \<Rightarrow> succeed None | Some cache \<Rightarrow> requestCache cache)
    :: (cache_config option, 's world) action"
  let ?chosen = "case sp_RemoteCache (k_Spec config) of None \<Rightarrow> None | Some cache \<Rightarrow> chosenCache cache"
  let ?as = "(case sp_CustomAnalyzers (k_Spec config) of None \<Rightarrow> succeed [] | Some as \<Rightarrow> requestAnalyzers as)
    :: (analyzer_config list, 's world) action"
  have cache: "if valid_cache config then ?cache = succeed ?chosen else (\<exists>m. ?cache = fail (Errorf m))"
    using requestCache_eq [of "the (sp_RemoteCache (k_Spec config))"]
    by (auto simp: valid_cache_def split: option.splits if_splits)
  have as: "if valid_analyzers config then (\<exists>xs. ?as = succeed xs) else ?as = crash"
    using requestAnalyzers_eq [of "the (sp_CustomAnalyzers (k_Spec config))"]
    by (auto simp: valid_analyzers_def split: option.splits if_splits)
  show ?thesis
  proof (cases "valid_cache config")
    case False
    with cache obtain m where "?cache = fail (Errorf m)" by auto
    with False show ?thesis by (simp add: AddConfig_def action_eval)
  next
    case valid: True
    with cache have c: "?cache = succeed ?chosen" by simp
    show ?thesis
    proof (cases "valid_analyzers config")
      case False
      with as have "?as = crash" by simp
      with c False valid show ?thesis by (simp add: AddConfig_def action_eval)
    next
      case True
      with as obtain xs where xs: "?as = succeed xs" by auto
      let ?req = "\<lparr>acr_Cache = ?chosen, acr_CustomAnalyzers = xs, acr_Trivy = None\<rparr>"
      obtain x w' where rpc: "AddConfigRPC K conn ?req w = (x, w')" by (cases "AddConfigRPC K conn ?req w")
      from perform_trace [OF rpc] have calls: "calls w w' = [CallAddConfig conn ?req (is_ok x)]" by (rule calls_eq)
      have run: "AddConfig K conn config w = (case x of Inl err \<Rightarrow> (Done (Inl (Errorf_v ''failed to call AddConfig RPC: '' err)), w')
          | Inr u \<Rightarrow> (Done (Inr u), w'))"
        unfolding AddConfig_def c xs and_then_simps
        by (simp add: on_error_def request_def fail_def rpc split: sum.splits)
      show ?thesis using valid True calls unfolding run by (cases x) auto
    qed
  qed
qed

end
