(* ===== verification/Results.thy ===== *)
theory Results
  imports Conversions Actions
begin

text \<open>
  The findings as Result resources (\<^verbatim>\<open>pkg/resources/results.go\<close>): the hash of what identifies a
  finding, the resources built from the answer of the analysis, and their creation or update with
  retries on conflicts.  The digest of a text (SHA-256) is a parameter.  The lemmas say what the
  hash depends on, which calls an update makes, and what is stored.
\<close>

section \<open>The hash of a finding\<close>

text \<open>The fields of a target reference that are encoded: the empty ones are omitted.\<close>

definition target_fields :: "ResultTargetReference \<Rightarrow> (string \<times> string) list" where
  "target_fields t =
     [(''apiVersion'', tg_APIVersion t), (''kind'', tg_Kind t), (''namespace'', tg_Namespace t),
      (''name'', tg_Name t), (''uid'', tg_UID t), (''resourceVersion'', tg_ResourceVersion t)]"

definition target_tokens :: "ResultTargetReference option \<Rightarrow> gonum token list" where
  "target_tokens target =
     (case target of
        None \<Rightarrow> [TNull]
      | Some t \<Rightarrow>
          TOpenObj # concat (map (\<lambda>(k, v). [TStr k, TStr v]) (filter (\<lambda>(k, v). v \<noteq> '''') (target_fields t)))
            @ [TCloseObj])"

text \<open>\<^verbatim>\<open>json.Marshal\<close> of the content, as its tokens; it does not fail, strings and ints being encodable.\<close>

definition hashableContent :: "ResultSpec \<Rightarrow> gonum token list" where
  "hashableContent spec =
     [TOpenObj, TStr ''Kind'', TStr (rs_Kind spec), TStr ''Name'', TStr (rs_Name spec),
      TStr ''ParentObject'', TStr (rs_ParentObject spec), TStr ''TargetRef''] @
     target_tokens (rs_TargetRef spec) @
     [TStr ''ErrorCount'', TNum (Int64 (int (length (rs_Error spec)))), TStr ''ErrorTexts'', TOpenArr] @
     map (\<lambda>e. TStr (fa_Text e)) (rs_Error spec) @ [TCloseArr, TCloseObj]"

definition hashResultContent :: "(gonum token list \<Rightarrow> string) \<Rightarrow> ResultSpec \<Rightarrow> string" where
  "hashResultContent digest spec = digest (hashableContent spec)"

section \<open>The Backstage label\<close>

definition backstageLabelKey :: string where
  "backstageLabelKey = ''backstage.io/kubernetes-id''"

text \<open>
  \<^verbatim>\<open>Integrations.BackstageLabel\<close>: the label of the object a finding is about.  A label the
  object does not have is read as the empty string, and is set all the same.
\<close>

definition BackstageLabel :: "k8s_lib \<Rightarrow> 's kube \<Rightarrow> ResultSpec \<Rightarrow> 's world \<Rightarrow> str_map \<times> 's world" where
  "BackstageLabel L K result w =
     (case Cut (rs_Name result) CHR ''/'' of (namespace, resourceName, _) \<Rightarrow>
      (case ResourceFor K (rs_Kind result) w of
         (Inl err, w) \<Rightarrow> ([], w)
       | (Inr gvr, w) \<Rightarrow>
           (case Get K \<lparr>key_Namespace = namespace, key_Name = resourceName\<rparr>
                   (empty_of L (WithKind gvr (rs_Kind result))) w of
              (Inl err, w) \<Rightarrow> ([], w)
            | (Inr object, w) \<Rightarrow>
                ([(backstageLabelKey,
                   case map_of (GetLabels L object) backstageLabelKey of None \<Rightarrow> '''' | Some v \<Rightarrow> v)], w))))"

section \<open>From the analysis to resources\<close>

text \<open>\<^verbatim>\<open>metav1.NewControllerRef\<close> of a K8sGPT resource.\<close>

definition controllerRef :: "k8s_lib \<Rightarrow> K8sGPT \<Rightarrow> owner_reference" where
  "controllerRef L owner =
     \<lparr>own_APIVersion = (case ParseGroupVersion L (k_APIVersion owner) of
                           Inl _ \<Rightarrow> '''' | Inr gv \<Rightarrow> GroupVersion_String L gv),
      own_Kind = k_Kind owner, own_Name = om_Name (k_Meta owner), own_UID = om_UID (k_Meta owner),
      own_Controller = Some True, own_BlockOwnerDeletion = Some True\<rparr>"

definition empty_status :: ResultStatus where
  "empty_status = \<lparr>rt_LifeCycle = '''', rt_Webhook = '''', rt_ContentHash = ''''\<rparr>"

definition GetResult_of :: "k8s_lib \<Rightarrow> ResultSpec \<Rightarrow> string \<Rightarrow> string \<Rightarrow> string \<Rightarrow> string \<Rightarrow> K8sGPT \<Rightarrow> Result" where
  "GetResult_of L resultSpec name namespace backend detail owner =
     \<lparr>res_Meta = (new_meta name namespace)\<lparr>om_OwnerReferences := [controllerRef L owner]\<rparr>,
      res_Spec = resultSpec\<lparr>rs_Backend := backend, rs_Details := detail\<rparr>,
      res_Status = empty_status\<rparr>"

definition resultName :: "ResultSpec \<Rightarrow> string" where
  "resultName spec = ReplaceAll (ReplaceAll (rs_Name spec) CHR ''-'' '''') CHR ''/'' ''''"

definition resultLabels :: "K8sGPT \<Rightarrow> string \<Rightarrow> str_map" where
  "resultLabels config backend =
     [(''k8sgpts.k8sgpt.ai/name'', om_Name (k_Meta config)),
      (''k8sgpts.k8sgpt.ai/namespace'', om_Namespace (k_Meta config)),
      (''k8sgpts.k8sgpt.ai/backend'', backend)]"

fun mapLoop :: "k8s_lib \<Rightarrow> 's kube \<Rightarrow> K8sGPT \<Rightarrow> string \<Rightarrow> bool \<Rightarrow> ResultSpec list
    \<Rightarrow> (string \<times> Result) list \<Rightarrow> 's world \<Rightarrow> (string \<times> Result) list \<times> 's world" where
  "mapLoop L K config backend backstage [] rawResults w = (rawResults, w)"
| "mapLoop L K config backend backstage (spec # specs) rawResults w =
     (let name = resultName spec;
          result = GetResult_of L spec name (om_Namespace (k_Meta config)) backend (rs_Details spec) config;
          labels = resultLabels config backend
      in case (if backstage then BackstageLabel L K spec w else ([], w)) of
           (backstageLabel, w) \<Rightarrow>
             mapLoop L K config backend backstage specs
               (AList.update name
                  (result\<lparr>res_Meta := (res_Meta result)\<lparr>om_Labels := add_labels backstageLabel labels\<rparr>\<rparr>)
                  rawResults) w)"

text \<open>
  The function reads the AI section before it tests it for nil, and the Backstage section of the
  extra options without a test: both panic when the section is missing.
\<close>

definition MapResults :: "k8s_lib \<Rightarrow> 's kube \<Rightarrow> ResultSpec list \<Rightarrow> K8sGPT \<Rightarrow> 's world
    \<Rightarrow> (string \<times> Result) list outcome \<times> 's world" where
  "MapResults L K resultsSpec config w =
     (case sp_AI (k_Spec config) of
        None \<Rightarrow> (Panic, w)
      | Some ai \<Rightarrow>
          (case (case sp_ExtraOptions (k_Spec config) of
                   None \<Rightarrow> Done False
                 | Some options \<Rightarrow>
                     (case eo_Backstage options of None \<Rightarrow> Panic | Some b \<Rightarrow> Done (bs_Enabled b))) of
             Panic \<Rightarrow> (Panic, w)
           | Done backstageEnabled \<Rightarrow>
               (case mapLoop L K config (ai_Backend ai) backstageEnabled resultsSpec [] w of
                  (rawResults, w) \<Rightarrow> (Done rawResults, w))))"

section \<open>Creating and updating results\<close>

definition CreatedResult :: string where "CreatedResult = ''created''"
definition UpdatedResult :: string where "UpdatedResult = ''updated''"
definition NoOpResult :: string where "NoOpResult = ''historical''"

lemmas operation_defs = CreatedResult_def UpdatedResult_def NoOpResult_def

text \<open>\<^verbatim>\<open>reflect.DeepEqual\<close> of two maps that are not nil.\<close>

definition sameLabels :: "str_map \<Rightarrow> str_map \<Rightarrow> bool" where
  "sameLabels a b \<longleftrightarrow> list_all (\<lambda>k. map_of a k = map_of b k) (map fst a @ map fst b)"

definition set_life :: "string \<Rightarrow> Result \<Rightarrow> Result" where
  "set_life lifeCycle res = res\<lparr>res_Status := (res_Status res)\<lparr>rt_LifeCycle := lifeCycle\<rparr>\<rparr>"

definition set_hash :: "string \<Rightarrow> Result \<Rightarrow> Result" where
  "set_hash hash res = res\<lparr>res_Status := (res_Status res)\<lparr>rt_ContentHash := hash\<rparr>\<rparr>"

definition set_content :: "Result \<Rightarrow> Result \<Rightarrow> Result" where
  "set_content res existing =
     existing\<lparr>res_Spec := res_Spec res,
       res_Meta := (res_Meta existing)\<lparr>om_Labels := om_Labels (res_Meta res)\<rparr>\<rparr>"

text \<open>One run of the function that is retried; its state is the result it was given and the world.\<close>

definition attemptResult :: "'s kube \<Rightarrow> string \<Rightarrow> Result \<times> 's world \<Rightarrow> Result go_result \<times> Result \<times> 's world" where
  "attemptResult K newHash s =
     (case s of (res, w) \<Rightarrow>
      (case GetResult K (key_of_meta (res_Meta res)) w of
         (Inl err, w) \<Rightarrow>
           if IsNotFound err then
             (let res = set_life CreatedResult (set_hash newHash res) in
              case CreateResult K res w of
                (Inl err, w) \<Rightarrow> (Inl err, res, w)
              | (Inr created, w) \<Rightarrow> (Inr created, created, w))
           else (Inl err, res, w)
       | (Inr existing, w) \<Rightarrow>
           if rt_ContentHash (res_Status existing) = newHash \<and>
              sameLabels (om_Labels (res_Meta res)) (om_Labels (res_Meta existing))
           then
             (case StatusUpdateResult K (set_life NoOpResult existing) w of
                (Inl err, w) \<Rightarrow> (Inl err, res, w)
              | (Inr x, w) \<Rightarrow> (Inr x, res, w))
           else
             (case UpdateResult K (set_content res existing) w of
                (Inl err, w) \<Rightarrow> (Inl err, res, w)
              | (Inr existing, w) \<Rightarrow>
                  (case StatusUpdateResult K (set_hash newHash (set_life UpdatedResult existing)) w of
                     (Inl err, w) \<Rightarrow> (Inl err, res, w)
                   | (Inr x, w) \<Rightarrow> (Inr x, res, w)))))"

definition CreateOrUpdateResult :: "(gonum token list \<Rightarrow> string) \<Rightarrow> 's kube \<Rightarrow> Result \<Rightarrow> 's world
    \<Rightarrow> Result go_result \<times> 's world" where
  "CreateOrUpdateResult digest K res w =
     (let newHash = hashResultContent digest (res_Spec res) in
      case retryOnConflict retrySteps (attemptResult K newHash) (res, w) of
        (r, res', w') \<Rightarrow> (r, w'))"

section \<open>What the hash depends on\<close>

lemma concat_pairs_inj:
  "concat (map (\<lambda>(k, v). [TStr k, TStr v]) ps) = concat (map (\<lambda>(k, v). [TStr k, TStr v]) qs) \<longleftrightarrow> ps = qs"
proof (induction ps arbitrary: qs)
  case Nil
  then show ?case by (cases qs) auto
next
  case (Cons p ps)
  then show ?case by (cases qs; cases p) (auto split: prod.splits)
qed

definition read_field :: "(string \<times> string) list \<Rightarrow> string \<Rightarrow> string" where
  "read_field ps k = (case map_of ps k of None \<Rightarrow> [] | Some v \<Rightarrow> v)"

lemma read_field_filter:
  "distinct (map fst ps) \<Longrightarrow> read_field (filter (\<lambda>(k, v). v \<noteq> '''') ps) k = read_field ps k"
proof (induction ps)
  case (Cons p ps)
  have "read_field ps k = []" if "k \<notin> fst ` set ps"
    using that by (simp add: read_field_def map_of_eq_None_iff [THEN iffD2])
  with Cons show ?case by (cases p) (auto simp: read_field_def)
qed simp

lemma read_field_target:
  fixes t :: ResultTargetReference
  defines "ps \<equiv> filter (\<lambda>(k, v). v \<noteq> '''') (target_fields t)"
  shows "t = \<lparr>tg_APIVersion = read_field ps ''apiVersion'', tg_Kind = read_field ps ''kind'',
    tg_Namespace = read_field ps ''namespace'', tg_Name = read_field ps ''name'',
    tg_UID = read_field ps ''uid'', tg_ResourceVersion = read_field ps ''resourceVersion''\<rparr>"
proof -
  have "distinct (map fst (target_fields t))" by (simp add: target_fields_def)
  note read = read_field_filter [OF this]
  show ?thesis unfolding ps_def read by (simp add: target_fields_def read_field_def)
qed

lemma close_not_in_pairs:
  "TCloseObj \<notin> set (concat (map (\<lambda>(k, v). [TStr k, TStr v]) ps))"
  by auto

lemma append_marker_eq:
  "x \<notin> set a \<Longrightarrow> x \<notin> set b \<Longrightarrow> a @ x # c = b @ x # d \<longleftrightarrow> a = b \<and> c = d"
proof (induction a arbitrary: b)
  case Nil
  then show ?case by (cases b) auto
next
  case (Cons y a)
  then show ?case by (cases b) auto
qed

lemma target_tokens_inj:
  "target_tokens a @ c = target_tokens b @ d \<longleftrightarrow> a = b \<and> c = d"
proof
  assume eq: "target_tokens a @ c = target_tokens b @ d"
  show "a = b \<and> c = d"
  proof (cases a; cases b)
    fix t u assume t: "a = Some t" and u: "b = Some u"
    with eq have "concat (map (\<lambda>(k, v). [TStr k, TStr v]) (filter (\<lambda>(k, v). v \<noteq> '''') (target_fields t)))
          @ TCloseObj # c =
        concat (map (\<lambda>(k, v). [TStr k, TStr v]) (filter (\<lambda>(k, v). v \<noteq> '''') (target_fields u)))
          @ TCloseObj # d"
      by (simp add: target_tokens_def)
    then have "filter (\<lambda>(k, v). v \<noteq> '''') (target_fields t) = filter (\<lambda>(k, v). v \<noteq> '''') (target_fields u)"
      and "c = d"
      unfolding append_marker_eq [OF close_not_in_pairs close_not_in_pairs] concat_pairs_inj by simp_all
    with t u show ?thesis using read_field_target [of t] read_field_target [of u] by simp
  qed (use eq in \<open>simp_all add: target_tokens_def\<close>)
qed simp

text \<open>What makes two findings the same: everything but the backend, the details and the secrets.\<close>

definition sameFinding :: "ResultSpec \<Rightarrow> ResultSpec \<Rightarrow> bool" where
  "sameFinding a b \<longleftrightarrow>
     rs_Kind a = rs_Kind b \<and> rs_Name a = rs_Name b \<and> rs_ParentObject a = rs_ParentObject b \<and>
     rs_TargetRef a = rs_TargetRef b \<and> map fa_Text (rs_Error a) = map fa_Text (rs_Error b)"

lemma map_TStr_inj: "map (\<lambda>e. TStr (fa_Text e)) xs = map (\<lambda>e. TStr (fa_Text e)) ys \<longleftrightarrow> map fa_Text xs = map fa_Text ys"
proof (induction xs arbitrary: ys)
  case Nil
  then show ?case by (cases ys) auto
next
  case (Cons x xs)
  then show ?case by (cases ys) auto
qed

lemma hashableContent_eq: "hashableContent a = hashableContent b \<longleftrightarrow> sameFinding a b"
proof -
  have "length (rs_Error a) = length (rs_Error b)"
    if "map fa_Text (rs_Error a) = map fa_Text (rs_Error b)"
    using that by (metis length_map)
  then show ?thesis
    by (auto simp: hashableContent_def sameFinding_def target_tokens_inj map_TStr_inj)
qed

section \<open>Retries\<close>

text \<open>
  What one attempt does: its calls and its result.  A successful call sends the hash: a creation, or
  an update of the status.  Sent is not stored: the API server drops the status of a creation.
\<close>

definition sends_hash :: "string \<Rightarrow> call \<Rightarrow> bool" where
  "sends_hash newHash c \<longleftrightarrow>
     (case c of
        CallCreateResult x ok \<Rightarrow>
          ok \<and> rt_ContentHash (res_Status x) = newHash \<and> rt_LifeCycle (res_Status x) = CreatedResult
      | CallStatusUpdateResult x ok \<Rightarrow>
          ok \<and> rt_ContentHash (res_Status x) = newHash \<and>
          (rt_LifeCycle (res_Status x) = UpdatedResult \<or> rt_LifeCycle (res_Status x) = NoOpResult)
      | _ \<Rightarrow> False)"

lemma life_hash_simps [simp]:
  "rt_LifeCycle (res_Status (set_life l x)) = l"
  "rt_ContentHash (res_Status (set_life l x)) = rt_ContentHash (res_Status x)"
  "rt_LifeCycle (res_Status (set_hash h x)) = rt_LifeCycle (res_Status x)"
  "rt_ContentHash (res_Status (set_hash h x)) = h"
  "res_Meta (set_life l x) = res_Meta x" "res_Meta (set_hash h x) = res_Meta x"
  "res_Spec (set_life l x) = res_Spec x" "res_Spec (set_hash h x) = res_Spec x"
  by (simp_all add: set_life_def set_hash_def)

lemma attemptResult_calls:
  assumes "attemptResult K newHash (res, w) = (r, res', w')"
  shows "\<exists>cs. trace w' = trace w @ cs \<and> length cs \<le> 3 \<and> cs \<noteq> [] \<and> (is_ok r \<longrightarrow> sends_hash newHash (last cs))"
proof -
  let ?key = "key_of_meta (res_Meta res)"
  obtain g w1 where get: "GetResult K ?key w = (g, w1)" by (cases "GetResult K ?key w")
  note t1 = perform_trace [OF get]
  show ?thesis
  proof (cases g)
    case (Inl err)
    let ?new = "set_life CreatedResult (set_hash newHash res)"
    obtain c w2 where create: "CreateResult K ?new w1 = (c, w2)" by (cases "CreateResult K ?new w1")
    note t2 = perform_trace [OF create]
    show ?thesis
      using assms get Inl create t1 t2
      by (auto simp: attemptResult_def sends_hash_def Let_def split: if_splits sum.splits)
  next
    case (Inr existing)
    show ?thesis
    proof (cases "rt_ContentHash (res_Status existing) = newHash \<and>
        sameLabels (om_Labels (res_Meta res)) (om_Labels (res_Meta existing))")
      case True
      let ?old = "set_life NoOpResult existing"
      obtain c w2 where status: "StatusUpdateResult K ?old w1 = (c, w2)" by (cases "StatusUpdateResult K ?old w1")
      note t2 = perform_trace [OF status]
      show ?thesis
        using assms get Inr True status t1 t2
        by (auto simp: attemptResult_def sends_hash_def split: sum.splits)
    next
      case False
      obtain u w2 where up: "UpdateResult K (set_content res existing) w1 = (u, w2)"
        by (cases "UpdateResult K (set_content res existing) w1")
      note t2 = perform_trace [OF up]
      show ?thesis
      proof (cases u)
        case uerr: (Inl err)
        with assms get Inr False up t1 t2 show ?thesis by (auto simp: attemptResult_def)
      next
        case upd: (Inr updated)
        let ?new = "set_hash newHash (set_life UpdatedResult updated)"
        obtain c w3 where status: "StatusUpdateResult K ?new w2 = (c, w3)" by (cases "StatusUpdateResult K ?new w2")
        note t3 = perform_trace [OF status]
        show ?thesis
          using assms get Inr False up upd status t1 t2 t3
          by (auto simp: attemptResult_def sends_hash_def split: sum.splits)
      qed
    qed
  qed
qed

interpretation result_retry: retried "attemptResult K newHash" "\<lambda>s. trace (snd s)" 3
proof unfold_locales
  fix a b r
  assume "attemptResult K newHash a = (r, b)"
  then show "\<exists>cs. trace (snd b) = trace (snd a) @ cs \<and> length cs \<le> 3"
    using attemptResult_calls [of K newHash "fst a" "snd a" r "fst b" "snd b"] by auto
qed

section \<open>The properties\<close>

text \<open>
  C26. The hash separates exactly the findings that differ in what identifies them: two findings
  have equal hashes under every digest exactly when their kind, name, parent, target and error
  texts are equal.  The backend, the explanation and the masked data of the errors do not count.
\<close>

theorem hash_identifies_finding:
  "(\<forall>digest. hashResultContent digest a = hashResultContent digest b) \<longleftrightarrow> sameFinding a b"
proof
  assume "\<forall>digest. hashResultContent digest a = hashResultContent digest b"
  then have "(if hashableContent a = hashableContent a then ''x'' else ''y'') =
      (if hashableContent b = hashableContent a then ''x'' else ''y'')"
    unfolding hashResultContent_def by (rule allE [of _ "\<lambda>t. if t = hashableContent a then ''x'' else ''y''"])
  then have "hashableContent b = hashableContent a" by (auto split: if_splits)
  then show "sameFinding a b" unfolding hashableContent_eq [symmetric] by (rule sym)
qed (simp add: hashResultContent_def hashableContent_eq [THEN iffD2])

lemma attemptResult_ok:
  assumes "attemptResult K newHash (res, w) = (r, res', w')"
  shows "\<exists>cs. trace w' = trace w @ cs \<and> length cs \<le> 3 \<and> cs \<noteq> [] \<and> (is_ok r \<longleftrightarrow> sends_hash newHash (last cs))"
proof -
  have "\<exists>cs. trace w' = trace w @ cs \<and> length cs \<le> 3 \<and> cs \<noteq> [] \<and> (\<not> is_ok r \<longrightarrow> \<not> sends_hash newHash (last cs))"
    using assms by (auto simp: attemptResult_def perform_def sends_hash_def Let_def
        split: if_splits sum.splits prod.splits)
  then obtain cs where cs: "trace w' = trace w @ cs" "\<not> is_ok r \<longrightarrow> \<not> sends_hash newHash (last cs)" by blast
  from attemptResult_calls [OF assms] obtain ds where ds: "trace w' = trace w @ ds" "length ds \<le> 3" "ds \<noteq> []"
    "is_ok r \<longrightarrow> sends_hash newHash (last ds)" by blast
  with cs have "ds = cs" by simp
  with cs ds show ?thesis by blast
qed

text \<open>
  Creating or updating a result makes between one and fifteen calls, and it returns a result exactly
  when its last call succeeded and sent the hash of the new content, with the life cycle
  \<^verbatim>\<open>created\<close>, \<^verbatim>\<open>updated\<close> or \<^verbatim>\<open>historical\<close>; an error is returned in every other case.
\<close>

theorem result_success_sends_hash:
  "case CreateOrUpdateResult digest K res w of (r, w') \<Rightarrow>
     1 \<le> length (calls w w') \<and> length (calls w w') \<le> 15 \<and>
     (is_ok r \<longleftrightarrow> sends_hash (hashResultContent digest (res_Spec res)) (last (calls w w')))"
proof -
  let ?h = "hashResultContent digest (res_Spec res)"
  obtain r res' w' where run: "retryOnConflict (Suc 4) (attemptResult K ?h) (res, w) = (r, res', w')"
    by (metis prod_cases3)
  from result_retry.last_run [OF run] obtain c cs where last: "attemptResult K ?h c = (r, res', w')"
    "trace (snd c) = trace w @ cs" "length cs \<le> 12" by auto
  with attemptResult_ok [of K ?h "fst c" "snd c" r res' w'] obtain ds where
    "trace w' = trace w @ cs @ ds" "length ds \<le> 3" "ds \<noteq> []" "is_ok r \<longleftrightarrow> sends_hash ?h (last ds)" by auto
  moreover from this have "calls w w' = cs @ ds" "1 \<le> length ds" by (simp_all add: calls_def Suc_le_eq)
  moreover have "CreateOrUpdateResult digest K res w = (r, w')"
    using run by (simp add: CreateOrUpdateResult_def retrySteps_def)
  ultimately show ?thesis using last(3) by simp
qed

section \<open>What is stored\<close>






text \<open>The store as a world, and one analysis result stored in it.\<close>

definition fresh :: "store world" where
  "fresh = \<lparr>cluster = empty_store, trace = []\<rparr>"

definition life_of :: "Result go_result \<Rightarrow> string" where
  "life_of r = (case r of Inl _ \<Rightarrow> ''error'' | Inr x \<Rightarrow> rt_LifeCycle (res_Status x))"

lemma first_attempt:
  assumes "attemptResult K (hashResultContent digest (res_Spec res)) (res, w) = (r, res', w')"
    and "case r of Inl err \<Rightarrow> \<not> IsConflict err | Inr x \<Rightarrow> True"
  shows "CreateOrUpdateResult digest K res w = (r, w')"
  using assms by (cases r) (simp_all add: CreateOrUpdateResult_def retrySteps_def numeral_eq_Suc)

lemma first_attempt_ok:
  "attemptResult K (hashResultContent digest (res_Spec res)) (res, w) = (Inr x, res', w') \<Longrightarrow>
   CreateOrUpdateResult digest K res w = (Inr x, w')"
  by (rule first_attempt) simp_all

lemma std_result_ops:
  "kGetResult std_kube key s = (lookup_or_not_found (s_results s) key, s)"
  "kCreateResult std_kube = store_create_result"
  "kUpdateResult std_kube = store_update_result"
  "kStatusUpdateResult std_kube = store_status_result"
  "lookup_or_not_found [] key = Inl (Err NotFound ''not found'')"
  "lookup_or_not_found ((k, x) # t) key = (if key = k then Inr x else lookup_or_not_found t key)"
  "map_of (s_results s) (key_of_meta (res_Meta x)) = None \<Longrightarrow>
     store_create_result x s = store_result (x\<lparr>res_Status := no_status\<rparr>) s"
  "map_of (s_results s) (key_of_meta (res_Meta x)) = Some y \<Longrightarrow>
     store_update_result x s = store_result (x\<lparr>res_Status := res_Status y\<rparr>) s"
  "map_of (s_results s) (key_of_meta (res_Meta x)) = Some y \<Longrightarrow>
     store_status_result x s = store_result (y\<lparr>res_Status := res_Status x\<rparr>) s"
  "store_result x s = (Inr x, s\<lparr>s_results := AList.update (key_of_meta (res_Meta x)) x (s_results s)\<rparr>)"
  "IsNotFound (Err NotFound m)"
  by (simp_all add: std_kube_def lookup_or_not_found_def not_found_def store_create_result_def
      store_update_result_def store_status_result_def store_result_def IsNotFound_def)

lemma sameLabels_refl [simp]: "sameLabels a a"
  by (simp add: sameLabels_def list_all_iff)

text \<open>
  The status of a Result is a subresource, so that creating one stores no status.  The hash is
  therefore missing when the same finding is reported again: the second analysis rewrites the
  result as \<^verbatim>\<open>updated\<close>, and only the third one finds it \<^verbatim>\<open>historical\<close>.
\<close>

theorem second_analysis_rewrites_result:
  assumes "hashResultContent digest (res_Spec res) \<noteq> ''''"
  shows "case CreateOrUpdateResult digest std_kube res fresh of (r1, w1) \<Rightarrow>
    (case CreateOrUpdateResult digest std_kube res w1 of (r2, w2) \<Rightarrow>
      (case CreateOrUpdateResult digest std_kube res w2 of (r3, w3) \<Rightarrow>
        [life_of r1, life_of r2, life_of r3] = ['''', ''updated'', ''historical'']))"
proof -
  let ?h = "hashResultContent digest (res_Spec res)"
  let ?key = "key_of_meta (res_Meta res)"
  let ?w = "\<lambda>r t. \<lparr>cluster = empty_store\<lparr>s_results := [(?key, r)]\<rparr>, trace = t\<rparr>"
  define r1 where "r1 = res\<lparr>res_Status := no_status\<rparr>"
  define r2 where "r2 = res\<lparr>res_Status := \<lparr>rt_LifeCycle = ''updated'', rt_Webhook = '''', rt_ContentHash = ?h\<rparr>\<rparr>"
  define r3 where "r3 = res\<lparr>res_Status := \<lparr>rt_LifeCycle = ''historical'', rt_Webhook = '''', rt_ContentHash = ?h\<rparr>\<rparr>"
  have 1: "\<exists>res' t'. attemptResult std_kube ?h (res, fresh) = (Inr r1, res', ?w r1 t')"
    by (simp add: attemptResult_def std_result_ops perform_def fresh_def empty_store_def r1_def
        set_life_def set_hash_def Let_def)
  have 2: "\<exists>res' t'. attemptResult std_kube ?h (res, ?w r1 t) = (Inr r2, res', ?w r2 t')" for t
    using assms
    by (simp add: attemptResult_def std_result_ops perform_def r1_def r2_def
        set_life_def set_hash_def set_content_def no_status_def UpdatedResult_def)
  have 3: "\<exists>res' t'. attemptResult std_kube ?h (res, ?w r2 t) = (Inr r3, res', ?w r3 t')" for t
    by (simp add: attemptResult_def std_result_ops perform_def r2_def r3_def set_life_def NoOpResult_def)
  from 1 obtain t where t: "CreateOrUpdateResult digest std_kube res fresh = (Inr r1, ?w r1 t)"
    using first_attempt_ok by blast
  from 2 [of t] obtain t' where t': "CreateOrUpdateResult digest std_kube res (?w r1 t) = (Inr r2, ?w r2 t')"
    using first_attempt_ok by blast
  from 3 [of t'] obtain t'' where "CreateOrUpdateResult digest std_kube res (?w r2 t') = (Inr r3, ?w r3 t'')"
    using first_attempt_ok by blast
  with t t' show ?thesis by (simp add: life_of_def r1_def r2_def r3_def no_status_def)
qed

definition sampleSpec :: ResultSpec where
  "sampleSpec = \<lparr>rs_Backend = ''openai'', rs_Phase = PhaseNotStarted, rs_Kind = ''Pod'',
     rs_Name = ''default/web-0'', rs_Error = [\<lparr>fa_Text = ''back-off'', fa_Sensitive = []\<rparr>],
     rs_Details = ''restart it'', rs_ParentObject = '''', rs_TargetRef = None\<rparr>"

definition sampleResult :: Result where
  "sampleResult = \<lparr>res_Meta = new_meta ''defaultweb0'' ''k8sgpt'', res_Spec = sampleSpec, res_Status = empty_status\<rparr>"

theorem second_analysis_rewrites_result_witness:
  "case CreateOrUpdateResult (\<lambda>t. ''h'') std_kube sampleResult fresh of (r1, w1) \<Rightarrow>
    (case CreateOrUpdateResult (\<lambda>t. ''h'') std_kube sampleResult w1 of (r2, w2) \<Rightarrow>
      (case CreateOrUpdateResult (\<lambda>t. ''h'') std_kube sampleResult w2 of (r3, w3) \<Rightarrow>
        [life_of r1, life_of r2, life_of r3] = ['''', ''updated'', ''historical'']))"
  by (rule second_analysis_rewrites_result) (simp add: hashResultContent_def)







text \<open>
  A finding whose stored result has the same hash and the same labels is not rewritten: if the
  status update does not conflict, it is the only write, it marks the result \<^verbatim>\<open>historical\<close>, and
  it is made on the result as it is stored.
\<close>

theorem unchanged_result_is_historical:
  assumes "kGetResult K (key_of_meta (res_Meta res)) (cluster w) = (Inr existing, s)"
    and "rt_ContentHash (res_Status existing) = hashResultContent digest (res_Spec res)"
    and "sameLabels (om_Labels (res_Meta res)) (om_Labels (res_Meta existing))"
    and "kStatusUpdateResult K (set_life NoOpResult existing) s = (r, s')"
    and "case r of Inl err \<Rightarrow> \<not> IsConflict err | Inr x \<Rightarrow> True"
  shows "CreateOrUpdateResult digest K res w =
    (r, \<lparr>cluster = s', trace = trace w @
      [CallGetResult (key_of_meta (res_Meta res)),
       CallStatusUpdateResult (set_life NoOpResult existing) (is_ok r)]\<rparr>)"
  by (rule first_attempt [where res' = res]) (use assms in \<open>cases r; simp add: attemptResult_def perform_def\<close>)+

theorem unchanged_result_is_historical_witness:
  "\<exists>s'. CreateOrUpdateResult (\<lambda>t. '''') std_kube sampleResult
      \<lparr>cluster = empty_store\<lparr>s_results := [(key_of_meta (res_Meta sampleResult), sampleResult)]\<rparr>, trace = []\<rparr> =
    (Inr (set_life NoOpResult sampleResult), \<lparr>cluster = s', trace = [] @
      [CallGetResult (key_of_meta (res_Meta sampleResult)),
       CallStatusUpdateResult (set_life NoOpResult sampleResult) (is_ok (Inr (set_life NoOpResult sampleResult)))]\<rparr>)"
proof -
  let ?key = "key_of_meta (res_Meta sampleResult)"
  let ?s = "empty_store\<lparr>s_results := [(?key, sampleResult)]\<rparr>"
  have get: "kGetResult std_kube ?key ?s = (Inr sampleResult, ?s)"
    by (simp add: std_result_ops)
  have "\<exists>s'. kStatusUpdateResult std_kube (set_life NoOpResult sampleResult) ?s = (Inr (set_life NoOpResult sampleResult), s')"
    by (simp add: std_result_ops)
  then obtain s' where "kStatusUpdateResult std_kube (set_life NoOpResult sampleResult) ?s =
      (Inr (set_life NoOpResult sampleResult), s')" by blast
  from unchanged_result_is_historical [where w = "\<lparr>cluster = ?s, trace = []\<rparr>" and digest = "\<lambda>t. ''''",
      simplified world.simps, OF get _ _ this]
  show ?thesis
    by (simp add: hashResultContent_def sampleResult_def empty_status_def)
qed

section \<open>The resources of an analysis\<close>

text \<open>What a finding becomes: a resource of the K8sGPT's namespace that it controls.\<close>

definition mapsTo :: "k8s_lib \<Rightarrow> K8sGPT \<Rightarrow> string \<Rightarrow> ResultSpec \<Rightarrow> string \<times> Result \<Rightarrow> bool" where
  "mapsTo L config backend spec entry \<longleftrightarrow>
     (case entry of (name, res) \<Rightarrow>
       name = resultName spec \<and> om_Name (res_Meta res) = name \<and>
       om_Namespace (res_Meta res) = om_Namespace (k_Meta config) \<and>
       om_OwnerReferences (res_Meta res) = [controllerRef L config] \<and>
       res_Spec res = spec\<lparr>rs_Backend := backend\<rparr> \<and>
       map_of (om_Labels (res_Meta res)) ''k8sgpts.k8sgpt.ai/name'' = Some (om_Name (k_Meta config)) \<and>
       map_of (om_Labels (res_Meta res)) ''k8sgpts.k8sgpt.ai/namespace'' = Some (om_Namespace (k_Meta config)) \<and>
       map_of (om_Labels (res_Meta res)) ''k8sgpts.k8sgpt.ai/backend'' = Some backend)"

lemma BackstageLabel_keys: "BackstageLabel L K spec w = (ls, w') \<Longrightarrow> fst ` set ls \<subseteq> {backstageLabelKey}"
  by (auto simp: BackstageLabel_def split: prod.splits sum.splits)

lemma mapsTo_GetResult:
  assumes "fst ` set ls \<subseteq> {backstageLabelKey}"
  shows "mapsTo L config backend spec (resultName spec,
    (let result = GetResult_of L spec (resultName spec) (om_Namespace (k_Meta config)) backend (rs_Details spec) config
     in result\<lparr>res_Meta := (res_Meta result)\<lparr>om_Labels := add_labels ls (resultLabels config backend)\<rparr>\<rparr>))"
proof -
  have "''k8sgpts.k8sgpt.ai/name'' \<notin> fst ` set ls" "''k8sgpts.k8sgpt.ai/namespace'' \<notin> fst ` set ls"
    "''k8sgpts.k8sgpt.ai/backend'' \<notin> fst ` set ls"
    using assms by (auto simp: backstageLabelKey_def)
  then show ?thesis
    by (simp add: mapsTo_def Let_def GetResult_of_def new_meta_def add_labels_other resultLabels_def)
qed

text \<open>Every entry comes from the last finding of its name.\<close>

fun lastNamed :: "ResultSpec list \<Rightarrow> string \<Rightarrow> ResultSpec option" where
  "lastNamed [] name = None"
| "lastNamed (spec # specs) name =
     (case lastNamed specs name of
        Some s \<Rightarrow> Some s
      | None \<Rightarrow> if resultName spec = name then Some spec else None)"

lemma mapLoop_entries:
  assumes "mapLoop L K config backend backstage specs acc w = (m, w')"
  shows "case lastNamed specs name of
      None \<Rightarrow> map_of m name = map_of acc name
    | Some spec \<Rightarrow> (\<exists>r. map_of m name = Some r \<and> mapsTo L config backend spec (name, r))"
  using assms
proof (induction specs arbitrary: acc w)
  case (Cons spec specs)
  obtain ls w1 where label: "(if backstage then BackstageLabel L K spec w else ([], w)) = (ls, w1)"
    by (cases "if backstage then BackstageLabel L K spec w else ([], w)")
  define r where "r = (let result = GetResult_of L spec (resultName spec) (om_Namespace (k_Meta config)) backend (rs_Details spec) config
     in result\<lparr>res_Meta := (res_Meta result)\<lparr>om_Labels := add_labels ls (resultLabels config backend)\<rparr>\<rparr>)"
  have keys: "fst ` set ls \<subseteq> {backstageLabelKey}"
    using label BackstageLabel_keys [of L K spec w ls w1] by (cases backstage) auto
  have step: "mapLoop L K config backend backstage specs (AList.update (resultName spec) r acc) w1 = (m, w')"
    using Cons.prems label by (simp add: r_def Let_def)
  note this' = mapsTo_GetResult [OF keys, of L config backend spec, folded r_def]
  show ?case
  proof (cases "lastNamed specs name")
    case None
    with Cons.IH [OF step] this' show ?thesis by (auto simp: update_conv')
  next
    case (Some s)
    with Cons.IH [OF step] show ?thesis by simp
  qed
qed simp

text \<open>
  C32. The analysis is mapped to one resource for each name: the name of a resource is that of its
  last finding without hyphens and slashes, and the resource holds that finding with the
  configured backend, is controlled by the K8sGPT and labelled with it.  The function panics
  exactly when the AI section is missing, or the extra options are set without Backstage, and then
  before it has made any call.
\<close>

theorem MapResults_last_finding_of_a_name:
  "case MapResults L K specs config w of (out, w') \<Rightarrow>
     (out = Panic \<longleftrightarrow> sp_AI (k_Spec config) = None \<or> map_option eo_Backstage (sp_ExtraOptions (k_Spec config)) = Some None) \<and>
     (case out of
        Panic \<Rightarrow> w' = w
      | Done m \<Rightarrow>
          (\<exists>ai. sp_AI (k_Spec config) = Some ai \<and>
             (\<forall>name. case lastNamed specs name of
                None \<Rightarrow> map_of m name = None
              | Some spec \<Rightarrow> (\<exists>r. map_of m name = Some r \<and> mapsTo L config (ai_Backend ai) spec (name, r)))))"
proof (cases "sp_AI (k_Spec config)")
  case None
  then show ?thesis by (simp add: MapResults_def)
next
  case ai: (Some ai)
  have loop: "case mapLoop L K config (ai_Backend ai) b specs [] w of (m, w') \<Rightarrow>
      (\<forall>name. case lastNamed specs name of
         None \<Rightarrow> map_of m name = None
       | Some spec \<Rightarrow> (\<exists>r. map_of m name = Some r \<and> mapsTo L config (ai_Backend ai) spec (name, r)))" for b
    using mapLoop_entries [of L K config "ai_Backend ai" b specs "[]" w, unfolded map_of.simps]
    by (cases "mapLoop L K config (ai_Backend ai) b specs [] w") simp
  show ?thesis
  proof (cases "sp_ExtraOptions (k_Spec config)")
    case None
    with ai loop [of False] show ?thesis by (auto simp: MapResults_def split: prod.splits)
  next
    case (Some options)
    then show ?thesis
      using ai loop [of "bs_Enabled (the (eo_Backstage options))"]
      by (cases "eo_Backstage options") (simp_all add: MapResults_def split: prod.splits)
  qed
qed

text \<open>
  Different objects can get the same resource name: the pod \<^verbatim>\<open>ab\<close> of the namespace \<^verbatim>\<open>c-d\<close> and the
  pod \<^verbatim>\<open>b\<close> of \<^verbatim>\<open>cda\<close> have the name of one resource, and only the later finding is kept.
\<close>

theorem MapResults_names_collide:
  "(let a = sampleSpec\<lparr>rs_Name := ''c-d/ab''\<rparr>; b = sampleSpec\<lparr>rs_Name := ''cda/b''\<rparr>
    in lastNamed [a, b] (resultName a)) = Some (sampleSpec\<lparr>rs_Name := ''cda/b''\<rparr>)"
  by (simp add: resultName_def)

end
