(* ===== verification/Sinks.thy ===== *)
theory Sinks
  imports Deployment
begin

text \<open>
  The sinks that findings are reported to (\<^verbatim>\<open>pkg/sinks\<close>): Slack, Mattermost and CloudEvents.  The
  interface \<^verbatim>\<open>ISink\<close> is the locale \<open>ISink\<close>: what emitting a finding to a configured sink promises.
  It is interpreted for each of the three sinks and for their sum, which \<^verbatim>\<open>NewSink\<close> chooses from.
\<close>

section \<open>The messages\<close>

definition reportTitle :: "string \<Rightarrow> string \<Rightarrow> string \<Rightarrow> string" where
  "reportTitle kind name k8sgptCR =
     ''>*['' @ k8sgptCR @ ''] K8sGPT analysis of the '' @ kind @ '' '' @ name @ ''*''"

definition slackAttachment :: "string \<Rightarrow> opaque" where
  "slackAttachment details =
     JObj [(''type'', JStr ''mrkdwn''), (''text'', JStr details), (''color'', JStr ''danger''), (''title'', JStr ''Report'')]"

definition buildSlackMessage :: "string \<Rightarrow> string \<Rightarrow> string \<Rightarrow> string \<Rightarrow> opaque" where
  "buildSlackMessage kind name details k8sgptCR =
     JObj [(''text'', JStr (reportTitle kind name k8sgptCR)), (''attachments'', JArr [slackAttachment details])]"

text \<open>A string field with \<^verbatim>\<open>omitempty\<close>.\<close>

definition omit_empty :: "string \<Rightarrow> string \<Rightarrow> (string \<times> opaque) list" where
  "omit_empty k v = (if v = '''' then [] else [(k, JStr v)])"

definition mattermostAttachment :: "string \<Rightarrow> opaque" where
  "mattermostAttachment details =
     JObj [(''text'', JStr details), (''color'', JStr ''danger''), (''title'', JStr ''Report'')]"

definition buildMattermostMessage ::
  "string \<Rightarrow> string \<Rightarrow> string \<Rightarrow> string \<Rightarrow> string \<Rightarrow> string \<Rightarrow> string \<Rightarrow> opaque" where
  "buildMattermostMessage kind name details k8sgptCR channel username iconURL =
     JObj ([(''text'', JStr (reportTitle kind name k8sgptCR))] @ omit_empty ''channel'' channel @
       omit_empty ''username'' username @ omit_empty ''icon_url'' iconURL @
       [(''attachments'', JArr [mattermostAttachment details])])"

definition buildCloudEventsStructuredContent ::
  "host \<Rightarrow> nat \<Rightarrow> string \<Rightarrow> string \<Rightarrow> string \<Rightarrow> string \<Rightarrow> cloud_event" where
  "buildCloudEventsStructuredContent H now kind name details k8sgptCR =
     \<lparr>ce_ID = new_uuid H now, ce_Source = ''https://github.com/k8sgpt-ai/k8sgpt-operator'',
      ce_Type = ''com.github.k8sgpt-ai.k8sgpt-operator.sinks.cloudevents'', ce_Time = now,
      ce_ContentType = ''application/json'', ce_Data = buildSlackMessage kind name details k8sgptCR\<rparr>"

section \<open>The sinks\<close>

record SlackSink =
  ssk_Endpoint :: string
  ssk_K8sGPT :: string

record MattermostSink =
  mmk_Endpoint :: string
  mmk_K8sGPT :: string
  mmk_Channel :: string
  mmk_UserName :: string
  mmk_IconURL :: string

record CloudEventsSink =
  ces_Endpoint :: string
  ces_K8sGPT :: string

text \<open>
  The sink section of the specification is dereferenced only when the secret holds no endpoint.
  The http client is the parameter of the calls, not a field.
\<close>

definition endpointOf :: "WebhookRef \<Rightarrow> string \<Rightarrow> string" where
  "endpointOf sink sinkSecretValue = (if sinkSecretValue = '''' then wh_Endpoint sink else sinkSecretValue)"

definition ConfigureSlack :: "K8sGPT \<Rightarrow> WebhookRef \<Rightarrow> string \<Rightarrow> SlackSink \<Rightarrow> SlackSink" where
  "ConfigureSlack config sink sinkSecretValue s =
     s\<lparr>ssk_Endpoint := endpointOf sink sinkSecretValue, ssk_K8sGPT := om_Name (k_Meta config)\<rparr>"

definition ConfigureMattermost :: "K8sGPT \<Rightarrow> WebhookRef \<Rightarrow> string \<Rightarrow> MattermostSink \<Rightarrow> MattermostSink" where
  "ConfigureMattermost config sink sinkSecretValue s =
     s\<lparr>mmk_Endpoint := endpointOf sink sinkSecretValue,
       mmk_Channel := (if wh_Channel sink \<noteq> '''' then wh_Channel sink else mmk_Channel s),
       mmk_UserName := (if wh_UserName sink \<noteq> '''' then wh_UserName sink else mmk_UserName s),
       mmk_IconURL := (if wh_IconURL sink \<noteq> '''' then wh_IconURL sink else mmk_IconURL s),
       mmk_K8sGPT := om_Name (k_Meta config)\<rparr>"

definition ConfigureCloudEvents :: "K8sGPT \<Rightarrow> WebhookRef \<Rightarrow> string \<Rightarrow> CloudEventsSink \<Rightarrow> CloudEventsSink" where
  "ConfigureCloudEvents config sink sinkSecretValue s =
     s\<lparr>ces_Endpoint := endpointOf sink sinkSecretValue, ces_K8sGPT := om_Name (k_Meta config)\<rparr>"

text \<open>The POST request and the test of its answer, which the three sinks have in common.\<close>

definition postReport :: "host \<Rightarrow> 's kube \<Rightarrow> string \<Rightarrow> string \<Rightarrow> opaque \<Rightarrow> (unit, 's world) action" where
  "postReport H K endpoint contentType payload =
     (case url_error H endpoint of
        Some err \<Rightarrow> fail err
      | None \<Rightarrow>
          and_then (request (Post K \<lparr>post_Endpoint = endpoint, post_ContentType = contentType, post_Payload = payload\<rparr>))
            (\<lambda>(status, code).
               if code \<noteq> 200 then fail (Errorf (''failed to send report: '' @ status)) else succeed ()))"

definition EmitSlack :: "host \<Rightarrow> 's kube \<Rightarrow> SlackSink \<Rightarrow> ResultSpec \<Rightarrow> (unit, 's world) action" where
  "EmitSlack H K s results =
     postReport H K (ssk_Endpoint s) ''application/json''
       (buildSlackMessage (rs_Kind results) (rs_Name results) (rs_Details results) (ssk_K8sGPT s))"

text \<open>\<^verbatim>\<open>details += fmt.Sprintf("%d. %s\n", i+1, v.Text)\<close> for every error.\<close>

fun errorLines :: "nat \<Rightarrow> Failure list \<Rightarrow> string" where
  "errorLines i [] = ''''"
| "errorLines i (e # es) = Itoa_nat (Suc i) @ ''. '' @ fa_Text e @ [CHR 0x0A] @ errorLines (Suc i) es"

definition mattermostDetails :: "ResultSpec \<Rightarrow> string" where
  "mattermostDetails results =
     (if rs_Details results = '''' \<and> rs_Error results \<noteq> [] then errorLines 0 (rs_Error results)
      else rs_Details results)"

definition EmitMattermost :: "host \<Rightarrow> 's kube \<Rightarrow> MattermostSink \<Rightarrow> ResultSpec \<Rightarrow> (unit, 's world) action" where
  "EmitMattermost H K s results =
     postReport H K (mmk_Endpoint s) ''application/json''
       (buildMattermostMessage (rs_Kind results) (rs_Name results) (mattermostDetails results) (mmk_K8sGPT s)
          (mmk_Channel s) (mmk_UserName s) (mmk_IconURL s))"

definition EmitCloudEvents :: "host \<Rightarrow> 's kube \<Rightarrow> CloudEventsSink \<Rightarrow> ResultSpec \<Rightarrow> (unit, 's world) action" where
  "EmitCloudEvents H K s results w =
     (case event_json H (buildCloudEventsStructuredContent H (kNow K (cluster w)) (rs_Kind results) (rs_Name results)
               (rs_Details results) (ces_K8sGPT s)) of
        Inl err \<Rightarrow> fail err w
      | Inr payload \<Rightarrow> postReport H K (ces_Endpoint s) ''application/cloudevents+json'' payload w)"

text \<open>A value of the interface type, and the choice by name: an unknown name gives Slack.\<close>

datatype sink = Slack SlackSink | Mattermost MattermostSink | CloudEvents CloudEventsSink

definition NewSink :: "string \<Rightarrow> sink" where
  "NewSink sinkType =
     (if sinkType = ''slack'' then Slack \<lparr>ssk_Endpoint = '''', ssk_K8sGPT = ''''\<rparr>
      else if sinkType = ''mattermost''
      then Mattermost \<lparr>mmk_Endpoint = '''', mmk_K8sGPT = '''', mmk_Channel = '''', mmk_UserName = '''', mmk_IconURL = ''''\<rparr>
      else if sinkType = ''cloudevents'' then CloudEvents \<lparr>ces_Endpoint = '''', ces_K8sGPT = ''''\<rparr>
      else Slack \<lparr>ssk_Endpoint = '''', ssk_K8sGPT = ''''\<rparr>)"

fun Configure :: "K8sGPT \<Rightarrow> WebhookRef \<Rightarrow> string \<Rightarrow> sink \<Rightarrow> sink" where
  "Configure config ref v (Slack s) = Slack (ConfigureSlack config ref v s)"
| "Configure config ref v (Mattermost s) = Mattermost (ConfigureMattermost config ref v s)"
| "Configure config ref v (CloudEvents s) = CloudEvents (ConfigureCloudEvents config ref v s)"

fun Emit :: "host \<Rightarrow> 's kube \<Rightarrow> sink \<Rightarrow> ResultSpec \<Rightarrow> (unit, 's world) action" where
  "Emit H K (Slack s) = EmitSlack H K s"
| "Emit H K (Mattermost s) = EmitMattermost H K s"
| "Emit H K (CloudEvents s) = EmitCloudEvents H K s"

fun endpoint_of :: "sink \<Rightarrow> string" where
  "endpoint_of (Slack s) = ssk_Endpoint s"
| "endpoint_of (Mattermost s) = mmk_Endpoint s"
| "endpoint_of (CloudEvents s) = ces_Endpoint s"

section \<open>The interface\<close>

text \<open>
  What a sink promises: configuring it sets its endpoint; emitting a finding sends at most one
  message, to that endpoint; it succeeds only if the message was sent; and it never panics.
\<close>

definition posts_to :: "string \<Rightarrow> call list \<Rightarrow> bool" where
  "posts_to endpoint cs \<longleftrightarrow> cs = [] \<or> (\<exists>p. cs = [CallPost p] \<and> post_Endpoint p = endpoint)"

locale ISink =
  fixes configure :: "K8sGPT \<Rightarrow> WebhookRef \<Rightarrow> string \<Rightarrow> 'k \<Rightarrow> 'k"
    and emit :: "'k \<Rightarrow> ResultSpec \<Rightarrow> (unit, 's world) action"
    and endpoint :: "'k \<Rightarrow> string"
  assumes configured: "endpoint (configure config ref v k) = endpointOf ref v"
    and emitted: "emit k r w = (out, w') \<Longrightarrow>
      \<exists>cs. trace w' = trace w @ cs \<and> posts_to (endpoint k) cs \<and> out \<noteq> Panic \<and> (out = Done (Inr ()) \<longrightarrow> cs \<noteq> [])"
begin

lemma emit_only_posts: "emits trace (\<lambda>c. \<exists>p. c = CallPost p \<and> post_Endpoint p = endpoint k) (emit k r)"
  by (rule emits_I) (use emitted in \<open>fastforce simp: posts_to_def\<close>)

text \<open>Reporting a list of findings one after the other: at most one message for each.\<close>

lemma report_all:
  "for_each (emit k) rs w = (out, w') \<Longrightarrow>
   \<exists>ps. trace w' = trace w @ map CallPost ps \<and> length ps \<le> length rs \<and>
     list_all (\<lambda>p. post_Endpoint p = endpoint k) ps \<and> (out = Done (Inr ()) \<longrightarrow> length ps = length rs)"
proof (induction rs arbitrary: w)
  case Nil
  then show ?case by (simp add: succeed_def)
next
  case (Cons r rs)
  obtain o1 w1 where one: "emit k r w = (o1, w1)" by (cases "emit k r w")
  from emitted [OF one] obtain cs where cs: "trace w1 = trace w @ cs" "posts_to (endpoint k) cs"
    "o1 = Done (Inr ()) \<longrightarrow> cs \<noteq> []" by blast
  obtain ps where ps: "trace w1 = trace w @ map CallPost ps" "length ps \<le> 1"
    "list_all (\<lambda>p. post_Endpoint p = endpoint k) ps" "o1 = Done (Inr ()) \<longrightarrow> length ps = 1"
  proof (cases "cs = []")
    case True
    with cs that [of "[]"] show ?thesis by simp
  next
    case False
    with cs(2) obtain p where "cs = [CallPost p]" "post_Endpoint p = endpoint k" by (auto simp: posts_to_def)
    with cs(1) that [of "[p]"] show ?thesis by simp
  qed
  show ?case
  proof (cases "o1 = Done (Inr ())")
    case True
    with Cons.prems one have "for_each (emit k) rs w1 = (out, w')" by (simp add: and_then_def)
    from Cons.IH [OF this] obtain qs where "trace w' = trace w1 @ map CallPost qs" "length qs \<le> length rs"
      "list_all (\<lambda>p. post_Endpoint p = endpoint k) qs" "out = Done (Inr ()) \<longrightarrow> length qs = length rs" by blast
    with ps True show ?thesis by (intro exI [of _ "ps @ qs"]) auto
  next
    case False
    with Cons.prems one have "w' = w1" "out \<noteq> Done (Inr ())"
      by (auto simp: and_then_def split: outcome.splits sum.splits)
    with ps show ?thesis by (intro exI [of _ ps]) auto
  qed
qed

end

lemma postReport_posts:
  "postReport H K endpoint ty payload w = (out, w') \<Longrightarrow>
   \<exists>cs. trace w' = trace w @ cs \<and> posts_to endpoint cs \<and> out \<noteq> Panic \<and> (out = Done (Inr ()) \<longrightarrow> cs \<noteq> [])"
  by (auto simp: postReport_def posts_to_def action_defs perform_def
      split: option.splits prod.splits sum.splits if_splits)

interpretation slack: ISink ConfigureSlack "EmitSlack H K" ssk_Endpoint
  by unfold_locales (simp add: ConfigureSlack_def, unfold EmitSlack_def, rule postReport_posts)

interpretation mattermost: ISink ConfigureMattermost "EmitMattermost H K" mmk_Endpoint
  by unfold_locales (simp add: ConfigureMattermost_def, unfold EmitMattermost_def, rule postReport_posts)

interpretation cloudevents: ISink ConfigureCloudEvents "EmitCloudEvents H K" ces_Endpoint
proof unfold_locales
  fix k r w out w'
  assume "EmitCloudEvents H K k r w = (out, w')"
  then show "\<exists>cs. trace w' = trace w @ cs \<and> posts_to (ces_Endpoint k) cs \<and> out \<noteq> Panic \<and>
      (out = Done (Inr ()) \<longrightarrow> cs \<noteq> [])"
    by (auto simp: EmitCloudEvents_def action_defs posts_to_def split: sum.splits dest: postReport_posts)
qed (simp add: ConfigureCloudEvents_def)

interpretation any_sink: ISink Configure "Emit H K" endpoint_of
proof unfold_locales
  fix config ref v k
  show "endpoint_of (Configure config ref v k) = endpointOf ref v"
    by (cases k) (simp_all add: slack.configured mattermost.configured cloudevents.configured)
next
  fix k r w out w'
  assume "Emit H K k r w = (out, w')"
  then show "\<exists>cs. trace w' = trace w @ cs \<and> posts_to (endpoint_of k) cs \<and> out \<noteq> Panic \<and>
      (out = Done (Inr ()) \<longrightarrow> cs \<noteq> [])"
    by (cases k) (auto dest: slack.emitted mattermost.emitted cloudevents.emitted)
qed

end
