(* ===== verification/K8sGPT_Controller.thy ===== *)
theory K8sGPT_Controller
  imports Server_Client Results Util Sinks
begin

text \<open>
  The controller of the K8sGPT resources (\<^verbatim>\<open>internal/controller/k8sgpt\<close>): the chain of steps that
  one reconciliation runs, from reading the resource to the mutations it creates.  A step is a
  function of the instance, which the steps before it have filled in, with the next step as an
  argument; \<open>ReconcileK8sGPT\<close> links the seven steps.  Events and log messages are left out.
\<close>

section \<open>State\<close>

text \<open>
  What the code takes from outside: the host, the Kubernetes libraries, \<^verbatim>\<open>reference.GetReference\<close>,
  and the order in which the map of the owned resources is ranged over.
\<close>

record env =
  en_host :: host
  en_lib :: k8s_lib
  en_reference :: "Result \<Rightarrow> object_reference go_result"
  en_order :: "(string \<times> EligibleResource) list \<Rightarrow> (string \<times> EligibleResource) list"

text \<open>
  The state across reconciliations: the cached connections, the metrics, and the two package variables
  of the analysis step.
\<close>

record 's ksys = "'s csys" +
  allowBackendAIRequest :: bool
  analysisRetryCount :: int

record K8sGPTInstance =
  in_req :: object_key
  K8sgptConfig :: K8sGPT
  k8sgptDeployment :: "Deployment option"
  kclient :: "nat option"
  hasReadyReplicas :: bool

text \<open>\<^verbatim>\<open>ctrl.Result\<close> with the time in nanoseconds.\<close>

record k_result =
  Requeue :: bool
  After :: int

type_synonym finished = "k_result \<times> error option"

type_synonym 'w step = "'w \<Rightarrow> finished outcome \<times> 'w"

definition finish :: "finished \<Rightarrow> 'w step" where
  "finish r s = (Done r, s)"

text \<open>
  An action whose error ends the step: \<^verbatim>\<open>if err != nil { return ... }\<close>, and otherwise the rest of the
  step.
\<close>

definition or_return :: "('a, 'w) action \<Rightarrow> (error \<Rightarrow> 'w step) \<Rightarrow> ('a \<Rightarrow> 'w step) \<Rightarrow> 'w step" where
  "or_return m onerr rest s =
     (case m s of
        (Panic, s) \<Rightarrow> (Panic, s)
      | (Done (Inl err), s) \<Rightarrow> onerr err s
      | (Done (Inr x), s) \<Rightarrow> rest x s)"

text \<open>A loop of such actions.\<close>

fun each_or_return :: "('x \<Rightarrow> (unit, 'w) action) \<Rightarrow> ('x \<Rightarrow> error \<Rightarrow> 'w step) \<Rightarrow> 'x list \<Rightarrow> 'w step \<Rightarrow> 'w step" where
  "each_or_return f onerr [] rest = rest"
| "each_or_return f onerr (x # xs) rest = or_return (f x) (onerr x) (\<lambda>_. each_or_return f onerr xs rest)"

section \<open>Finishing a reconciliation\<close>

definition ReconcileErrorInterval :: int where "ReconcileErrorInterval = 10000000000"
definition ReconcileSuccessInterval :: int where "ReconcileSuccessInterval = 30000000000"

definition parseInterval :: "host \<Rightarrow> string \<Rightarrow> int go_result" where
  "parseInterval H interval =
     (if interval = '''' then Inr ReconcileSuccessInterval else ParseDuration H interval)"

definition requeueAfter :: "host \<Rightarrow> error option \<Rightarrow> bool \<Rightarrow> K8sGPT \<Rightarrow> finished" where
  "requeueAfter H err requeueImmediate k8sgpt =
     (case err of
        Some e \<Rightarrow> (\<lparr>Requeue = True, After = (if requeueImmediate then 0 else ReconcileErrorInterval)\<rparr>, Some e)
      | None \<Rightarrow>
          (let interval =
                 (case sp_Analysis (k_Spec k8sgpt) of
                    None \<Rightarrow> ReconcileSuccessInterval
                  | Some analysis \<Rightarrow>
                      if an_Interval analysis = '''' then ReconcileSuccessInterval
                      else (case parseInterval H (an_Interval analysis) of
                              Inl e \<Rightarrow> ReconcileSuccessInterval
                            | Inr d \<Rightarrow> d))
           in (\<lparr>Requeue = True, After = (if requeueImmediate then 0 else interval)\<rparr>, None)))"

text \<open>The result, and the counter of the errors.\<close>

definition FinishReconcile :: "host \<Rightarrow> error option \<Rightarrow> bool \<Rightarrow> string \<Rightarrow> K8sGPT \<Rightarrow> ('s, 'm) csys_scheme step" where
  "FinishReconcile H err requeueImmediate name k8sgpt s =
     (Done (requeueAfter H err requeueImmediate k8sgpt),
      (case err of
         None \<Rightarrow> s
       | Some e \<Rightarrow> snd (if_metric GetCounterVec (IncCounter ''k8sgpt_reconcile_error_count'' [name]) s)))"

abbreviation failed :: "host \<Rightarrow> K8sGPT \<Rightarrow> error \<Rightarrow> ('s, 'm) csys_scheme step" where
  "failed H config err \<equiv> FinishReconcile H (Some err) False (om_Name (k_Meta config)) config"

abbreviation finished_ok :: "host \<Rightarrow> K8sGPT \<Rightarrow> ('s, 'm) csys_scheme step" where
  "finished_ok H config \<equiv> FinishReconcile H None False (om_Name (k_Meta config)) config"

section \<open>Init\<close>

definition InitStep :: "'s kube \<Rightarrow> object_key \<Rightarrow> (K8sGPTInstance \<Rightarrow> ('s, 'm) csys_scheme step) \<Rightarrow> ('s, 'm) csys_scheme step" where
  "InitStep K req next s =
     (case on_world (GetK8sGPT K req) s of
        (Inl err, s) \<Rightarrow> (Done (\<lparr>Requeue = False, After = 0\<rparr>, IgnoreNotFound err), s)
      | (Inr config, s) \<Rightarrow>
          next \<lparr>in_req = req, K8sgptConfig = config, k8sgptDeployment = None, kclient = None,
            hasReadyReplicas = False\<rparr> s)"

section \<open>Finalizer\<close>

definition FinalizerName :: string where
  "FinalizerName = ''k8sgpt.ai/finalizer''"

fun ContainsString :: "string list \<Rightarrow> string \<Rightarrow> bool" where
  "ContainsString [] s = False"
| "ContainsString (item # slice) s = (if item = s then True else ContainsString slice s)"

definition on_meta :: "(object_meta \<Rightarrow> object_meta) \<Rightarrow> K8sGPT \<Rightarrow> K8sGPT" where
  "on_meta f config = config\<lparr>k_Meta := f (k_Meta config)\<rparr>"

text \<open>\<^verbatim>\<open>controllerutil.RemoveFinalizer\<close> and \<^verbatim>\<open>AddFinalizer\<close>.\<close>

definition RemoveFinalizer :: "string \<Rightarrow> K8sGPT \<Rightarrow> K8sGPT" where
  "RemoveFinalizer name = on_meta (\<lambda>m. m\<lparr>om_Finalizers := filter (\<lambda>f. f \<noteq> name) (om_Finalizers m)\<rparr>)"

definition AddFinalizer :: "string \<Rightarrow> K8sGPT \<Rightarrow> K8sGPT" where
  "AddFinalizer name = on_meta (\<lambda>m. m\<lparr>om_Finalizers :=
     (if name \<in> set (om_Finalizers m) then om_Finalizers m else om_Finalizers m @ [name])\<rparr>)"

text \<open>An update replaces the object in memory by the answer of the server.\<close>

definition updateConfig :: "'s kube \<Rightarrow> K8sGPT \<Rightarrow> (K8sGPT, ('s, 'm) csys_scheme) action" where
  "updateConfig K config = request (on_world (UpdateK8sGPT K config))"

definition destroyServer :: "env \<Rightarrow> 's kube \<Rightarrow> K8sGPT \<Rightarrow> (K8sGPT, ('s, 'm) csys_scheme) action" where
  "destroyServer E K config =
     (if ContainsString (om_Finalizers (k_Meta config)) FinalizerName
      then and_then (on_world (Sync (en_host E) K config DestroyOp)) (\<lambda>_.
             updateConfig K (RemoveFinalizer FinalizerName config))
      else succeed config)"

definition FinalizerStep :: "env \<Rightarrow> 's kube \<Rightarrow> (K8sGPTInstance \<Rightarrow> ('s, 'm) csys_scheme step)
    \<Rightarrow> K8sGPTInstance \<Rightarrow> ('s, 'm) csys_scheme step" where
  "FinalizerStep E K next inst =
     (let config = K8sgptConfig inst; H = en_host E in
      if om_DeletionTimestamp (k_Meta config) \<noteq> None then
        or_return (destroyServer E K config) (failed H config) (\<lambda>config.
        or_return (closeClientFor K config) (failed H config) (\<lambda>_.
        finished_ok H config))
      else if \<not> ContainsString (om_Finalizers (k_Meta config)) FinalizerName then
        or_return (updateConfig K (AddFinalizer FinalizerName config)) (failed H config) (\<lambda>config.
        next (inst\<lparr>K8sgptConfig := config\<rparr>))
      else next inst)"

section \<open>Configure\<close>

definition zeroDeployment :: Deployment where
  "zeroDeployment = emptyDeployment (new_meta '''' '''')"

text \<open>The Deployment as it was before the synchronisation; a zero one if there was none.\<close>

definition getDeployment :: "env \<Rightarrow> 's kube \<Rightarrow> K8sGPT \<Rightarrow> (Deployment, 's world) action" where
  "getDeployment E K config =
     and_then
       (on_error (request (GetDeploymentObject K (key_of_config config)))
          (\<lambda>err. case IgnoreNotFound err of Some e \<Rightarrow> fail e | None \<Rightarrow> succeed zeroDeployment))
       (\<lambda>deployment. and_then (Sync (en_host E) K config SyncOp) (\<lambda>_. succeed deployment))"

definition defaultBackOff :: "K8sGPT \<Rightarrow> AISpec \<Rightarrow> K8sGPT" where
  "defaultBackOff config ai =
     config\<lparr>k_Spec := (k_Spec config)\<lparr>sp_AI := Some (ai\<lparr>ai_BackOff := Some \<lparr>bo_Enabled = False, bo_MaxRetries = 5\<rparr>\<rparr>)\<rparr>\<rparr>"

definition configureBackoff :: "'s kube \<Rightarrow> K8sGPT \<Rightarrow> (K8sGPT, ('s, 'm) csys_scheme) action" where
  "configureBackoff K config =
     and_then (deref (sp_AI (k_Spec config))) (\<lambda>ai.
       if ai_BackOff ai = None then updateConfig K (defaultBackOff config ai) else succeed config)"

definition ConfigureStep :: "env \<Rightarrow> 's kube \<Rightarrow> (K8sGPTInstance \<Rightarrow> ('s, 'm) csys_scheme step)
    \<Rightarrow> K8sGPTInstance \<Rightarrow> ('s, 'm) csys_scheme step" where
  "ConfigureStep E K next inst =
     (let H = en_host E in
      or_return (configureBackoff K (K8sgptConfig inst)) (failed H (K8sgptConfig inst)) (\<lambda>config.
      or_return (on_world (getDeployment E K config)) (failed H config) (\<lambda>deployment.
        (let ready = d_AvailableReplicas deployment \<noteq> 0 in
         if \<not> ready \<and> Getenv H ''LOCAL_MODE'' = '''' then finished_ok H config
         else next (inst\<lparr>K8sgptConfig := config, k8sgptDeployment := Some deployment, hasReadyReplicas := ready\<rparr>)))))"

section \<open>Before the analysis\<close>

text \<open>
  The repository and the version of an image: the version starts at the first colon after the
  first slash.
\<close>

definition parseImageURI :: "string \<Rightarrow> string \<times> string" where
  "parseImageURI uri =
     (if Contains uri ''/'' then
        (case Cut uri CHR ''/'' of (registry, name, _) \<Rightarrow>
           if Contains name '':'' then
             (case Cut name CHR '':'' of (repository, version, _) \<Rightarrow> (registry @ ''/'' @ repository, version))
           else (registry @ ''/'' @ name, ''''))
      else if Contains uri '':'' then
        (case Cut uri CHR '':'' of (repository, version, _) \<Rightarrow> (repository, version))
      else (uri, ''''))"

definition updateDeploymentImage :: "env \<Rightarrow> 's kube \<Rightarrow> K8sGPT \<Rightarrow> Deployment \<Rightarrow> ('s, 'm) csys_scheme step" where
  "updateDeploymentImage E K config deployment =
     or_return
       (request (on_world (UpdateDeployment K (on_container (\<lambda>c. c\<lparr>c_Image :=
          sp_Repository (k_Spec config) @ '':'' @ sp_Version (k_Spec config)\<rparr>) deployment))))
       (failed (en_host E) config)
       (\<lambda>_. finished_ok (en_host E) config)"

definition addRemoteCache :: "'s kube \<Rightarrow> nat \<Rightarrow> K8sGPT \<Rightarrow> (unit, 's world) action" where
  "addRemoteCache K conn config =
     (if sp_RemoteCache (k_Spec config) \<noteq> None \<or> sp_CustomAnalyzers (k_Spec config) \<noteq> None
      then AddConfig K conn config else succeed ())"

definition addIntegrations :: "'s kube \<Rightarrow> nat \<Rightarrow> K8sGPT \<Rightarrow> (unit, 's world) action" where
  "addIntegrations K conn config =
     (case sp_Integrations (k_Spec config) of
        None \<Rightarrow> succeed ()
      | Some integrations \<Rightarrow> AddIntegration K conn integrations)"

text \<open>
  The signal to the mutation controller: the client, the backend and the resource.  The send on the
  channel may block while its buffer is full; the calls after it are made once it went through.
\<close>

definition sendSignal :: "nat \<Rightarrow> K8sGPT \<Rightarrow> (unit, ('s, 'm) csys_scheme) action" where
  "sendSignal conn config =
     and_then (deref (sp_AI (k_Spec config))) (\<lambda>ai.
       if ar_Enabled (ai_AutoRemediation ai)
       then (\<lambda>s. case on_world (Send_signal conn (EffectiveBackend (ai_Backend ai)) config) s of (_, s) \<Rightarrow> (Done (Inr ()), s))
       else succeed ())"

definition connectServer :: "env \<Rightarrow> 's kube \<Rightarrow> (K8sGPTInstance \<Rightarrow> ('s, 'm) csys_scheme step)
    \<Rightarrow> K8sGPTInstance \<Rightarrow> ('s, 'm) csys_scheme step" where
  "connectServer E K next inst =
     (let config = K8sgptConfig inst; H = en_host E in
      or_return (on_world (GenerateAddress H K config)) (failed H config) (\<lambda>address.
      or_return (clientFor K config address) (failed H config) (\<lambda>conn.
      or_return (sendSignal conn config) (failed H config) (\<lambda>_.
      or_return (on_world (addRemoteCache K conn config)) (failed H config) (\<lambda>_.
      or_return (on_world (addIntegrations K conn config)) (failed H config) (\<lambda>_.
      next (inst\<lparr>kclient := Some conn\<rparr>)))))))"

definition PreAnalysisStep :: "env \<Rightarrow> 's kube \<Rightarrow> (K8sGPTInstance \<Rightarrow> ('s, 'm) csys_scheme step)
    \<Rightarrow> K8sGPTInstance \<Rightarrow> ('s, 'm) csys_scheme step" where
  "PreAnalysisStep E K next inst =
     (let config = K8sgptConfig inst; H = en_host E in
      if hasReadyReplicas inst then
        or_return (deref (k8sgptDeployment inst)) (failed H config) (\<lambda>deployment.
        or_return (deref (first_of (ps_Containers (pod_of deployment)))) (failed H config) (\<lambda>container.
          (case parseImageURI (c_Image container) of (imageRepository, imageVersion) \<Rightarrow>
             if imageRepository \<noteq> sp_Repository (k_Spec config) \<or> imageVersion \<noteq> sp_Version (k_Spec config)
             then updateDeploymentImage E K config deployment
             else connectServer E K next inst)))
      else connectServer E K next inst)"

section \<open>Analysis\<close>

definition set_analysis_error :: "string \<Rightarrow> nat \<Rightarrow> K8sGPT \<Rightarrow> K8sGPT" where
  "set_analysis_error message now config =
     config\<lparr>k_Status := (k_Status config)\<lparr>st_LastAnalysisError := message, st_LastAnalysisErrorTime := Some now\<rparr>\<rparr>"

text \<open>The object in memory after the update: the answer of the server, or what was sent if it failed.\<close>

definition setAnalysisErrorStatus :: "'s kube \<Rightarrow> K8sGPT \<Rightarrow> error \<Rightarrow> (K8sGPT, 's world) action" where
  "setAnalysisErrorStatus K k8sgpt analysisErr w =
     (if st_LastAnalysisError (k_Status k8sgpt) = Error analysisErr then (Done (Inr k8sgpt), w)
      else
        (let sent = set_analysis_error (Error analysisErr) (kNow K (cluster w)) k8sgpt in
         on_error (request (StatusUpdateK8sGPT K sent)) (\<lambda>statusErr. succeed sent) w))"

text \<open>An error of the status update is logged and dropped.\<close>

definition recordAnalysisError :: "'s kube \<Rightarrow> K8sGPT \<Rightarrow> error \<Rightarrow> (K8sGPT, ('s, 'm) csys_scheme) action" where
  "recordAnalysisError K config err = on_world (setAnalysisErrorStatus K config err)"

definition clearedStatus :: "K8sGPT \<Rightarrow> K8sGPT" where
  "clearedStatus config =
     config\<lparr>k_Status := (k_Status config)\<lparr>st_LastAnalysisError := '''', st_LastAnalysisErrorTime := None\<rparr>\<rparr>"

definition clearAnalysisError :: "'s kube \<Rightarrow> K8sGPT \<Rightarrow> (K8sGPT, ('s, 'm) csys_scheme) action" where
  "clearAnalysisError K config =
     (if st_LastAnalysisError (k_Status config) = '''' \<and> st_LastAnalysisErrorTime (k_Status config) = None
      then succeed config
      else on_error (request (on_world (StatusUpdateK8sGPT K (clearedStatus config))))
             (\<lambda>statusErr. succeed (clearedStatus config)))"

text \<open>
  The circuit breaker: once the number of failures exceeds the maximum, the AI backend is not
  asked any more.
\<close>

definition handleAIFailureBackoff :: "AISpec \<Rightarrow> (unit, 's ksys) action" where
  "handleAIFailureBackoff ai =
     and_then (deref (ai_BackOff ai)) (\<lambda>backOff s.
       if bo_Enabled backOff then
         (let s = (if analysisRetryCount s > bo_MaxRetries backOff
                   then s\<lparr>allowBackendAIRequest := False, analysisRetryCount := 0\<rparr> else s)
          in (Done (Inr ()), s\<lparr>analysisRetryCount := analysisRetryCount s + 1\<rparr>))
       else (Done (Inr ()), s))"

definition resetRetries :: "(unit, 's ksys) action" where
  "resetRetries s = (Done (Inr ()), s\<lparr>analysisRetryCount := 0\<rparr>)"

definition getResultObjectNamespace :: "ResultSpec \<Rightarrow> string" where
  "getResultObjectNamespace result =
     (case Split (rs_Name result) CHR ''/'' of
        [] \<Rightarrow> ''''
      | [s] \<Rightarrow> ''''
      | s # t # ss \<Rightarrow> s)"

fun getResultsPerNamespace :: "ResultSpec list \<Rightarrow> (string \<times> int) list \<Rightarrow> (string \<times> int) list" where
  "getResultsPerNamespace [] namespaceCounts = namespaceCounts"
| "getResultsPerNamespace (result # results) namespaceCounts =
     (let namespace = getResultObjectNamespace result in
      getResultsPerNamespace results
        (AList.update namespace
           ((case map_of namespaceCounts namespace of None \<Rightarrow> 0 | Some n \<Rightarrow> n) + 1) namespaceCounts))"

text \<open>The order in which the namespaces are ranged over does not matter: each has a series of its own.\<close>

definition setk8sgptNumberOfResults :: "K8sGPT \<Rightarrow> ResultSpec list \<Rightarrow> (unit, ('s, 'm) csys_scheme) action" where
  "setk8sgptNumberOfResults config results =
     for_each (\<lambda>(namespace, count).
         if_metric GetGaugeVec (SetGauge ''k8sgpt_number_of_results'' [namespace, om_Name (k_Meta config)] count))
       (getResultsPerNamespace results [])"

definition mapResults :: "env \<Rightarrow> 's kube \<Rightarrow> ResultSpec list \<Rightarrow> K8sGPT \<Rightarrow> ((string \<times> Result) list, 's world) action" where
  "mapResults E K results config w =
     (case MapResults (en_lib E) K results config w of
        (Panic, w) \<Rightarrow> (Panic, w)
      | (Done rawResults, w) \<Rightarrow> (Done (Inr rawResults), w))"

definition resultSelector :: "K8sGPT \<Rightarrow> str_map" where
  "resultSelector config =
     [(''k8sgpts.k8sgpt.ai/name'', om_Name (k_Meta config)),
      (''k8sgpts.k8sgpt.ai/namespace'', om_Namespace (k_Meta config))]"

text \<open>The labels of a result in the gauge of the results by type.\<close>

definition resultLabelValues :: "K8sGPT \<Rightarrow> ResultSpec \<Rightarrow> string list" where
  "resultLabelValues config spec =
     [getResultObjectNamespace spec, rs_Kind spec, rs_Name spec, om_Name (k_Meta config)]"

definition cleanUpStaleResults :: "'s kube \<Rightarrow> K8sGPT \<Rightarrow> (string \<times> Result) list \<Rightarrow> (unit, ('s, 'm) csys_scheme) action" where
  "cleanUpStaleResults K config rawResults =
     and_then (on_world (request (ListResults K (resultSelector config))))
       (for_each (\<lambda>result.
          if map_of rawResults (om_Name (res_Meta result)) = None then
            and_then (on_world (request (DeleteResult K result))) (\<lambda>_.
            if_metric GetGaugeVec
              (DescGauge ''k8sgpt_number_of_results_by_type'' (resultLabelValues config (res_Spec result))))
          else succeed ()))"

definition processRawResults :: "env \<Rightarrow> 's kube \<Rightarrow> K8sGPT \<Rightarrow> (string \<times> Result) list
    \<Rightarrow> (unit, ('s, 'm) csys_scheme) action" where
  "processRawResults E K config rawResults =
     and_then (if_metric GetGaugeVec (ResetGauge ''k8sgpt_number_of_results_by_type'')) (\<lambda>_.
     for_each (\<lambda>(name, result).
         and_then (on_world (request (CreateOrUpdateResult (sha256_json (en_host E)) K result))) (\<lambda>result.
         must_metric GetGaugeVec
           (IncGauge ''k8sgpt_number_of_results_by_type'' (resultLabelValues config (res_Spec result)))))
       (range_results (en_host E) rawResults))"

definition incK8sgptNumberOfFailedBackendAICalls :: "K8sGPTInstance \<Rightarrow> AISpec \<Rightarrow> (unit, ('s, 'm) csys_scheme) action" where
  "incK8sgptNumberOfFailedBackendAICalls inst ai =
     and_then (deref (k8sgptDeployment inst)) (\<lambda>deployment.
     if_metric GetCounterVec
       (IncCounter ''k8sgpt_number_of_failed_backend_ai_calls''
         [ai_Backend ai, om_Name (d_Meta deployment), om_Namespace (d_Meta deployment),
          om_Name (k_Meta (K8sgptConfig inst))]))"

definition analysisFailed :: "env \<Rightarrow> 's kube \<Rightarrow> K8sGPTInstance \<Rightarrow> error \<Rightarrow> 's ksys step" where
  "analysisFailed E K inst err =
     (let H = en_host E; config = K8sgptConfig inst in
      or_return
        (and_then (deref (sp_AI (k_Spec config))) (\<lambda>ai.
           if ai_Enabled ai then
             and_then (incK8sgptNumberOfFailedBackendAICalls inst ai) (\<lambda>_. handleAIFailureBackoff ai)
           else succeed ()))
        (failed H config) (\<lambda>_.
      or_return (recordAnalysisError K config err) (failed H config) (\<lambda>config.
      failed H config err)))"

definition analysisSucceeded :: "env \<Rightarrow> 's kube \<Rightarrow> (K8sGPTInstance \<Rightarrow> 's ksys step) \<Rightarrow> K8sGPTInstance
    \<Rightarrow> ResultSpec list \<Rightarrow> 's ksys step" where
  "analysisSucceeded E K next inst results =
     (let H = en_host E in
      or_return (clearAnalysisError K (K8sgptConfig inst)) (failed H (K8sgptConfig inst)) (\<lambda>config.
      or_return resetRetries (failed H config) (\<lambda>_.
      or_return (setk8sgptNumberOfResults config results) (failed H config) (\<lambda>_.
      or_return (on_world (mapResults E K results config)) (failed H config) (\<lambda>rawResults.
      or_return (cleanUpStaleResults K config rawResults) (failed H config) (\<lambda>_.
      or_return (processRawResults E K config rawResults) (failed H config) (\<lambda>_.
      next (inst\<lparr>K8sgptConfig := config\<rparr>))))))))"

definition AnalysisStep :: "env \<Rightarrow> 's kube \<Rightarrow> (K8sGPTInstance \<Rightarrow> 's ksys step) \<Rightarrow> K8sGPTInstance \<Rightarrow> 's ksys step" where
  "AnalysisStep E K next inst s =
     (case and_then (deref (k8sgptDeployment inst)) (\<lambda>_. and_then (deref (kclient inst)) (\<lambda>conn.
             on_world (ProcessAnalysis K conn (K8sgptConfig inst) (allowBackendAIRequest s)))) s of
        (Panic, s) \<Rightarrow> (Panic, s)
      | (Done (Inl err), s) \<Rightarrow> analysisFailed E K inst err s
      | (Done (Inr response), s) \<Rightarrow> analysisSucceeded E K next inst (kr_Results response) s)"

section \<open>Status of the results\<close>

definition EmitIfNotHistorical :: "'s kube \<Rightarrow> K8sGPT \<Rightarrow> (Result list, 's world) action" where
  "EmitIfNotHistorical K config = request (ListResults K (resultSelector config))"

definition sinkEnabled :: "K8sGPT \<Rightarrow> WebhookRef option" where
  "sinkEnabled config =
     (case sp_Sink (k_Spec config) of
        None \<Rightarrow> None
      | Some sink \<Rightarrow>
          if wh_Type sink \<noteq> '''' \<and> (wh_Endpoint sink \<noteq> '''' \<or> wh_Secret sink \<noteq> None) then Some sink else None)"

definition initSinkType :: "'s kube \<Rightarrow> object_key \<Rightarrow> K8sGPT \<Rightarrow> (sink option, 's world) action" where
  "initSinkType K req config =
     (case sinkEnabled config of
        None \<Rightarrow> succeed None
      | Some ref \<Rightarrow>
          and_then
            (case wh_Secret ref of
               None \<Rightarrow> succeed ''''
             | Some secretRef \<Rightarrow>
                 and_then
                   (on_error (request (GetSecret K \<lparr>key_Namespace = key_Namespace req, key_Name = sr_Name secretRef\<rparr>))
                     (\<lambda>err. fail (Errorf_w ''could not find sink secret: '' err)))
                   (\<lambda>secret. succeed (case map_of (sec_Data secret) (sr_Key secretRef) of None \<Rightarrow> '''' | Some v \<Rightarrow> v)))
            (\<lambda>sinkSecretValue. succeed (Some (Configure config ref sinkSecretValue (NewSink (wh_Type ref))))))"

definition set_webhook :: "string \<Rightarrow> Result \<Rightarrow> Result" where
  "set_webhook v res = res\<lparr>res_Status := (res_Status res)\<lparr>rt_Webhook := v\<rparr>\<rparr>"

definition sinkEndpoint :: "K8sGPT \<Rightarrow> string" where
  "sinkEndpoint config = (case sp_Sink (k_Spec config) of None \<Rightarrow> '''' | Some sink \<Rightarrow> wh_Endpoint sink)"

text \<open>The emitter is that of the sink, if one is enabled.\<close>

definition processResult :: "'s kube \<Rightarrow> K8sGPT \<Rightarrow> (ResultSpec \<Rightarrow> (unit, 's world) action) option
    \<Rightarrow> Result \<Rightarrow> (unit, 's world) action" where
  "processResult K config emitter result =
     and_then (request (GetResult K (key_of_meta (res_Meta result)))) (\<lambda>res.
     and_then
       (case emitter of
          None \<Rightarrow> succeed (set_webhook '''' res)
        | Some emit \<Rightarrow>
            if rt_LifeCycle (res_Status res) \<noteq> NoOpResult \<or> rt_Webhook (res_Status res) = ''''
            then and_then (emit (res_Spec res)) (\<lambda>_. succeed (set_webhook (sinkEndpoint config) res))
            else succeed res)
       (\<lambda>res. and_then (request (StatusUpdateResult K res)) (\<lambda>_. succeed ())))"

definition processLatestResults :: "'s kube \<Rightarrow> K8sGPT \<Rightarrow> (ResultSpec \<Rightarrow> (unit, 's world) action) option
    \<Rightarrow> Result list \<Rightarrow> (unit, 's world) action" where
  "processLatestResults K config emitter = for_each (processResult K config emitter)"

definition ResultStatusStep :: "env \<Rightarrow> 's kube \<Rightarrow> (K8sGPTInstance \<Rightarrow> ('s, 'm) csys_scheme step)
    \<Rightarrow> K8sGPTInstance \<Rightarrow> ('s, 'm) csys_scheme step" where
  "ResultStatusStep E K next inst =
     (let config = K8sgptConfig inst; H = en_host E in
      or_return (on_world (EmitIfNotHistorical K config)) (failed H config) (\<lambda>latest.
        if latest = [] then finished_ok H config
        else
          or_return (on_world (initSinkType K (in_req inst) config)) (failed H config) (\<lambda>sink.
          or_return (on_world (processLatestResults K config (map_option (Emit H K) sink) latest)) (failed H config) (\<lambda>_.
          next inst))))"

section \<open>Remediation\<close>

definition mutationName :: "host \<Rightarrow> string \<Rightarrow> object_reference \<Rightarrow> string" where
  "mutationName H name resourceRef =
     (if or_UID resourceRef = '''' then name
      else
        (let digest = sha256_text H (or_APIVersion resourceRef @ ''/'' @ or_Kind resourceRef @ ''/'' @
               or_Namespace resourceRef @ ''/'' @ or_Name resourceRef @ ''/'' @ or_UID resourceRef);
             pre = (if length name > 54 then take 54 name else name)
         in pre @ ''-'' @ take 8 digest))"

definition newMutation :: "env \<Rightarrow> K8sGPT \<Rightarrow> EligibleResource \<Rightarrow> Mutation" where
  "newMutation E config resource =
     \<lparr>mu_Meta = (new_meta (mutationName (en_host E) (or_Name (er_ResultRef resource)) (er_ObjectRef resource))
         (om_Namespace (k_Meta config)))
         \<lparr>om_OwnerReferences := [controllerRef (en_lib E) config],
          om_Finalizers := [''mutation.finalizer.k8sgpt.ai'']\<rparr>,
      mu_Spec =
        \<lparr>ms_SimilarityScore = '''', ms_ResourceGVK = er_GVK resource, ms_ResourceRef = er_ObjectRef resource,
         ms_ResultRef = er_ResultRef resource, ms_OriginConfiguration = er_OriginConfiguration resource,
         ms_TargetConfiguration = ''''\<rparr>,
      mu_Status =
        \<lparr>mt_Phase = PhaseNotStarted, mt_Message = ''Not Started'', mt_PolicyDecision = '''',
         mt_ChangedPaths = [], mt_AppliedAt = None\<rparr>\<rparr>"

definition createMutation :: "env \<Rightarrow> 's kube \<Rightarrow> K8sGPT \<Rightarrow> EligibleResource \<Rightarrow> (unit, 's world) action" where
  "createMutation E K config resource =
     (let mutation = newMutation E config resource in
      and_then
        (on_error (and_then (request (GetMutation K (key_of_meta (mu_Meta mutation)))) (\<lambda>existing. succeed True))
          (\<lambda>err. if IgnoreNotFound err \<noteq> None then fail err else succeed False))
        (\<lambda>found. if found then succeed ()
                 else and_then (request (CreateMutation K mutation)) (\<lambda>_. succeed ())))"

definition getResult :: "'s kube \<Rightarrow> Result \<Rightarrow> (unit, 's world) action" where
  "getResult K result = and_then (request (GetResult K (key_of_meta (res_Meta result)))) (\<lambda>_. succeed ())"

definition eligibleResources :: "env \<Rightarrow> 's kube \<Rightarrow> K8sGPT \<Rightarrow> Result list \<Rightarrow> (EligibleResource list, 's world) action" where
  "eligibleResources E K config latest w =
     (case ResultsToEligibleResources (en_lib E) K (en_reference E) (Some config) latest w of
        (preEligible, w) \<Rightarrow> (Done (Inr (Deduplicate (en_lib E) (en_order E) preEligible)), w))"

definition calculateRemediationStep :: "env \<Rightarrow> 's kube \<Rightarrow> K8sGPTInstance \<Rightarrow> ('s, 'm) csys_scheme step" where
  "calculateRemediationStep E K inst =
     (let config = K8sgptConfig inst; H = en_host E in
      or_return (deref (sp_AI (k_Spec config))) (failed H config) (\<lambda>ai.
        if \<not> ar_Enabled (ai_AutoRemediation ai) then finished_ok H config
        else
          or_return (on_world (EmitIfNotHistorical K config)) (failed H config) (\<lambda>latest.
            if latest = [] then finished_ok H config
            else
              each_or_return (\<lambda>result. on_world (getResult K result))
                (\<lambda>result err. FinishReconcile H (Some err) False (om_Name (res_Meta result)) config) latest
              (or_return (on_world (eligibleResources E K config latest)) (failed H config) (\<lambda>resources.
               each_or_return (\<lambda>resource. on_world (createMutation E K config resource))
                 (\<lambda>resource err. FinishReconcile H (Some err) False (or_Name (er_ResultRef resource)) config) resources
               (or_return
                 (if_metric GetGaugeVec
                   (SetGauge ''k8sgpt_mutations_count'' [''mutations'', ''pk8sgpt''] (int (length resources))))
                 (failed H config) (\<lambda>_.
                finished_ok H config)))))))"

section \<open>Reconcile\<close>

definition ReconcileK8sGPT :: "env \<Rightarrow> 's kube \<Rightarrow> object_key \<Rightarrow> 's ksys step" where
  "ReconcileK8sGPT E K req =
     InitStep K req
       (FinalizerStep E K
         (ConfigureStep E K
           (PreAnalysisStep E K
             (AnalysisStep E K
               (ResultStatusStep E K
                 (calculateRemediationStep E K))))))"

text \<open>The index of the resources by the name of their AI secret, and the resources of a secret.\<close>

definition aiSecretIndex :: "K8sGPT \<Rightarrow> string list" where
  "aiSecretIndex k8sgpt =
     (case sp_AI (k_Spec k8sgpt) of
        None \<Rightarrow> []
      | Some ai \<Rightarrow>
          (case ai_Secret ai of
             None \<Rightarrow> []
           | Some ref \<Rightarrow> if sr_Name ref = '''' then [] else [sr_Name ref]))"

definition findK8sGPTsForSecret :: "'s kube \<Rightarrow> object_key \<Rightarrow> 's world \<Rightarrow> object_key list \<times> 's world" where
  "findK8sGPTsForSecret K secret w =
     (case ListK8sGPTs K (key_Namespace secret) (key_Name secret) w of
        (Inl err, w) \<Rightarrow> ([], w)
      | (Inr items, w) \<Rightarrow> (map key_of_config items, w))"

end
