(* ===== verification/Call_Areas.thy ===== *)
theory Call_Areas
  imports K8sGPT_Controller
begin

text \<open>
  What each operation of the K8sGPT controller may call.  The calls fall into areas, and for every
  operation there is a lemma with the areas it touches; the properties of whole reconciliations
  are read off these lemmas.
\<close>

section \<open>Areas\<close>

datatype area = Reading | Owned | Configuration | Connecting | Server | Analysing | Signalling
  | Findings | Mutations | Reporting | Workloads

fun area_of :: "call \<Rightarrow> area" where
  "area_of (CallPatch object ops dryRun ok) = Workloads"
| "area_of (CallUpdateMutation m ok) = Workloads"
| "area_of (CallStatusUpdateMutation m ok) = Workloads"
| "area_of (CallQuery client backend query) = Workloads"
| "area_of (CallCreateMutation m ok) = Mutations"
| "area_of (CallCreateResult x ok) = Findings"
| "area_of (CallUpdateResult x ok) = Findings"
| "area_of (CallStatusUpdateResult x ok) = Findings"
| "area_of (CallDeleteResult x ok) = Findings"
| "area_of (CallUpdateK8sGPT x ok) = Configuration"
| "area_of (CallStatusUpdateK8sGPT x ok) = Configuration"
| "area_of (CallUpdateDeployment x ok) = Owned"
| "area_of (CallCreateOrPatch x expect ok) = Owned"
| "area_of (CallDelete x ok) = Owned"
| "area_of (CallDial address c) = Connecting"
| "area_of (CallClose c) = Connecting"
| "area_of (CallAnalyze conn req) = Analysing"
| "area_of (CallAddConfig conn req ok) = Server"
| "area_of (CallTrivyEnabled conn) = Server"
| "area_of (CallPost p) = Reporting"
| "area_of (SendSignal conn backend config) = Signalling"
| "area_of _ = Reading"

definition touches :: "area set \<Rightarrow> ('s world \<Rightarrow> 'r \<times> 's world) \<Rightarrow> bool" where
  "touches A m \<longleftrightarrow> emits trace (\<lambda>c. area_of c \<in> A) m"

lemma touches_mono: "touches A m \<Longrightarrow> A \<subseteq> B \<Longrightarrow> touches B m"
  unfolding touches_def by (erule emits_mono) blast

lemma touches_D: "touches A m \<Longrightarrow> m w = (r, w') \<Longrightarrow> \<exists>cs. trace w' = trace w @ cs \<and> list_all (\<lambda>c. area_of c \<in> A) cs"
  unfolding touches_def by (rule emits_D)

lemma touches_for_each: "(\<And>x. touches A (f x)) \<Longrightarrow> touches A (for_each f xs)"
  unfolding touches_def by (rule emits_for_each)

text \<open>The connection a call goes over.\<close>

fun uses :: "call \<Rightarrow> nat option" where
  "uses (CallAnalyze conn req) = Some conn"
| "uses (CallAddConfig conn req ok) = Some conn"
| "uses (CallTrivyEnabled conn) = Some conn"
| "uses (SendSignal conn backend config) = Some conn"
| "uses _ = None"

lemma uses_area: "uses c = None \<longleftrightarrow> area_of c \<notin> {Server, Analysing, Signalling}"
  by (cases c) simp_all

lemma connecting_area: "no_connection c \<longleftrightarrow> area_of c \<noteq> Connecting \<or> (\<exists>address. c = CallDial address None)"
proof (cases c)
  case (CallDial address x)
  then show ?thesis by (cases x) (simp_all add: no_connection_def)
qed (simp_all add: no_connection_def)

section \<open>Rules for steps\<close>

lemma emits_on_world: "emits trace P f \<Longrightarrow> emits (\<lambda>s. trace (cs_world s)) P (on_world f)"
  by (auto simp: emits_def dest!: on_world_parts)

lemma emits_finish: "emits tr P (finish r)"
  by (rule emits_silent) (simp add: finish_def)

lemma cs_world_metric [simp]:
  "cs_world (snd (if_metric get call s)) = cs_world s"
  by (simp add: if_metric_def split: option.split)

lemma FinishReconcile_parts [simp]:
  "fst (FinishReconcile H err imm name config s) = Done (requeueAfter H err imm config)"
  "cs_world (snd (FinishReconcile H err imm name config s)) = cs_world s"
  by (auto simp: FinishReconcile_def split: option.splits)

lemma emits_FinishReconcile:
  "emits (\<lambda>s. trace (cs_world s)) P (FinishReconcile H err imm name config)"
  by (rule emits_silent) (auto simp: FinishReconcile_def split: option.splits)

lemma emits_metric:
  "emits (\<lambda>s. trace (cs_world s)) P (if_metric get call)"
  "emits (\<lambda>s. trace (cs_world s)) P (must_metric get call)"
  by (rule emits_silent, auto simp: if_metric_def must_metric_def split: option.splits)+

lemma emits_or_return:
  assumes "emits tr P m" and "\<And>err. emits tr P (onerr err)"
    and "\<And>x s s'. m s = (Done (Inr x), s') \<Longrightarrow> emits tr P (rest x)"
  shows "emits tr P (or_return m onerr rest)"
proof (rule emits_I)
  fix s out s' assume run: "or_return m onerr rest s = (out, s')"
  obtain r s1 where m: "m s = (r, s1)" by (cases "m s")
  note first = emits_D [OF assms(1) m]
  show "\<exists>cs. tr s' = tr s @ cs \<and> list_all P cs"
  proof (cases "\<exists>x. r = Done (Inr x)")
    case True
    then obtain x where r: "r = Done (Inr x)" by blast
    with run m have "rest x s1 = (out, s')" by (simp add: or_return_def)
    from emits_append [where tr = tr, OF first emits_D [OF assms(3) [OF m [unfolded r]] this]] show ?thesis .
  next
    case False
    with run m have "s' = s1 \<or> (\<exists>err. onerr err s1 = (out, s'))"
      by (auto simp: or_return_def split: outcome.splits sum.splits)
    then have "\<exists>cs. tr s' = tr s1 @ cs \<and> list_all P cs" using emits_D [OF assms(2)] by fastforce
    from emits_append [where tr = tr, OF first this] show ?thesis .
  qed
qed

lemma emits_each_or_return:
  assumes "\<And>x. x \<in> set xs \<Longrightarrow> emits tr P (f x)" and "\<And>x err. emits tr P (onerr x err)" and "emits tr P rest"
  shows "emits tr P (each_or_return f onerr xs rest)"
  using assms(1) by (induction xs) (auto intro!: emits_or_return assms(2,3))

lemma emits_for_each_in: "(\<And>x. x \<in> set xs \<Longrightarrow> emits tr P (f x)) \<Longrightarrow> emits tr P (for_each f xs)"
  by (induction xs) (simp_all add: emits_rules)

section \<open>The client of the server\<close>

definition over :: "nat \<Rightarrow> area set \<Rightarrow> call \<Rightarrow> bool" where
  "over conn A c \<longleftrightarrow> area_of c \<in> A \<and> uses c = Some conn"

lemma silent_required: "emits tr P (required v m)"
  unfolding required_eq by (intro emits_rules)

lemma silent_requestCache: "emits tr P (requestCache cache)"
  unfolding requestCache_def by (intro emits_rules silent_required)

lemma silent_requestAnalyzers: "emits tr P (requestAnalyzers as)"
  by (induction as) (simp_all add: emits_rules)

lemma over_AddConfig: "emits trace (over conn {Server}) (AddConfig K conn config)"
  unfolding AddConfig_def
  by (intro emits_rules silent_requestCache silent_requestAnalyzers) (simp add: over_def)

lemma over_AddIntegration: "emits trace (over conn {Server}) (AddIntegration K conn integrations)"
  unfolding AddIntegration_def by (intro emits_rules) (simp_all add: over_def)

lemma over_addRemoteCache: "emits trace (over conn {Server}) (addRemoteCache K conn config)"
  unfolding addRemoteCache_def by (intro emits_rules over_AddConfig)

lemma over_addIntegrations: "emits trace (over conn {Server}) (addIntegrations K conn config)"
  unfolding addIntegrations_def by (intro emits_rules over_AddIntegration)

text \<open>The one request of an analysis, with whether it asks for explanations.\<close>

lemma over_ProcessAnalysis:
  "emits trace (\<lambda>c. \<exists>req. c = CallAnalyze conn req \<and> (rq_Explain req \<longrightarrow> allow)) (ProcessAnalysis K conn config allow)"
  unfolding ProcessAnalysis_def by (intro emits_rules) simp_all

lemma touches_GenerateAddress: "touches {Reading} (GenerateAddress H K config)"
  unfolding touches_def GenerateAddress_def by (intro emits_rules) simp_all

section \<open>The synchronisation of the owned objects\<close>

lemma emits_retry: "emits tr P m \<Longrightarrow> emits tr P (retryOnConflict n m)"
proof (induction n)
  case (Suc n)
  show ?case
  proof (rule emits_I)
    fix w r w' assume run: "retryOnConflict (Suc n) m w = (r, w')"
    obtain x w1 where m: "m w = (x, w1)" by (cases "m w")
    note first = emits_D [OF Suc.prems m]
    show "\<exists>cs. tr w' = tr w @ cs \<and> list_all P cs"
    proof (cases "\<exists>err. x = Inl err \<and> IsConflict err \<and> n \<noteq> 0")
      case True
      with run m have "retryOnConflict n m w1 = (r, w')" by auto
      from emits_append [where tr = tr, OF first emits_D [OF Suc.IH [OF Suc.prems] this]] show ?thesis .
    next
      case False
      with run m have "w' = w1" by (auto split: sum.splits if_splits)
      with first show ?thesis by simp
    qed
  qed
qed (auto intro: emits_silent)

lemma touches_Sync: "touches {Reading, Owned} (Sync H K config i)"
proof -
  let ?P = "\<lambda>c. area_of c \<in> {Reading, Owned}"
  have secret: "emits trace ?P (GetDeployment H K config m sa)" for m sa
    by (rule emits_mono [OF emits_GetDeployment]) (auto simp: is_secret_read_def split: call.splits)
  have target: "emits trace ?P (syncTarget K obj)" for obj
    by (cases obj) (auto simp: existingOr_def intro!: emits_rules)
  have sync: "emits trace ?P (doSync K obj)" for obj
    unfolding doSync_def case_prod_beta by (intro emits_rules target emits_retry) simp
  have object: "emits trace ?P (syncObject K i obj)" for obj
    unfolding syncObject_def by (cases i) (use sync in \<open>simp_all add: emits_rules\<close>)
  have objects: "emits trace ?P (syncObjects H K config i)"
    by (cases i) (use secret in \<open>simp_all add: syncObjects_eq emits_rules\<close>)
  show ?thesis unfolding Sync_def touches_def by (intro emits_rules objects object)
qed

lemma touches_getDeployment: "touches {Reading, Owned} (getDeployment E K config)"
  unfolding getDeployment_def touches_def
  by (intro emits_rules touches_Sync [unfolded touches_def]) simp_all

section \<open>Findings\<close>

lemma touches_setAnalysisErrorStatus: "touches {Configuration} (setAnalysisErrorStatus K config err)"
  unfolding touches_def
  by (rule emits_I) (auto simp: setAnalysisErrorStatus_def Let_def on_error_def request_def succeed_def
      dest!: perform_trace split: if_splits prod.splits sum.splits outcome.splits)

lemma touches_BackstageLabel: "touches {Reading} (BackstageLabel L K spec)"
  unfolding touches_def
  by (rule emits_I) (auto simp: BackstageLabel_def dest!: perform_trace split: prod.splits sum.splits)

lemma touches_mapLoop: "touches {Reading} (mapLoop L K config backend backstage specs raw)"
proof (induction specs arbitrary: raw)
  case (Cons spec specs)
  show ?case unfolding touches_def
  proof (rule emits_I)
    fix w r w' assume run: "mapLoop L K config backend backstage (spec # specs) raw w = (r, w')"
    obtain label w1 where label: "(if backstage then BackstageLabel L K spec w else ([], w)) = (label, w1)"
      by (cases "if backstage then BackstageLabel L K spec w else ([], w)")
    have first: "\<exists>cs. trace w1 = trace w @ cs \<and> list_all (\<lambda>c. area_of c \<in> {Reading}) cs"
      using label touches_D [OF touches_BackstageLabel, of L K spec w label w1]
      by (cases backstage) auto
    from run label obtain raw' where "mapLoop L K config backend backstage specs raw' w1 = (r, w')"
      by (auto simp: Let_def split: prod.splits)
    from emits_append [where tr = trace, OF first touches_D [OF Cons.IH this]]
    show "\<exists>cs. trace w' = trace w @ cs \<and> list_all (\<lambda>c. area_of c \<in> {Reading}) cs" .
  qed
qed (auto simp: touches_def intro: emits_silent)

lemma touches_mapResults: "touches {Reading} (mapResults E K results config)"
  unfolding touches_def
proof (rule emits_I)
  fix w r w' assume run: "mapResults E K results config w = (r, w')"
  show "\<exists>cs. trace w' = trace w @ cs \<and> list_all (\<lambda>c. area_of c \<in> {Reading}) cs"
  proof (cases "w' = w")
    case False
    then have "\<exists>(ai :: AISpec) backstage raw. mapLoop (en_lib E) K config (ai_Backend ai) backstage results [] w = (raw, w')"
      using run by (simp add: mapResults_def MapResults_def split: option.splits outcome.splits prod.splits) blast+
    then show ?thesis using touches_D [OF touches_mapLoop] by blast
  qed (auto intro: exI [of _ "[]"])
qed

lemma touches_CreateOrUpdateResult: "touches {Reading, Findings} (CreateOrUpdateResult digest K res)"
proof -
  let ?P = "\<lambda>c. area_of c \<in> {Reading, Findings}"
  have attempt: "emits (\<lambda>s. trace (snd s)) ?P (attemptResult K newHash)" for newHash
    by (rule emits_I) (auto simp: attemptResult_def Let_def dest!: perform_trace
        split: prod.splits sum.splits if_splits)
  show ?thesis unfolding touches_def
  proof (rule emits_I)
    fix w r w' assume "CreateOrUpdateResult digest K res w = (r, w')"
    then obtain res' where "retryOnConflict retrySteps (attemptResult K (hashResultContent digest (res_Spec res))) (res, w)
        = (r, res', w')" by (auto simp: CreateOrUpdateResult_def split: prod.splits)
    from emits_D [OF emits_retry [OF attempt] this]
    show "\<exists>cs. trace w' = trace w @ cs \<and> list_all ?P cs" by simp
  qed
qed

lemma touches_request_result:
  "touches {Reading, Findings} (request (CreateOrUpdateResult digest K res))"
  "touches {Reading, Findings} (request (ListResults K labels))"
  "touches {Reading, Findings} (request (DeleteResult K res))"
  unfolding touches_def
  by (rule emits_request [OF touches_CreateOrUpdateResult [unfolded touches_def]]) (intro emits_rules, simp)+

section \<open>Reports and mutations\<close>

lemma touches_EmitIfNotHistorical: "touches {Reading} (EmitIfNotHistorical K config)"
  unfolding EmitIfNotHistorical_def touches_def by (intro emits_rules) simp

lemma touches_initSinkType: "touches {Reading} (initSinkType K key config)"
  unfolding initSinkType_def touches_def by (intro emits_rules) simp_all

lemma touches_Emit: "touches {Reporting} (Emit H K sink r)"
  unfolding touches_def by (rule emits_mono [OF any_sink.emit_only_posts]) auto

lemma touches_processResult:
  "touches {Reading, Findings, Reporting} (processResult K config (map_option (Emit H K) sink) result)"
  using touches_mono [OF touches_Emit, of "{Reading, Findings, Reporting}" H K] unfolding touches_def
  by (cases sink) (auto simp: processResult_def intro!: emits_rules)

lemma touches_processLatestResults:
  "touches {Reading, Findings, Reporting} (processLatestResults K config (map_option (Emit H K) sink) rs)"
  unfolding processLatestResults_def touches_def
  by (intro emits_rules touches_processResult [unfolded touches_def])

lemma touches_getResult: "touches {Reading} (getResult K result)"
  unfolding getResult_def touches_def by (intro emits_rules) simp

lemma get_area: "(case c of CallGet key object \<Rightarrow> True | _ \<Rightarrow> False) \<Longrightarrow> area_of c = Reading"
  by (cases c) simp_all

lemma touches_eligibleResources: "touches {Reading} (eligibleResources E K config latest)"
  unfolding touches_def
proof (rule emits_I)
  fix w r w' assume "eligibleResources E K config latest w = (r, w')"
  then obtain x where "ResultsToEligibleResources (en_lib E) K (en_reference E) (Some config) latest w = (x, w')"
    by (auto simp: eligibleResources_def split: prod.splits)
  from ResultsToEligibleResources_sound [OF this]
  show "\<exists>cs. trace w' = trace w @ cs \<and> list_all (\<lambda>c. area_of c \<in> {Reading}) cs"
    using get_area by (fastforce simp: only_gets_def elim!: list.pred_mono_strong)
qed

lemma touches_createMutation: "touches {Reading, Mutations} (createMutation E K config resource)"
  unfolding createMutation_def Let_def touches_def by (intro emits_rules) simp_all

end
