(* ===== verification/Connections.thy ===== *)
theory Connections
  imports Call_Areas
begin

text \<open>
  Invariants of the K8sGPT controller across reconciliations.  The locale \<open>controller_invariant\<close>
  holds what an invariant must bear, and proves that then a whole reconciliation maintains it.  It
  is interpreted four times: for the connections to the K8sGPT servers, for the circuit breaker of
  the AI backend, for what the controller keeps away from, and for the calls on metrics.
\<close>

section \<open>Rules for steps\<close>

lemma maintains_or_return_got:
  assumes "\<And>s r s'. I s \<Longrightarrow> m s = (r, s') \<Longrightarrow> J s' \<and> (\<forall>x. r = Done (Inr x) \<longrightarrow> I' x s')"
    and "\<And>x s r s'. I' x s \<Longrightarrow> rest x s = (r, s') \<Longrightarrow> J s'"
    and "I s" and "or_return m onerr rest s = (out, s')" and "\<And>err. maintains J (onerr err)"
  shows "J s'"
proof -
  obtain r s1 where m: "m s = (r, s1)" by (cases "m s")
  note got = assms(1) [OF assms(3) m]
  show ?thesis
  proof (cases "\<exists>x. r = Done (Inr x)")
    case True
    then obtain x where r: "r = Done (Inr x)" by blast
    with assms(4) m have "rest x s1 = (out, s')" by (simp add: or_return_def)
    with got r show ?thesis using assms(2) by blast
  next
    case False
    with assms(4) m have "s' = s1 \<or> (\<exists>err. onerr err s1 = (out, s'))"
      by (auto simp: or_return_def split: outcome.splits sum.splits)
    with got maintains_D [OF assms(5)] show ?thesis by blast
  qed
qed

lemma maintains_or_return [maintains_rules]:
  assumes "maintains I m" and "\<And>err. maintains I (onerr err)" and "\<And>x. maintains I (rest x)"
  shows "maintains I (or_return m onerr rest)"
proof (rule maintains_I)
  fix s out s' assume run: "I s" "or_return m onerr rest s = (out, s')"
  show "I s'"
    by (rule maintains_or_return_got [where I = I and J = I and I' = "\<lambda>_. I" and s = s, OF _ _ run assms(2)])
      (use assms in \<open>blast dest: maintains_D\<close>)+
qed

lemma maintains_each_or_return [maintains_rules]:
  assumes "\<And>x. maintains I (f x)" and "\<And>x err. maintains I (onerr x err)" and "maintains I rest"
  shows "maintains I (each_or_return f onerr xs rest)"
  by (induction xs) (auto intro!: maintains_rules assms)

section \<open>What an invariant must bear\<close>

text \<open>
  The calls on metrics that the controller makes with the builder of \<^verbatim>\<open>InitializeMetrics\<close>: each fits its
  vector, and the counter of the calls of the AI backend is never increased.
\<close>

definition expected_metric :: "metric_call \<Rightarrow> bool" where
  "expected_metric c \<longleftrightarrow> fits (fst InitializeMetrics) c \<and> metric_name c \<noteq> ''k8sgpt_number_of_backend_ai_calls''"

lemma expected_metrics:
  "expected_metric (IncCounter ''k8sgpt_reconcile_error_count'' [name])"
  "expected_metric (SetGauge ''k8sgpt_number_of_results'' [namespace, name] v)"
  "expected_metric (SetGauge ''k8sgpt_mutations_count'' [a, name] v)"
  "expected_metric (ResetGauge ''k8sgpt_number_of_results_by_type'')"
  "expected_metric (IncGauge ''k8sgpt_number_of_results_by_type'' (resultLabelValues config spec))"
  "expected_metric (DescGauge ''k8sgpt_number_of_results_by_type'' (resultLabelValues config spec))"
  "expected_metric (IncCounter ''k8sgpt_number_of_failed_backend_ai_calls'' [backend, deployment, namespace, name])"
  using metrics_found by (simp_all add: expected_metric_def resultLabelValues_def del: fits.simps)

text \<open>
  The index of the invariant is the set of connections that are known to be held.  A reconciliation
  starts with none; after \<^verbatim>\<open>clientFor\<close> it is the one connection that every later call goes over.
\<close>

definition quiet_areas :: "area set" where
  "quiet_areas = {Reading, Owned, Configuration, Findings, Mutations, Reporting}"

locale controller_invariant =
  fixes K :: "'s kube" and I :: "nat set \<Rightarrow> 's ksys \<Rightarrow> bool"
  assumes quiet: "I C s \<Longrightarrow> trace w = trace (cs_world s) @ cs \<Longrightarrow> list_all (\<lambda>c. area_of c \<in> quiet_areas) cs
      \<Longrightarrow> I C (s\<lparr>cs_world := w\<rparr>)"
    and over_held: "I C s \<Longrightarrow> conn \<in> C \<Longrightarrow> trace w = trace (cs_world s) @ cs
      \<Longrightarrow> list_all (over conn {Server, Signalling}) cs \<Longrightarrow> I C (s\<lparr>cs_world := w\<rparr>)"
    and analysed: "I C s \<Longrightarrow> conn \<in> C \<Longrightarrow> trace w = trace (cs_world s) @ cs
      \<Longrightarrow> list_all (\<lambda>c. \<exists>req. c = CallAnalyze conn req \<and> (rq_Explain req \<longrightarrow> allowBackendAIRequest s)) cs
      \<Longrightarrow> I C (s\<lparr>cs_world := w\<rparr>)"
    and connected: "I {} s \<Longrightarrow> clientFor K config address s = (r, s') \<Longrightarrow>
      I {} s' \<and> (\<forall>conn. r = Done (Inr conn) \<longrightarrow> I {conn} s')"
    and released: "maintains (I {}) (closeClientFor K config)"
    and forget: "I C s \<Longrightarrow> I {} s"
    and counters: "I C s \<Longrightarrow> cs_world s' = cs_world s \<Longrightarrow> kclients s' = kclients s \<Longrightarrow>
      metricsBuilder s' = metricsBuilder s \<Longrightarrow> metric_calls s' = metric_calls s \<Longrightarrow>
      (allowBackendAIRequest s' \<longrightarrow> allowBackendAIRequest s) \<Longrightarrow> I C s'"
    and counted: "I C s \<Longrightarrow> (metricsBuilder s = fst InitializeMetrics \<longrightarrow> expected_metric call) \<Longrightarrow>
      I C (s\<lparr>metric_calls := metric_calls s @ [call]\<rparr>)"
begin

lemma if_counted:
  assumes "expected_metric call"
  shows "maintains (I C) (if_metric get call)" and "maintains (I C) (must_metric get call)"
  by (rule maintains_I, use counted assms in \<open>auto simp: if_metric_def must_metric_def split: option.splits\<close>)+

lemma finishing: "maintains (I C) (FinishReconcile H err imm name config)"
proof (rule maintains_I)
  fix s out s' assume I: "I C s" and run: "FinishReconcile H err imm name config s = (out, s')"
  then have "s' = s \<or> s' = snd (if_metric GetCounterVec (IncCounter ''k8sgpt_reconcile_error_count'' [name]) s)"
    by (auto simp: FinishReconcile_def split: option.splits)
  with I maintains_D [OF if_counted(1) [OF expected_metrics(1)] I] show "I C s'"
    by (metis surjective_pairing)
qed

lemma quietly: "touches A f \<Longrightarrow> A \<subseteq> quiet_areas \<Longrightarrow> maintains (I C) (on_world f)"
proof (rule maintains_I)
  fix s r s' assume "touches A f" "A \<subseteq> quiet_areas" "I C s" and run: "on_world f s = (r, s')"
  from on_world_parts [OF run] obtain w where w: "f (cs_world s) = (r, w)" "s' = s\<lparr>cs_world := w\<rparr>" by blast
  from touches_D [OF touches_mono [OF \<open>touches A f\<close> \<open>A \<subseteq> quiet_areas\<close>] w(1)] obtain cs where
    "trace w = trace (cs_world s) @ cs" "list_all (\<lambda>c. area_of c \<in> quiet_areas) cs" by blast
  with w(2) \<open>I C s\<close> show "I C s'" using quiet by blast
qed

lemma served: "emits trace (over conn {Server}) f \<Longrightarrow> conn \<in> C \<Longrightarrow> maintains (I C) (on_world f)"
proof (rule maintains_I)
  fix s r s' assume f: "emits trace (over conn {Server}) f" and "conn \<in> C" "I C s" and run: "on_world f s = (r, s')"
  from on_world_parts [OF run] obtain w where w: "f (cs_world s) = (r, w)" "s' = s\<lparr>cs_world := w\<rparr>" by blast
  from emits_mono [OF f, of "over conn {Server, Signalling}"] have "emits trace (over conn {Server, Signalling}) f"
    by (auto simp: over_def)
  from emits_D [OF this w(1)] w(2) \<open>I C s\<close> \<open>conn \<in> C\<close> show "I C s'" using over_held by blast
qed

lemma maintains_request: "maintains J m \<Longrightarrow> maintains J (request m)"
  by (auto simp: maintains_def request_def split: prod.splits)

lemma perform_quietly: "(\<And>r. area_of (c r) \<in> quiet_areas) \<Longrightarrow> maintains (I C) (on_world (perform f c))"
  by (rule quietly [of quiet_areas]) (simp_all add: touches_def emits_perform)

lemma signalled: "conn \<in> C \<Longrightarrow> maintains (I C) (sendSignal conn config)"
proof -
  assume conn: "conn \<in> C"
  have "maintains (I C) (\<lambda>s. case on_world (Send_signal conn backend config) s of (_, s) \<Rightarrow> (Done (Inr ()), s))"
    for backend :: string
  proof (rule maintains_I)
    fix s :: "'s ksys" and r s'
    assume "I C s" "(case on_world (Send_signal conn backend config) s of (_, s) \<Rightarrow> (Done (Inr ()), s)) = (r, s')"
    then show "I C s'"
      using over_held [OF \<open>I C s\<close> conn, where cs = "[SendSignal conn backend config]"]
      by (auto simp: on_world_def perform_def over_def)
  qed
  then show ?thesis unfolding sendSignal_def by (intro maintains_rules)
qed

lemma config_updates:
  "maintains (I C) (updateConfig K config)" "maintains (I C) (configureBackoff K config)"
  "maintains (I C) (clearAnalysisError K config)" "maintains (I C) (recordAnalysisError K config err)"
  unfolding updateConfig_def configureBackoff_def clearAnalysisError_def recordAnalysisError_def
  by (intro maintains_rules maintains_request perform_quietly
      quietly [OF touches_setAnalysisErrorStatus]; simp add: quiet_areas_def)+

lemma reset_counters:
  "maintains (I C) resetRetries" "maintains (I C) (setk8sgptNumberOfResults config results)"
  "maintains (I C) (handleAIFailureBackoff ai)" "maintains (I C) (incK8sgptNumberOfFailedBackendAICalls inst ai)"
proof -
  show "maintains (I C) resetRetries"
    by (rule maintains_I, erule counters, auto simp: resetRetries_def)
  show "maintains (I C) (setk8sgptNumberOfResults config results)"
    unfolding setk8sgptNumberOfResults_def case_prod_beta by (intro maintains_rules if_counted expected_metrics)
  show "maintains (I C) (incK8sgptNumberOfFailedBackendAICalls inst ai)"
    unfolding incK8sgptNumberOfFailedBackendAICalls_def by (intro maintains_rules if_counted expected_metrics)
  have "maintains (I C) (\<lambda>s. if bo_Enabled backOff then
         (let s = (if analysisRetryCount s > bo_MaxRetries backOff
                   then s\<lparr>allowBackendAIRequest := False, analysisRetryCount := 0\<rparr> else s)
          in (Done (Inr ()), s\<lparr>analysisRetryCount := analysisRetryCount s + 1\<rparr>))
       else (Done (Inr ()), s))" for backOff :: BackOff
    by (rule maintains_I, erule counters) (auto simp: Let_def split: if_splits)
  then show "maintains (I C) (handleAIFailureBackoff ai)"
    unfolding handleAIFailureBackoff_def by (intro maintains_rules)
qed

lemma stored_results:
  "maintains (I C) (cleanUpStaleResults K config rawResults)" "maintains (I C) (processRawResults E K config rawResults)"
  unfolding cleanUpStaleResults_def processRawResults_def case_prod_beta
  by (intro maintains_rules if_counted expected_metrics quietly [OF touches_request_result(1)]
      quietly [OF touches_request_result(2)] quietly [OF touches_request_result(3)]; simp add: quiet_areas_def)+

text \<open>The steps, from the last to the first.\<close>

lemma remediation: "maintains (I C) (calculateRemediationStep E K inst)"
  unfolding calculateRemediationStep_def Let_def
  by (intro maintains_rules finishing if_counted expected_metrics quietly [OF touches_EmitIfNotHistorical]
      quietly [OF touches_eligibleResources] quietly [OF touches_getResult] quietly [OF touches_createMutation];
    simp add: quiet_areas_def)

lemma status: "(\<And>inst. maintains (I C) (next inst)) \<Longrightarrow> maintains (I C) (ResultStatusStep E K next inst)"
  unfolding ResultStatusStep_def Let_def
  by (intro maintains_rules finishing quietly [OF touches_EmitIfNotHistorical] quietly [OF touches_initSinkType]
      quietly [OF touches_processLatestResults]; simp add: quiet_areas_def)

lemma analysis:
  assumes "\<And>inst. maintains (I C) (next inst)" and "set_option (kclient inst) \<subseteq> C"
  shows "maintains (I C) (AnalysisStep E K next inst)"
proof (rule maintains_I)
  fix s out s' assume I: "I C s" and run: "AnalysisStep E K next inst s = (out, s')"
  have failed: "maintains (I C) (analysisFailed E K inst err)" for inst err
    unfolding analysisFailed_def Let_def by (intro maintains_rules finishing reset_counters config_updates)
  have succeeded: "maintains (I C) (analysisSucceeded E K next inst results)" for results
    unfolding analysisSucceeded_def Let_def
    by (intro maintains_rules finishing reset_counters stored_results config_updates assms(1)
        quietly [OF touches_mapResults]; simp add: quiet_areas_def)
  show "I C s'"
  proof (cases "kclient inst = None \<or> k8sgptDeployment inst = None")
    case True
    with run I show ?thesis by (auto simp: AnalysisStep_def action_defs split: option.splits)
  next
    case False
    then obtain conn d where Some: "kclient inst = Some conn" "k8sgptDeployment inst = Some d" by auto
    let ?call = "on_world (ProcessAnalysis K conn (K8sgptConfig inst) (allowBackendAIRequest s))"
    obtain r s1 where call: "?call s = (r, s1)" by (cases "?call s")
    from on_world_parts [OF call] obtain w where
      w: "ProcessAnalysis K conn (K8sgptConfig inst) (allowBackendAIRequest s) (cs_world s) = (r, w)"
      "s1 = s\<lparr>cs_world := w\<rparr>" by blast
    from emits_D [OF over_ProcessAnalysis w(1)] w(2) I Some assms(2) analysed have "I C s1" by auto
    moreover from run call Some have "out = Panic \<and> s' = s1 \<or>
        (\<exists>err. analysisFailed E K inst err s1 = (out, s')) \<or>
        (\<exists>results. analysisSucceeded E K next inst results s1 = (out, s'))"
      by (auto simp: AnalysisStep_def split: outcome.splits sum.splits)
    ultimately show ?thesis using maintains_D [OF failed] maintains_D [OF succeeded] by blast
  qed
qed

lemma connect:
  assumes next_inst: "\<And>inst C. set_option (kclient inst) \<subseteq> C \<Longrightarrow> maintains (I C) (next inst)"
  shows "maintains (I {}) (connectServer E K next inst)"
proof -
  let ?config = "K8sgptConfig inst" and ?H = "en_host E"
  have rest: "maintains (I {conn}) (or_return (sendSignal conn ?config) (failed ?H ?config) (\<lambda>_.
      or_return (on_world (addRemoteCache K conn ?config)) (failed ?H ?config) (\<lambda>_.
      or_return (on_world (addIntegrations K conn ?config)) (failed ?H ?config) (\<lambda>_.
      next (inst\<lparr>kclient := Some conn\<rparr>)))))" for conn
    by (intro maintains_rules finishing signalled served [OF over_addRemoteCache] served [OF over_addIntegrations] next_inst) simp_all
  have dialled: "maintains (I {}) (or_return (clientFor K ?config address) (failed ?H ?config) (\<lambda>conn.
      or_return (sendSignal conn ?config) (failed ?H ?config) (\<lambda>_.
      or_return (on_world (addRemoteCache K conn ?config)) (failed ?H ?config) (\<lambda>_.
      or_return (on_world (addIntegrations K conn ?config)) (failed ?H ?config) (\<lambda>_.
      next (inst\<lparr>kclient := Some conn\<rparr>))))))" for address
  proof (rule maintains_I)
    fix s out s'
    assume I: "I {} s" and run: "or_return (clientFor K ?config address) (failed ?H ?config) (\<lambda>conn.
      or_return (sendSignal conn ?config) (failed ?H ?config) (\<lambda>_.
      or_return (on_world (addRemoteCache K conn ?config)) (failed ?H ?config) (\<lambda>_.
      or_return (on_world (addIntegrations K conn ?config)) (failed ?H ?config) (\<lambda>_.
      next (inst\<lparr>kclient := Some conn\<rparr>))))) s = (out, s')"
    show "I {} s'"
      by (rule maintains_or_return_got [where I = "I {}" and J = "I {}" and I' = "\<lambda>conn. I {conn}", OF _ _ I run finishing])
        (use connected in blast, use maintains_D [OF rest] forget in blast)
  qed
  show ?thesis unfolding connectServer_def Let_def
    by (intro maintains_rules finishing dialled quietly [OF touches_GenerateAddress]) (simp add: quiet_areas_def)
qed

lemma before_analysis:
  assumes "\<And>inst C. set_option (kclient inst) \<subseteq> C \<Longrightarrow> maintains (I C) (next inst)"
  shows "maintains (I {}) (PreAnalysisStep E K next inst)"
  unfolding PreAnalysisStep_def Let_def updateDeploymentImage_def case_prod_beta
  by (intro maintains_rules finishing maintains_request perform_quietly connect assms) (simp_all add: quiet_areas_def)

lemma configure:
  assumes "\<And>inst. maintains (I {}) (next inst)"
  shows "maintains (I {}) (ConfigureStep E K next inst)"
  unfolding ConfigureStep_def Let_def
  by (intro maintains_rules finishing config_updates quietly [OF touches_getDeployment] assms) (simp add: quiet_areas_def)

lemma finalizer:
  assumes "\<And>inst. maintains (I {}) (next inst)"
  shows "maintains (I {}) (FinalizerStep E K next inst)"
  unfolding FinalizerStep_def Let_def destroyServer_def
  by (intro maintains_rules finishing config_updates released quietly [OF touches_Sync] assms) (simp add: quiet_areas_def)

lemma init:
  assumes "\<And>inst. maintains (I {}) (next inst)"
  shows "maintains (I {}) (InitStep K req next)"
proof (rule maintains_I)
  fix s out s' assume I: "I {} s" and run: "InitStep K req next s = (out, s')"
  obtain r s1 where get: "on_world (GetK8sGPT K req) s = (r, s1)" by (cases "on_world (GetK8sGPT K req) s")
  have "maintains (I {}) (on_world (GetK8sGPT K req))" by (rule perform_quietly) (simp add: quiet_areas_def)
  from maintains_D [OF this I get] have "I {} s1" .
  moreover from run get have "s' = s1 \<or> (\<exists>inst. next inst s1 = (out, s'))"
    by (auto simp: InitStep_def split: sum.splits)
  ultimately show "I {} s'" using maintains_D [OF assms] by blast
qed

theorem reconciliation: "maintains (I {}) (ReconcileK8sGPT E K req)"
  unfolding ReconcileK8sGPT_def
  by (intro init finalizer configure before_analysis analysis status remediation)

end

section \<open>Connections\<close>

text \<open>A connection is open after some calls if it was dialled more often than it was closed.\<close>

definition is_open :: "call list \<Rightarrow> nat \<Rightarrow> bool" where
  "is_open cs conn \<longleftrightarrow> count_list (closings cs) conn < count_list (dialled cs) conn"

text \<open>Every call satisfies \<open>P\<close> of the calls before it and itself.\<close>

definition always :: "(call list \<Rightarrow> call \<Rightarrow> bool) \<Rightarrow> call list \<Rightarrow> bool" where
  "always P cs \<longleftrightarrow> list_all (\<lambda>i. P (take i cs) (cs ! i)) [0..<length cs]"

lemma always_Nil [simp]: "always P []"
  by (simp add: always_def)

lemma always_snoc [simp]: "always P (cs @ [c]) \<longleftrightarrow> always P cs \<and> P cs c"
proof -
  have "list_all (\<lambda>i. P (take i (cs @ [c])) ((cs @ [c]) ! i)) [0..<length cs] \<longleftrightarrow> always P cs"
    unfolding always_def by (rule list.pred_cong) (auto simp: nth_append)
  then show ?thesis by (simp add: always_def [of P "cs @ [c]"])
qed

lemma always_append: "always P t \<Longrightarrow> list_all (\<lambda>c. \<forall>pre. P pre c) cs \<Longrightarrow> always P (t @ cs)"
proof (induction cs rule: rev_induct)
  case (snoc c cs)
  then show ?case using always_snoc [of P "t @ cs" c] by simp
qed simp

text \<open>Every call that goes over a connection goes over one that is open at that time.\<close>

definition over_open :: "call list \<Rightarrow> call \<Rightarrow> bool" where
  "over_open pre c \<longleftrightarrow> (case uses c of None \<Rightarrow> True | Some conn \<Rightarrow> is_open pre conn)"

abbreviation orderly :: "call list \<Rightarrow> bool" where
  "orderly \<equiv> always over_open"

lemma is_open_quiet: "no_connection c \<Longrightarrow> is_open (cs @ [c]) conn \<longleftrightarrow> is_open cs conn"
  by (simp add: is_open_def no_connection_def dialled_append closings_append)

text \<open>Calls that change no connection, over connections that are open.\<close>

lemma orderly_append:
  assumes "orderly t" and "list_all (\<lambda>c. no_connection c \<and> over_open t c) cs"
  shows "orderly (t @ cs) \<and> (\<forall>conn. is_open (t @ cs) conn \<longleftrightarrow> is_open t conn)"
  using assms(2)
proof (induction cs rule: rev_induct)
  case Nil
  with assms(1) show ?case by simp
next
  case (snoc c cs)
  then have "orderly (t @ cs)" "\<forall>conn. is_open (t @ cs) conn \<longleftrightarrow> is_open t conn" "no_connection c" "over_open t c"
    by auto
  moreover from this have "over_open (t @ cs) c" by (auto simp: over_open_def split: option.splits)
  ultimately show ?case
    using always_snoc [of over_open "t @ cs" c] is_open_quiet [of c "t @ cs"] by simp
qed

lemma orderly_unused: "orderly t \<Longrightarrow> list_all (\<lambda>c. uses c = None) cs \<Longrightarrow> orderly (t @ cs)"
  by (rule always_append) (auto simp: over_open_def elim!: list.pred_mono_strong)

lemma held_open: "accounted s \<Longrightarrow> conn \<in> set (held s) \<Longrightarrow> is_open (trace (cs_world s)) conn"
proof -
  assume "accounted s" and conn: "conn \<in> set (held s)"
  then have "count (mset (dialled (trace (cs_world s)))) conn =
      count (mset (closings (trace (cs_world s)))) conn + count (mset (held s)) conn"
    by (simp add: accounted_def)
  moreover from conn have "0 < count (mset (held s)) conn" by (simp add: count_mset_gt_0)
  ultimately show ?thesis by (simp add: is_open_def count_mset)
qed

definition connections_sound :: "nat set \<Rightarrow> 's ksys \<Rightarrow> bool" where
  "connections_sound C s \<longleftrightarrow> accounted s \<and> orderly (trace (cs_world s)) \<and> C \<subseteq> set (held s)"

lemma connections_sound_call:
  assumes "connections_sound C s" and "trace w = trace (cs_world s) @ cs"
    and "list_all (\<lambda>c. no_connection c \<and> set_option (uses c) \<subseteq> C) cs"
  shows "connections_sound C (s\<lparr>cs_world := w\<rparr>)"
proof -
  have "list_all (\<lambda>c. no_connection c \<and> over_open (trace (cs_world s)) c) cs"
    using assms(3) by (rule list.pred_mono_strong)
      (use assms(1) held_open in \<open>auto simp: connections_sound_def over_open_def split: option.splits\<close>)
  with orderly_append assms(1,2) have "orderly (trace w)" by (auto simp: connections_sound_def)
  moreover have "dialled cs = []" "closings cs = []"
    using no_connection_calls [of cs] assms(3) by (auto simp: list_all_iff)
  ultimately show ?thesis using assms(1,2)
    by (simp add: connections_sound_def accounted_def held_def dialled_append closings_append)
qed

lemma connecting_drop: "emits (\<lambda>s. trace (cs_world s)) (\<lambda>c. area_of c = Connecting) (dropClient K key old)"
  by (rule emits_I) (auto simp: dropClient_def on_world_def split: prod.splits dest!: perform_trace)

lemma connecting_closeClientFor:
  "emits (\<lambda>s. trace (cs_world s)) (\<lambda>c. area_of c = Connecting) (closeClientFor K config)"
proof (rule emits_I)
  fix s r s' assume run: "closeClientFor K config s = (r, s')"
  then consider "s' = s" | old where "dropClient K (key_of_config config) old s = (r, s')"
    by (auto simp: closeClientFor_def Let_def split: option.splits)
  then show "\<exists>cs. trace (cs_world s') = trace (cs_world s) @ cs \<and> list_all (\<lambda>c. area_of c = Connecting) cs"
    by cases (auto dest: emits_D [OF connecting_drop])
qed

lemma connecting_clientFor:
  "emits (\<lambda>s. trace (cs_world s)) (\<lambda>c. area_of c = Connecting) (clientFor K config address)"
proof -
  have new: "emits trace (\<lambda>c. area_of c = Connecting) (NewClient K address)"
    unfolding NewClient_def by (intro emits_rules) simp
  have add: "emits (\<lambda>s. trace (cs_world s)) (\<lambda>c. area_of c = Connecting) (dialClient K key address)" for key
    unfolding dialClient_def by (intro emits_rules emits_on_world new) (rule emits_silent, auto)
  show ?thesis
  proof (rule emits_I)
    fix s r s' assume run: "clientFor K config address s = (r, s')"
    then consider "s' = s" | "dialClient K (key_of_config config) address s = (r, s')"
      | old where "and_then (dropClient K (key_of_config config) old) (\<lambda>_. dialClient K (key_of_config config) address) s = (r, s')"
      by (auto simp: clientFor_def Let_def split: option.splits if_splits)
    then show "\<exists>cs. trace (cs_world s') = trace (cs_world s) @ cs \<and> list_all (\<lambda>c. area_of c = Connecting) cs"
      by cases (auto dest: emits_D [OF add] emits_D [OF emits_and_then [OF connecting_drop add]])
  qed
qed

interpretation connections: controller_invariant K connections_sound
proof unfold_locales
  fix C :: "nat set" and s :: "'a ksys" and w :: "'a world" and cs
  assume s: "connections_sound C s" and w: "trace w = trace (cs_world s) @ cs"
  show "connections_sound C (s\<lparr>cs_world := w\<rparr>)" if "list_all (\<lambda>c. area_of c \<in> quiet_areas) cs"
    by (rule connections_sound_call [OF s w], rule list.pred_mono_strong [OF that])
      (auto simp: quiet_areas_def connecting_area uses_area [THEN iffD2])
  show "connections_sound C (s\<lparr>cs_world := w\<rparr>)" if "conn \<in> C" "list_all (over conn {Server, Signalling}) cs" for conn
    by (rule connections_sound_call [OF s w], rule list.pred_mono_strong [OF that(2)])
      (use that(1) in \<open>auto simp: over_def connecting_area\<close>)
  show "connections_sound C (s\<lparr>cs_world := w\<rparr>)"
    if "conn \<in> C" "list_all (\<lambda>c. \<exists>req. c = CallAnalyze conn req \<and> (rq_Explain req \<longrightarrow> allowBackendAIRequest s)) cs" for conn
    by (rule connections_sound_call [OF s w], rule list.pred_mono_strong [OF that(2)])
      (use that(1) in \<open>auto simp: connecting_area\<close>)
next
  fix s s' :: "'a ksys" and config address r
  assume s: "connections_sound {} s" and run: "clientFor K config address s = (r, s')"
  from emits_D [OF emits_mono [OF connecting_clientFor, of "\<lambda>c. uses c = None"] run] s
  have "orderly (trace (cs_world s'))" by (auto simp: connections_sound_def orderly_unused uses_area)
  moreover from clientFor_run [OF _ run] s have "accounted s'" by (simp add: connections_sound_def)
  moreover have "conn \<in> set (held s')" if "r = Done (Inr conn)" for conn
  proof -
    from clientFor_run [OF _ run] s that
    have "map_of (kclients s') (key_of_config config) = Some \<lparr>cc_address = address, cc_client = conn\<rparr>"
      by (simp add: connections_sound_def)
    from map_of_SomeD [OF this] show ?thesis by (force simp: held_def)
  qed
  ultimately show "connections_sound {} s' \<and> (\<forall>conn. r = Done (Inr conn) \<longrightarrow> connections_sound {conn} s')"
    by (simp add: connections_sound_def)
next
  fix config
  show "maintains (connections_sound {} :: 'a ksys \<Rightarrow> bool) (closeClientFor K config)"
  proof (rule maintains_I)
    fix s r and s' :: "'a ksys" assume s: "connections_sound {} s" and run: "closeClientFor K config s = (r, s')"
    from emits_D [OF emits_mono [OF connecting_closeClientFor, of "\<lambda>c. uses c = None"] run] s
    have "orderly (trace (cs_world s'))" by (auto simp: connections_sound_def orderly_unused uses_area)
    with s maintains_D [OF maintains_closeClientFor _ run] show "connections_sound {} s'"
      by (simp add: connections_sound_def)
  qed
qed (auto simp: connections_sound_def accounted_def held_def)

section \<open>Invariants of the calls\<close>

text \<open>The state, and the calls made since the trace was \<open>t\<close>.\<close>

definition calls_since :: "call list \<Rightarrow> (bool \<Rightarrow> bool) \<Rightarrow> (call \<Rightarrow> bool) \<Rightarrow> nat set \<Rightarrow> 's ksys \<Rightarrow> bool" where
  "calls_since t G P C s \<longleftrightarrow>
     G (allowBackendAIRequest s) \<and> (\<exists>cs. trace (cs_world s) = t @ cs \<and> list_all P cs)"

lemma calls_since_more:
  assumes "calls_since t G P C s" and "trace (cs_world s') = trace (cs_world s) @ cs" and "list_all P cs"
    and "G (allowBackendAIRequest s')"
  shows "calls_since t G P D s'"
proof -
  from assms(1) obtain ds where "trace (cs_world s) = t @ ds" "list_all P ds" by (auto simp: calls_since_def)
  with assms show ?thesis by (auto simp: calls_since_def intro!: exI [of _ "ds @ cs"])
qed

lemma keeps_breaker:
  "clientFor K config address s = (r, s') \<Longrightarrow> allowBackendAIRequest s' = allowBackendAIRequest s"
  "closeClientFor K config s = (r', s') \<Longrightarrow> allowBackendAIRequest s' = allowBackendAIRequest s"
  for s s' :: "'s ksys"
  by (auto simp: clientFor_def closeClientFor_def dropClient_def dialClient_def on_world_def and_then_def Let_def
      split: option.splits prod.splits outcome.splits sum.splits if_splits)

lemma calls_invariant:
  fixes K :: "'s kube"
  assumes other: "\<And>c. area_of c \<in> insert Connecting (insert Server (insert Signalling quiet_areas)) \<Longrightarrow> P c"
    and analyse: "\<And>conn req. G (rq_Explain req) \<Longrightarrow> P (CallAnalyze conn req)"
    and less: "\<And>a b. G a \<Longrightarrow> (b \<longrightarrow> a) \<Longrightarrow> G b"
  shows "controller_invariant K (calls_since t G P)"
proof unfold_locales
  fix C :: "nat set" and s :: "'s ksys" and w :: "'s world" and cs
  assume s: "calls_since t G P C s" and w: "trace w = trace (cs_world s) @ cs"
  from s have G: "G (allowBackendAIRequest s)" by (simp add: calls_since_def)
  have more: "calls_since t G P C (s\<lparr>cs_world := w\<rparr>)" if "list_all P cs"
    by (rule calls_since_more [OF s _ that]) (use w G in simp_all)
  show "calls_since t G P C (s\<lparr>cs_world := w\<rparr>)" if "list_all (\<lambda>c. area_of c \<in> quiet_areas) cs"
    by (rule more, rule list.pred_mono_strong [OF that]) (use other in blast)
  show "calls_since t G P C (s\<lparr>cs_world := w\<rparr>)" if "list_all (over conn {Server, Signalling}) cs" for conn
    by (rule more, rule list.pred_mono_strong [OF that]) (use other in \<open>auto simp: over_def\<close>)
  show "calls_since t G P C (s\<lparr>cs_world := w\<rparr>)"
    if "list_all (\<lambda>c. \<exists>req. c = CallAnalyze conn req \<and> (rq_Explain req \<longrightarrow> allowBackendAIRequest s)) cs" for conn
    by (rule more, rule list.pred_mono_strong [OF that]) (use analyse less G in blast)
next
  fix s s' :: "'s ksys" and config address r
  assume s: "calls_since t G P {} s" and run: "clientFor K config address s = (r, s')"
  from emits_D [OF emits_mono [OF connecting_clientFor, of P] run] other obtain cs where
    "trace (cs_world s') = trace (cs_world s) @ cs" "list_all P cs" by auto
  moreover from keeps_breaker(1) [OF run] s have "G (allowBackendAIRequest s')" by (simp add: calls_since_def)
  ultimately show "calls_since t G P {} s' \<and> (\<forall>conn. r = Done (Inr conn) \<longrightarrow> calls_since t G P {conn} s')"
    using calls_since_more [OF s] by blast
next
  fix config
  show "maintains (calls_since t G P {} :: 's ksys \<Rightarrow> bool) (closeClientFor K config)"
  proof (rule maintains_I)
    fix s r and s' :: "'s ksys" assume s: "calls_since t G P {} s" and run: "closeClientFor K config s = (r, s')"
    from emits_D [OF emits_mono [OF connecting_closeClientFor, of P] run] other obtain cs where
      "trace (cs_world s') = trace (cs_world s) @ cs" "list_all P cs" by auto
    moreover from keeps_breaker(2) [OF run] s have "G (allowBackendAIRequest s')" by (simp add: calls_since_def)
    ultimately show "calls_since t G P {} s'" using calls_since_more [OF s] by blast
  qed
qed (use less in \<open>auto simp: calls_since_def\<close>)

text \<open>The circuit breaker: while it is open, no analysis asks the AI backend to explain.\<close>

definition no_explanation :: "call \<Rightarrow> bool" where
  "no_explanation c = (case c of CallAnalyze conn req \<Rightarrow> \<not> rq_Explain req | _ \<Rightarrow> True)"

interpretation breaker: controller_invariant K "calls_since t Not no_explanation"
  by (rule calls_invariant) (auto simp: no_explanation_def quiet_areas_def split: call.splits)

text \<open>What the controller keeps away from: the objects it analyses, and the mutations once created.\<close>

interpretation aloof: controller_invariant K "calls_since t (\<lambda>_. True) (\<lambda>c. area_of c \<noteq> Workloads)"
  by (rule calls_invariant) (auto simp: quiet_areas_def)

section \<open>Metrics\<close>

definition metrics_sound :: "nat set \<Rightarrow> 's ksys \<Rightarrow> bool" where
  "metrics_sound C s \<longleftrightarrow> metricsBuilder s = fst InitializeMetrics \<and> list_all expected_metric (metric_calls s)"

lemma keeps_metrics:
  "clientFor K config address s = (r, s') \<Longrightarrow> metricsBuilder s' = metricsBuilder s \<and> metric_calls s' = metric_calls s"
  "closeClientFor K config s = (r', s') \<Longrightarrow> metricsBuilder s' = metricsBuilder s \<and> metric_calls s' = metric_calls s"
  for s s' :: "'s ksys"
  by (auto simp: clientFor_def closeClientFor_def dropClient_def dialClient_def on_world_def and_then_def Let_def
      split: option.splits prod.splits outcome.splits sum.splits if_splits)

interpretation metrics: controller_invariant K metrics_sound
  by unfold_locales (auto simp: metrics_sound_def intro!: maintains_I dest: keeps_metrics)

lemma calls_since_start: "calls_since (trace (cs_world s)) G P {} s \<longleftrightarrow> G (allowBackendAIRequest s)"
  by (auto simp: calls_since_def)

lemma calls_since_end: "calls_since (trace (cs_world s)) G P C s' \<Longrightarrow> list_all P (calls (cs_world s) (cs_world s'))"
  by (auto simp: calls_since_def calls_eq)

end
