(* ===== verification/Controller_Samples.thy ===== *)
theory Controller_Samples
  imports Connections
begin

text \<open>
  A cluster that answers every call at once and never changes, for the witnesses about the K8sGPT
  controller: the resource is given, its Deployment is available and its server reports the given
  findings.
\<close>

definition still_kube :: "K8sGPT \<Rightarrow> Deployment go_result \<Rightarrow> ResultSpec list go_result \<Rightarrow> Result list \<Rightarrow> unit kube" where
  "still_kube config deployment findings results =
     \<lparr>kGet = (\<lambda>key object s. (not_found, s)), kPatch = (\<lambda>object ops dryRun s. (not_found, s)),
      kGetResult = (\<lambda>key s. (lookup_or_not_found (map (\<lambda>r. (key_of_meta (res_Meta r), r)) results) key, s)),
      kListResults = (\<lambda>labels s. (Inr results, s)),
      kCreateResult = (\<lambda>x s. (Inr x, s)), kUpdateResult = (\<lambda>x s. (Inr x, s)),
      kStatusUpdateResult = (\<lambda>x s. (Inr x, s)), kDeleteResult = (\<lambda>x s. (Inr (), s)),
      kGetMutation = (\<lambda>key s. (not_found, s)), kListMutations = (\<lambda>namespace s. (Inr [], s)),
      kCreateMutation = (\<lambda>x s. (Inr x, s)), kUpdateMutation = (\<lambda>x s. (Inr x, s)),
      kStatusUpdateMutation = (\<lambda>x s. (not_found, s)),
      kGetK8sGPT = (\<lambda>key s. (Inr config, s)), kUpdateK8sGPT = (\<lambda>x s. (Inr x, s)),
      kStatusUpdateK8sGPT = (\<lambda>x s. (Inr x, s)), kListK8sGPTs = (\<lambda>namespace secret s. (Inr [config], s)),
      kGetDeployment = (\<lambda>key s. (deployment, s)), kUpdateDeployment = (\<lambda>x s. (Inr x, s)),
      kGetService = (\<lambda>key s. (Inr ((GetService config)\<lparr>svc_Spec :=
        (svc_Spec (GetService config))\<lparr>ss_Ports := [80], ss_ClusterIP := ''10.0.0.7''\<rparr>\<rparr>), s)),
      kGetSecret = (\<lambda>key s. (Inr \<lparr>sec_Data = [(''key'', ''abc'')]\<rparr>, s)),
      kCreateOrPatch = (\<lambda>x expect s. (Inr (), s)), kDelete = (\<lambda>x s. (Inr (), s)),
      kQuery = (\<lambda>client backend query s. (not_found, s)), kProbe = (\<lambda>address s. (Inr (), s)),
      kDial = (\<lambda>address s. (Inr 0, s)), kClose = (\<lambda>conn s. (Inr (), s)),
      kAnalyze = (\<lambda>conn req s.
        (case findings of Inl err \<Rightarrow> Inl err
         | Inr xs \<Rightarrow> Inr \<lparr>re_Status = ''OK'', re_Results = Inr xs, re_Problems = int (length xs)\<rparr>, s)), kAddConfig = (\<lambda>conn req s. (Inr (), s)),
      kTrivyEnabled = (\<lambda>conn s. (Inr False, s)), kPost = (\<lambda>p s. (Inr (''200 OK'', 200), s)),
      kResourceFor = (\<lambda>kind s. (Inr \<lparr>gv_Group = '''', gv_Version = ''v1''\<rparr>, s)), kNow = (\<lambda>s. 7)\<rparr>"

text \<open>A Deployment with one available replica and the given image.\<close>

definition runningDeployment :: "string \<Rightarrow> Deployment" where
  "runningDeployment img =
     on_container (\<lambda>c. c\<lparr>c_Image := img\<rparr>) (baseDeployment Deployment.sampleK8sGPT Deployment.sampleAI ''k8sgpt'' '''')
       \<lparr>d_AvailableReplicas := 1\<rparr>"

definition sampleEnv :: env where
  "sampleEnv = \<lparr>en_host = sampleHost, en_lib = std_lib [] [],
     en_reference = (\<lambda>r. Inl (Errorf ''no reference'')), en_order = (\<lambda>xs. xs)\<rparr>"

definition freshController :: "unit ksys" where
  "freshController = \<lparr>cs_world = \<lparr>cluster = (), trace = []\<rparr>, kclients = [],
     metricsBuilder = fst InitializeMetrics, metric_calls = [], allowBackendAIRequest = True, analysisRetryCount = 0\<rparr>"

definition sampleRequest :: object_key where
  "sampleRequest = \<lparr>key_Namespace = ''ops'', key_Name = ''main''\<rparr>"

text \<open>One whole reconciliation, step by step: its state after each step.\<close>

definition stillSpec :: K8sGPTSpec where
  "stillSpec = (k_Spec Deployment.sampleK8sGPT)\<lparr>sp_AI := Some (Deployment.sampleAI\<lparr>ai_Secret := None\<rparr>)\<rparr>"

definition stillK8sGPT :: K8sGPT where
  "stillK8sGPT = AddFinalizer FinalizerName Deployment.sampleK8sGPT\<lparr>k_Spec := stillSpec\<rparr>"

definition stillDeployment :: Deployment where
  "stillDeployment = runningDeployment ''ghcr.io/k8sgpt-ai/k8sgpt:v0.4.1''"

definition sampleKube :: "unit kube" where
  "sampleKube = still_kube stillK8sGPT (Inr stillDeployment) (Inr [sampleSpec]) [sampleResult]"

definition stop :: "K8sGPTInstance \<Rightarrow> unit ksys step" where
  "stop inst = finish (\<lparr>Requeue = True, After = 0\<rparr>, None)"

definition inst0 :: K8sGPTInstance where
  "inst0 = \<lparr>in_req = sampleRequest, K8sgptConfig = stillK8sGPT, k8sgptDeployment = None, kclient = None, hasReadyReplicas = False\<rparr>"

definition inst1 :: K8sGPTInstance where
  "inst1 = inst0\<lparr>k8sgptDeployment := Some stillDeployment, hasReadyReplicas := True\<rparr>"

definition inst2 :: K8sGPTInstance where
  "inst2 = inst1\<lparr>kclient := Some 0\<rparr>"

definition state0 :: "unit ksys" where
  "state0 = snd (InitStep sampleKube sampleRequest stop freshController)"

definition state1 :: "unit ksys" where
  "state1 = snd (ConfigureStep sampleEnv sampleKube stop inst0 state0)"

definition state2 :: "unit ksys" where
  "state2 = snd (PreAnalysisStep sampleEnv sampleKube stop inst1 state1)"

definition state3 :: "unit ksys" where
  "state3 = snd (AnalysisStep sampleEnv sampleKube stop inst2 state2)"

lemma sample_steps:
  "InitStep sampleKube sampleRequest next freshController = next inst0 state0"
  "FinalizerStep sampleEnv sampleKube next inst0 state0 = next inst0 state0"
  "ConfigureStep sampleEnv sampleKube next inst0 state0 = next inst1 state1"
  "PreAnalysisStep sampleEnv sampleKube next inst1 state1 = next inst2 state2"
  "AnalysisStep sampleEnv sampleKube next inst2 state2 = next inst2 state3"
  by code_simp+

lemma sample_run:
  "ReconcileK8sGPT sampleEnv sampleKube sampleRequest freshController =
   ResultStatusStep sampleEnv sampleKube (calculateRemediationStep sampleEnv sampleKube) inst2 state3"
  unfolding ReconcileK8sGPT_def sample_steps by (rule refl)

end
