(* ===== verification/Step_Properties.thy ===== *)
theory Step_Properties
  imports Controller_Samples
begin

text \<open>
  What the single steps of the K8sGPT controller do: the image and the names they compute, the
  back-off, the gauge, the results they delete and report, and the mutations they create.
\<close>

section \<open>The image of the server\<close>

text \<open>
  The references of which the parser finds the repository and the version again: after the first
  slash of the repository there is no colon, and without a slash there is no colon at all and no
  slash in the version.
\<close>

definition plain_image :: "string \<Rightarrow> string \<Rightarrow> bool" where
  "plain_image r v \<longleftrightarrow>
     (if CHR ''/'' \<in> set r then CHR '':'' \<notin> set (dropWhile (\<lambda>c. c \<noteq> CHR ''/'') r)
      else CHR '':'' \<notin> set r \<and> CHR ''/'' \<notin> set v)"

lemma parse_with_slash:
  assumes "CHR ''/'' \<notin> set a"
  shows "parseImageURI (a @ ''/'' @ b) =
    (if CHR '':'' \<in> set b then (case Cut b CHR '':'' of (n, v, _) \<Rightarrow> (a @ ''/'' @ n, v)) else (a @ ''/'' @ b, ''''))"
  using assms by (simp add: parseImageURI_def Contains_char Cut_found)

lemma parse_without_slash:
  "CHR ''/'' \<notin> set u \<Longrightarrow>
   parseImageURI u = (if CHR '':'' \<in> set u then (case Cut u CHR '':'' of (n, v, _) \<Rightarrow> (n, v)) else (u, ''''))"
  by (simp add: parseImageURI_def Contains_char)

lemma Cut_colon: "c \<notin> set b \<Longrightarrow> Cut (b @ [c] @ v) c = (b, v, True)"
  using Cut_found [of c b v] by simp

lemma parse_printed:
  "parseImageURI (r @ '':'' @ v) = (r, v) \<longleftrightarrow> plain_image r v"
proof (cases "CHR ''/'' \<in> set r")
  case True
  then obtain a b where r: "r = a @ ''/'' @ b" and a: "CHR ''/'' \<notin> set a"
    using split_list_first [of "CHR ''/''" r] by auto
  have parse: "parseImageURI (r @ '':'' @ v) = (case Cut (b @ '':'' @ v) CHR '':'' of (n, v, _) \<Rightarrow> (a @ ''/'' @ n, v))"
    using parse_with_slash [OF a, of "b @ '':'' @ v"] r by simp
  have "dropWhile (\<lambda>c. c \<noteq> CHR ''/'') r = CHR ''/'' # b" unfolding r using a by (induction a) auto
  then have plain: "plain_image r v \<longleftrightarrow> CHR '':'' \<notin> set b" using True by (simp add: plain_image_def)
  show ?thesis
  proof (cases "CHR '':'' \<in> set b")
    case True
    then obtain b1 b2 where b: "b = b1 @ '':'' @ b2" and "CHR '':'' \<notin> set b1"
      using split_list_first [of "CHR '':''" b] by auto
    with Cut_colon [of "CHR '':''" b1 "b2 @ '':'' @ v"] parse plain r show ?thesis by simp
  next
    case False
    with Cut_colon [of "CHR '':''" b v] parse plain r show ?thesis by simp
  qed
next
  case r: False
  show ?thesis
  proof (cases "CHR ''/'' \<in> set v")
    case True
    then obtain v1 v2 where v: "v = v1 @ ''/'' @ v2" and v1: "CHR ''/'' \<notin> set v1"
      using split_list_first [of "CHR ''/''" v] by auto
    have "\<exists>n x. parseImageURI (r @ '':'' @ v) = ((r @ '':'' @ v1) @ ''/'' @ n, x)"
      using parse_with_slash [of "r @ '':'' @ v1" v2] r v1 v
      by (cases "Cut v2 CHR '':''") (auto split: if_splits)
    with True r show ?thesis by (auto simp: plain_image_def)
  next
    case v: False
    have parse: "parseImageURI (r @ '':'' @ v) = (case Cut (r @ '':'' @ v) CHR '':'' of (n, v, _) \<Rightarrow> (n, v))"
      using parse_without_slash [of "r @ '':'' @ v"] r v by simp
    show ?thesis
    proof (cases "CHR '':'' \<in> set r")
      case True
      then obtain r1 r2 where "r = r1 @ '':'' @ r2" "CHR '':'' \<notin> set r1"
        using split_list_first [of "CHR '':''" r] by auto
      with Cut_colon [of "CHR '':''" r1 "r2 @ '':'' @ v"] parse r v show ?thesis by (simp add: plain_image_def)
    next
      case False
      with Cut_colon [of "CHR '':''" r v] parse r v show ?thesis by (simp add: plain_image_def)
    qed
  qed
qed

text \<open>
  C39. Parsing the image that is built from a repository and a version gives both back exactly for
  plain image references, registries with a port included.
\<close>

theorem parseImageURI_roundtrip: "parseImageURI (r @ '':'' @ v) = (r, v) \<longleftrightarrow> plain_image r v"
  by (rule parse_printed)

text \<open>
  A K8sGPT without a version gets a Deployment with the tag \<^verbatim>\<open>latest\<close>, but is compared with the
  empty version: the step then takes the running server for outdated, sets an image with an empty
  tag and ends, and neither connects nor analyses.
\<close>

theorem unversioned_server_is_outdated:
  assumes "hasReadyReplicas inst" and "k8sgptDeployment inst = Some d"
    and "map_option c_Image (first_of (ps_Containers (pod_of d))) = Some (deploymentImage (K8sgptConfig inst))"
    and "sp_Version (k_Spec (K8sgptConfig inst)) = ''''" and "plain_image (sp_Repository (k_Spec (K8sgptConfig inst))) ''latest''"
  shows "\<exists>ok. trace (cs_world (snd (PreAnalysisStep E K next inst s))) = trace (cs_world s) @
    [CallUpdateDeployment (on_container (\<lambda>c. c\<lparr>c_Image := sp_Repository (k_Spec (K8sgptConfig inst)) @ '':''\<rparr>) d) ok]"
proof -
  let ?config = "K8sgptConfig inst"
  from assms(3) obtain c where c: "first_of (ps_Containers (pod_of d)) = Some c" "c_Image c = deploymentImage ?config"
    by auto
  have "parseImageURI (c_Image c) = (sp_Repository (k_Spec ?config), ''latest'')"
    using parse_printed [of "sp_Repository (k_Spec ?config)" "''latest''"] assms(4,5) c(2) by (simp add: deploymentImage_def)
  with assms c(1) have "PreAnalysisStep E K next inst s = updateDeploymentImage E K ?config d s"
    by (simp add: PreAnalysisStep_def Let_def or_return_def succeed_def)
  then show ?thesis using assms(4)
    by (auto simp: updateDeploymentImage_def or_return_def request_def on_world_def finish_def
        split: prod.splits sum.splits dest!: perform_trace)
qed

definition outdatedInstance :: K8sGPTInstance where
  "outdatedInstance = inst1\<lparr>K8sgptConfig := stillK8sGPT\<lparr>k_Spec := stillSpec\<lparr>sp_Version := ''''\<rparr>\<rparr>,
     k8sgptDeployment := Some (runningDeployment ''ghcr.io/k8sgpt-ai/k8sgpt:latest'')\<rparr>"

theorem unversioned_server_is_outdated_witness:
  "\<exists>ok. trace (cs_world (snd (PreAnalysisStep sampleEnv sampleKube stop outdatedInstance freshController))) = [] @
    [CallUpdateDeployment (on_container (\<lambda>c. c\<lparr>c_Image := ''ghcr.io/k8sgpt-ai/k8sgpt:''\<rparr>)
       (runningDeployment ''ghcr.io/k8sgpt-ai/k8sgpt:latest'')) ok]"
proof -
  let ?d = "runningDeployment ''ghcr.io/k8sgpt-ai/k8sgpt:latest''"
  have "hasReadyReplicas outdatedInstance" "k8sgptDeployment outdatedInstance = Some ?d"
    "sp_Version (k_Spec (K8sgptConfig outdatedInstance)) = ''''"
    by (simp_all add: outdatedInstance_def inst1_def)
  moreover have "map_option c_Image (first_of (ps_Containers (pod_of ?d))) =
      Some (deploymentImage (K8sgptConfig outdatedInstance))" by code_simp
  moreover have repository: "sp_Repository (k_Spec (K8sgptConfig outdatedInstance)) = ''ghcr.io/k8sgpt-ai/k8sgpt''"
    by (simp add: outdatedInstance_def stillSpec_def Deployment.sampleK8sGPT_def)
  moreover have "plain_image (sp_Repository (k_Spec (K8sgptConfig outdatedInstance))) ''latest''"
    unfolding repository by code_simp
  moreover have "trace (cs_world freshController) = []" by (simp add: freshController_def)
  ultimately show ?thesis
    using unversioned_server_is_outdated [of outdatedInstance ?d sampleEnv sampleKube stop freshController] by simp
qed

section \<open>The names of mutations\<close>

text \<open>
  The name of a mutation for a target with a UID has at most 63 characters, and it ends with the
  discriminator of the target, however long the name of the result is; without a UID it is the
  name of the result.
\<close>

theorem mutationName_bounded:
  "if or_UID ref = '''' then mutationName H name ref = name
   else length (mutationName H name ref) \<le> 63 \<and>
     (\<exists>p digest. mutationName H name ref = p @ ''-'' @ take 8 digest \<and> prefix p name \<and>
        digest = sha256_text H (or_APIVersion ref @ ''/'' @ or_Kind ref @ ''/'' @ or_Namespace ref @ ''/'' @
          or_Name ref @ ''/'' @ or_UID ref))"
  by (auto simp: mutationName_def Let_def take_is_prefix)

section \<open>The back-off\<close>

definition failures :: "AISpec \<Rightarrow> nat \<Rightarrow> 's ksys \<Rightarrow> 's ksys" where
  "failures ai n = ((\<lambda>s. snd (handleAIFailureBackoff ai s)) ^^ n)"

text \<open>
  C35. The circuit breaker opens at the failure that is two beyond the maximal number of retries, when
  all analyses since the last success have failed; until then it stays closed, and while the
  back-off is disabled nothing is counted.
\<close>

theorem breaker_opens_after:
  assumes "ai_BackOff ai = Some b" and "allowBackendAIRequest s" and "analysisRetryCount s = 0" and "0 \<le> bo_MaxRetries b"
  shows "allowBackendAIRequest (failures ai n s) \<longleftrightarrow> \<not> bo_Enabled b \<or> int n < bo_MaxRetries b + 2"
proof -
  let ?step = "\<lambda>s. snd (handleAIFailureBackoff ai s)"
  have step: "?step t = (if bo_Enabled b then
      (if analysisRetryCount t > bo_MaxRetries b then t\<lparr>allowBackendAIRequest := False, analysisRetryCount := 1\<rparr>
       else t\<lparr>analysisRetryCount := analysisRetryCount t + 1\<rparr>) else t)" for t :: "'a ksys"
    using assms(1) by (simp add: handleAIFailureBackoff_def Let_def)
  have "if bo_Enabled b \<and> int n \<ge> bo_MaxRetries b + 2 then \<not> allowBackendAIRequest (failures ai n s)
    else allowBackendAIRequest (failures ai n s) \<and>
      analysisRetryCount (failures ai n s) = (if bo_Enabled b then int n else 0)" (is ?P)
  proof (induction n)
    case 0
    with assms show ?case by (simp add: failures_def)
  next
    case (Suc n)
    have "failures ai (Suc n) s = ?step (failures ai n s)" by (simp add: failures_def)
    with Suc step show ?case by (auto split: if_splits)
  qed
  then show ?thesis by (auto split: if_splits)
qed

theorem breaker_opens_after_witness:
  "allowBackendAIRequest (failures Deployment.sampleAI 6 freshController) \<and>
   \<not> allowBackendAIRequest (failures Deployment.sampleAI 7 freshController)"
proof -
  have "ai_BackOff Deployment.sampleAI = Some \<lparr>bo_Enabled = True, bo_MaxRetries = 5\<rparr>"
    by (simp add: Deployment.sampleAI_def)
  from breaker_opens_after [OF this, of freshController] show ?thesis by (simp add: freshController_def)
qed

section \<open>The gauge\<close>

lemma getResultsPerNamespace_count:
  "distinct (map fst counts) \<Longrightarrow>
   distinct (map fst (getResultsPerNamespace rs counts)) \<and>
   map_of (getResultsPerNamespace rs counts) ns =
     (let n = length (filter (\<lambda>r. getResultObjectNamespace r = ns) rs) in
      if n = 0 then map_of counts ns
      else Some (int n + (case map_of counts ns of None \<Rightarrow> 0 | Some m \<Rightarrow> m)))"
proof (induction rs arbitrary: counts)
  case (Cons r rs)
  note IH = Cons.IH [OF distinct_update [OF Cons.prems]]
  show ?case using IH [of "getResultObjectNamespace r" "(case map_of counts (getResultObjectNamespace r) of None \<Rightarrow> 0 | Some n \<Rightarrow> n) + 1"]
    by (auto simp: Let_def update_conv' split: option.splits)
qed simp

lemma on_world_request: "on_world (request f) s = (case f (cs_world s) of (r, w) \<Rightarrow> (Done r, s\<lparr>cs_world := w\<rparr>))"
  by (simp add: on_world_def request_def split: prod.split)

lemma gauge_set_each:
  "distinct (map fst xs) \<Longrightarrow>
   fold (gauge_after g [ns, name]) (map (\<lambda>(namespace, count). SetGauge g [namespace, nm] count) xs) x =
     (case map_of xs ns of Some c \<Rightarrow> if name = nm then Some c else x | None \<Rightarrow> x)"
proof (induction xs arbitrary: x)
  case (Cons kv xs)
  then have "ns = fst kv \<Longrightarrow> map_of xs ns = None" by (auto simp: map_of_eq_None_iff)
  with Cons show ?case by (cases kv) (auto split: option.splits)
qed simp

lemma for_each_if_metric:
  assumes "list_all (\<lambda>x. get (metricsBuilder s) (metric_name (call x)) \<noteq> None) xs"
  shows "for_each (\<lambda>x. if_metric get (call x)) xs s =
    (Done (Inr ()), s\<lparr>metric_calls := metric_calls s @ map call xs\<rparr>)"
  using assms by (induction xs arbitrary: s) (auto simp: succeed_def and_then_def if_metric_def)

text \<open>
  After an analysis the gauge holds, for every namespace with findings, their number; a namespace
  without findings keeps the number it had, so the gauge never returns to zero.
\<close>

theorem gauge_counts_findings:
  assumes "metricsBuilder s = fst InitializeMetrics"
  shows "gauge (metric_calls (snd (setk8sgptNumberOfResults config results s))) ''k8sgpt_number_of_results'' [ns, name] =
     (let n = length (filter (\<lambda>r. getResultObjectNamespace r = ns) results) in
      if n = 0 \<or> name \<noteq> om_Name (k_Meta config)
      then gauge (metric_calls s) ''k8sgpt_number_of_results'' [ns, name] else Some (int n))"
proof -
  let ?xs = "getResultsPerNamespace results []" and ?g = "''k8sgpt_number_of_results''"
  have d: "distinct (map fst ?xs)" and m: "map_of ?xs ns =
      (let n = length (filter (\<lambda>r. getResultObjectNamespace r = ns) results) in if n = 0 then None else Some (int n))"
    using getResultsPerNamespace_count [of "[]" results ns] by (simp_all add: Let_def)
  let ?call = "\<lambda>x. SetGauge ?g [fst x, om_Name (k_Meta config)] (snd x)"
  have "GetGaugeVec (fst InitializeMetrics) ?g \<noteq> None"
    using metrics_found(4) [of "''a''" "''b''" 0] by (auto split: option.splits)
  then have "setk8sgptNumberOfResults config results s =
      (Done (Inr ()), s\<lparr>metric_calls := metric_calls s @ map ?call ?xs\<rparr>)"
    unfolding setk8sgptNumberOfResults_def case_prod_beta
    by (intro for_each_if_metric) (simp add: assms list_all_iff)
  moreover have "map ?call ?xs = map (\<lambda>(namespace, count). SetGauge ?g [namespace, om_Name (k_Meta config)] count) ?xs"
    by (simp add: case_prod_beta)
  ultimately show ?thesis using gauge_set_each [OF d, of ?g ns name "om_Name (k_Meta config)"] m
    by (auto simp: gauge_append Let_def)
qed

text \<open>
  The gauge of the results by type is reset before the results of one K8sGPT are counted: whatever it
  held for the results of other K8sGPTs is gone until their next analysis.
\<close>

definition counts_config :: "K8sGPT \<Rightarrow> metric_call \<Rightarrow> bool" where
  "counts_config config c \<longleftrightarrow> (\<exists>spec. c = IncGauge ''k8sgpt_number_of_results_by_type'' (resultLabelValues config spec))"

lemma gauge_of_others:
  assumes "list_all (counts_config config) cs" and "last labels \<noteq> om_Name (k_Meta config)"
  shows "fold (gauge_after g labels) cs x = x"
  using assms(1)
proof (induction cs arbitrary: x)
  case (Cons c cs)
  then obtain spec where "c = IncGauge ''k8sgpt_number_of_results_by_type'' (resultLabelValues config spec)"
    by (auto simp: counts_config_def)
  moreover have "labels \<noteq> resultLabelValues config spec" using assms(2) by (auto simp: resultLabelValues_def)
  ultimately show ?case using Cons by auto
qed simp

lemma for_each_counts:
  assumes each: "\<And>x t r t1. f x t = (r, t1) \<Longrightarrow> \<exists>cs. metric_calls t1 = metric_calls t @ cs \<and> list_all P cs"
    and "for_each f xs t = (out, t')"
  shows "\<exists>cs. metric_calls t' = metric_calls t @ cs \<and> list_all P cs"
  using assms(2)
proof (induction xs arbitrary: t)
  case Nil
  then show ?case by (auto simp: succeed_def)
next
  case (Cons x xs)
  obtain r t1 where x: "f x t = (r, t1)" by (cases "f x t")
  from each [OF x] obtain cs where t1: "metric_calls t1 = metric_calls t @ cs" "list_all P cs" by blast
  show ?case
  proof (cases "r = Done (Inr ())")
    case True
    with Cons.prems x have "for_each f xs t1 = (out, t')" by (simp add: and_then_def)
    from Cons.IH [OF this] obtain ds where "metric_calls t' = metric_calls t1 @ ds" "list_all P ds" by blast
    with t1 show ?thesis by (intro exI [of _ "cs @ ds"]) simp
  next
    case False
    with Cons.prems x have "t' = t1" by (cases r) (auto simp: and_then_def split: sum.splits)
    with t1 show ?thesis by blast
  qed
qed

lemma analysis_resets_gauge_of_others:
  assumes "metricsBuilder s = fst InitializeMetrics" and "last labels \<noteq> om_Name (k_Meta config)"
    and "processRawResults E K config rawResults s = (out, s')"
  shows "gauge (metric_calls s') ''k8sgpt_number_of_results_by_type'' labels = None"
proof -
  let ?g = "''k8sgpt_number_of_results_by_type''"
  let ?each = "\<lambda>(name, result).
         and_then (on_world (request (CreateOrUpdateResult (sha256_json (en_host E)) K result))) (\<lambda>result.
         must_metric GetGaugeVec (IncGauge ?g (resultLabelValues config (res_Spec result))))"
  let ?s1 = "s\<lparr>metric_calls := metric_calls s @ [ResetGauge ?g]\<rparr>"
  have "GetGaugeVec (fst InitializeMetrics) ?g \<noteq> None" using metrics_found(8) by simp
  then have run: "for_each ?each (range_results (en_host E) rawResults) ?s1 = (out, s')"
    using assms(1,3) by (auto simp: processRawResults_def and_then_def if_metric_def)
  have each: "\<exists>cs. metric_calls t1 = metric_calls t @ cs \<and> list_all (counts_config config) cs"
    if "?each x t = (r, t1)" for x t r t1
    using that
    by (auto simp: case_prod_beta and_then_def on_world_request must_metric_def counts_config_def
        split: prod.splits sum.splits option.splits)
  have "\<exists>cs. metric_calls s' = metric_calls ?s1 @ cs \<and> list_all (counts_config config) cs"
    by (rule for_each_counts [where f = ?each, OF _ run]) (rule each)
  then obtain cs where "metric_calls s' = metric_calls s @ [ResetGauge ?g] @ cs"
    "list_all (counts_config config) cs" by auto
  then show ?thesis using gauge_of_others [OF _ assms(2)] by (simp add: gauge_append)
qed

section \<open>Stale results\<close>

lemma and_then_assoc: "and_then (and_then m f) g = and_then m (\<lambda>x. and_then (f x) g)"
  by (rule ext) (simp add: and_then_def split: prod.splits outcome.splits sum.splits)

lemma request_world: "request f w = (out, w') \<longleftrightarrow> (\<exists>r. f w = (r, w') \<and> out = Done r)"
  by (auto simp: request_def split: prod.splits)

text \<open>What is known of \<open>n\<close> deletions made one after the other, with the outcomes \<open>oks\<close>.\<close>

definition until_failure :: "unit go_result outcome \<Rightarrow> bool list \<Rightarrow> nat \<Rightarrow> bool" where
  "until_failure out oks n \<longleftrightarrow>
     length oks \<le> n \<and> out \<noteq> Panic \<and>
     (if out = Done (Inr ()) then list_all id oks \<and> length oks = n
      else oks \<noteq> [] \<and> list_all id (butlast oks) \<and> \<not> last oks)"

lemma until_failure_simps [simp]:
  "until_failure (Done (Inr ())) [] 0"
  "until_failure (Done (Inl err)) [False] (Suc n)"
  "until_failure out oks n \<Longrightarrow> until_failure out (True # oks) (Suc n)"
  by (auto simp: until_failure_def)

lemma delete_stale:
  fixes s :: "('s, 'm) csys_scheme"
  assumes noted: "\<And>r (s :: ('s, 'm) csys_scheme). \<exists>s'. note_it r s = (Done (Inr ()), s') \<and> cs_world s' = cs_world s"
  shows "case for_each (\<lambda>r. if stale r then and_then (on_world (request (DeleteResult K r))) (\<lambda>_. note_it r) else succeed ()) items s
      of (out, s') \<Rightarrow>
     (\<exists>oks. trace (cs_world s') = trace (cs_world s) @ map2 CallDeleteResult (filter stale items) oks \<and>
        until_failure out oks (length (filter stale items)))"
proof (induction items arbitrary: s)
  case Nil
  then show ?case by (auto simp: succeed_def intro: exI [of _ "[]"])
next
  case (Cons r items)
  let ?f = "\<lambda>r. if stale r then and_then (on_world (request (DeleteResult K r))) (\<lambda>_. note_it r) else succeed ()"
  show ?case
  proof (cases "stale r")
    case False
    with Cons.IH [of s] show ?thesis by simp
  next
    case True
    obtain d w1 where del: "DeleteResult K r (cs_world s) = (d, w1)" by (cases "DeleteResult K r (cs_world s)")
    note tr = perform_trace [OF del]
    show ?thesis
    proof (cases d)
      case (Inl err)
      with True del tr show ?thesis
        by (intro exI [of _ "[False]"] case_prodI2) (auto simp: and_then_def on_world_request)
    next
      case (Inr u)
      from noted [of r "s\<lparr>cs_world := w1\<rparr>"] obtain s1 where
        s1: "note_it r (s\<lparr>cs_world := w1\<rparr>) = (Done (Inr ()), s1)" "cs_world s1 = w1" by auto
      with True del Inr have step: "for_each ?f (r # items) s = for_each ?f items s1"
        by (simp add: and_then_def on_world_request)
      obtain out s2 where rest: "for_each ?f items s1 = (out, s2)" by (cases "for_each ?f items s1")
      from Cons.IH [of s1] rest obtain oks where
        "trace (cs_world s2) = trace (cs_world s1) @ map2 CallDeleteResult (filter stale items) oks"
        "until_failure out oks (length (filter stale items))" by auto
      with step rest tr True Inr s1(2) show ?thesis by (auto intro!: exI [of _ "True # oks"])
    qed
  qed
qed

text \<open>
  C38. Cleaning up deletes, in order, exactly the listed results whose name is not among those of the
  analysis, until a deletion fails; it succeeds if every one of them has been deleted.
\<close>

theorem stale_results_are_deleted:
  "case cleanUpStaleResults K config rawResults s of (out, s') \<Rightarrow>
     (case fst (kListResults K (resultSelector config) (cluster (cs_world s))) of
        Inl err \<Rightarrow> out = Done (Inl err) \<and> calls (cs_world s) (cs_world s') = [CallListResults (resultSelector config)]
      | Inr items \<Rightarrow>
          (let stale = filter (\<lambda>r. om_Name (res_Meta r) \<notin> fst ` set rawResults) items in
           \<exists>oks. calls (cs_world s) (cs_world s') =
               CallListResults (resultSelector config) # map2 CallDeleteResult stale oks \<and>
             until_failure out oks (length stale)))"
proof -
  let ?list = "ListResults K (resultSelector config)"
  obtain r w1 where l: "?list (cs_world s) = (r, w1)" by (cases "?list (cs_world s)")
  note tr = perform_trace [OF l]
  have r: "fst (kListResults K (resultSelector config) (cluster (cs_world s))) = r"
    using l by (auto simp: perform_def split: prod.splits)
  show ?thesis
  proof (cases r)
    case (Inl err)
    with l r tr show ?thesis by (simp add: cleanUpStaleResults_def and_then_def on_world_request calls_eq)
  next
    case (Inr items)
    let ?stale = "\<lambda>r. om_Name (res_Meta r) \<notin> fst ` set rawResults"
    let ?note = "\<lambda>r. if_metric GetGaugeVec
      (DescGauge ''k8sgpt_number_of_results_by_type'' (resultLabelValues config (res_Spec r)))"
    have noted: "\<exists>s'. ?note r t = (Done (Inr ()), s') \<and> cs_world s' = cs_world t" for r and t :: "('a, 'b) csys_scheme"
      by (auto simp: if_metric_def split: option.splits)
    have "cleanUpStaleResults K config rawResults s =
        for_each (\<lambda>r. if ?stale r then and_then (on_world (request (DeleteResult K r))) (\<lambda>_. ?note r) else succeed ()) items
          (s\<lparr>cs_world := w1\<rparr>)"
      using l Inr by (simp add: cleanUpStaleResults_def and_then_def on_world_request map_of_eq_None_iff)
    moreover obtain out s' where run: "cleanUpStaleResults K config rawResults s = (out, s')"
      by (cases "cleanUpStaleResults K config rawResults s")
    ultimately obtain oks where oks: "trace (cs_world s') = trace w1 @ map2 CallDeleteResult (filter ?stale items) oks"
      "until_failure out oks (length (filter ?stale items))"
      using delete_stale [where note_it = ?note and stale = ?stale and K = K and items = items and s = "s\<lparr>cs_world := w1\<rparr>", OF noted] by auto
    have "calls (cs_world s) (cs_world s') =
        CallListResults (resultSelector config) # map2 CallDeleteResult (filter ?stale items) oks"
      by (rule calls_eq) (simp add: oks(1) tr)
    with oks(2) show ?thesis unfolding run r Inr by (auto simp: Let_def)
  qed
qed

section \<open>Reports\<close>

text \<open>A result is reported unless it is historical and has been reported before.\<close>

definition to_report :: "Result \<Rightarrow> bool" where
  "to_report res \<longleftrightarrow> rt_LifeCycle (res_Status res) \<noteq> NoOpResult \<or> rt_Webhook (res_Status res) = ''''"

definition reported :: "K8sGPT \<Rightarrow> sink option \<Rightarrow> Result \<Rightarrow> Result" where
  "reported config sink res =
     (case sink of
        None \<Rightarrow> set_webhook '''' res
      | Some k \<Rightarrow> if to_report res then set_webhook (sinkEndpoint config) res else res)"

lemma processResult_eq:
  "processResult K config (map_option (Emit H K) sink) result =
     and_then (request (GetResult K (key_of_meta (res_Meta result)))) (\<lambda>res.
     and_then (case sink of None \<Rightarrow> succeed () | Some k \<Rightarrow> if to_report res then Emit H K k (res_Spec res) else succeed ()) (\<lambda>_.
     and_then (request (StatusUpdateResult K (reported config sink res))) (\<lambda>_. succeed ())))"
  unfolding processResult_def
proof (rule arg_cong [where f = "and_then _"], rule ext)
  fix res
  show "and_then
       (case map_option (Emit H K) sink of
          None \<Rightarrow> succeed (set_webhook '''' res)
        | Some emit \<Rightarrow>
            if rt_LifeCycle (res_Status res) \<noteq> NoOpResult \<or> rt_Webhook (res_Status res) = ''''
            then and_then (emit (res_Spec res)) (\<lambda>_. succeed (set_webhook (sinkEndpoint config) res))
            else succeed res)
       (\<lambda>res. and_then (request (StatusUpdateResult K res)) (\<lambda>_. succeed ())) =
     and_then (case sink of None \<Rightarrow> succeed () | Some k \<Rightarrow> if to_report res then Emit H K k (res_Spec res) else succeed ()) (\<lambda>_.
     and_then (request (StatusUpdateResult K (reported config sink res))) (\<lambda>_. succeed ()))"
    by (cases sink; cases "to_report res") (simp_all add: reported_def to_report_def and_then_assoc)
qed

text \<open>A result that is reported reaches its sink by at most one post, and by one when no error comes back.\<close>

lemma emission_posts_once:
  assumes "(case sink of None \<Rightarrow> succeed () | Some k \<Rightarrow> if to_report res then Emit H K k (res_Spec res) else succeed ()) w = (e, w')"
  shows "\<exists>posts. trace w' = trace w @ map CallPost posts \<and> length posts \<le> (if sink \<noteq> None \<and> to_report res then 1 else 0) \<and>
    list_all (\<lambda>p. Some (post_Endpoint p) = map_option endpoint_of sink) posts \<and> e \<noteq> Panic \<and>
    (e = Done (Inr ()) \<longrightarrow> length posts = (if sink \<noteq> None \<and> to_report res then 1 else 0))"
proof (cases "sink \<noteq> None \<and> to_report res")
  case True
  then obtain k where k: "sink = Some k" by blast
  with True assms have "Emit H K k (res_Spec res) w = (e, w')" by simp
  from any_sink.emitted [OF this] obtain cs where cs: "trace w' = trace w @ cs" "posts_to (endpoint_of k) cs"
    "e \<noteq> Panic" "e = Done (Inr ()) \<longrightarrow> cs \<noteq> []" by blast
  show ?thesis
  proof (cases "cs = []")
    case True
    with cs show ?thesis by (intro exI [of _ "[]"]) auto
  next
    case False
    with cs(2) obtain p where "cs = [CallPost p]" "post_Endpoint p = endpoint_of k" by (auto simp: posts_to_def)
    with cs k True show ?thesis by (intro exI [of _ "[p]"]) auto
  qed
next
  case False
  with assms have "e = Done (Inr ()) \<and> w' = w" by (cases sink) (auto simp: succeed_def)
  with False show ?thesis by (intro exI [of _ "[]"]) auto
qed

text \<open>
  C37. Processing a result reads it, reports it at most once, to the endpoint of the sink and only if
  it has to be reported, and then records in its status that it was.  Nothing is recorded unless
  the report went through, and it succeeds exactly if the status was written.
\<close>

theorem result_is_reported_once:
  "case processResult K config (map_option (Emit H K) sink) result w of (out, w') \<Rightarrow>
     (case fst (kGetResult K (key_of_meta (res_Meta result)) (cluster w)) of
        Inl err \<Rightarrow> out = Done (Inl err) \<and> calls w w' = [CallGetResult (key_of_meta (res_Meta result))]
      | Inr res \<Rightarrow>
          (\<exists>posts written. calls w w' = CallGetResult (key_of_meta (res_Meta result)) # map CallPost posts @ written \<and>
             length posts \<le> (if sink \<noteq> None \<and> to_report res then 1 else 0) \<and>
             list_all (\<lambda>p. Some (post_Endpoint p) = map_option endpoint_of sink) posts \<and>
             (written = [] \<or> (\<exists>ok. written = [CallStatusUpdateResult (reported config sink res) ok] \<and>
                length posts = (if sink \<noteq> None \<and> to_report res then 1 else 0))) \<and>
             (out = Done (Inr ()) \<longleftrightarrow> written = [CallStatusUpdateResult (reported config sink res) True]) \<and>
             out \<noteq> Panic))"
proof -
  let ?key = "key_of_meta (res_Meta result)"
  obtain r w1 where get: "GetResult K ?key w = (r, w1)" by (cases "GetResult K ?key w")
  note t1 = perform_trace [OF get]
  have r: "fst (kGetResult K ?key (cluster w)) = r" using get by (auto simp: perform_def split: prod.splits)
  show ?thesis
  proof (cases r)
    case (Inl err)
    with get r t1 show ?thesis by (simp add: processResult_eq and_then_def request_def calls_eq)
  next
    case (Inr res)
    let ?emit = "(case sink of None \<Rightarrow> succeed () | Some k \<Rightarrow> if to_report res then Emit H K k (res_Spec res) else succeed ())"
    let ?n = "if sink \<noteq> None \<and> to_report res then 1 else 0 :: nat"
    let ?status = "StatusUpdateResult K (reported config sink res)"
    obtain e w2 where emit: "?emit w1 = (e, w2)" by (cases "?emit w1")
    from emission_posts_once [OF emit] obtain posts where posts: "trace w2 = trace w1 @ map CallPost posts" "length posts \<le> ?n"
      "list_all (\<lambda>p. Some (post_Endpoint p) = map_option endpoint_of sink) posts" "e \<noteq> Panic"
      "e = Done (Inr ()) \<longrightarrow> length posts = ?n" by blast
    have run: "processResult K config (map_option (Emit H K) sink) result w =
        and_then ?emit (\<lambda>_. and_then (request ?status) (\<lambda>_. succeed ())) w1"
      using get Inr by (simp add: processResult_eq and_then_def [of "request (GetResult K ?key)"] request_def)
    show ?thesis
    proof (cases "e = Done (Inr ())")
      case False
      with emit posts(4) have "processResult K config (map_option (Emit H K) sink) result w = (e, w2)"
        unfolding run by (cases e) (auto simp: and_then_def [of ?emit] split: sum.splits)
      then show ?thesis unfolding r Inr
        using posts t1 False by (simp only: prod.case sum.case) (intro exI [of _ posts] exI [of _ "[]"], simp add: calls_eq)
    next
      case True
      obtain u w3 where st: "?status w2 = (u, w3)" by (cases "?status w2")
      note t3 = perform_trace [OF st]
      have "processResult K config (map_option (Emit H K) sink) result w =
          ((case u of Inl err \<Rightarrow> Done (Inl err) | Inr x \<Rightarrow> Done (Inr ())), w3)"
        unfolding run using emit True st
        by (auto simp: and_then_def request_def succeed_def split: sum.splits)
      then show ?thesis unfolding r Inr
        using posts t1 t3 True by (simp only: prod.case sum.case)
          (intro exI [of _ posts] exI [of _ "[CallStatusUpdateResult (reported config sink res) (is_ok u)]"],
            cases u, auto simp: calls_eq intro: exI [of _ False] exI [of _ True])
    qed
  qed
qed

lemma secret_endpoint_reported_again:
  "to_report res \<Longrightarrow>
   to_report (reported config (Some k) res) \<longleftrightarrow>
     rt_LifeCycle (res_Status res) \<noteq> NoOpResult \<or> sinkEndpoint config = ''''"
  by (simp add: reported_def to_report_def set_webhook_def)

section \<open>Mutations\<close>

text \<open>
  A mutation is created at most once: the one with its name is read first, and it is created
  exactly if that one is not found.  An existing mutation is left as it is, and any other error
  ends the step.
\<close>

theorem mutation_is_created_once:
  "case createMutation E K config resource w of (out, w') \<Rightarrow>
     (let m = newMutation E config resource; key = key_of_meta (mu_Meta m) in
      case fst (kGetMutation K key (cluster w)) of
        Inr existing \<Rightarrow> out = Done (Inr ()) \<and> calls w w' = [CallGetMutation key]
      | Inl err \<Rightarrow>
          if IsNotFound err then
            \<exists>ok. calls w w' = [CallGetMutation key, CallCreateMutation m ok] \<and> (out = Done (Inr ()) \<longleftrightarrow> ok) \<and> out \<noteq> Panic
          else out = Done (Inl err) \<and> calls w w' = [CallGetMutation key])"
proof -
  let ?m = "newMutation E config resource"
  let ?key = "key_of_meta (mu_Meta ?m)"
  obtain r w1 where get: "GetMutation K ?key w = (r, w1)" by (cases "GetMutation K ?key w")
  note t1 = perform_trace [OF get]
  have r: "fst (kGetMutation K ?key (cluster w)) = r" using get by (auto simp: perform_def split: prod.splits)
  obtain c w2 where create: "CreateMutation K ?m w1 = (c, w2)" by (cases "CreateMutation K ?m w1")
  note t2 = perform_trace [OF create]
  show ?thesis
    using get create t1 t2 r
    by (cases r; cases c)
      (auto simp: createMutation_def Let_def and_then_def on_error_def request_def succeed_def fail_def calls_eq IgnoreNotFound_def)
qed

lemma newMutation_simps [simp]:
  "mt_Phase (mu_Status (newMutation E config resource)) = PhaseNotStarted"
  "om_Namespace (mu_Meta (newMutation E config resource)) = om_Namespace (k_Meta config)"
  "om_Finalizers (mu_Meta (newMutation E config resource)) = [''mutation.finalizer.k8sgpt.ai'']"
  "ms_ResourceRef (mu_Spec (newMutation E config resource)) = er_ObjectRef resource"
  by (simp_all add: newMutation_def new_meta_def)

text \<open>What a mutation must be to be created for a configuration.\<close>

definition well_targeted :: "env \<Rightarrow> K8sGPT \<Rightarrow> Mutation \<Rightarrow> bool" where
  "well_targeted E config m \<longleftrightarrow>
     (\<exists>ai. sp_AI (k_Spec config) = Some ai \<and> ar_Enabled (ai_AutoRemediation ai)) \<and>
     (\<exists>gvk. AutoRemediationResourceEnabled (en_lib E) (Some config) gvk \<and>
        or_Kind (ms_ResourceRef (mu_Spec m)) = Kind gvk \<and>
        or_APIVersion (ms_ResourceRef (mu_Spec m)) = GroupVersion_String (en_lib E) (GroupVersion gvk)) \<and>
     mt_Phase (mu_Status m) = PhaseNotStarted \<and> om_Namespace (mu_Meta m) = om_Namespace (k_Meta config) \<and>
     om_Finalizers (mu_Meta m) = [''mutation.finalizer.k8sgpt.ai'']"

lemma deduplicated:
  assumes "\<And>xs. mset (order xs) = mset xs"
  shows "set (Deduplicate L order inp) \<subseteq> set inp"
proof -
  obtain es os where l: "dedupLoop L inp [] [] = (es, os)" by (cases "dedupLoop L inp [] []")
  have "set (order os) = set os" using assms by (rule mset_eq_setD)
  with dedupLoop_result [OF l] l show ?thesis by (auto simp: Deduplicate_def)
qed

lemma eligible_well_targeted:
  assumes order: "\<And>xs. mset (en_order E xs) = mset xs"
    and ai: "sp_AI (k_Spec config) = Some ai" "ar_Enabled (ai_AutoRemediation ai)"
    and run: "on_world (eligibleResources E K config latest) t = (Done (Inr resources), t')"
    and resource: "resource \<in> set resources"
  shows "well_targeted E config (newMutation E config resource)"
proof -
  from on_world_parts [OF run] obtain w where w: "eligibleResources E K config latest (cs_world t) = (Done (Inr resources), w)"
    by blast
  obtain pre w1 where pre: "ResultsToEligibleResources (en_lib E) K (en_reference E) (Some config) latest (cs_world t) = (pre, w1)"
    by (cases "ResultsToEligibleResources (en_lib E) K (en_reference E) (Some config) latest (cs_world t)")
  with w resource deduplicated [OF order] have "resource \<in> set pre"
    by (auto simp: eligibleResources_def)
  with ResultsToEligibleResources_sound [OF pre] obtain item where
    "eligible_for (en_lib E) (en_reference E) (Some config) item resource" by (auto simp: list_all_iff)
  with ai show ?thesis by (auto simp: well_targeted_def eligible_for_def)
qed

text \<open>
  C13. The remediation step reads, and creates mutations only: each of them not started, in the
  namespace of the K8sGPT, with the finalizer, and only while auto-remediation is enabled and for a
  target of a kind the configuration selects.
\<close>

theorem remediation_creates_selected_mutations:
  fixes s :: "('s, 'm) csys_scheme"
  assumes "\<And>xs. mset (en_order E xs) = mset xs"
    and "calculateRemediationStep E K inst s = (out, s')"
  shows "list_all (\<lambda>c. case c of CallCreateMutation m ok \<Rightarrow> well_targeted E (K8sgptConfig inst) m | _ \<Rightarrow> area_of c = Reading)
    (calls (cs_world s) (cs_world s'))"
proof -
  let ?config = "K8sgptConfig inst"
  let ?P = "\<lambda>c. case c of CallCreateMutation m ok \<Rightarrow> well_targeted E ?config m | _ \<Rightarrow> area_of c = Reading"
  let ?tr = "\<lambda>s :: ('s, 'm) csys_scheme. trace (cs_world s)"
  have reads: "emits ?tr ?P (on_world f)" if "touches {Reading} f" for f :: "('x, 's world) action"
    by (rule emits_on_world, rule emits_mono [OF that [unfolded touches_def]]) (auto split: call.splits)
  have create: "emits ?tr ?P (on_world (createMutation E K ?config resource))"
    if "well_targeted E ?config (newMutation E ?config resource)" for resource
    unfolding createMutation_def Let_def by (intro emits_on_world emits_rules) (use that in simp_all)
  have "emits ?tr ?P (calculateRemediationStep E K inst)"
  proof (cases "sp_AI (k_Spec ?config)")
    case None
    then show ?thesis
      by (intro emits_silent) (simp add: calculateRemediationStep_def Let_def or_return_def crash_def)
  next
    case (Some ai)
    show ?thesis
    proof (cases "ar_Enabled (ai_AutoRemediation ai)")
      case False
      with Some show ?thesis
        by (intro emits_silent) (simp add: calculateRemediationStep_def Let_def or_return_def succeed_def FinishReconcile_def)
    next
      case True
      show ?thesis unfolding calculateRemediationStep_def Let_def Some deref_simps
        by (intro emits_or_return emits_each_or_return emits_FinishReconcile emits_metric emits_rules reads
            touches_EmitIfNotHistorical touches_eligibleResources touches_getResult create eligible_well_targeted [OF assms(1) Some True])
    qed
  qed
  from emits_D [OF this assms(2)] show ?thesis by (auto simp: calls_eq)
qed

theorem remediation_creates_selected_mutations_witness:
  "case calculateRemediationStep sampleEnv sampleKube inst2 freshController of
     (out, s') \<Rightarrow> list_all (\<lambda>c. case c of CallCreateMutation m ok \<Rightarrow> well_targeted sampleEnv (K8sgptConfig inst2) m
       | _ \<Rightarrow> area_of c = Reading) (calls (cs_world freshController) (cs_world s'))"
proof -
  obtain out s' where run: "calculateRemediationStep sampleEnv sampleKube inst2 freshController = (out, s')"
    by (cases "calculateRemediationStep sampleEnv sampleKube inst2 freshController")
  from remediation_creates_selected_mutations [OF _ run] run show ?thesis by (simp add: sampleEnv_def)
qed

end
