(* ===== verification/Operator.thy ===== *)
theory Operator
  imports Step_Properties Mutation_Controller
begin

text \<open>
  The operator: the K8sGPT controller and the mutation controller in one process, with the channel
  and the goroutine of \<^verbatim>\<open>cmd/main.go\<close> that hands the connection of the one to the other through the
  shared cells.  The runs of the operator interleave whole reconciliations of either controller,
  the single writes of the goroutine, also between the two reads of a reconciliation of a mutation,
  and changes of the cluster from elsewhere.
\<close>

section \<open>The channel\<close>

record InterControllerSignal =
  sig_K8sGPTClient :: nat
  sig_Backend :: string
  sig_K8sGPT :: K8sGPT

text \<open>The signals that have been sent, in order; a client is never nil.\<close>

fun signals :: "call list \<Rightarrow> InterControllerSignal list" where
  "signals [] = []"
| "signals (SendSignal conn backend config # cs) =
     \<lparr>sig_K8sGPTClient = conn, sig_Backend = backend, sig_K8sGPT = config\<rparr> # signals cs"
| "signals (_ # cs) = signals cs"

text \<open>What the goroutine does with a signal: three writes, each under its own lock.\<close>

definition receiveSignal :: "InterControllerSignal \<Rightarrow> (shared_cells \<Rightarrow> shared_cells) list" where
  "receiveSignal signal =
     [SetServerQueryClient (Some (sig_K8sGPTClient signal)), SetRemoteBackend (sig_Backend signal),
      SetK8sGPTConfig (Some (sig_K8sGPT signal))]"

section \<open>The state and its steps\<close>

record 's operator =
  analysis :: "'s ksys"
  received :: nat
  receiver :: "(shared_cells \<Rightarrow> shared_cells) list"
  shared :: shared_cells
  repairs :: MutationReconciler

abbreviation calls_made :: "'s operator \<Rightarrow> call list" where
  "calls_made s \<equiv> trace (cs_world (analysis s))"

text \<open>The goroutine: it takes the next signal when it is done with the last one, and makes one write at a time.\<close>

inductive delivery :: "'s operator \<Rightarrow> 's operator \<Rightarrow> bool" where
  taken: "receiver s = [] \<Longrightarrow> received s < length (signals (calls_made s)) \<Longrightarrow>
    delivery s (s\<lparr>receiver := receiveSignal (signals (calls_made s) ! received s), received := Suc (received s)\<rparr>)"
| stored: "receiver s = write # writes \<Longrightarrow> delivery s (s\<lparr>shared := write (shared s), receiver := writes\<rparr>)"

text \<open>
  A reconciliation of a mutation reads the backend in one state and the client in another, between
  which the goroutine may have moved on.
\<close>

inductive reached :: "env \<Rightarrow> 's kube \<Rightarrow> (string \<Rightarrow> string \<Rightarrow> nat) \<Rightarrow> 's operator \<Rightarrow> bool" for E K D where
  start: "kclients (analysis s) = [] \<Longrightarrow> metricsBuilder (analysis s) = fst InitializeMetrics \<Longrightarrow>
    metric_calls (analysis s) = [] \<Longrightarrow> calls_made s = [] \<Longrightarrow> received s = 0 \<Longrightarrow> receiver s = [] \<Longrightarrow>
    serverQueryClient (shared s) = None \<Longrightarrow> remoteBackend (shared s) = '''' \<Longrightarrow>
    ServerQueryClient (repairs s) = None \<Longrightarrow> reached E K D s"
| analysed: "reached E K D s \<Longrightarrow> ReconcileK8sGPT E K req (analysis s) = (out, a) \<Longrightarrow>
    reached E K D (s\<lparr>analysis := a\<rparr>)"
| delivered: "reached E K D s \<Longrightarrow> delivery s s' \<Longrightarrow> reached E K D s'"
| repaired: "reached E K D s \<Longrightarrow> delivery\<^sup>*\<^sup>* s s' \<Longrightarrow>
    Reconcile (en_lib E) K D (shared s) (shared s') (repairs s) key (cs_world (analysis s)) = (out, r, w) \<Longrightarrow>
    reached E K D (s'\<lparr>analysis := (analysis s')\<lparr>cs_world := w\<rparr>, repairs := r\<rparr>)"
| elsewhere: "reached E K D s \<Longrightarrow>
    reached E K D (s\<lparr>analysis := (analysis s)\<lparr>cs_world := (cs_world (analysis s))\<lparr>cluster := c\<rparr>\<rparr>\<rparr>)"

lemma deliveries_keep: "delivery\<^sup>*\<^sup>* s s' \<Longrightarrow> analysis s' = analysis s \<and> repairs s' = repairs s"
  by (induction rule: rtranclp_induct) (auto elim: delivery.cases)

section \<open>The calls of the mutation controller\<close>

text \<open>Rules for operations that are written out as a cascade of cases on the answers.\<close>

named_theorems direct_rules \<open>calls of operations in direct style\<close>

lemma emits_case [direct_rules]:
  assumes "emits tr P f" and "\<And>e. emits tr P (g e)" and "\<And>x. emits tr P (h x)"
  shows "emits tr P (\<lambda>w. case f w of (Inl e, w) \<Rightarrow> g e w | (Inr x, w) \<Rightarrow> h x w)"
proof (rule emits_I)
  fix w r w'
  assume run: "(case f w of (Inl e, w) \<Rightarrow> g e w | (Inr x, w) \<Rightarrow> h x w) = (r, w')"
  obtain y w1 where f: "f w = (y, w1)" by (cases "f w")
  with run have "(\<exists>e. g e w1 = (r, w')) \<or> (\<exists>x. h x w1 = (r, w'))" by (auto split: sum.splits)
  then have "\<exists>cs. tr w' = tr w1 @ cs \<and> list_all P cs" using emits_D [OF assms(2)] emits_D [OF assms(3)] by blast
  from emits_append [where tr = tr, OF emits_D [OF assms(1) f] this]
  show "\<exists>cs. tr w' = tr w @ cs \<and> list_all P cs" .
qed

lemma emits_direct [direct_rules]:
  "emits tr P (\<lambda>w. (r, w))"
  "emits tr P m \<Longrightarrow> emits tr P n \<Longrightarrow> emits tr P (\<lambda>w. if b then m w else n w)"
  "emits tr P m \<Longrightarrow> (\<And>x. emits tr P (f x)) \<Longrightarrow> emits tr P (\<lambda>w. case p of None \<Rightarrow> m w | Some x \<Rightarrow> f x w)"
  "(\<And>e. emits tr P (g e)) \<Longrightarrow> (\<And>x. emits tr P (h x)) \<Longrightarrow> emits tr P (\<lambda>w. case y of Inl e \<Rightarrow> g e w | Inr x \<Rightarrow> h x w)"
  by (rule emits_silent, simp) (cases b; cases p; cases y; simp)+

lemma emits_calls: "emits trace P m \<Longrightarrow> m w = (r, w') \<Longrightarrow> \<exists>cs. trace w' = trace w @ cs \<and> list_all P cs"
  by (rule emits_D)

text \<open>
  The mutation controller reads, changes workloads and mutations, and queries: the given client, if
  there is one, with the given backend.
\<close>

definition asks :: "nat option \<Rightarrow> string \<Rightarrow> call \<Rightarrow> bool" where
  "asks client backend c \<longleftrightarrow> (case c of CallQuery conn b query \<Rightarrow> client = Some conn \<and> b = backend | _ \<Rightarrow> True)"

definition repair_call :: "nat option \<Rightarrow> string \<Rightarrow> call \<Rightarrow> bool" where
  "repair_call client backend c \<longleftrightarrow> area_of c \<in> {Reading, Workloads} \<and> asks client backend c"

lemma repair_call_simps [simp]:
  "repair_call client backend (CallGet key object)"
  "repair_call client backend (CallPatch object ops dryRun ok)"
  "repair_call client backend (CallGetResult key)"
  "repair_call client backend (CallGetMutation key)"
  "repair_call client backend (CallUpdateMutation m ok)"
  "repair_call client backend (CallStatusUpdateMutation m ok)"
  "repair_call client backend (CallQuery conn b query) \<longleftrightarrow> client = Some conn \<and> b = backend"
  by (simp_all add: repair_call_def asks_def)

lemma repair_calls_area: "list_all (repair_call client backend) cs \<Longrightarrow> list_all (\<lambda>c. area_of c \<in> {Reading, Workloads}) cs"
  by (auto simp: repair_call_def list_all_iff)

lemma updateThen_area: "emits trace (repair_call client backend) (updateThen K m r)"
  unfolding updateThen_def [abs_def] by (intro direct_rules emits_perform) simp

lemma requestProposal_area:
  "emits trace (repair_call client backend) (requestProposal L K D client backend m)"
  unfolding requestProposal_def [abs_def]
  by (cases client; simp only: option.case) (intro direct_rules emits_perform updateThen_area; simp)+

lemma targetReady_area: "emits trace (repair_call client backend) (targetReady L K m)"
  unfolding targetReady_def [abs_def] Let_def by (intro direct_rules emits_perform) simp

lemma doesResultExist_area: "emits trace (repair_call client backend) (doesResultExist L K m)"
  unfolding doesResultExist_def [abs_def] by (intro direct_rules emits_perform targetReady_area updateThen_area) simp

lemma execution_area: "execution L K config w cs r \<Longrightarrow> list_all (repair_call client backend) cs"
  by (cases rule: execution.cases) auto

lemma executeProposal_area:
  assumes "executeProposal L K m w = (out, w')"
  shows "\<exists>cs. trace w' = trace w @ cs \<and> list_all (repair_call client backend) cs"
proof (cases "w' = w")
  case False
  then obtain x where run: "ResourceToExecution L K \<lparr>oec_Obj = x, oec_Mutation = m\<rparr> w = (out, w')"
    using assms by (auto simp: executeProposal_def Let_def split: if_splits sum.splits)
  from ResourceToExecution_execution [OF run] ResourceToExecution_extends [OF run] execution_area
  show ?thesis by blast
qed (auto intro: exI [of _ "[]"])

lemma reconcilePhase_area:
  assumes "reconcilePhase L K D backend cells r m w = (out, r', w')"
  shows "\<exists>cs. trace w' = trace w @ cs \<and> list_all (repair_call (ServerQueryClient r') backend) cs"
proof -
  have "w' = w \<or> (\<exists>x. requestProposal L K D (ServerQueryClient r') backend m w = (x, w')) \<or>
      executeProposal L K m w = (out, w') \<or> (\<exists>x. doesResultExist L K m w = (x, w'))"
    using assms by (cases "mt_Phase (mu_Status m)") (auto simp: reconcilePhase_def Let_def split: prod.splits)
  then consider "w' = w" | x where "requestProposal L K D (ServerQueryClient r') backend m w = (x, w')"
    | "executeProposal L K m w = (out, w')" | x where "doesResultExist L K m w = (x, w')" by blast
  then show ?thesis
  proof cases
    case 1
    then show ?thesis by (intro exI [of _ "[]"]) simp
  next
    case 2
    then show ?thesis by (rule emits_calls [OF requestProposal_area])
  next
    case 3
    then show ?thesis by (rule executeProposal_area)
  next
    case 4
    then show ?thesis by (rule emits_calls [OF doesResultExist_area])
  qed
qed

lemma Reconcile_area:
  assumes "Reconcile L K D cells cells' r key w = (out, r', w')"
  shows "\<exists>cs. trace w' = trace w @ cs \<and> list_all (repair_call (ServerQueryClient r') (GetRemoteBackend cells)) cs"
    and "ServerQueryClient r' = ServerQueryClient r \<or> ServerQueryClient r' = serverQueryClient cells'"
proof -
  let ?calls = "\<lambda>v v'. \<exists>cs. trace v' = trace v @ cs \<and> list_all (repair_call (ServerQueryClient r') (GetRemoteBackend cells)) cs"
  have "?calls w w' \<and> (ServerQueryClient r' = ServerQueryClient r \<or> ServerQueryClient r' = serverQueryClient cells')"
  proof (cases "fst (kGetMutation K key (cluster w))")
    case (Inl err)
    obtain x v where get: "GetMutation K key w = (x, v)" by (cases "GetMutation K key w")
    have "fst (GetMutation K key w) = Inl err" using Inl by (simp add: perform_def case_prod_beta)
    with get have "x = Inl err" by simp
    with assms get have "w' = v" "r' = r" by (simp_all add: Reconcile_def)
    with perform_trace [OF get] show ?thesis by (intro conjI exI [of _ "[CallGetMutation key]"]) simp_all
  next
    case (Inr m)
    show ?thesis
    proof (rule Reconcile_parts [OF assms Inr])
      fix m' v pre
      assume run: "reconcilePhase L K D (GetRemoteBackend cells) cells' r m' v = (out, r', w')" and v: "trace v = trace w @ pre"
        and pre: "beingDeleted m \<Longrightarrow> pre = [CallGetMutation key, CallUpdateMutation (releaseFinalizer m) True] \<and>
           fst (kUpdateMutation K (releaseFinalizer m) (snd (kGetMutation K key (cluster w)))) = Inr m'"
          "\<not> beingDeleted m \<Longrightarrow> pre = [CallGetMutation key] \<and> m' = m"
      from pre have "list_all (repair_call (ServerQueryClient r') (GetRemoteBackend cells)) pre" by (cases "beingDeleted m") auto
      with v have "?calls w v" by blast
      from emits_append [where tr = trace, OF this reconcilePhase_area [OF run]] have "?calls w w'" .
      moreover have "ServerQueryClient r' = ServerQueryClient r \<or> ServerQueryClient r' = serverQueryClient cells'"
        using reconcilePhase_handled [OF run] by (auto simp: GetServerQueryClient_def)
      ultimately show ?thesis by blast
    qed auto
  qed
  then show "?calls w w'" and "ServerQueryClient r' = ServerQueryClient r \<or> ServerQueryClient r' = serverQueryClient cells'"
    by blast+
qed

section \<open>Invariants of the operator\<close>

lemma signals_append: "signals (as @ bs) = signals as @ signals bs"
  by (induction as rule: signals.induct) simp_all

text \<open>
  What the shared cells may hold after the calls \<open>t\<close>: the client of a signal, and the backend of a
  signal or the empty one of the start.
\<close>

definition shared_clients :: "call list \<Rightarrow> nat set" where
  "shared_clients t = set (map sig_K8sGPTClient (signals t))"

definition shared_backends :: "call list \<Rightarrow> string set" where
  "shared_backends t = insert '''' (set (map sig_Backend (signals t)))"

lemma shared_append:
  "shared_clients (t @ cs) = shared_clients t \<union> shared_clients cs"
  "shared_backends (t @ cs) = shared_backends t \<union> shared_backends cs"
  by (auto simp: shared_clients_def shared_backends_def signals_append)

definition queried :: "call list \<Rightarrow> call \<Rightarrow> bool" where
  "queried pre c \<longleftrightarrow>
     (case c of CallQuery client backend query \<Rightarrow> client \<in> shared_clients pre \<and> backend \<in> shared_backends pre | _ \<Rightarrow> True)"

lemma queried_append:
  "always queried t \<Longrightarrow> list_all (queried t) cs \<Longrightarrow> always queried (t @ cs)"
proof (induction cs rule: rev_induct)
  case (snoc c cs)
  then have "always queried (t @ cs)" "queried t c" by simp_all
  moreover from this(2) have "queried (t @ cs) c" by (cases c) (auto simp: queried_def shared_append)
  ultimately show ?case using always_snoc [of queried "t @ cs" c] by simp
qed simp

lemma no_queries: "list_all (\<lambda>c. area_of c \<noteq> Workloads) cs \<Longrightarrow> list_all (queried t) cs"
  by (erule list.pred_mono_strong) (auto simp: queried_def split: call.splits)

lemma queried_repairs:
  "list_all (repair_call client backend) cs \<Longrightarrow> set_option client \<subseteq> shared_clients t \<Longrightarrow> backend \<in> shared_backends t \<Longrightarrow>
   list_all (queried t) cs"
  by (erule list.pred_mono_strong) (auto simp: queried_def repair_call_def asks_def split: call.splits)

lemma open_dialled: "is_open cs conn \<Longrightarrow> conn \<in> set (dialled cs)"
  by (auto simp: is_open_def intro: ccontr)

text \<open>A signal carries a client that was dialled before.\<close>

lemma signalled_dialled: "orderly t \<Longrightarrow> shared_clients t \<subseteq> set (dialled t)"
proof (induction t rule: rev_induct)
  case (snoc c t)
  then show ?case
    using open_dialled by (cases c) (auto simp: shared_clients_def signals_append dialled_append over_open_def)
qed (simp add: shared_clients_def)

definition cells_known :: "'s operator \<Rightarrow> bool" where
  "cells_known s \<longleftrightarrow>
     set_option (serverQueryClient (shared s)) \<union> set_option (ServerQueryClient (repairs s)) \<subseteq> shared_clients (calls_made s) \<and>
     remoteBackend (shared s) \<in> shared_backends (calls_made s)"

text \<open>The last signal taken, and how far the goroutine is with writing it.\<close>

definition last_signal :: "'s operator \<Rightarrow> InterControllerSignal" where
  "last_signal s = signals (calls_made s) ! (received s - 1)"

definition written :: "'s operator \<Rightarrow> bool" where
  "written s \<longleftrightarrow>
     received s \<le> length (signals (calls_made s)) \<and> length (receiver s) \<le> 3 \<and>
     (if received s = 0 then receiver s = [] \<and> remoteBackend (shared s) = ''''
      else receiver s = drop (3 - length (receiver s)) (receiveSignal (last_signal s)) \<and>
        (length (receiver s) \<le> 2 \<longrightarrow> serverQueryClient (shared s) = Some (sig_K8sGPTClient (last_signal s))) \<and>
        (length (receiver s) \<le> 1 \<longrightarrow> remoteBackend (shared s) = sig_Backend (last_signal s)) \<and>
        (length (receiver s) = 0 \<longrightarrow> k8sgptConfig (shared s) = Some (sig_K8sGPT (last_signal s))))"

definition operator_sound :: "'s operator \<Rightarrow> bool" where
  "operator_sound s \<longleftrightarrow>
     connections_sound {} (analysis s) \<and> metrics_sound {} (analysis s) \<and> always queried (calls_made s) \<and> cells_known s \<and> written s"

text \<open>More calls are made, and the mutation controller may take the shared client.\<close>

lemma operator_sound_calls:
  assumes "operator_sound s" and "calls_made t = calls_made s @ cs" and "connections_sound {} (analysis t)"
    and "metrics_sound {} (analysis t)" and "list_all (queried (calls_made s)) cs"
    and "ServerQueryClient (repairs t) = ServerQueryClient (repairs s) \<or>
      ServerQueryClient (repairs t) = serverQueryClient (shared s)"
    and "shared t = shared s" "receiver t = receiver s" "received t = received s"
  shows "operator_sound t"
proof -
  from assms(1) have s: "always queried (calls_made s)" "cells_known s" "written s" by (auto simp: operator_sound_def)
  from queried_append [OF s(1) assms(5)] assms(2) have "always queried (calls_made t)" by simp
  moreover have "cells_known t" using s(2) assms(2,6,7) by (auto simp: cells_known_def shared_append)
  moreover have "last_signal t = last_signal s" if "received s \<noteq> 0"
    using s(3) that assms(2,9) by (auto simp: written_def last_signal_def signals_append nth_append)
  with s(3) have "written t" using assms(2,7-9) by (auto simp: written_def signals_append)
  ultimately show ?thesis using assms(3,4) by (simp add: operator_sound_def)
qed

lemma delivery_sound: "delivery s s' \<Longrightarrow> operator_sound s \<Longrightarrow> operator_sound s'"
proof (induction rule: delivery.induct)
  case (taken s)
  then show ?case
    by (simp add: operator_sound_def cells_known_def written_def last_signal_def receiveSignal_def)
next
  case (stored s f fs)
  let ?sig = "last_signal s"
  from stored have s: "operator_sound s" "receiver s = f # fs" by auto
  then have len: "length fs \<le> 2" and drop: "f # fs = drop (2 - length fs) (receiveSignal ?sig)" and n: "received s \<noteq> 0"
    by (auto simp: operator_sound_def written_def split: if_splits)
  from s n have "?sig \<in> set (signals (calls_made s))"
    by (auto simp: operator_sound_def written_def last_signal_def)
  then have "sig_K8sGPTClient ?sig \<in> shared_clients (calls_made s)" "sig_Backend ?sig \<in> shared_backends (calls_made s)"
    by (auto simp: shared_clients_def shared_backends_def)
  then have known: "cells_known (s\<lparr>shared := f (shared s), receiver := fs\<rparr>)"
    if "f \<in> set (receiveSignal ?sig)"
    using s(1) that by (auto simp: operator_sound_def cells_known_def receiveSignal_def SetServerQueryClient_def
      SetRemoteBackend_def SetK8sGPTConfig_def)
  from drop have "f \<in> set (receiveSignal ?sig)" by (metis in_set_dropD list.set_intros(1))
  note known [OF this]
  moreover consider "length fs = 2" | "length fs = 1" | "length fs = 0" using len by linarith
  then have "written (s\<lparr>shared := f (shared s), receiver := fs\<rparr>)"
    using s drop n
    by cases (auto simp: operator_sound_def written_def last_signal_def receiveSignal_def numeral_2_eq_2
        SetServerQueryClient_def SetRemoteBackend_def SetK8sGPTConfig_def)
  ultimately show ?case using s(1) by (simp add: operator_sound_def)
qed

lemma deliveries_sound: "delivery\<^sup>*\<^sup>* s s' \<Longrightarrow> operator_sound s \<Longrightarrow> operator_sound s'"
  by (induction rule: rtranclp_induct) (auto intro: delivery_sound)

lemma reached_sound: "reached E K D s \<Longrightarrow> operator_sound s"
proof (induction rule: reached.induct)
  case (start s)
  then show ?case
    by (simp add: operator_sound_def connections_sound_def metrics_sound_def accounted_def held_def cells_known_def
      shared_backends_def written_def)
next
  case (analysed s req out a)
  have "calls_since (calls_made s) (\<lambda>_. True) (\<lambda>c. area_of c \<noteq> Workloads) {} (analysis s)"
    by (simp add: calls_since_start)
  from maintains_D [OF aloof.reconciliation this analysed.hyps(2)] obtain cs where
    cs: "trace (cs_world a) = calls_made s @ cs" "list_all (\<lambda>c. area_of c \<noteq> Workloads) cs"
    by (auto simp: calls_since_def)
  have "connections_sound {} a" "metrics_sound {} a"
    using analysed.IH maintains_D [OF connections.reconciliation _ analysed.hyps(2)]
      maintains_D [OF metrics.reconciliation _ analysed.hyps(2)] by (simp_all add: operator_sound_def)
  with cs(1) no_queries [OF cs(2)] show ?case by (intro operator_sound_calls [OF analysed.IH, where cs = cs]) simp_all
next
  case (delivered s s')
  then show ?case by (blast intro: delivery_sound)
next
  case (repaired s s' key out r w)
  note sound = deliveries_sound [OF repaired.hyps(2) repaired.IH]
  note same = deliveries_keep [OF repaired.hyps(2)]
  from Reconcile_area [OF repaired.hyps(3)] obtain cs where
    cs: "trace w = calls_made s' @ cs" "list_all (repair_call (ServerQueryClient r) (GetRemoteBackend (shared s))) cs"
    and r: "ServerQueryClient r = ServerQueryClient (repairs s') \<or> ServerQueryClient r = serverQueryClient (shared s')"
    using same by auto
  have "set_option (ServerQueryClient r) \<subseteq> shared_clients (calls_made s')"
    using sound r by (auto simp: operator_sound_def cells_known_def)
  moreover have "GetRemoteBackend (shared s) \<in> shared_backends (calls_made s')"
    using repaired.IH same by (simp add: operator_sound_def cells_known_def GetRemoteBackend_def)
  ultimately have "list_all (queried (calls_made s')) cs" by (rule queried_repairs [OF cs(2)])
  moreover have "connections_sound {} ((analysis s')\<lparr>cs_world := w\<rparr>)"
    by (rule connections_sound_call [OF _ cs(1)])
      (use sound repair_calls_area [OF cs(2)] in
        \<open>auto simp: operator_sound_def connecting_area uses_area [THEN iffD2] elim!: list.pred_mono_strong\<close>)
  moreover have "metrics_sound {} ((analysis s')\<lparr>cs_world := w\<rparr>)"
    using sound by (simp add: operator_sound_def metrics_sound_def)
  ultimately show ?case using cs(1) r by (intro operator_sound_calls [OF sound]) simp_all
next
  case (elsewhere s c)
  then show ?case
    by (intro operator_sound_calls [OF elsewhere.IH, where cs = "[]"])
      (simp_all add: operator_sound_def connections_sound_def metrics_sound_def accounted_def held_def)
qed

text \<open>
  A reconciler that has a client keeps it, but reads the backend anew: a query goes to the server
  of the first signal with the backend of the last one, which may be of another K8sGPT.
\<close>

lemma cached_client_with_shared_backend:
  assumes "mt_Phase (mu_Status m) = PhaseNotStarted" and "(if ServerQueryClient r = None then serverQueryClient cells else ServerQueryClient r) = Some c"
    and "fst (kGetResult K (resultKey m) (cluster w)) = Inr result"
    and "reconcilePhase L K D backend cells r m w = (out, r', w')"
  shows "\<exists>prompt. CallQuery c backend prompt \<in> set (calls w w')"
proof -
  obtain x v where get: "GetResult K (resultKey m) w = (x, v)" by (cases "GetResult K (resultKey m) w")
  have "fst (GetResult K (resultKey m) w) = Inr result" using assms(3) by (simp add: perform_def case_prod_beta)
  with get have x: "x = Inr result" by simp
  let ?prompt = "Mutation_prompt (rs_Details (res_Spec result)) (ms_OriginConfiguration (mu_Spec m))"
  let ?query = "Query K c backend ?prompt"
  obtain a v2 where query: "?query v = (a, v2)" by (cases "?query v")
  let ?rest = "\<lambda>response. if response = ''{null}'' then
      (\<lambda>w. case StatusUpdateMutation K (noKnownFix m) w of
         (Inl err, w) \<Rightarrow> ((requeue_after ErrorRequeueTime, Some err), w)
       | (Inr _, w) \<Rightarrow> ((requeue_after (ErrorRequeueTime * 10), None), w))
    else (\<lambda>w. case imageSelectionProposal L (ms_OriginConfiguration (mu_Spec m)) response of
         Inl err \<Rightarrow> updateThen K (invalidProposal (Error err) m) no_requeue w
       | Inr proposal \<Rightarrow> updateThen K (proposedMutation D proposal m) (requeue_after NotStartedRequeueTime) w)"
  have rest: "emits trace (repair_call (Some c) backend) (?rest response)" for response
    by (intro direct_rules emits_if emits_perform updateThen_area) simp
  have "w' = v2 \<or> (\<exists>response r. ?rest response v2 = (r, w'))"
    using assms(1,2,4) get x query
    by (cases a) (auto simp: reconcilePhase_def requestProposal_def GetServerQueryClient_def split: prod.splits if_splits)
  then obtain cs where "trace w' = trace v2 @ cs" using emits_calls [OF rest] by fastforce
  with perform_trace [OF get] perform_trace [OF query] show ?thesis by (auto simp: calls_eq)
qed

text \<open>
  The client is shared before the backend, so a reconciliation between the two writes of the first
  signal sends a query without a backend.
\<close>

lemma first_query_may_lack_backend:
  assumes "reached E K D s" and "receiver s = []" and "received s = 0"
    and "signals (calls_made s) = sig # sigs" and "ServerQueryClient (repairs s) = None"
    and "kGetMutation K key (cluster (cs_world (analysis s))) = (Inr m, c)"
    and "\<not> beingDeleted m" and "mt_Phase (mu_Status m) = PhaseNotStarted"
    and "fst (kGetResult K (resultKey m) c) = Inr result"
  shows "\<exists>s' prompt. reached E K D s' \<and> CallQuery (sig_K8sGPTClient sig) '''' prompt \<in> set (calls_made s')"
proof -
  define s1 where "s1 = s\<lparr>receiver := receiveSignal sig, received := Suc 0\<rparr>"
  define s2 where "s2 = s1\<lparr>shared := SetServerQueryClient (Some (sig_K8sGPTClient sig)) (shared s1),
    receiver := [SetRemoteBackend (sig_Backend sig), SetK8sGPTConfig (Some (sig_K8sGPT sig))]\<rparr>"
  have "delivery s s1" using delivery.taken [of s] assms(2-4) by (simp add: s1_def)
  moreover have "delivery s1 s2" unfolding s2_def by (rule delivery.stored) (simp add: s1_def receiveSignal_def)
  ultimately have s2: "reached E K D s2" using assms(1) by (blast intro: reached.delivered)
  obtain out r w where run: "Reconcile (en_lib E) K D (shared s2) (shared s2) (repairs s2) key (cs_world (analysis s2)) = (out, r, w)"
    by (metis prod_cases3)
  obtain v where v: "GetMutation K key (cs_world (analysis s2)) = (Inr m, v)" "cluster v = c"
    using assms(6) by (simp add: s2_def s1_def perform_def)
  have "remoteBackend (shared s) = ''''"
    using reached_sound [OF assms(1)] assms(3) by (simp add: operator_sound_def written_def)
  then have cells: "GetRemoteBackend (shared s2) = ''''" "serverQueryClient (shared s2) = Some (sig_K8sGPTClient sig)"
    by (simp_all add: s2_def s1_def GetRemoteBackend_def SetServerQueryClient_def)
  have phase: "reconcilePhase (en_lib E) K D '''' (shared s2) (repairs s2) m v = (out, r, w)"
    using run v assms(7) cells by (simp add: Reconcile_def Let_def)
  have "ServerQueryClient (repairs s2) = None" using assms(5) by (simp add: s2_def s1_def)
  with cached_client_with_shared_backend [OF assms(8) _ _ phase] cells assms(9) v(2)
  obtain prompt where "CallQuery (sig_K8sGPTClient sig) '''' prompt \<in> set (calls v w)" by auto
  then have "CallQuery (sig_K8sGPTClient sig) '''' prompt \<in> set (trace w)"
    by (auto simp: calls_def dest: in_set_dropD)
  with reached.repaired [OF s2 rtranclp.rtrancl_refl run] show ?thesis by fastforce
qed

end
