(* ===== verification/Reconciliation.thy ===== *)
theory Reconciliation
  imports Operator
begin

text \<open>
  Properties of every state the operator reaches, and of whole reconciliations of a K8sGPT: no
  connection is lost, no closed one is used, the shared cells agree, the circuit breaker and what
  the controller keeps away from, how a reconciliation is requeued, and what happens to a K8sGPT
  that is being deleted.
\<close>

section \<open>Connections\<close>

text \<open>
  C11. In every state the operator reaches, whatever the cluster and the servers answer, every
  connection that was ever dialled has been closed or is held for a resource, at most one for
  each: none is lost.
\<close>

theorem no_connection_is_lost:
  assumes "reached E K D s"
  shows "mset (dialled (calls_made s)) = mset (closings (calls_made s)) + mset (held (analysis s)) \<and>
    distinct (map fst (kclients (analysis s)))"
  using reached_sound [OF assms] by (simp add: operator_sound_def connections_sound_def accounted_def)

text \<open>The operator after one analysis, and after the goroutine has taken its signal.\<close>

definition state4 :: "unit ksys" where
  "state4 = snd (ReconcileK8sGPT sampleEnv sampleKube sampleRequest freshController)"

lemma state4_eq: "state4 = snd (ResultStatusStep sampleEnv sampleKube (calculateRemediationStep sampleEnv sampleKube) inst2 state3)"
  unfolding state4_def sample_run by (rule refl)

text \<open>One evaluation of the analysis gives what the witnesses look at.\<close>

definition observed :: "unit ksys \<Rightarrow> nat list \<times> nat list \<times> bool \<times> metric_call list" where
  "observed s = (map sig_K8sGPTClient (signals (trace (cs_world s))), dialled (trace (cs_world s)),
     List.member (map uses (trace (cs_world s))) (Some 0), metric_calls s)"

lemma state4_observed:
  "observed state4 =
     ([0], [0], True,
      [SetGauge ''k8sgpt_number_of_results'' [''default'', ''main''] 1,
       ResetGauge ''k8sgpt_number_of_results_by_type'',
       IncGauge ''k8sgpt_number_of_results_by_type'' [''default'', ''Pod'', ''default/web-0'', ''main''],
       SetGauge ''k8sgpt_mutations_count'' [''mutations'', ''pk8sgpt''] 0])"
  unfolding state4_eq by code_simp

lemma state4_signals: "map sig_K8sGPTClient (signals (trace (cs_world state4))) = [0]"
  and state4_dialled: "dialled (trace (cs_world state4)) = [0]"
  and state4_uses: "List.member (map uses (trace (cs_world state4))) (Some 0)"
  and state4_metrics: "length (metric_calls state4) = 4"
  using state4_observed by (simp_all add: observed_def)

definition freshOperator :: "unit operator" where
  "freshOperator = \<lparr>analysis = freshController, received = 0, receiver = [],
     shared = \<lparr>serverQueryClient = None, remoteBackend = '''', k8sgptConfig = None\<rparr>,
     repairs = \<lparr>ServerQueryClient = None\<rparr>\<rparr>"

definition analysedOperator :: "unit operator" where
  "analysedOperator = freshOperator\<lparr>analysis := state4\<rparr>"

definition signalledOperator :: "unit operator" where
  "signalledOperator = analysedOperator\<lparr>received := 1, receiver := [],
     shared := fold (\<lambda>f. f) (receiveSignal (signals (calls_made analysedOperator) ! 0)) (shared freshOperator)\<rparr>"

lemma reached_analysed: "reached sampleEnv sampleKube D analysedOperator"
proof -
  have "reached sampleEnv sampleKube D freshOperator"
    by (rule reached.start) (simp_all add: freshOperator_def freshController_def)
  from reached.analysed [OF this, of sampleRequest "fst (ReconcileK8sGPT sampleEnv sampleKube sampleRequest freshController)" state4]
  show ?thesis by (simp add: analysedOperator_def state4_def freshOperator_def)
qed

lemma reached_receiver:
  assumes "reached E K D s" and "receiver s = ws"
  shows "reached E K D (s\<lparr>shared := fold (\<lambda>f. f) ws (shared s), receiver := []\<rparr>)"
  using assms
proof (induction ws arbitrary: s)
  case Nil
  then show ?case by (cases s) simp
next
  case (Cons put ws)
  show ?case using Cons.IH [OF reached.delivered [OF Cons.prems(1) delivery.stored [OF Cons.prems(2)]]] by simp
qed

lemma reached_signalled: "reached sampleEnv sampleKube D signalledOperator"
proof -
  have "receiver analysedOperator = []" "received analysedOperator < length (signals (calls_made analysedOperator))"
    using state4_signals [THEN arg_cong [where f = length]] by (simp_all add: analysedOperator_def freshOperator_def)
  from reached_receiver [OF reached.delivered [OF reached_analysed delivery.taken [OF this]] refl]
  show ?thesis by (simp add: signalledOperator_def analysedOperator_def freshOperator_def receiveSignal_def)
qed

theorem no_connection_is_lost_witness:
  "mset (dialled (calls_made analysedOperator)) = mset (closings (calls_made analysedOperator)) + mset (held (analysis analysedOperator)) \<and>
   dialled (calls_made analysedOperator) = [0]"
proof
  show "mset (dialled (calls_made analysedOperator)) = mset (closings (calls_made analysedOperator)) + mset (held (analysis analysedOperator))"
    using no_connection_is_lost [OF reached_analysed] by blast
  show "dialled (calls_made analysedOperator) = [0]" using state4_dialled by (simp add: analysedOperator_def)
qed

text \<open>
  C12. In every state the operator reaches, each request to a K8sGPT server and each signal of the
  K8sGPT controller went over a connection that was open at that time, and each query of the
  mutation controller went to the client of a signal sent before, with the backend of a signal sent
  before or the empty one (that of the start, see \<open>first_query_may_lack_backend\<close>).
\<close>

theorem requests_use_open_connections:
  assumes "reached E K D s"
  shows "orderly (calls_made s) \<and> always queried (calls_made s)"
  using reached_sound [OF assms] by (simp add: operator_sound_def connections_sound_def)

theorem requests_use_open_connections_witness:
  "orderly (calls_made analysedOperator) \<and> List.member (map uses (calls_made analysedOperator)) (Some 0)"
proof
  show "orderly (calls_made analysedOperator)" using requests_use_open_connections [OF reached_analysed] by blast
  show "List.member (map uses (calls_made analysedOperator)) (Some 0)"
    using state4_uses by (simp add: analysedOperator_def)
qed

text \<open>
  C33. Whenever the goroutine is not in the middle of a signal, the shared cells hold the client, the
  backend and the resource of one and the same signal, the last one taken.
\<close>

theorem shared_cells_agree:
  assumes "reached E K D s" and "receiver s = []" and "received s \<noteq> 0"
  shows "GetServerQueryClient (shared s) = Some (sig_K8sGPTClient (last_signal s)) \<and>
    GetRemoteBackend (shared s) = sig_Backend (last_signal s) \<and>
    GetK8sGPTConfig (shared s) = Some (sig_K8sGPT (last_signal s))"
  using reached_sound [OF assms(1)] assms(2,3)
  by (simp add: operator_sound_def written_def GetServerQueryClient_def GetRemoteBackend_def GetK8sGPTConfig_def)

theorem shared_cells_agree_witness:
  "GetServerQueryClient (shared signalledOperator) = Some (sig_K8sGPTClient (last_signal signalledOperator)) \<and>
   sig_K8sGPTClient (last_signal signalledOperator) = 0"
proof
  show "GetServerQueryClient (shared signalledOperator) = Some (sig_K8sGPTClient (last_signal signalledOperator))"
    using shared_cells_agree [OF reached_signalled] by (simp add: signalledOperator_def)
  have "calls_made signalledOperator = trace (cs_world state4)" "received signalledOperator - 1 = 0"
    by (simp_all add: signalledOperator_def analysedOperator_def)
  then show "sig_K8sGPTClient (last_signal signalledOperator) = 0"
    using state4_signals by (auto simp: last_signal_def)
qed

section \<open>Metrics\<close>

text \<open>
  C34. In every state the operator reaches, each call on a metric was made on a vector that the builder
  of \<^verbatim>\<open>InitializeMetrics\<close> has, of that type, and with one value for each of its labels, so
  \<^verbatim>\<open>WithLabelValues\<close> never panics; and the counter of the calls of the AI backend was never increased.
\<close>

theorem metric_calls_fit:
  assumes "reached E K D s"
  shows "metricsBuilder (analysis s) = fst InitializeMetrics \<and>
    list_all (fits (metricsBuilder (analysis s))) (metric_calls (analysis s)) \<and>
    ''k8sgpt_number_of_backend_ai_calls'' \<notin> metric_name ` set (metric_calls (analysis s))"
  using reached_sound [OF assms]
  by (auto simp: operator_sound_def metrics_sound_def expected_metric_def list_all_iff)

theorem metric_calls_fit_witness:
  "list_all (fits (metricsBuilder (analysis analysedOperator))) (metric_calls (analysis analysedOperator)) \<and>
   length (metric_calls (analysis analysedOperator)) = 4"
proof
  show "list_all (fits (metricsBuilder (analysis analysedOperator))) (metric_calls (analysis analysedOperator))"
    using metric_calls_fit [OF reached_analysed] by blast
  show "length (metric_calls (analysis analysedOperator)) = 4"
    using state4_metrics by (simp add: analysedOperator_def)
qed

section \<open>The circuit breaker\<close>

text \<open>\<open>unasked t n\<close>: no analysis was requested since the trace \<open>t\<close>, and \<open>n\<close> failures are counted.\<close>

definition unasked :: "call list \<Rightarrow> int \<Rightarrow> 's ksys \<Rightarrow> bool" where
  "unasked t n s \<longleftrightarrow> analysisRetryCount s = n \<and>
     (\<exists>cs. trace (cs_world s) = t @ cs \<and> list_all (\<lambda>c. area_of c \<noteq> Analysing) cs)"

lemma unasked_world: "touches A f \<Longrightarrow> Analysing \<notin> A \<Longrightarrow> maintains (unasked t n) (on_world f)"
proof (rule maintains_I)
  fix s r s' assume f: "touches A f" "Analysing \<notin> A" and s: "unasked t n s" and run: "on_world f s = (r, s')"
  from on_world_parts [OF run] obtain w where w: "f (cs_world s) = (r, w)" "s' = s\<lparr>cs_world := w\<rparr>" by blast
  from touches_D [OF f(1) w(1)] obtain cs where
    "trace w = trace (cs_world s) @ cs" "list_all (\<lambda>c. area_of c \<in> A) cs" by blast
  moreover from this(2) f(2) have "list_all (\<lambda>c. area_of c \<noteq> Analysing) cs" by (auto simp: list_all_iff)
  ultimately show "unasked t n s'" using s w(2) by (auto simp: unasked_def)
qed

lemma unasked_metric:
  "maintains (unasked t n) (if_metric get call)" "maintains (unasked t n) (must_metric get call)"
  "maintains (unasked t n) (FinishReconcile H err imm name config)"
  by (rule maintains_I, auto simp: unasked_def if_metric_def must_metric_def FinishReconcile_def split: option.splits)+

lemma unasked_request: "maintains J m \<Longrightarrow> maintains J (request m)"
  by (auto simp: maintains_def request_def split: prod.splits)

lemma unasked_clear: "maintains (unasked t n) (clearAnalysisError K config)"
proof -
  have "touches {Configuration} (StatusUpdateK8sGPT K x)" for x :: K8sGPT
    by (simp add: touches_def emits_perform)
  then have "maintains (unasked t n) (on_world (StatusUpdateK8sGPT K x))" for x :: K8sGPT
    by (rule unasked_world) simp
  then show ?thesis unfolding clearAnalysisError_def by (intro maintains_rules unasked_request)
qed

lemma clearing_succeeds: "\<exists>c s'. clearAnalysisError K config s = (Done (Inr c), s')"
proof -
  obtain r s' where "on_world (StatusUpdateK8sGPT K (clearedStatus config)) s = (r, s')"
    by (cases "on_world (StatusUpdateK8sGPT K (clearedStatus config)) s")
  then show ?thesis by (cases r) (simp_all add: clearAnalysisError_def on_error_def request_def succeed_def)
qed

lemma unasked_rest:
  "maintains (unasked t n) (setk8sgptNumberOfResults config results)"
  "maintains (unasked t n) (cleanUpStaleResults K config rawResults)"
  "maintains (unasked t n) (processRawResults E K config rawResults)"
  "maintains (unasked t n) (calculateRemediationStep E K inst)"
  unfolding setk8sgptNumberOfResults_def cleanUpStaleResults_def processRawResults_def calculateRemediationStep_def
    Let_def case_prod_beta
  by (intro maintains_rules unasked_metric unasked_world [OF touches_request_result(1)] unasked_world [OF touches_request_result(2)]
      unasked_world [OF touches_request_result(3)] unasked_world [OF touches_EmitIfNotHistorical]
      unasked_world [OF touches_eligibleResources] unasked_world [OF touches_getResult] unasked_world [OF touches_createMutation];
    simp)+

lemma unasked_status: "maintains (unasked t n) (ResultStatusStep E K (calculateRemediationStep E K) inst)"
  unfolding ResultStatusStep_def Let_def
  by (intro maintains_rules unasked_metric unasked_rest unasked_world [OF touches_EmitIfNotHistorical]
      unasked_world [OF touches_initSinkType] unasked_world [OF touches_processLatestResults]; simp)

text \<open>After a successful analysis no failure is counted, and no other analysis is requested.\<close>

lemma unasked_succeeded:
  assumes "unasked t m s"
    and "analysisSucceeded E K (ResultStatusStep E K (calculateRemediationStep E K)) inst results s = (out, s')"
  shows "unasked t 0 s'"
proof -
  let ?H = "en_host E"
  obtain c s1 where clear: "clearAnalysisError K (K8sgptConfig inst) s = (Done (Inr c), s1)"
    using clearing_succeeds by metis
  note s1 = maintains_D [OF unasked_clear assms(1) clear]
  let ?rest = "or_return (setk8sgptNumberOfResults c results) (failed ?H c) (\<lambda>_.
      or_return (on_world (mapResults E K results c)) (failed ?H c) (\<lambda>rawResults.
      or_return (cleanUpStaleResults K c rawResults) (failed ?H c) (\<lambda>_.
      or_return (processRawResults E K c rawResults) (failed ?H c) (\<lambda>_.
      ResultStatusStep E K (calculateRemediationStep E K) (inst\<lparr>K8sgptConfig := c\<rparr>)))))"
  from assms(2) clear have run: "?rest (s1\<lparr>analysisRetryCount := 0\<rparr>) = (out, s')"
    by (simp add: analysisSucceeded_def Let_def or_return_def [of "clearAnalysisError K (K8sgptConfig inst)"]
        or_return_def [of resetRetries] resetRetries_def)
  have "maintains (unasked t 0) ?rest"
    by (intro maintains_rules unasked_metric unasked_rest unasked_status unasked_world [OF touches_mapResults]; simp)
  from maintains_D [OF this _ run] s1 show ?thesis by (simp add: unasked_def)
qed

text \<open>What the analysis of a K8sGPT is answered, and whether that is an error.\<close>

definition analysisAnswer :: "'s kube \<Rightarrow> nat \<Rightarrow> AnalyzeRequest \<Rightarrow> 's \<Rightarrow> ResultSpec list go_result" where
  "analysisAnswer K conn rq c = (case fst (kAnalyze K conn rq c) of Inl err \<Rightarrow> Inl err | Inr res \<Rightarrow> re_Results res)"

lemma ProcessAnalysis_run:
  assumes "sp_AI (k_Spec config) = Some ai" and "ai_Anonymize ai = Some anonymize"
  obtains rq r w' where "ProcessAnalysis K conn config allow w = (Done r, w')"
    and "trace w' = trace w @ [CallAnalyze conn rq]" and "rq_Explain rq \<longleftrightarrow> ai_Enabled ai \<and> allow"
    and "is_ok r \<longleftrightarrow> is_ok (analysisAnswer K conn rq (cluster w))"
proof -
  let ?rq = "\<lparr>rq_Explain = ai_Enabled ai \<and> allow, rq_Nocache = sp_NoCache (k_Spec config),
     rq_Backend = EffectiveBackend (ai_Backend ai), rq_Namespace = sp_TargetNamespace (k_Spec config),
     rq_Filters = sp_Filters (k_Spec config), rq_Anonymize = anonymize, rq_Language = ai_Language ai\<rparr>"
  obtain x w1 where call: "Analyze K conn ?rq w = (x, w1)" by (cases "Analyze K conn ?rq w")
  note tr = perform_trace [OF call]
  have x: "x = fst (kAnalyze K conn ?rq (cluster w))" using call by (auto simp: perform_def split: prod.splits)
  show thesis
  proof (cases x)
    case (Inl err)
    show thesis
      by (rule that [of "Inl (Errorf_v ''failed to call Analyze RPC: '' err)" w1 ?rq])
        (use Inl assms call tr x in \<open>simp_all add: ProcessAnalysis_def action_defs and_then_def on_error_def request_def
          analysisAnswer_def is_ok_def\<close>)
  next
    case (Inr res)
    show thesis
    proof (cases "re_Results res")
      case (Inl err)
      show thesis
        by (rule that [of "Inl err" w1 ?rq])
          (use Inl Inr assms call tr x in \<open>simp_all add: ProcessAnalysis_def action_defs and_then_def on_error_def request_def
            analysisAnswer_def is_ok_def\<close>)
    next
      case results: (Inr target)
      show thesis
        by (rule that [of "Inr \<lparr>kr_Status = re_Status res, kr_Problems = re_Problems res, kr_Results = target\<rparr>" w1 ?rq])
          (use results Inr assms call tr x in \<open>simp_all add: ProcessAnalysis_def action_defs and_then_def on_error_def request_def
            analysisAnswer_def is_ok_def\<close>)
    qed
  qed
qed

text \<open>
  What a failed analysis does to the breaker: nothing unless the AI and the back-off are enabled;
  otherwise it is counted, and opens the breaker once more are counted than the maximum.
\<close>

definition failure_counted :: "AISpec \<Rightarrow> BackOff \<Rightarrow> 's ksys \<Rightarrow> 's ksys \<Rightarrow> bool" where
  "failure_counted ai backOff s s' \<longleftrightarrow>
     (if ai_Enabled ai \<and> bo_Enabled backOff then
        if analysisRetryCount s > bo_MaxRetries backOff then \<not> allowBackendAIRequest s' \<and> analysisRetryCount s' = 1
        else (allowBackendAIRequest s' \<longleftrightarrow> allowBackendAIRequest s) \<and> analysisRetryCount s' = analysisRetryCount s + 1
      else (allowBackendAIRequest s' \<longleftrightarrow> allowBackendAIRequest s) \<and> analysisRetryCount s' = analysisRetryCount s)"

lemma if_metric_counters:
  "fst (if_metric get call s) = Done (Inr ())" "allowBackendAIRequest (snd (if_metric get call s)) = allowBackendAIRequest s"
  "analysisRetryCount (snd (if_metric get call s)) = analysisRetryCount s"
  by (simp_all add: if_metric_def split: option.split)

lemma finish_counters:
  "allowBackendAIRequest (snd (FinishReconcile H err imm name config s)) = allowBackendAIRequest s"
  "analysisRetryCount (snd (FinishReconcile H err imm name config s)) = analysisRetryCount s"
  by (auto simp: FinishReconcile_def if_metric_counters split: option.splits)

lemma backoff_run:
  assumes "ai_BackOff ai = Some backOff" and "k8sgptDeployment inst = Some d"
  shows "\<exists>s'. (if ai_Enabled ai then and_then (incK8sgptNumberOfFailedBackendAICalls inst ai) (\<lambda>_. handleAIFailureBackoff ai)
      else succeed ()) s = (Done (Inr ()), s') \<and> cs_world s' = cs_world s \<and> failure_counted ai backOff s s'"
proof (cases "ai_Enabled ai")
  case True
  obtain s1 where inc: "incK8sgptNumberOfFailedBackendAICalls inst ai s = (Done (Inr ()), s1)" "cs_world s1 = cs_world s"
    "allowBackendAIRequest s1 = allowBackendAIRequest s" "analysisRetryCount s1 = analysisRetryCount s"
    using assms(2) by (simp add: incK8sgptNumberOfFailedBackendAICalls_def and_then_def action_defs)
      (metis if_metric_counters cs_world_metric prod.collapse)
  with True assms(1) show ?thesis
    by (simp add: and_then_def [of "incK8sgptNumberOfFailedBackendAICalls inst ai"] handleAIFailureBackoff_def Let_def failure_counted_def)
qed (simp add: failure_counted_def succeed_def)

lemma recording_succeeds:
  "\<exists>c w'. setAnalysisErrorStatus K config err w = (Done (Inr c), w') \<and>
     (\<exists>cs. trace w' = trace w @ cs \<and> list_all (\<lambda>c. area_of c \<noteq> Analysing) cs)"
proof -
  obtain r w' where run: "setAnalysisErrorStatus K config err w = (r, w')" by (cases "setAnalysisErrorStatus K config err w")
  from touches_D [OF touches_setAnalysisErrorStatus run] obtain cs where
    "trace w' = trace w @ cs" "list_all (\<lambda>c. area_of c \<in> {Configuration}) cs" by blast
  moreover from this(2) have "list_all (\<lambda>c. area_of c \<noteq> Analysing) cs" by (auto simp: list_all_iff)
  moreover have "\<exists>c. r = Done (Inr c)"
    using run by (auto simp: setAnalysisErrorStatus_def Let_def on_error_def request_def succeed_def split: if_splits prod.splits sum.splits)
  ultimately show ?thesis using run by blast
qed

lemma analysisFailed_run:
  assumes "sp_AI (k_Spec (K8sgptConfig inst)) = Some ai" and "ai_BackOff ai = Some backOff"
    and "k8sgptDeployment inst = Some d" and "analysisFailed E K inst err s = (out, s')"
  shows "\<exists>config cs. out = Done (requeueAfter (en_host E) (Some err) False config) \<and>
    trace (cs_world s') = trace (cs_world s) @ cs \<and> list_all (\<lambda>c. area_of c \<noteq> Analysing) cs \<and>
    failure_counted ai backOff s s'"
proof -
  from backoff_run [OF assms(2,3), of s] obtain s1 where
    b: "(if ai_Enabled ai then and_then (incK8sgptNumberOfFailedBackendAICalls inst ai) (\<lambda>_. handleAIFailureBackoff ai)
      else succeed ()) s = (Done (Inr ()), s1)" and s1: "cs_world s1 = cs_world s" "failure_counted ai backOff s s1" by blast
  from recording_succeeds [of K "K8sgptConfig inst" err "cs_world s1"] obtain c w' cs where
    r: "setAnalysisErrorStatus K (K8sgptConfig inst) err (cs_world s1) = (Done (Inr c), w')"
    and cs: "trace w' = trace (cs_world s1) @ cs" "list_all (\<lambda>c. area_of c \<noteq> Analysing) cs" by blast
  have "and_then (deref (sp_AI (k_Spec (K8sgptConfig inst)))) (\<lambda>ai.
      if ai_Enabled ai then and_then (incK8sgptNumberOfFailedBackendAICalls inst ai) (\<lambda>_. handleAIFailureBackoff ai)
      else succeed ()) s = (Done (Inr ()), s1)"
    using b assms(1) by (simp add: and_then_def [of "deref _"] deref_def succeed_def)
  then have "failed (en_host E) c err (s1\<lparr>cs_world := w'\<rparr>) = (out, s')"
    using assms(4) r by (simp add: analysisFailed_def Let_def or_return_def recordAnalysisError_def on_world_def)
  then have "out = Done (requeueAfter (en_host E) (Some err) False c)" "cs_world s' = w'"
    "allowBackendAIRequest s' = allowBackendAIRequest s1" "analysisRetryCount s' = analysisRetryCount s1"
    using FinishReconcile_parts [of "en_host E" "Some err" False "om_Name (k_Meta c)" c "s1\<lparr>cs_world := w'\<rparr>"]
      finish_counters [of "en_host E" "Some err" False "om_Name (k_Meta c)" c "s1\<lparr>cs_world := w'\<rparr>"] by simp_all
  with cs s1 show ?thesis by (intro exI [of _ c] exI [of _ cs]) (simp add: failure_counted_def)
qed

text \<open>
  C18. The circuit breaker switches the explanations off.  An analysis is one request to the server, and
  it asks for explanations exactly when the AI is enabled and the breaker is closed.  If the request or
  the decoding of its results fails, the reconciliation fails with an error; and if the AI and the
  back-off are enabled, the failure is counted, or, once more failures than the maximal number of
  retries are counted, the breaker is opened; otherwise both stay as they were.  If it succeeds, no
  failure is counted any more.
\<close>

theorem breaker_decides_explanations:
  fixes s :: "'s ksys"
  assumes "AnalysisStep E K (ResultStatusStep E K (calculateRemediationStep E K)) inst s = (out, s')"
    and "kclient inst = Some conn" and "k8sgptDeployment inst = Some d"
    and "sp_AI (k_Spec (K8sgptConfig inst)) = Some ai" and "ai_Anonymize ai = Some anonymize" and "ai_BackOff ai = Some backOff"
  shows "\<exists>rq rest. calls (cs_world s) (cs_world s') = CallAnalyze conn rq # rest \<and>
    list_all (\<lambda>c. area_of c \<noteq> Analysing) rest \<and> (rq_Explain rq \<longleftrightarrow> ai_Enabled ai \<and> allowBackendAIRequest s) \<and>
    (case analysisAnswer K conn rq (cluster (cs_world s)) of
       Inr results \<Rightarrow> analysisRetryCount s' = 0
     | Inl err \<Rightarrow> failure_counted ai backOff s s' \<and>
         (\<exists>err config. out = Done (requeueAfter (en_host E) (Some err) False config)))"
proof -
  from ProcessAnalysis_run [OF assms(4,5), where K = K and conn = conn and allow = "allowBackendAIRequest s" and w = "cs_world s"]
  obtain rq r w' where p: "ProcessAnalysis K conn (K8sgptConfig inst) (allowBackendAIRequest s) (cs_world s) = (Done r, w')"
    "trace w' = trace (cs_world s) @ [CallAnalyze conn rq]" "rq_Explain rq \<longleftrightarrow> ai_Enabled ai \<and> allowBackendAIRequest s"
    "is_ok r \<longleftrightarrow> is_ok (analysisAnswer K conn rq (cluster (cs_world s)))" by metis
  let ?s1 = "s\<lparr>cs_world := w'\<rparr>"
  note step = assms(1) [unfolded AnalysisStep_def assms(2,3)]
  show ?thesis
  proof (cases r)
    case (Inl err)
    with step p(1) have "analysisFailed E K inst err ?s1 = (out, s')" by (simp add: and_then_def action_defs on_world_def)
    from analysisFailed_run [OF assms(4,6,3) this] obtain config cs where
      out: "out = Done (requeueAfter (en_host E) (Some err) False config)"
      and cs: "trace (cs_world s') = trace w' @ cs" "list_all (\<lambda>c. area_of c \<noteq> Analysing) cs"
      and "failure_counted ai backOff ?s1 s'" by auto
    from this(4) have "failure_counted ai backOff s s'" by (simp add: failure_counted_def)
    moreover from Inl p(4) obtain e where "analysisAnswer K conn rq (cluster (cs_world s)) = Inl e"
      by (cases "analysisAnswer K conn rq (cluster (cs_world s))") auto
    moreover have "calls (cs_world s) (cs_world s') = CallAnalyze conn rq # cs" using cs(1) p(2) by (simp add: calls_eq)
    ultimately show ?thesis using out cs(2) p(3) by (intro exI [of _ rq] exI [of _ cs]) auto
  next
    case (Inr response)
    with step p(1) have run:
      "analysisSucceeded E K (ResultStatusStep E K (calculateRemediationStep E K)) inst (kr_Results response) ?s1 = (out, s')"
      by (simp add: and_then_def action_defs on_world_def)
    have "unasked (trace w') (analysisRetryCount s) ?s1" by (simp add: unasked_def)
    from unasked_succeeded [OF this run] obtain cs where
      cs: "analysisRetryCount s' = 0" "trace (cs_world s') = trace w' @ cs" "list_all (\<lambda>c. area_of c \<noteq> Analysing) cs"
      by (auto simp: unasked_def)
    from Inr p(4) obtain x where "analysisAnswer K conn rq (cluster (cs_world s)) = Inr x"
      by (cases "analysisAnswer K conn rq (cluster (cs_world s))") auto
    moreover have "calls (cs_world s) (cs_world s') = CallAnalyze conn rq # cs" using cs(2) p(2) by (simp add: calls_eq)
    ultimately show ?thesis using cs(1,3) p(3) by (intro exI [of _ rq] exI [of _ cs]) auto
  qed
qed

text \<open>A server that fails, for a controller that has counted six failures with five retries.\<close>

definition failingKube :: "unit kube" where
  "failingKube = still_kube stillK8sGPT (Inr stillDeployment) (Inl (Errorf ''rate limit'')) []"

theorem breaker_decides_explanations_witness:
  "case AnalysisStep sampleEnv failingKube (ResultStatusStep sampleEnv failingKube (calculateRemediationStep sampleEnv failingKube)) inst2
       (freshController\<lparr>analysisRetryCount := 6\<rparr>) of
     (out, s') \<Rightarrow> \<not> allowBackendAIRequest s' \<and>
       (\<exists>rq rest. calls (cs_world freshController) (cs_world s') = CallAnalyze 0 rq # rest \<and> rq_Explain rq)"
proof -
  let ?s = "freshController\<lparr>analysisRetryCount := 6\<rparr>"
  let ?ai = "Deployment.sampleAI\<lparr>ai_Secret := None\<rparr>"
  obtain out s' where run: "AnalysisStep sampleEnv failingKube
      (ResultStatusStep sampleEnv failingKube (calculateRemediationStep sampleEnv failingKube)) inst2 ?s = (out, s')"
    by (cases "AnalysisStep sampleEnv failingKube
      (ResultStatusStep sampleEnv failingKube (calculateRemediationStep sampleEnv failingKube)) inst2 ?s")
  have inst: "kclient inst2 = Some 0" "k8sgptDeployment inst2 = Some stillDeployment" "sp_AI (k_Spec (K8sgptConfig inst2)) = Some ?ai"
    by (simp_all add: inst2_def inst1_def inst0_def stillK8sGPT_def stillSpec_def AddFinalizer_def on_meta_def)
  have ai: "ai_Anonymize ?ai = Some True" "ai_BackOff ?ai = Some \<lparr>bo_Enabled = True, bo_MaxRetries = 5\<rparr>" "ai_Enabled ?ai"
    by (simp_all add: Deployment.sampleAI_def)
  have answer: "analysisAnswer failingKube conn rq c = Inl (Errorf ''rate limit'')" for conn rq c
    by (simp add: analysisAnswer_def failingKube_def still_kube_def)
  from breaker_decides_explanations [OF run inst ai(1,2), unfolded answer] obtain rq rest where
    "calls (cs_world ?s) (cs_world s') = CallAnalyze 0 rq # rest" "rq_Explain rq \<longleftrightarrow> ai_Enabled ?ai \<and> allowBackendAIRequest ?s"
    "failure_counted ?ai \<lparr>bo_Enabled = True, bo_MaxRetries = 5\<rparr> ?s s'" by auto
  with run ai(3) show ?thesis by (simp add: failure_counted_def freshController_def)
qed

text \<open>
  The other half of the switch is missing: nothing closes the breaker again.  Once it is open, no
  reconciliation of any K8sGPT asks for explanations again, whether or not its analyses succeed.
\<close>

theorem open_breaker_stays_open:
  assumes "ReconcileK8sGPT E K req s = (out, s')" and "\<not> allowBackendAIRequest s"
  shows "\<not> allowBackendAIRequest s' \<and> list_all no_explanation (calls (cs_world s) (cs_world s'))"
proof -
  let ?t = "trace (cs_world s)"
  have "calls_since ?t Not no_explanation {} s" using assms(2) by (simp add: calls_since_start)
  from maintains_D [OF breaker.reconciliation this assms(1)]
  have "calls_since ?t Not no_explanation {} s'" .
  then show ?thesis using calls_since_end by (auto simp: calls_since_def calls_eq)
qed

text \<open>
  C36. A reconciliation of a K8sGPT never patches a workload, never writes to an existing mutation and
  never asks for a repair: whatever it finds, it leaves that to the mutation controller.  The
  Deployment of its own analysis server is not a workload here: it is one of the objects the K8sGPT
  owns, which its steps create and update.
\<close>

theorem analysis_leaves_workloads_alone:
  "list_all (\<lambda>c. area_of c \<noteq> Workloads) (calls (cs_world s) (cs_world (snd (ReconcileK8sGPT E K req s))))"
proof -
  obtain out s' where run: "ReconcileK8sGPT E K req s = (out, s')" by (cases "ReconcileK8sGPT E K req s")
  have "calls_since (trace (cs_world s)) (\<lambda>_. True) (\<lambda>c. area_of c \<noteq> Workloads) {} s"
    by (simp add: calls_since_start)
  from maintains_D [OF aloof.reconciliation this run] run calls_since_end show ?thesis by auto
qed

section \<open>Requeueing\<close>

text \<open>\<open>ends Q m\<close>: whatever result the step ends with satisfies \<open>Q\<close>.\<close>

definition ends :: "(finished \<Rightarrow> bool) \<Rightarrow> 'w step \<Rightarrow> bool" where
  "ends Q m \<longleftrightarrow> (\<forall>s r s'. m s = (Done r, s') \<longrightarrow> Q r)"

named_theorems ends_rules \<open>rules for the result of a step\<close>

lemma ends_D: "ends Q m \<Longrightarrow> m s = (Done r, s') \<Longrightarrow> Q r"
  unfolding ends_def by blast

lemma ends_finish [ends_rules]: "Q r \<Longrightarrow> ends Q (finish r)"
  by (simp add: ends_def finish_def)

lemma ends_or_return [ends_rules]:
  "(\<And>err. ends Q (onerr err)) \<Longrightarrow> (\<And>x. ends Q (rest x)) \<Longrightarrow> ends Q (or_return m onerr rest)"
  unfolding ends_def or_return_def
  by (auto split: prod.splits outcome.splits sum.splits simp del: split_paired_All)

lemma ends_if [ends_rules]: "ends Q m \<Longrightarrow> ends Q n \<Longrightarrow> ends Q (if b then m else n)"
  by simp

lemma ends_each_or_return [ends_rules]:
  "(\<And>x err. ends Q (onerr x err)) \<Longrightarrow> ends Q rest \<Longrightarrow> ends Q (each_or_return f onerr xs rest)"
  by (induction xs) (auto intro!: ends_rules)

definition requeued :: "finished \<Rightarrow> bool" where
  "requeued r \<longleftrightarrow> Requeue (fst r) \<and> (snd r = None \<or> After (fst r) = ReconcileErrorInterval)"

lemma requeued_finish [ends_rules]: "ends requeued (FinishReconcile H err False name config)"
  by (auto simp: ends_def requeued_def FinishReconcile_def requeueAfter_def Let_def split: option.splits)

lemma requeued_chain: "ends requeued (FinalizerStep E K (ConfigureStep E K (PreAnalysisStep E K (AnalysisStep E K
    (ResultStatusStep E K (calculateRemediationStep E K))))) inst)"
proof -
  have remediation: "ends requeued (calculateRemediationStep E K inst)" for inst
    unfolding calculateRemediationStep_def Let_def by (intro ends_rules)
  have status: "ends requeued (ResultStatusStep E K (calculateRemediationStep E K) inst)" for inst
    unfolding ResultStatusStep_def Let_def by (intro ends_rules remediation)
  have failed: "ends requeued (analysisFailed E K inst err)" for inst err
    unfolding analysisFailed_def Let_def by (intro ends_rules)
  have succeeded: "ends requeued (analysisSucceeded E K (ResultStatusStep E K (calculateRemediationStep E K)) inst results)"
    for inst results
    unfolding analysisSucceeded_def Let_def by (intro ends_rules status)
  have analysis: "ends requeued (AnalysisStep E K (ResultStatusStep E K (calculateRemediationStep E K)) inst)" for inst
    using failed succeeded unfolding ends_def AnalysisStep_def
    by (fastforce split: prod.splits outcome.splits sum.splits)
  have connect: "ends requeued (connectServer E K (AnalysisStep E K (ResultStatusStep E K (calculateRemediationStep E K))) inst)"
    for inst
    unfolding connectServer_def Let_def by (intro ends_rules analysis)
  show ?thesis
    unfolding FinalizerStep_def ConfigureStep_def PreAnalysisStep_def updateDeploymentImage_def Let_def case_prod_beta
    by (intro ends_rules connect)
qed

text \<open>
  C15. A K8sGPT that exists is always looked at again: every reconciliation that returns is requeued,
  after ten seconds if it failed.  One that cannot be read is given up, without an error if it is
  gone.
\<close>

theorem reconciliation_is_requeued:
  "case ReconcileK8sGPT E K req s of
     (Panic, s') \<Rightarrow> True
   | (Done r, s') \<Rightarrow>
       (case fst (kGetK8sGPT K req (cluster (cs_world s))) of
          Inl err \<Rightarrow> \<not> Requeue (fst r) \<and> snd r = IgnoreNotFound err
        | Inr config \<Rightarrow> requeued r)"
proof -
  obtain x s1 where get: "on_world (GetK8sGPT K req) s = (x, s1)" by (cases "on_world (GetK8sGPT K req) s")
  then have x: "fst (kGetK8sGPT K req (cluster (cs_world s))) = x"
    by (auto simp: on_world_def perform_def split: prod.splits)
  show ?thesis
  proof (cases x)
    case (Inl err)
    with get x show ?thesis by (simp add: ReconcileK8sGPT_def InitStep_def)
  next
    case (Inr config)
    with get x show ?thesis
      by (auto simp: ReconcileK8sGPT_def InitStep_def split: prod.splits outcome.splits dest: ends_D [OF requeued_chain])
  qed
qed

section \<open>Deletion\<close>

lemma ContainsString_iff: "ContainsString xs s \<longleftrightarrow> s \<in> set xs"
  by (induction xs) auto

text \<open>What a deletion is answered: to the deletions of the objects, and to the update that releases the finalizer.\<close>

definition deleteAnswers :: "env \<Rightarrow> 's kube \<Rightarrow> K8sGPT \<Rightarrow> 's \<Rightarrow> unit go_result list" where
  "deleteAnswers E K config s = delete_answers K (owned_objects (en_host E) config (deploymentStub config)) s"

definition releaseAnswer :: "env \<Rightarrow> 's kube \<Rightarrow> K8sGPT \<Rightarrow> 's \<Rightarrow> K8sGPT go_result" where
  "releaseAnswer E K config s =
     fst (kUpdateK8sGPT K (RemoveFinalizer FinalizerName config)
       (after_deletes K (owned_objects (en_host E) config (deploymentStub config)) s))"

text \<open>The server is destroyed first; only when that succeeded the finalizer is removed.\<close>

lemma destroyServer_run:
  assumes "destroyServer E K config s = (r, s')" and "FinalizerName \<in> set (om_Finalizers (k_Meta config))"
  shows "let objs = owned_objects (en_host E) config (deploymentStub config);
      answers = deleteAnswers E K config (cluster (cs_world s)); release = releaseAnswer E K config (cluster (cs_world s)) in
    kclients s' = kclients s \<and>
    (if list_all deleted_or_gone answers
     then r = Done release \<and> trace (cs_world s') = trace (cs_world s) @ deletions objs answers @
       [CallUpdateK8sGPT (RemoveFinalizer FinalizerName config) (is_ok release)]
     else (\<exists>err. answers ! deletions_done answers = Inl err \<and> r = Done (Inl err)) \<and>
       trace (cs_world s') = trace (cs_world s) @ deletions objs answers)"
proof -
  let ?objs = "owned_objects (en_host E) config (deploymentStub config)"
  let ?update = "UpdateK8sGPT K (RemoveFinalizer FinalizerName config)"
  have contains: "ContainsString (om_Finalizers (k_Meta config)) FinalizerName" using assms(2) by (simp add: ContainsString_iff)
  obtain d w2 where destroy: "Sync (en_host E) K config DestroyOp (cs_world s) = (d, w2)"
    by (cases "Sync (en_host E) K config DestroyOp (cs_world s)")
  then have "for_each (syncObject K DestroyOp) ?objs (cs_world s) = (d, w2)" by (simp add: Sync_def syncObjects_eq)
  note run = delete_run [OF this refl, folded deleteAnswers_def]
  show ?thesis
  proof (cases "list_all deleted_or_gone (deleteAnswers E K config (cluster (cs_world s)))")
    case True
    obtain u w3 where up: "?update w2 = (u, w3)" by (cases "?update w2")
    have "u = releaseAnswer E K config (cluster (cs_world s))"
      using up True run by (auto simp: releaseAnswer_def perform_def split: prod.splits)
    moreover have "r = Done u" "s' = s\<lparr>cs_world := w3\<rparr>"
      using assms(1) True run destroy contains up
      by (auto simp: destroyServer_def on_world_def and_then_def updateConfig_def request_def)
    ultimately show ?thesis using True run perform_trace [OF up] by (simp add: Let_def)
  next
    case False
    from failed_deletion [OF False] run False obtain err where
      err: "deleteAnswers E K config (cluster (cs_world s)) ! deletions_done (deleteAnswers E K config (cluster (cs_world s))) = Inl err"
      and d: "d = Done (Inl err)" by auto
    then have "r = Done (Inl err)" "s' = s\<lparr>cs_world := w2\<rparr>"
      using assms(1) destroy contains by (auto simp: destroyServer_def on_world_def and_then_def)
    with err False run show ?thesis by (simp add: Let_def)
  qed
qed

text \<open>The calls that release the connection of a K8sGPT.\<close>

definition closing :: "(object_key \<times> cachedClient) list \<Rightarrow> K8sGPT \<Rightarrow> call list" where
  "closing clients config =
     (case map_of clients (key_of_config config) of None \<Rightarrow> [] | Some cached \<Rightarrow> [CallClose (cc_client cached)])"

lemma closeClientFor_run:
  assumes "closeClientFor K config s = (r, s')"
  shows "r = Done (Inr ()) \<and> trace (cs_world s') = trace (cs_world s) @ closing (kclients s) config \<and>
    map_of (kclients s') (key_of_config config) = None"
  using assms
  by (auto simp: closeClientFor_def dropClient_def closing_def on_world_def Let_def delete_conv'
      split: option.splits prod.splits dest!: perform_trace)

lemma finished_kclients: "kclients (snd (FinishReconcile H err imm name config s)) = kclients s"
  by (auto simp: FinishReconcile_def if_metric_def split: option.splits)

text \<open>
  C14. A K8sGPT that is being deleted is only destroyed.  Its objects are deleted in order up to the
  first deletion that fails, and such an error ends the reconciliation.  If each was deleted or gone,
  and only then, the finalizer is removed, and an error of that ends the reconciliation.  After that,
  and only then, the connection held for it is closed, and the cache holds none for it any more;
  nothing is synchronised, dialled or analysed.
\<close>

theorem deletion_destroys_before_release:
  fixes s :: "'s ksys"
  assumes "fst (kGetK8sGPT K req (cluster (cs_world s))) = Inr config"
    and "om_DeletionTimestamp (k_Meta config) \<noteq> None" and "FinalizerName \<in> set (om_Finalizers (k_Meta config))"
    and "ReconcileK8sGPT E K req s = (out, s')"
  shows "let c = snd (kGetK8sGPT K req (cluster (cs_world s)));
      objs = owned_objects (en_host E) config (deploymentStub config);
      answers = deleteAnswers E K config c; release = releaseAnswer E K config c;
      made = CallGetK8sGPT req # deletions objs answers in
    if \<not> list_all deleted_or_gone answers then
      calls (cs_world s) (cs_world s') = made \<and>
      (\<exists>err. answers ! deletions_done answers = Inl err \<and> out = Done (requeueAfter (en_host E) (Some err) False config))
    else
      (case release of
         Inl err \<Rightarrow>
           calls (cs_world s) (cs_world s') = made @ [CallUpdateK8sGPT (RemoveFinalizer FinalizerName config) False] \<and>
           out = Done (requeueAfter (en_host E) (Some err) False config)
       | Inr config' \<Rightarrow>
           calls (cs_world s) (cs_world s') = made @ [CallUpdateK8sGPT (RemoveFinalizer FinalizerName config) True] @
             closing (kclients s) config' \<and>
           map_of (kclients s') (key_of_config config') = None \<and>
           out = Done (requeueAfter (en_host E) None False config'))"
proof -
  let ?H = "en_host E" and ?c = "snd (kGetK8sGPT K req (cluster (cs_world s)))"
  let ?rest = "\<lambda>config. or_return (closeClientFor K config) (failed ?H config) (\<lambda>_. finished_ok ?H config)"
  obtain x s1 where get: "on_world (GetK8sGPT K req) s = (x, s1)" by (cases "on_world (GetK8sGPT K req) s")
  then have x: "x = Inr config" and t1: "trace (cs_world s1) = trace (cs_world s) @ [CallGetK8sGPT req]"
    and c1: "cluster (cs_world s1) = ?c" and k1: "kclients s1 = kclients s"
    using assms(1) by (auto simp: on_world_def perform_def split: prod.splits)
  from assms(2-4) get x have run: "or_return (destroyServer E K config) (failed ?H config) ?rest s1 = (out, s')"
    by (auto simp: ReconcileK8sGPT_def InitStep_def FinalizerStep_def Let_def)
  obtain r s2 where destroy: "destroyServer E K config s1 = (r, s2)" by (cases "destroyServer E K config s1")
  note d = destroyServer_run [OF destroy assms(3), unfolded c1 Let_def]
  have failed: "out = Done (requeueAfter ?H (Some err) False config) \<and> cs_world s' = cs_world s2" if "r = Done (Inl err)" for err
    using that run destroy FinishReconcile_parts [of ?H "Some err" False "om_Name (k_Meta config)" config s2]
    by (auto simp: or_return_def)
  show ?thesis
  proof (cases "list_all deleted_or_gone (deleteAnswers E K config ?c)")
    case False
    with d failed t1 show ?thesis by (auto simp: Let_def calls_eq)
  next
    case True
    show ?thesis
    proof (cases "releaseAnswer E K config ?c")
      case (Inl err)
      with True d failed t1 show ?thesis by (auto simp: Let_def calls_eq)
    next
      case (Inr config')
      with True d have r: "r = Done (Inr config')" by simp
      obtain q s3 where close: "closeClientFor K config' s2 = (q, s3)" by (cases "closeClientFor K config' s2")
      note q = closeClientFor_run [OF close]
      from q close run destroy r have "FinishReconcile ?H None False (om_Name (k_Meta config')) config' s3 = (out, s')"
        by (simp add: or_return_def)
      then have "out = Done (requeueAfter ?H None False config')" "cs_world s' = cs_world s3" "kclients s' = kclients s3"
        using FinishReconcile_parts [of ?H None False "om_Name (k_Meta config')" config' s3]
          finished_kclients [of ?H None False "om_Name (k_Meta config')" config' s3] by simp_all
      with True Inr d q t1 k1 show ?thesis by (simp add: Let_def calls_eq)
    qed
  qed
qed

definition deletedK8sGPT :: K8sGPT where
  "deletedK8sGPT = on_meta (\<lambda>m. m\<lparr>om_DeletionTimestamp := Some 3\<rparr>) stillK8sGPT"

lemma deletions_all_well: "deletions objs (map (\<lambda>obj. Inr ()) objs) = map (\<lambda>obj. CallDelete obj True) objs"
proof -
  have "deletions_done (map (\<lambda>obj. Inr ()) objs) = length objs" by (induction objs) (simp_all add: deletions_done_def deleted_or_gone_def)
  then show ?thesis by (simp add: deletions_def Let_def zip_map2 zip_same_conv_map)
qed

theorem deletion_destroys_before_release_witness:
  "\<exists>out. \<exists>s' :: unit ksys. ReconcileK8sGPT sampleEnv (still_kube deletedK8sGPT not_found (Inr []) []) sampleRequest freshController = (out, s') \<and>
     calls (cs_world freshController) (cs_world s') = CallGetK8sGPT sampleRequest #
       map (\<lambda>obj. CallDelete obj True) (owned_objects sampleHost deletedK8sGPT (deploymentStub deletedK8sGPT)) @
       [CallUpdateK8sGPT (RemoveFinalizer FinalizerName deletedK8sGPT) True]"
proof -
  let ?K = "still_kube deletedK8sGPT not_found (Inr []) []"
  let ?objs = "owned_objects sampleHost deletedK8sGPT (deploymentStub deletedK8sGPT)"
  obtain out s' where run: "ReconcileK8sGPT sampleEnv ?K sampleRequest freshController = (out, s')"
    by (cases "ReconcileK8sGPT sampleEnv ?K sampleRequest freshController")
  have host: "en_host sampleEnv = sampleHost" by (simp add: sampleEnv_def)
  have "delete_answers ?K objs c = map (\<lambda>obj. Inr ()) objs" for objs c
    by (induction objs) (simp_all add: still_kube_def)
  then have answers: "deleteAnswers sampleEnv ?K deletedK8sGPT c = map (\<lambda>obj. Inr ()) ?objs" for c
    by (simp add: deleteAnswers_def host)
  have release: "releaseAnswer sampleEnv ?K deletedK8sGPT c = Inr (RemoveFinalizer FinalizerName deletedK8sGPT)" for c
    by (simp add: releaseAnswer_def still_kube_def)
  have got: "fst (kGetK8sGPT ?K sampleRequest (cluster (cs_world freshController))) = Inr deletedK8sGPT"
    by (simp add: still_kube_def)
  have deleted: "om_DeletionTimestamp (k_Meta deletedK8sGPT) \<noteq> None" by (simp add: deletedK8sGPT_def on_meta_def)
  have held: "FinalizerName \<in> set (om_Finalizers (k_Meta deletedK8sGPT))"
    by (simp add: deletedK8sGPT_def stillK8sGPT_def AddFinalizer_def on_meta_def)
  have "list_all deleted_or_gone (map (\<lambda>obj. Inr ()) ?objs)" by (simp add: deleted_or_gone_def list_all_iff)
  with deletion_destroys_before_release [OF got deleted held run, unfolded Let_def release answers host deletions_all_well] run
  show ?thesis by (simp add: closing_def freshController_def)
qed

text \<open>
  The AI section of the specification is optional, but the configure step reads it without a test:
  a K8sGPT without it panics in every reconciliation, before anything is created.
\<close>

lemma missing_AI_section_panics:
  assumes "fst (kGetK8sGPT K req (cluster (cs_world s))) = Inr config"
    and "om_DeletionTimestamp (k_Meta config) = None" and "FinalizerName \<in> set (om_Finalizers (k_Meta config))"
    and "sp_AI (k_Spec config) = None"
  shows "fst (ReconcileK8sGPT E K req s) = Panic"
  using assms
  by (auto simp: ReconcileK8sGPT_def InitStep_def FinalizerStep_def ConfigureStep_def configureBackoff_def Let_def
      on_world_def perform_def ContainsString_iff or_return_def crash_def split: prod.splits)

end
