(* ===== verification/Panic_Freedom.thy ===== *)
theory Panic_Freedom
  imports Reconciliation
begin

text \<open>
  The operator dereferences many optional sections of a K8sGPT.  The theory says which of them must be
  there for a reconciliation not to panic: \<open>sure\<close> is a triple for actions, \<open>sure_step\<close> one for steps,
  with a rule for each way in which they are put together.
\<close>

section \<open>Triples\<close>

text \<open>From a state with \<open>I\<close> the action does not panic, keeps \<open>I\<close>, and a value it returns has \<open>Q\<close>.\<close>

definition sure :: "('w \<Rightarrow> bool) \<Rightarrow> ('a \<Rightarrow> bool) \<Rightarrow> ('a, 'w) action \<Rightarrow> bool" where
  "sure I Q m \<longleftrightarrow>
     (\<forall>s r s'. I s \<longrightarrow> m s = (r, s') \<longrightarrow> r \<noteq> Panic \<and> I s' \<and> (\<forall>x. r = Done (Inr x) \<longrightarrow> Q x))"

definition sure_step :: "('w \<Rightarrow> bool) \<Rightarrow> 'w step \<Rightarrow> bool" where
  "sure_step I m \<longleftrightarrow> (\<forall>s. I s \<longrightarrow> fst (m s) \<noteq> Panic)"

named_theorems sure_rules \<open>rules for operations that do not panic\<close>

lemma sure_D: "sure I Q m \<Longrightarrow> I s \<Longrightarrow> m s = (r, s') \<Longrightarrow> r \<noteq> Panic \<and> I s' \<and> (\<forall>x. r = Done (Inr x) \<longrightarrow> Q x)"
  unfolding sure_def by blast

lemma sure_I:
  "(\<And>s r s'. I s \<Longrightarrow> m s = (r, s') \<Longrightarrow> r \<noteq> Panic \<and> I s' \<and> (\<forall>x. r = Done (Inr x) \<longrightarrow> Q x)) \<Longrightarrow> sure I Q m"
  unfolding sure_def by blast

lemma sure_basic [sure_rules]:
  "Q x \<Longrightarrow> sure I Q (succeed x)" "sure I Q (fail err)"
  by (auto simp: sure_def action_eval)

text \<open>Actions on the world alone: a request never panics, whatever is answered.\<close>

lemma sure_request [sure_rules]: "sure (\<lambda>_. True) (\<lambda>_. True) (request f)"
  by (auto simp: sure_def request_def split: prod.splits sum.splits)

lemma sure_answer:
  assumes "\<And>w x w'. f w = (Inr x, w') \<Longrightarrow> Q x"
  shows "sure (\<lambda>_. True) Q (request f)"
  using assms by (auto simp: sure_def request_def split: prod.splits sum.splits)

lemma sure_and_then:
  assumes "sure I R m" and "\<And>x. R x \<Longrightarrow> sure I Q (f x)"
  shows "sure I Q (and_then m f)"
proof (rule sure_I)
  fix s r s'
  assume "I s" and run: "and_then m f s = (r, s')"
  obtain x s1 where m: "m s = (x, s1)" by (cases "m s")
  from sure_D [OF assms(1) \<open>I s\<close> m] run m
  show "r \<noteq> Panic \<and> I s' \<and> (\<forall>x. r = Done (Inr x) \<longrightarrow> Q x)"
    by (auto simp: and_then_def split: outcome.splits sum.splits dest: sure_D [OF assms(2)])
qed

text \<open>The value does not matter, or it is what a pointer refers to.\<close>

lemmas sure_then [sure_rules] = sure_and_then [where R = "\<lambda>_. True", simplified]

lemma sure_deref:
  "p \<noteq> None \<Longrightarrow> (\<And>x. p = Some x \<Longrightarrow> sure I Q (f x)) \<Longrightarrow> sure I Q (and_then (deref p) f)"
  by (cases p) simp_all

lemma sure_on_error [sure_rules]:
  assumes "sure I Q m" and "\<And>err. sure I Q (f err)"
  shows "sure I Q (on_error m f)"
proof (rule sure_I)
  fix s r s'
  assume "I s" and run: "on_error m f s = (r, s')"
  obtain x s1 where m: "m s = (x, s1)" by (cases "m s")
  from sure_D [OF assms(1) \<open>I s\<close> m] run m
  show "r \<noteq> Panic \<and> I s' \<and> (\<forall>x. r = Done (Inr x) \<longrightarrow> Q x)"
    by (auto simp: on_error_def split: outcome.splits sum.splits dest: sure_D [OF assms(2)])
qed

lemma sure_for_each [sure_rules]:
  "(\<And>x. sure I (\<lambda>_. True) (f x)) \<Longrightarrow> sure I (\<lambda>_. True) (for_each f xs)"
  by (induction xs) (auto intro!: sure_rules)

lemma sure_if [sure_rules]: "(b \<Longrightarrow> sure I Q m) \<Longrightarrow> (\<not> b \<Longrightarrow> sure I Q n) \<Longrightarrow> sure I Q (if b then m else n)"
  by simp

lemma sure_option [sure_rules]:
  "(p = None \<Longrightarrow> sure I Q m) \<Longrightarrow> (\<And>x. p = Some x \<Longrightarrow> sure I Q (f x)) \<Longrightarrow>
   sure I Q (case p of None \<Rightarrow> m | Some x \<Rightarrow> f x)"
  by (cases p) simp_all

lemma sure_sum [sure_rules]:
  "(\<And>e. y = Inl e \<Longrightarrow> sure I Q (g e)) \<Longrightarrow> (\<And>x. y = Inr x \<Longrightarrow> sure I Q (h x)) \<Longrightarrow>
   sure I Q (case y of Inl e \<Rightarrow> g e | Inr x \<Rightarrow> h x)"
  by (cases y) simp_all

lemma sure_weaken: "sure I Q m \<Longrightarrow> (\<And>x. Q x \<Longrightarrow> R x) \<Longrightarrow> sure I R m"
  unfolding sure_def by blast

lemma sure_step_or_return:
  assumes "sure I R m" and "\<And>err. sure_step I (onerr err)" and "\<And>x. R x \<Longrightarrow> sure_step I (rest x)"
  shows "sure_step I (or_return m onerr rest)"
  unfolding sure_step_def
proof (intro allI impI)
  fix s assume "I s"
  obtain r s1 where m: "m s = (r, s1)" by (cases "m s")
  from sure_D [OF assms(1) \<open>I s\<close> m] m assms(2,3) show "fst (or_return m onerr rest s) \<noteq> Panic"
    by (auto simp: or_return_def sure_step_def split: outcome.splits sum.splits)
qed

lemmas sure_step_then [sure_rules] = sure_step_or_return [where R = "\<lambda>_. True", simplified]

lemma sure_step_deref:
  "p \<noteq> None \<Longrightarrow> (\<And>x. p = Some x \<Longrightarrow> sure_step I (rest x)) \<Longrightarrow> sure_step I (or_return (deref p) onerr rest)"
  by (cases p) (simp_all add: sure_step_def or_return_def succeed_def)

lemma sure_step_each_or_return [sure_rules]:
  assumes "\<And>x. sure I (\<lambda>_. True) (f x)" and "\<And>x err. sure_step I (onerr x err)" and "sure_step I rest"
  shows "sure_step I (each_or_return f onerr xs rest)"
  using assms by (induction xs) (auto intro!: sure_rules)

lemma sure_step_if [sure_rules]:
  "(b \<Longrightarrow> sure_step I m) \<Longrightarrow> (\<not> b \<Longrightarrow> sure_step I n) \<Longrightarrow> sure_step I (if b then m else n)"
  by simp

lemma sure_step_finish [sure_rules]: "sure_step I (FinishReconcile H err imm name config)"
  by (simp add: sure_step_def)

section \<open>The state of the controller\<close>

text \<open>The builder is the one of \<^verbatim>\<open>InitializeMetrics\<close>, so every metric is found.\<close>

definition builder_set :: "('s, 'm) csys_scheme \<Rightarrow> bool" where
  "builder_set s \<longleftrightarrow> metricsBuilder s = fst InitializeMetrics"

lemma sure_on_world [sure_rules]: "sure (\<lambda>_. True) Q f \<Longrightarrow> sure builder_set Q (on_world f)"
  by (rule sure_I) (auto simp: builder_set_def dest!: on_world_parts sure_D)

lemma sure_if_metric [sure_rules]: "sure builder_set (\<lambda>_. True) (if_metric get call)"
  by (auto simp: sure_def builder_set_def if_metric_def split: option.splits)

lemma sure_must_metric [sure_rules]:
  "get (fst InitializeMetrics) (metric_name call) \<noteq> None \<Longrightarrow> sure builder_set (\<lambda>_. True) (must_metric get call)"
  by (auto simp: sure_def builder_set_def must_metric_def split: option.splits)

section \<open>What must be there\<close>

text \<open>
  The optional sections of a specification that the code reads without a test.  The back-off is not
  among them: the configure step fills it in.
\<close>

definition complete_ai :: "AISpec \<Rightarrow> bool" where
  "complete_ai ai \<longleftrightarrow> ai_Anonymize ai \<noteq> None"

definition complete :: "K8sGPTSpec \<Rightarrow> bool" where
  "complete spec \<longleftrightarrow>
     (case sp_AI spec of None \<Rightarrow> False | Some ai \<Rightarrow> complete_ai ai) \<and>
     (case sp_RemoteCache spec of None \<Rightarrow> True
      | Some cache \<Rightarrow> rc_Azure cache = None \<and> rc_S3 cache = None \<or> rc_Credentials cache \<noteq> None) \<and>
     (case sp_CustomAnalyzers spec of None \<Rightarrow> True | Some as \<Rightarrow> list_all (\<lambda>a. ca_Connection a \<noteq> None) as) \<and>
     (case sp_Integrations spec of None \<Rightarrow> True | Some i \<Rightarrow> int_Trivy i \<noteq> None) \<and>
     (case sp_ExtraOptions spec of None \<Rightarrow> True | Some options \<Rightarrow> eo_Backstage options \<noteq> None)"

text \<open>A specification after the configure step.\<close>

definition configured :: "K8sGPTSpec \<Rightarrow> bool" where
  "configured spec \<longleftrightarrow> complete spec \<and> (case sp_AI spec of None \<Rightarrow> False | Some ai \<Rightarrow> ai_BackOff ai \<noteq> None)"

text \<open>
  What the API server guarantees: an update answers the specification that was sent, a Deployment has
  a container, and a Service has a port.
\<close>

definition validating_server :: "'s kube \<Rightarrow> bool" where
  "validating_server K \<longleftrightarrow>
     (\<forall>config s c. fst (kUpdateK8sGPT K config s) = Inr c \<longrightarrow> k_Spec c = k_Spec config) \<and>
     (\<forall>config s c. fst (kStatusUpdateK8sGPT K config s) = Inr c \<longrightarrow> k_Spec c = k_Spec config) \<and>
     (\<forall>key s d. fst (kGetDeployment K key s) = Inr d \<longrightarrow> ps_Containers (pod_of d) \<noteq> []) \<and>
     (\<forall>key s svc. fst (kGetService K key s) = Inr svc \<longrightarrow> ss_Ports (svc_Spec svc) \<noteq> [])"

lemma fst_perform: "fst (perform f c w) = fst (f (cluster w))"
  by (simp add: perform_def case_prod_beta)

lemma sure_performed:
  assumes "\<And>s x. fst (f s) = Inr x \<Longrightarrow> Q x"
  shows "sure (\<lambda>_. True) Q (request (perform f c))"
proof (rule sure_answer)
  fix w x w' assume "perform f c w = (Inr x, w')"
  then have "fst (f (cluster w)) = Inr x" using fst_perform [of f c w] by simp
  with assms show "Q x" .
qed

lemma server_answers:
  assumes "validating_server K"
  shows "sure (\<lambda>_. True) (\<lambda>c. k_Spec c = k_Spec config) (request (UpdateK8sGPT K config))"
    and "sure (\<lambda>_. True) (\<lambda>c. k_Spec c = k_Spec config) (request (StatusUpdateK8sGPT K config))"
    and "sure (\<lambda>_. True) (\<lambda>d. ps_Containers (pod_of d) \<noteq> []) (request (GetDeploymentObject K key))"
    and "sure (\<lambda>_. True) (\<lambda>svc. ss_Ports (svc_Spec svc) \<noteq> []) (request (GetServiceObject K key))"
  by (rule sure_performed, use assms in \<open>simp add: validating_server_def\<close>)+

lemma complete_D:
  assumes "complete spec"
  shows "sp_AI spec \<noteq> None" and "sp_AI spec = Some ai \<Longrightarrow> ai_Anonymize ai \<noteq> None"
    and "sp_RemoteCache spec = Some cache \<Longrightarrow> rc_Azure cache \<noteq> None \<or> rc_S3 cache \<noteq> None \<Longrightarrow> rc_Credentials cache \<noteq> None"
    and "sp_CustomAnalyzers spec = Some as \<Longrightarrow> list_all (\<lambda>a. ca_Connection a \<noteq> None) as"
    and "sp_Integrations spec = Some i \<Longrightarrow> int_Trivy i \<noteq> None"
    and "sp_ExtraOptions spec = Some options \<Longrightarrow> eo_Backstage options \<noteq> None"
  using assms by (auto simp: complete_def complete_ai_def split: option.splits)

lemma configured_D: "configured spec \<Longrightarrow> complete spec"
  "configured spec \<Longrightarrow> sp_AI spec = Some ai \<Longrightarrow> ai_BackOff ai \<noteq> None"
  by (auto simp: configured_def)

section \<open>The operations\<close>

text \<open>The object in memory keeps the specification, up to the back-off that is filled in.\<close>

lemma request_on_world: "request (on_world f) = on_world (request f)"
  by (rule ext) (simp add: request_def on_world_def case_prod_beta)

lemma sure_updateConfig:
  "validating_server K \<Longrightarrow> sure builder_set (\<lambda>c. k_Spec c = k_Spec config) (updateConfig K config)"
  unfolding updateConfig_def request_on_world by (intro sure_on_world server_answers)

lemma sure_secret: "sure (\<lambda>_. True) (\<lambda>_. True) (addSecretAsEnvToDeployment K name key config d)"
  unfolding addSecretAsEnvToDeployment_def by (intro sure_rules) simp

lemma sure_GetDeployment:
  assumes "complete (k_Spec config)"
  shows "sure (\<lambda>_. True) (\<lambda>_. True) (GetDeployment H K config (sp_Kubeconfig (k_Spec config) \<noteq> None) sa)"
  unfolding GetDeployment_def aiSecretChecksum_def outOfCluster_def remoteCacheEnv_def addRemoteCacheEnvVar_def
    engineEnv_def apiTypeEnv_def bedrockEnv_def watsonxEnv_def Let_def
  by (intro sure_deref sure_secret sure_rules) (use complete_D [OF assms] in auto)

lemma sure_doSync: "sure (\<lambda>_. True) (\<lambda>_. True) (doSync K obj)"
proof -
  have "sure (\<lambda>_. True) (\<lambda>_. True) (syncTarget K obj)"
    by (cases obj) (auto simp: existingOr_def intro!: sure_rules)
  then show ?thesis
    unfolding doSync_def case_prod_beta by (intro sure_rules)
qed

lemma sure_Sync:
  assumes "complete (k_Spec config)"
  shows "sure (\<lambda>_. True) (\<lambda>_. True) (Sync H K config SyncOp)"
  unfolding Sync_def syncObjects_eq
proof (rule sure_and_then [where R = "\<lambda>_. True"])
  show "sure (\<lambda>_. True) (\<lambda>_. True) (for_each (syncObject K SyncOp) xs)" for xs
    unfolding syncObject_def SyncOrDestroy.case
    by (intro sure_rules sure_doSync) simp_all
qed (intro sure_and_then [OF sure_GetDeployment [OF assms]] sure_rules TrueI)

lemma sure_getDeployment:
  assumes "validating_server K" and "complete (k_Spec config)"
  shows "sure (\<lambda>_. True) (\<lambda>d. d_AvailableReplicas d \<noteq> 0 \<longrightarrow> ps_Containers (pod_of d) \<noteq> []) (getDeployment E K config)"
  unfolding getDeployment_def
proof (rule sure_and_then)
  show "sure (\<lambda>_. True) (\<lambda>d. d_AvailableReplicas d \<noteq> 0 \<longrightarrow> ps_Containers (pod_of d) \<noteq> [])
      (on_error (request (GetDeploymentObject K (key_of_config config)))
        (\<lambda>err. case IgnoreNotFound err of Some e \<Rightarrow> fail e | None \<Rightarrow> succeed zeroDeployment))"
    by (intro sure_rules sure_weaken [OF server_answers(3) [OF assms(1)]])
      (simp_all add: zeroDeployment_def emptyDeployment_def)
qed (intro sure_Sync assms sure_rules)

lemma sure_configureBackoff:
  assumes "validating_server K" and "complete (k_Spec config)"
  shows "sure builder_set (\<lambda>c. configured (k_Spec c)) (configureBackoff K config)"
  unfolding configureBackoff_def
proof (intro sure_deref sure_if)
  fix ai assume ai: "sp_AI (k_Spec config) = Some ai" "ai_BackOff ai = None"
  with assms(2) have "configured (k_Spec (defaultBackOff config ai))"
    by (auto simp: configured_def complete_def complete_ai_def defaultBackOff_def)
  then show "sure builder_set (\<lambda>c. configured (k_Spec c)) (updateConfig K (defaultBackOff config ai))"
    by (intro sure_weaken [OF sure_updateConfig [OF assms(1)]]) simp
next
  fix ai assume "sp_AI (k_Spec config) = Some ai" "ai_BackOff ai \<noteq> None"
  with assms(2) show "sure builder_set (\<lambda>c. configured (k_Spec c)) (succeed config)"
    by (intro sure_rules) (simp add: configured_def)
qed (use complete_D(1) [OF assms(2)] in simp)

lemma sure_clearAnalysisError:
  assumes "validating_server K"
  shows "sure builder_set (\<lambda>c. k_Spec c = k_Spec config) (clearAnalysisError K config)"
  unfolding clearAnalysisError_def request_on_world
  by (intro sure_rules sure_weaken [OF server_answers(2) [OF assms]]) (simp_all add: clearedStatus_def)

lemma sure_recordAnalysisError: "sure builder_set (\<lambda>_. True) (recordAnalysisError K config err)"
proof -
  have "sure (\<lambda>_. True) (\<lambda>_. True) (on_error (request (StatusUpdateK8sGPT K sent)) (\<lambda>statusErr. succeed sent))" for sent
    by (intro sure_rules TrueI)
  then have "sure (\<lambda>_. True) (\<lambda>_. True) (setAnalysisErrorStatus K config err)"
    by (auto simp: sure_def setAnalysisErrorStatus_def Let_def split: if_splits)
  then show ?thesis unfolding recordAnalysisError_def by (rule sure_on_world)
qed

lemma sure_handleAIFailureBackoff:
  "ai_BackOff ai \<noteq> None \<Longrightarrow> sure builder_set (\<lambda>_. True) (handleAIFailureBackoff ai)"
  unfolding handleAIFailureBackoff_def
  by (rule sure_deref, assumption, rule sure_I) (auto simp: builder_set_def Let_def split: if_splits)

lemma sure_mapResults:
  "complete (k_Spec config) \<Longrightarrow> sure (\<lambda>_. True) (\<lambda>_. True) (mapResults E K results config)"
  by (rule sure_I) (auto simp: mapResults_def MapResults_def complete_def
      split: prod.splits option.splits outcome.splits)

lemma sure_processRawResults: "sure builder_set (\<lambda>_. True) (processRawResults E K config rawResults)"
proof -
  have "GetGaugeVec (fst InitializeMetrics) ''k8sgpt_number_of_results_by_type'' \<noteq> None"
    using metrics_found(8) by simp
  then show ?thesis
    unfolding processRawResults_def case_prod_beta by (intro sure_rules) simp_all
qed

lemma sure_Emit: "sure (\<lambda>_. True) (\<lambda>_. True) (Emit H K k r)"
  by (rule sure_I) (use any_sink.emitted in fastforce)

lemma sure_processLatestResults:
  "sure (\<lambda>_. True) (\<lambda>_. True) (processLatestResults K config (map_option (Emit H K) sink) latest)"
proof -
  have "sure (\<lambda>_. True) (\<lambda>_. True) (processResult K config (map_option (Emit H K) sink) r)" for r
    unfolding processResult_def by (cases sink; simp; intro sure_rules sure_Emit TrueI)
  then show ?thesis unfolding processLatestResults_def by (intro sure_rules)
qed

lemma sure_requestAnalyzers:
  "list_all (\<lambda>a. ca_Connection a \<noteq> None) as \<Longrightarrow> sure I (\<lambda>_. True) (requestAnalyzers as)"
  by (induction as) (auto intro!: sure_deref sure_rules)

lemma sure_addRemoteCache:
  assumes "complete (k_Spec config)"
  shows "sure (\<lambda>_. True) (\<lambda>_. True) (addRemoteCache K conn config)"
  unfolding addRemoteCache_def AddConfig_def requestCache_def required_def
  by (intro sure_rules sure_requestAnalyzers complete_D(4) [OF assms] TrueI)

lemma sure_addIntegrations:
  assumes "complete (k_Spec config)"
  shows "sure (\<lambda>_. True) (\<lambda>_. True) (addIntegrations K conn config)"
  unfolding addIntegrations_def AddIntegration_def
  by (intro sure_deref sure_rules complete_D(5) [OF assms] TrueI)

lemma sure_ProcessAnalysis:
  assumes "complete (k_Spec config)"
  shows "sure (\<lambda>_. True) (\<lambda>_. True) (ProcessAnalysis K conn config b)"
  unfolding ProcessAnalysis_def
  by (intro sure_deref sure_rules complete_D(1,2) [OF assms] TrueI)

lemma sure_GenerateAddress:
  assumes "validating_server K"
  shows "sure (\<lambda>_. True) (\<lambda>_. True) (GenerateAddress H K config)"
  unfolding GenerateAddress_def
  by (intro sure_rules sure_and_then [OF server_answers(4) [OF assms]] sure_deref TrueI)
    (simp add: first_of_def split: list.split)

lemma sure_sendSignal:
  "complete (k_Spec config) \<Longrightarrow> sure builder_set (\<lambda>_. True) (sendSignal conn config)"
  unfolding sendSignal_def
  by (intro sure_deref sure_if sure_basic complete_D(1) TrueI)
    (auto simp: sure_def builder_set_def split: prod.splits dest!: on_world_parts)

lemma sure_clientFor: "sure builder_set (\<lambda>_. True) (clientFor K config address)"
proof (rule sure_I)
  fix s r s' assume s: "builder_set s" and run: "clientFor K config address s = (r, s')"
  have dial: "sure builder_set (\<lambda>_. True) (dialClient K key address)" for key
  proof -
    have "sure (\<lambda>_. True) (\<lambda>_. True) (NewClient K address)" unfolding NewClient_def by (intro sure_rules)
    then show ?thesis unfolding dialClient_def
      by (intro sure_then sure_on_world) (auto simp: sure_def builder_set_def)
  qed
  have drop: "sure builder_set (\<lambda>_. True) (dropClient K key cached)" for key cached
    by (auto simp: sure_def dropClient_def builder_set_def split: prod.splits dest!: on_world_parts)
  have "sure builder_set (\<lambda>_. True) (and_then (dropClient K key cached) (\<lambda>_. dialClient K key address))" for key cached
    by (intro sure_then drop dial)
  from s run sure_D [OF this s] sure_D [OF dial s]
  show "r \<noteq> Panic \<and> builder_set s' \<and> (\<forall>x. r = Done (Inr x) \<longrightarrow> True)"
    by (auto simp: clientFor_def Let_def split: option.splits if_splits)
qed

lemma sure_closeClientFor: "sure builder_set (\<lambda>_. True) (closeClientFor K config)"
  by (auto simp: sure_def closeClientFor_def dropClient_def builder_set_def Let_def
      split: option.splits prod.splits dest!: on_world_parts)

section \<open>The steps\<close>

lemma sure_remediation:
  assumes "complete (k_Spec (K8sgptConfig inst))"
  shows "sure_step builder_set (calculateRemediationStep E K inst)"
proof -
  have "sure (\<lambda>_. True) (\<lambda>_. True) (eligibleResources E K config latest)" for config latest
    by (auto simp: sure_def eligibleResources_def split: prod.splits)
  then show ?thesis
    unfolding calculateRemediationStep_def createMutation_def EmitIfNotHistorical_def getResult_def Let_def
    by (intro sure_step_deref sure_rules complete_D(1) [OF assms] TrueI)
qed

lemma sure_status:
  assumes "complete (k_Spec (K8sgptConfig inst))"
  shows "sure_step builder_set (ResultStatusStep E K (calculateRemediationStep E K) inst)"
  unfolding ResultStatusStep_def EmitIfNotHistorical_def initSinkType_def Let_def
  by (intro sure_rules sure_processLatestResults sure_remediation assms TrueI)

lemma sure_analysisFailed:
  assumes "configured (k_Spec (K8sgptConfig inst))" and "k8sgptDeployment inst \<noteq> None"
  shows "sure_step builder_set (analysisFailed E K inst err)"
  unfolding analysisFailed_def incK8sgptNumberOfFailedBackendAICalls_def Let_def
  by (intro sure_deref sure_rules sure_handleAIFailureBackoff sure_recordAnalysisError TrueI
      complete_D(1) configured_D) (simp_all add: assms)

lemma sure_analysisSucceeded:
  assumes "validating_server K" and "configured (k_Spec (K8sgptConfig inst))"
  shows "sure_step builder_set
    (analysisSucceeded E K (ResultStatusStep E K (calculateRemediationStep E K)) inst results)"
proof -
  note spec = configured_D(1) [OF assms(2)]
  have reset: "sure builder_set (\<lambda>_. True) resetRetries"
    by (auto simp: sure_def resetRetries_def builder_set_def)
  have gauge: "sure builder_set (\<lambda>_. True) (setk8sgptNumberOfResults config results)" for config
    unfolding setk8sgptNumberOfResults_def case_prod_beta by (intro sure_rules)
  have clean: "sure builder_set (\<lambda>_. True) (cleanUpStaleResults K config rawResults)" for config rawResults
    unfolding cleanUpStaleResults_def by (intro sure_rules TrueI)
  have rest: "sure_step builder_set (or_return resetRetries (failed H config) (\<lambda>_.
      or_return (setk8sgptNumberOfResults config results) (failed H config) (\<lambda>_.
      or_return (on_world (mapResults E K results config)) (failed H config) (\<lambda>rawResults.
      or_return (cleanUpStaleResults K config rawResults) (failed H config) (\<lambda>_.
      or_return (processRawResults E K config rawResults) (failed H config) (\<lambda>_.
      ResultStatusStep E K (calculateRemediationStep E K) (inst\<lparr>K8sgptConfig := config\<rparr>)))))))"
    if "k_Spec config = k_Spec (K8sgptConfig inst)" for config H
    by (intro sure_rules reset gauge clean sure_mapResults sure_processRawResults sure_status) (use that spec in simp_all)
  show ?thesis
    unfolding analysisSucceeded_def Let_def
    by (rule sure_step_or_return [OF sure_clearAnalysisError [OF assms(1)] sure_step_finish rest])
qed

lemma AnalysisStep_eq:
  "AnalysisStep E K next inst s =
     or_return
       (and_then (deref (k8sgptDeployment inst)) (\<lambda>_. and_then (deref (kclient inst)) (\<lambda>conn.
          on_world (ProcessAnalysis K conn (K8sgptConfig inst) (allowBackendAIRequest s)))))
       (analysisFailed E K inst) (\<lambda>response. analysisSucceeded E K next inst (kr_Results response)) s"
  by (simp add: AnalysisStep_def or_return_def)

lemma sure_analysis:
  assumes "validating_server K" and "configured (k_Spec (K8sgptConfig inst))"
    and "k8sgptDeployment inst \<noteq> None" and "kclient inst \<noteq> None"
  shows "sure_step builder_set (AnalysisStep E K (ResultStatusStep E K (calculateRemediationStep E K)) inst)"
proof -
  have "sure_step builder_set
      (or_return
        (and_then (deref (k8sgptDeployment inst)) (\<lambda>_. and_then (deref (kclient inst)) (\<lambda>conn.
          on_world (ProcessAnalysis K conn (K8sgptConfig inst) allowed))))
        (analysisFailed E K inst)
        (\<lambda>response. analysisSucceeded E K (ResultStatusStep E K (calculateRemediationStep E K)) inst (kr_Results response)))"
    for allowed
    by (intro sure_step_then sure_deref sure_on_world sure_ProcessAnalysis sure_analysisFailed sure_analysisSucceeded
        configured_D(1) assms)
  then show ?thesis unfolding sure_step_def AnalysisStep_eq by blast
qed

abbreviation afterwards :: "env \<Rightarrow> 's kube \<Rightarrow> K8sGPTInstance \<Rightarrow> 's ksys step" where
  "afterwards E K \<equiv> AnalysisStep E K (ResultStatusStep E K (calculateRemediationStep E K))"

lemma sure_connect:
  assumes "validating_server K" and "configured (k_Spec (K8sgptConfig inst))" and "k8sgptDeployment inst \<noteq> None"
  shows "sure_step builder_set (connectServer E K (afterwards E K) inst)"
proof -
  have "sure_step builder_set (afterwards E K (inst\<lparr>kclient := Some conn\<rparr>))" for conn
    by (rule sure_analysis) (use assms in simp_all)
  then show ?thesis
    unfolding connectServer_def Let_def
    by (intro sure_rules sure_GenerateAddress sure_clientFor sure_sendSignal sure_addRemoteCache sure_addIntegrations
        configured_D(1) assms)
qed

lemma sure_preAnalysis:
  assumes "validating_server K" and "configured (k_Spec (K8sgptConfig inst))" and "k8sgptDeployment inst = Some d"
    and "hasReadyReplicas inst \<Longrightarrow> ps_Containers (pod_of d) \<noteq> []"
  shows "sure_step builder_set (PreAnalysisStep E K (afterwards E K) inst)"
proof -
  have connect: "sure_step builder_set (connectServer E K (afterwards E K) inst)"
    by (rule sure_connect) (use assms in simp_all)
  have update: "sure_step builder_set (updateDeploymentImage E K config d)" for config
    unfolding updateDeploymentImage_def request_on_world by (intro sure_rules)
  show ?thesis
    unfolding PreAnalysisStep_def Let_def case_prod_beta
    by (intro sure_step_deref sure_step_if connect)
      (use assms(3,4) update in \<open>auto simp: first_of_def split: list.splits\<close>)
qed

lemma sure_configure:
  assumes "validating_server K" and "complete (k_Spec (K8sgptConfig inst))"
  shows "sure_step builder_set (ConfigureStep E K (PreAnalysisStep E K (afterwards E K)) inst)"
  unfolding ConfigureStep_def Let_def
  by (intro sure_step_or_return [OF sure_configureBackoff [OF assms]] sure_step_finish sure_step_if
      sure_step_or_return [OF sure_on_world [OF sure_getDeployment [OF assms(1)]]] configured_D(1))
    (auto intro!: sure_preAnalysis simp: assms)

lemma sure_finalizer:
  assumes "validating_server K" and "complete (k_Spec (K8sgptConfig inst))"
  shows "sure_step builder_set (FinalizerStep E K (ConfigureStep E K (PreAnalysisStep E K (afterwards E K))) inst)"
proof -
  have "sure (\<lambda>_. True) (\<lambda>_. True) (Sync H K config DestroyOp)" for H config
    unfolding Sync_def syncObjects_eq and_then_simps syncObject_def SyncOrDestroy.case
    by (intro sure_rules TrueI)
  then have destroy: "sure builder_set (\<lambda>_. True) (destroyServer E K config)" for config
    unfolding destroyServer_def by (intro sure_rules sure_weaken [OF sure_updateConfig [OF assms(1)]] TrueI)
  have configure: "sure_step builder_set (ConfigureStep E K (PreAnalysisStep E K (afterwards E K)) (inst\<lparr>K8sgptConfig := config\<rparr>))"
    if "k_Spec config = k_Spec (K8sgptConfig inst)" for config
    by (rule sure_configure [OF assms(1)]) (use assms(2) that in simp)
  show ?thesis
    unfolding FinalizerStep_def Let_def
    by (intro sure_step_if sure_step_then [OF destroy] sure_step_then [OF sure_closeClientFor] sure_step_finish
        sure_step_or_return [OF sure_updateConfig [OF assms(1)]] sure_configure [OF assms] configure)
      (simp add: AddFinalizer_def on_meta_def)
qed

section \<open>No panic\<close>

text \<open>
  C16. A reconciliation of a K8sGPT panics only if an optional section is missing that the code reads
  without a test, or if the API server answers a Deployment without a container or a Service
  without a port.
\<close>

theorem complete_K8sGPT_never_panics:
  assumes "reached E K D s" and "validating_server K"
    and "fst (kGetK8sGPT K req (cluster (cs_world (analysis s)))) = Inr config" and "complete (k_Spec config)"
  shows "fst (ReconcileK8sGPT E K req (analysis s)) \<noteq> Panic"
proof -
  from reached_sound [OF assms(1)] have "builder_set (analysis s)"
    by (simp add: builder_set_def operator_sound_def metrics_sound_def)
  obtain x s1 where get: "on_world (GetK8sGPT K req) (analysis s) = (x, s1)"
    by (cases "on_world (GetK8sGPT K req) (analysis s)")
  with assms(3) \<open>builder_set (analysis s)\<close> have "x = Inr config" "builder_set s1"
    by (auto simp: on_world_def perform_def builder_set_def split: prod.splits)
  moreover have "sure_step builder_set (FinalizerStep E K (ConfigureStep E K (PreAnalysisStep E K (afterwards E K)))
      \<lparr>in_req = req, K8sgptConfig = config, k8sgptDeployment = None, kclient = None, hasReadyReplicas = False\<rparr>)"
    by (rule sure_finalizer [OF assms(2)]) (simp add: assms(4))
  ultimately show ?thesis
    using get by (auto simp: ReconcileK8sGPT_def InitStep_def sure_step_def)
qed

lemma sample_complete: "complete (k_Spec stillK8sGPT)"
  by (simp add: complete_def complete_ai_def stillK8sGPT_def stillSpec_def AddFinalizer_def on_meta_def
      Deployment.sampleK8sGPT_def Deployment.sampleAI_def)

lemma sample_validating: "validating_server sampleKube"
  by (simp add: validating_server_def sampleKube_def still_kube_def stillDeployment_def runningDeployment_def
      baseDeployment_def pod_of_def on_container_def on_pod_def)

theorem complete_K8sGPT_never_panics_witness:
  "fst (ReconcileK8sGPT sampleEnv sampleKube sampleRequest (analysis analysedOperator)) \<noteq> Panic"
  by (rule complete_K8sGPT_never_panics [OF reached_analysed sample_validating _ sample_complete])
    (simp add: sampleKube_def still_kube_def)

end
