(* ===== verification/Operator_Patches.thy ===== *)
theory Operator_Patches
  imports Reconciliation
begin

text \<open>
  What the whole operator changes in the workloads of the cluster: in every run of the two
  controllers a persistent patch follows the dry run of the same operations, the gate has admitted
  them, and for the registered kinds they replace images and nothing else.
\<close>

section \<open>Admitted and rehearsed patches\<close>

text \<open>The operations are those of a decision that admits a proposal against the object.\<close>

definition admitted :: "k8s_lib \<Rightarrow> obj \<Rightarrow> PatchOperation list \<Rightarrow> bool" where
  "admitted L live ops \<longleftrightarrow>
     (\<exists>original proposed.
        let decision = Evaluate L \<lparr>Original = Some original, Live = Some live, Proposed = Some proposed, MaxChangedPaths = 0\<rparr>
        in Allowed decision \<and> ops = patchOperations L live decision)"

definition replaces_image :: "PatchOperation \<Rightarrow> bool" where
  "replaces_image op \<longleftrightarrow>
     Op op = ''replace'' \<and>
     (\<exists>root idx. root \<in> set imageRoots \<and> OpPath op = root @ idx @ ''/image'' \<and> idx \<noteq> [] \<and> list_all is_digit idx)"

lemma admitted_images:
  assumes "admitted L live ops" and "GroupVersionKind_of L live \<in> set (map fst registeredPolicies)"
  shows "hd ops = \<lparr>Op = ''test'', OpPath = ''/metadata/resourceVersion'', OpValue = JStr (GetResourceVersion L live)\<rparr> \<and>
    list_all replaces_image (tl ops)"
proof -
  from assms(1) obtain inp where allowed: "Allowed (Evaluate L inp)" and live: "Live inp = Some live"
    and ops: "ops = patchOperations L live (Evaluate L inp)"
    by (auto simp: admitted_def Let_def)
  from assms(2) obtain pol where "map_of registeredPolicies (GroupVersionKind_of L live) = Some pol"
    using weak_map_of_SomeI by fastforce
  then have "list_all replaces_image (Patch (Evaluate L inp))"
    using registered_images [OF allowed live] by (auto simp: list_all_iff replaces_image_def)
  with ops show ?thesis by (simp add: patchOperations_def)
qed

text \<open>Every patch is admitted, and a persistent one directly follows the dry run of the same operations.\<close>

definition rehearsed :: "k8s_lib \<Rightarrow> call list \<Rightarrow> call \<Rightarrow> bool" where
  "rehearsed L pre c \<longleftrightarrow>
     (case c of
        CallPatch live ops dryRun ok \<Rightarrow>
          admitted L live ops \<and> (dryRun \<or> pre \<noteq> [] \<and> last pre = CallPatch live ops True True)
      | _ \<Rightarrow> True)"

lemma rehearsed_simps [simp]:
  "rehearsed L pre (CallGet key object)" "rehearsed L pre (CallUpdateMutation m ok)"
  "rehearsed L pre (CallPatch live ops True ok) \<longleftrightarrow> admitted L live ops"
  by (simp_all add: rehearsed_def)

lemma always_more:
  "always P (t @ b # c # cs) \<longleftrightarrow> always P ((t @ [b]) @ c # cs)"
  by simp

lemma rehearsed_quiet: "no_patch cs \<Longrightarrow> always (rehearsed L) t \<Longrightarrow> always (rehearsed L) (t @ cs)"
  by (rule always_append) (auto simp: no_patch_def rehearsed_def elim!: list.pred_mono_strong split: call.splits)

section \<open>The mutation controller\<close>

lemma rehearsed_execution:
  assumes "execution L K config w cs r" and "always (rehearsed L) t"
  shows "always (rehearsed L) (t @ cs)"
  using assms(1)
proof cases
  case (attempt proposed original key object live decision ops err now ok)
  have "admitted L live ops" using attempt by (auto simp: admitted_def Let_def)
  then have persistent: "rehearsed L (u @ [CallPatch live ops True True]) (CallPatch live ops False ok)" for u ok
    by (simp add: rehearsed_def)
  from attempt(9) show ?thesis
    using \<open>admitted L live ops\<close> assms(2) persistent
    by (elim disjE conjE) (simp_all only: always_more always_snoc rehearsed_simps simp_thms)
qed (use rehearsed_quiet assms(2) in simp_all)

lemma rehearsed_phase:
  assumes "reconcilePhase L K D backend cells r m w = (out, r', w')" and "always (rehearsed L) (trace w)"
  shows "always (rehearsed L) (trace w')"
proof (cases "mt_Phase (mu_Status m) = PhaseInProgress")
  case False
  from assms(1) obtain cs where "trace w' = trace w @ cs" "no_patch cs \<or> mt_Phase (mu_Status m) = PhaseInProgress"
    by (rule reconcilePhase_calls)
  with False assms(2) show ?thesis using rehearsed_quiet by auto
next
  case True
  with assms(1) have run: "executeProposal L K m w = (out, w')"
    by (auto simp: reconcilePhase_def split: prod.splits)
  show ?thesis
  proof (cases "w' = w")
    case False
    then obtain x where exec: "ResourceToExecution L K \<lparr>oec_Obj = x, oec_Mutation = m\<rparr> w = (out, w')"
      using run by (auto simp: executeProposal_def Let_def split: if_splits sum.splits)
    from ResourceToExecution_execution [OF exec] obtain y where
      "execution L K \<lparr>oec_Obj = x, oec_Mutation = m\<rparr> w (calls w w') y" by blast
    from rehearsed_execution [OF this assms(2)] ResourceToExecution_extends [OF exec] show ?thesis by simp
  qed (use assms(2) in simp)
qed

lemma rehearsed_Reconcile:
  assumes "Reconcile L K D cells cells' r key w = (out, r', w')" and "always (rehearsed L) (trace w)"
  shows "always (rehearsed L) (trace w')"
proof (cases "fst (kGetMutation K key (cluster w))")
  case (Inl err)
  obtain x v where get: "GetMutation K key w = (x, v)" by (cases "GetMutation K key w")
  have "fst (GetMutation K key w) = Inl err" using Inl by (simp add: perform_def case_prod_beta)
  with get assms(1) have "w' = v" by (simp add: Reconcile_def)
  with perform_trace [OF get] assms(2) show ?thesis by (simp add: rehearsed_def)
next
  case (Inr m)
  show ?thesis
  proof (rule Reconcile_parts [OF assms(1) Inr])
    assume "trace w' = trace w @ [CallGetMutation key, CallUpdateMutation (releaseFinalizer m) False]"
    with rehearsed_quiet [OF _ assms(2), of "[CallGetMutation key, CallUpdateMutation (releaseFinalizer m) False]"]
    show ?thesis by simp
  next
    fix m' v pre
    assume run: "reconcilePhase L K D (GetRemoteBackend cells) cells' r m' v = (out, r', w')" and v: "trace v = trace w @ pre"
      and pre: "beingDeleted m \<Longrightarrow> pre = [CallGetMutation key, CallUpdateMutation (releaseFinalizer m) True] \<and>
         fst (kUpdateMutation K (releaseFinalizer m) (snd (kGetMutation K key (cluster w)))) = Inr m'"
        "\<not> beingDeleted m \<Longrightarrow> pre = [CallGetMutation key] \<and> m' = m"
    from pre have "no_patch pre" by (cases "beingDeleted m") auto
    from rehearsed_phase [OF run] rehearsed_quiet [OF this assms(2)] v show ?thesis by simp
  qed
qed

section \<open>The operator\<close>

lemma reached_rehearsed: "reached E K D s \<Longrightarrow> always (rehearsed (en_lib E)) (calls_made s)"
proof (induction rule: reached.induct)
  case (analysed s req out a)
  have "calls_since (calls_made s) (\<lambda>_. True) (\<lambda>c. area_of c \<noteq> Workloads) {} (analysis s)"
    by (simp add: calls_since_start)
  from maintains_D [OF aloof.reconciliation this analysed.hyps(2)] obtain cs where
    cs: "trace (cs_world a) = calls_made s @ cs" "list_all (\<lambda>c. area_of c \<noteq> Workloads) cs"
    by (auto simp: calls_since_def)
  from cs(2) have "no_patch cs"
    unfolding no_patch_def by (rule list.pred_mono_strong) (auto split: call.splits)
  from rehearsed_quiet [OF this analysed.IH] cs(1) show ?case by simp
next
  case (delivered s s')
  then show ?case using deliveries_keep [OF r_into_rtranclp] by fastforce
next
  case (repaired s s' key out r w)
  from rehearsed_Reconcile [OF repaired.hyps(3) repaired.IH] show ?case by simp
qed simp_all

text \<open>
  C4. In every run of the operator, whatever the API server and the language model answer, a
  persistent patch of a workload directly follows a successful dry run of the same operations on
  the same object; the gate has admitted them against that object; and if the kind is a registered
  one, they are a test of the resource version followed by replacements of container images.  The
  writes to the objects a K8sGPT owns, its server's Deployment among them, are other calls.
\<close>

theorem operator_only_repairs_images:
  assumes "reached E K D s" and "i < length (calls_made s)" and "calls_made s ! i = CallPatch live ops False ok"
  shows "0 < i \<and> calls_made s ! (i - 1) = CallPatch live ops True True \<and> admitted (en_lib E) live ops \<and>
    (GroupVersionKind_of (en_lib E) live \<in> set (map fst registeredPolicies) \<longrightarrow>
       hd ops = \<lparr>Op = ''test'', OpPath = ''/metadata/resourceVersion'', OpValue = JStr (GetResourceVersion (en_lib E) live)\<rparr> \<and>
       list_all replaces_image (tl ops))"
proof -
  let ?t = "calls_made s"
  from reached_rehearsed [OF assms(1)] assms(2,3) have r: "rehearsed (en_lib E) (take i ?t) (CallPatch live ops False ok)"
    unfolding always_def list_all_iff by (metis atLeastLessThan_iff le0 set_upt)
  then have "0 < i" and a: "admitted (en_lib E) live ops" and l: "last (take i ?t) = CallPatch live ops True True"
    by (auto simp: rehearsed_def)
  moreover have "last (take i ?t) = ?t ! (i - 1)"
    using \<open>0 < i\<close> assms(2) by (subst last_conv_nth) (auto simp: min_def)
  ultimately show ?thesis using admitted_images [OF a] by simp
qed

section \<open>One repair\<close>

definition repairEnv :: env where
  "repairEnv = sampleEnv\<lparr>en_lib := sampleLib\<rparr>"

text \<open>An operator with a mutation in progress, before and after its reconciliation.\<close>

definition repairOperator :: "store operator" where
  "repairOperator =
     \<lparr>analysis =
        \<lparr>cs_world = sampleWorld [sampleMutation PhaseInProgress ''two''], kclients = [],
         metricsBuilder = fst InitializeMetrics, metric_calls = [], allowBackendAIRequest = True, analysisRetryCount = 0\<rparr>,
      received = 0, receiver = [],
      shared = \<lparr>serverQueryClient = None, remoteBackend = '''', k8sgptConfig = None\<rparr>,
      repairs = \<lparr>ServerQueryClient = None\<rparr>\<rparr>"

definition repair_run :: "reconcile_result outcome \<times> MutationReconciler \<times> store world" where
  "repair_run = Reconcile sampleLib std_kube (\<lambda>a b. 1) (shared repairOperator) (shared repairOperator) (repairs repairOperator) sampleKey
     (cs_world (analysis repairOperator))"

definition repairedOperator :: "store operator" where
  "repairedOperator = repairOperator\<lparr>analysis := (analysis repairOperator)\<lparr>cs_world := snd (snd repair_run)\<rparr>,
     repairs := fst (snd repair_run)\<rparr>"

lemma reached_repaired: "reached repairEnv std_kube (\<lambda>a b. 1) repairedOperator"
proof -
  have "reached repairEnv std_kube (\<lambda>a b. 1) repairOperator"
    by (rule reached.start) (simp_all add: repairOperator_def sampleWorld_def)
  moreover have "Reconcile (en_lib repairEnv) std_kube (\<lambda>a b. 1) (shared repairOperator) (shared repairOperator) (repairs repairOperator) sampleKey
      (cs_world (analysis repairOperator)) = (fst repair_run, fst (snd repair_run), snd (snd repair_run))"
    by (simp add: repair_run_def repairEnv_def)
  ultimately show ?thesis unfolding repairedOperator_def by (rule reached.repaired [OF _ rtranclp.rtrancl_refl])
qed

definition patched_with :: "call \<Rightarrow> PatchOperation list" where
  "patched_with c = (case c of CallPatch live ops dryRun ok \<Rightarrow> ops | _ \<Rightarrow> [])"

definition repair_summary :: "call list \<Rightarrow> nat \<times> bool" where
  "repair_summary cs = (length cs,
     case cs ! 3 of CallPatch live ops dryRun ok \<Rightarrow> \<not> dryRun \<and> GroupVersionKind_of sampleLib live = DeploymentGVK
     | _ \<Rightarrow> False)"

lemma repaired_summary: "repair_summary (trace (snd (snd repair_run))) = (5, True)"
  by code_simp

lemma repaired_calls: "length (trace (snd (snd repair_run))) = 5"
  and repaired_call:
    "case trace (snd (snd repair_run)) ! 3 of
       CallPatch live ops dryRun ok \<Rightarrow> \<not> dryRun \<and> GroupVersionKind_of sampleLib live = DeploymentGVK
     | _ \<Rightarrow> False"
  using repaired_summary by (simp_all add: repair_summary_def)

theorem operator_only_repairs_images_witness:
  "list_all replaces_image (tl (patched_with (calls_made repairedOperator ! 3))) \<and>
   patched_with (calls_made repairedOperator ! 2) = patched_with (calls_made repairedOperator ! 3)"
proof -
  have t: "calls_made repairedOperator = trace (snd (snd repair_run))" by (simp add: repairedOperator_def)
  from repaired_call obtain live ops ok where c: "calls_made repairedOperator ! 3 = CallPatch live ops False ok"
    and k: "GroupVersionKind_of sampleLib live = DeploymentGVK"
    unfolding t by (auto split: call.splits)
  have "DeploymentGVK \<in> set (map fst registeredPolicies)"
    by (simp add: registeredPolicies_def registered_def DeploymentGVK_def Let_def)
  with operator_only_repairs_images [OF reached_repaired _ c] repaired_calls k t c show ?thesis
    by (simp add: repairEnv_def patched_with_def)
qed

end
