(* ===== verification/Entry_Point.thy ===== *)
theory Entry_Point
  imports Reconciliation
begin

text \<open>
  The start of the operator: \<^verbatim>\<open>main\<close> of \<^verbatim>\<open>cmd/main.go\<close>, and \<^verbatim>\<open>SetupWithManager\<close> of the two controllers.
  What the libraries answer is a parameter; the model keeps the calls that are made and the two
  registries of metrics.  A start either ends at the first thing that fails, or runs the operator
  from a state in which the relation \<open>reached\<close> begins.
\<close>

section \<open>State and calls\<close>

text \<open>The command line flags and their defaults.\<close>

record flags =
  fl_metricsAddr :: string
  fl_probeAddr :: string
  fl_enableLeaderElection :: bool
  fl_enableResultLogging :: bool

definition defaultFlags :: flags where
  "defaultFlags = \<lparr>fl_metricsAddr = '':8080'', fl_probeAddr = '':8081'', fl_enableLeaderElection = False, fl_enableResultLogging = False\<rparr>"

datatype startup_call =
    GetConfigOrDie
  | NewManager string string bool
  | NewIntegrations
  | IndexField string
  | CompleteController string
  | AddHealthzCheck string
  | AddReadyzCheck string
  | StartManager

text \<open>
  The calls, the names in the default registry of Prometheus and in that of controller-runtime, and the
  operator, once its manager has been started.
\<close>

record 's startup =
  startup_calls :: "startup_call list"
  default_registry :: "string list"
  controller_registry :: "string list"
  started :: "'s operator option"

text \<open>
  How \<^verbatim>\<open>main\<close> ends: it returns, or it logs a message with an error and exits with status 1; the
  library function \<^verbatim>\<open>GetConfigOrDie\<close> does the latter itself.
\<close>

datatype ending = Returned | Exit string error

text \<open>What a call answers may depend on the calls before it.\<close>

type_synonym answers = "startup_call list \<Rightarrow> startup_call \<Rightarrow> unit go_result"

definition call_out :: "answers \<Rightarrow> startup_call \<Rightarrow> (unit, 's startup) action" where
  "call_out answer c s = (Done (answer (startup_calls s) c), s\<lparr>startup_calls := startup_calls s @ [c]\<rparr>)"

definition or_exit :: "('a, 'w) action \<Rightarrow> string \<Rightarrow> ('a \<Rightarrow> 'w \<Rightarrow> ending outcome \<times> 'w) \<Rightarrow> 'w \<Rightarrow> ending outcome \<times> 'w" where
  "or_exit m message rest s =
     (case m s of
        (Panic, s) \<Rightarrow> (Panic, s)
      | (Done (Inl err), s) \<Rightarrow> (Done (Exit message err), s)
      | (Done (Inr x), s) \<Rightarrow> rest x s)"

section \<open>Registration of the metrics\<close>

text \<open>
  \<^verbatim>\<open>MustRegister\<close> panics on a nil vector, and on one whose name is taken; the result is the registry.
\<close>

fun mustRegister :: "MetricConfig option list \<Rightarrow> string list \<Rightarrow> string list outcome" where
  "mustRegister [] registry = Done registry"
| "mustRegister (None # ms) registry = Panic"
| "mustRegister (Some m # ms) registry =
     (if mc_Name m \<in> set registry then Panic else mustRegister ms (registry @ [mc_Name m]))"

definition register_default :: "MetricConfig list \<Rightarrow> (unit, 's startup) action" where
  "register_default ms s =
     (case mustRegister (map Some ms) (default_registry s) of
        Panic \<Rightarrow> (Panic, s)
      | Done registry \<Rightarrow> (Done (Inr ()), s\<lparr>default_registry := registry\<rparr>))"

definition register_controller :: "MetricConfig option list \<Rightarrow> (unit, 's startup) action" where
  "register_controller ms s =
     (case mustRegister ms (controller_registry s) of
        Panic \<Rightarrow> (Panic, s)
      | Done registry \<Rightarrow> (Done (Inr ()), s\<lparr>controller_registry := registry\<rparr>))"

section \<open>The controllers\<close>

definition aiSecretIndexField :: string where
  "aiSecretIndexField = ''.spec.ai.secret.name''"

definition SetupMutation :: "answers \<Rightarrow> MetricBuilder \<Rightarrow> (unit, 's startup) action" where
  "SetupMutation answer builder =
     and_then (register_controller (mutationMetrics builder)) (\<lambda>_.
     call_out answer (CompleteController ''mutation''))"

definition SetupK8sGPT :: "answers \<Rightarrow> MetricBuilder \<Rightarrow> (unit, 's startup) action" where
  "SetupK8sGPT answer builder =
     and_then (register_controller (controllerMetrics builder)) (\<lambda>_.
     and_then (call_out answer (IndexField aiSecretIndexField)) (\<lambda>_.
     call_out answer (CompleteController ''k8sgpt'')))"

text \<open>The reconcilers, the shared cells and the package variables as they are when the manager starts.\<close>

definition newOperator :: "'s \<Rightarrow> MetricBuilder \<Rightarrow> 's operator" where
  "newOperator c builder =
     \<lparr>analysis =
        \<lparr>cs_world = \<lparr>cluster = c, trace = []\<rparr>, kclients = [], metricsBuilder = builder, metric_calls = [],
         allowBackendAIRequest = True, analysisRetryCount = 0\<rparr>,
      received = 0, receiver = [],
      shared = \<lparr>serverQueryClient = None, remoteBackend = '''', k8sgptConfig = None\<rparr>,
      repairs = \<lparr>ServerQueryClient = None\<rparr>\<rparr>"

section \<open>Main\<close>

text \<open>The addresses: random ports between 7000 and 8000 in the local mode.\<close>

definition addresses :: "host \<Rightarrow> int \<times> int \<Rightarrow> flags \<Rightarrow> string \<times> string" where
  "addresses H random f =
     (if Getenv H ''LOCAL_MODE'' \<noteq> '''' then
        (let low = 7000 in ('':'' @ Itoa (fst random + low), '':'' @ Itoa (snd random + low)))
      else (fl_metricsAddr f, fl_probeAddr f))"

definition sinkTimeout :: "host \<Rightarrow> int go_result" where
  "sinkTimeout H =
     ParseDuration H (case LookupEnv H ''OPERATOR_SINK_WEBHOOK_TIMEOUT_SECONDS'' of None \<Rightarrow> ''35s'' | Some timeout \<Rightarrow> timeout)"

definition start_manager :: "answers \<Rightarrow> 's operator \<Rightarrow> (unit, 's startup) action" where
  "start_manager answer operator s = call_out answer StartManager (s\<lparr>started := Some operator\<rparr>)"

definition main :: "host \<Rightarrow> answers \<Rightarrow> int \<times> int \<Rightarrow> flags \<Rightarrow> 's \<Rightarrow> 's startup \<Rightarrow> ending outcome \<times> 's startup" where
  "main H answer random f c =
     (case addresses H random f of (metricsAddr, probeAddr) \<Rightarrow>
      or_exit (call_out answer GetConfigOrDie) ''unable to get kubeconfig'' (\<lambda>_.
      or_exit (call_out answer (NewManager metricsAddr probeAddr (fl_enableLeaderElection f))) ''unable to start manager'' (\<lambda>_.
      or_exit (call_out answer NewIntegrations) ''unable to create REST client to initialise Integrations'' (\<lambda>_.
      or_exit (Pair (Done (sinkTimeout H))) ''unable to read webhook timeout value'' (\<lambda>timeout.
      (case InitializeMetrics of (builder, vectors) \<Rightarrow>
      or_exit (register_default vectors) '''' (\<lambda>_.
      or_exit (SetupMutation answer builder) ''unable to create controller'' (\<lambda>_.
      or_exit (SetupK8sGPT answer builder) ''unable to create controller'' (\<lambda>_.
      or_exit (call_out answer (AddHealthzCheck ''healthz'')) ''unable to set up health check'' (\<lambda>_.
      or_exit (call_out answer (AddReadyzCheck ''readyz'')) ''unable to set up ready check'' (\<lambda>_.
      or_exit (start_manager answer (newOperator c builder)) ''problem running manager'' (\<lambda>_ s.
      (Done Returned, s)))))))))))))"

section \<open>How a start goes\<close>

definition plan :: "host \<Rightarrow> int \<times> int \<Rightarrow> flags \<Rightarrow> startup_call list" where
  "plan H random f =
     [GetConfigOrDie, NewManager (fst (addresses H random f)) (snd (addresses H random f)) (fl_enableLeaderElection f), NewIntegrations,
      CompleteController ''mutation'', IndexField aiSecretIndexField, CompleteController ''k8sgpt'',
      AddHealthzCheck ''healthz'', AddReadyzCheck ''readyz'', StartManager]"

fun succeeded :: "answers \<Rightarrow> startup_call list \<Rightarrow> startup_call list \<Rightarrow> bool" where
  "succeeded answer made [] \<longleftrightarrow> True"
| "succeeded answer made (c # cs) \<longleftrightarrow> answer made c = Inr () \<and> succeeded answer (made @ [c]) cs"

text \<open>The names of the metrics are still free.\<close>

definition names_free :: "string list \<Rightarrow> bool" where
  "names_free registry \<longleftrightarrow> set (map mc_Name (snd InitializeMetrics)) \<inter> set registry = {}"

lemma mustRegister_fresh:
  assumes "list_all (\<lambda>m. m \<noteq> None) ms" and "distinct (map (mc_Name \<circ> the) ms)"
    and "set (map (mc_Name \<circ> the) ms) \<inter> set registry = {}"
  shows "mustRegister ms registry = Done (registry @ map (mc_Name \<circ> the) ms)"
  using assms
proof (induction ms registry rule: mustRegister.induct)
  case (3 m ms registry)
  then have "mustRegister ms (registry @ [mc_Name m]) = Done ((registry @ [mc_Name m]) @ map (mc_Name \<circ> the) ms)"
    by (intro "3.IH") auto
  with "3.prems" show ?case by auto
qed auto

lemma mustRegister_append:
  "mustRegister (as @ bs) registry =
     (case mustRegister as registry of Panic \<Rightarrow> Panic | Done registry \<Rightarrow> mustRegister bs registry)"
  by (induction as registry rule: mustRegister.induct) auto

text \<open>Nothing panics: every metric is there, and no name is registered twice.\<close>

lemma registrations:
  assumes "names_free registry"
  shows "mustRegister (map Some (snd InitializeMetrics)) registry = Done (registry @ map mc_Name (snd InitializeMetrics))"
    and "\<exists>xs. mustRegister (mutationMetrics (fst InitializeMetrics)) registry = Done (registry @ xs) \<and>
      (\<exists>ys. mustRegister (controllerMetrics (fst InitializeMetrics)) (registry @ xs) = Done (registry @ xs @ ys) \<and>
         mset (xs @ ys) = mset (map mc_Name (snd InitializeMetrics)))"
proof -
  have names: "map mc_Name (snd InitializeMetrics) =
      [''k8sgpt_reconcile_error_count'', ''k8sgpt_number_of_results'', ''k8sgpt_number_of_results_by_type'',
       ''k8sgpt_number_of_backend_ai_calls'', ''k8sgpt_number_of_failed_backend_ai_calls'', ''k8sgpt_mutations_count'']"
    by (simp add: InitializeMetrics_def Let_def AddMetric_def NewMetricBuilder_def RegisterMetrics_def)
  have found: "list_all (\<lambda>m. m \<noteq> None) (mutationMetrics (fst InitializeMetrics))"
    "list_all (\<lambda>m. m \<noteq> None) (controllerMetrics (fst InitializeMetrics))"
    "map (mc_Name \<circ> the) (mutationMetrics (fst InitializeMetrics)) = [''k8sgpt_mutations_count'']"
    "map (mc_Name \<circ> the) (controllerMetrics (fst InitializeMetrics)) =
      [''k8sgpt_reconcile_error_count'', ''k8sgpt_number_of_results'', ''k8sgpt_number_of_results_by_type'',
       ''k8sgpt_number_of_backend_ai_calls'', ''k8sgpt_number_of_failed_backend_ai_calls'']"
    by (simp_all add: InitializeMetrics_def Let_def AddMetric_def NewMetricBuilder_def controllerMetrics_def
      mutationMetrics_def GetCounterVec_def GetGaugeVec_def)
  note free = assms [unfolded names_free_def set_map [symmetric] names]
  show "mustRegister (map Some (snd InitializeMetrics)) registry = Done (registry @ map mc_Name (snd InitializeMetrics))"
    using mustRegister_fresh [of "map Some (snd InitializeMetrics)" registry] free
    by (simp add: comp_def names list_all_iff)
  have 1: "mustRegister (mutationMetrics (fst InitializeMetrics)) registry = Done (registry @ [''k8sgpt_mutations_count''])"
    using mustRegister_fresh [OF found(1), of registry] free by (simp add: found(3))
  have 2: "mustRegister (controllerMetrics (fst InitializeMetrics)) (registry @ [''k8sgpt_mutations_count'']) =
      Done ((registry @ [''k8sgpt_mutations_count'']) @ map (mc_Name \<circ> the) (controllerMetrics (fst InitializeMetrics)))"
    by (rule mustRegister_fresh [OF found(2)]) (use free in \<open>auto simp: found(4)\<close>)
  from 1 2 show "\<exists>xs. mustRegister (mutationMetrics (fst InitializeMetrics)) registry = Done (registry @ xs) \<and>
      (\<exists>ys. mustRegister (controllerMetrics (fst InitializeMetrics)) (registry @ xs) = Done (registry @ xs @ ys) \<and>
         mset (xs @ ys) = mset (map mc_Name (snd InitializeMetrics)))"
    by (intro exI [of _ "[''k8sgpt_mutations_count'']"] conjI exI [of _ "map (mc_Name \<circ> the) (controllerMetrics (fst InitializeMetrics))"])
      (simp_all add: found(4) names)
qed

lemma or_exit_call:
  "or_exit (call_out answer c) message rest s =
     (case answer (startup_calls s) c of
        Inl err \<Rightarrow> (Done (Exit message err), s\<lparr>startup_calls := startup_calls s @ [c]\<rparr>)
      | Inr u \<Rightarrow> rest u (s\<lparr>startup_calls := startup_calls s @ [c]\<rparr>))"
  by (simp add: or_exit_def call_out_def split: sum.split)

lemma or_exit_Pair:
  "or_exit (Pair (Done x)) message rest s = (case x of Inl err \<Rightarrow> (Done (Exit message err), s) | Inr y \<Rightarrow> rest y s)"
  by (simp add: or_exit_def split: sum.split)

lemma or_exit_and_then:
  "or_exit (and_then m g) message rest = or_exit m message (\<lambda>x. or_exit (g x) message rest)"
  by (rule ext) (simp add: or_exit_def and_then_def split: prod.split outcome.split sum.split)

lemma or_exit_default:
  "mustRegister (map Some ms) (default_registry s) = Done reg \<Longrightarrow>
   or_exit (register_default ms) message rest s = rest () (s\<lparr>default_registry := reg\<rparr>)"
  by (simp add: or_exit_def register_default_def)

lemma or_exit_controller:
  "mustRegister ms (controller_registry s) = Done reg \<Longrightarrow>
   or_exit (register_controller ms) message rest s = rest () (s\<lparr>controller_registry := reg\<rparr>)"
  by (simp add: or_exit_def register_controller_def)

lemma or_exit_start:
  "or_exit (start_manager answer operator) message rest s =
     or_exit (call_out answer StartManager) message rest (s\<lparr>started := Some operator\<rparr>)"
  by (simp add: or_exit_def start_manager_def)

lemmas start_simps = or_exit_Pair or_exit_and_then or_exit_default or_exit_controller or_exit_start or_exit_call

lemma succeeded_snoc: "succeeded answer made (cs @ [c]) \<longleftrightarrow> succeeded answer made cs \<and> answer (made @ cs) c = Inr ()"
  by (induction cs arbitrary: made) auto

text \<open>How a start may end, and be after some of the calls of the plan.\<close>

definition ends_well :: "env \<Rightarrow> 's kube \<Rightarrow> (string \<Rightarrow> string \<Rightarrow> nat) \<Rightarrow> host \<Rightarrow> answers \<Rightarrow> startup_call list
    \<Rightarrow> ending outcome \<times> 's startup \<Rightarrow> bool" where
  "ends_well E K D H answer p x \<longleftrightarrow>
     (case x of (r, s') \<Rightarrow>
       (let made = startup_calls s' in
          made = take (length made) p \<and>
          (case r of
             Panic \<Rightarrow> False
           | Done Returned \<Rightarrow> made = p \<and> succeeded answer [] made
           | Done (Exit message err) \<Rightarrow>
               sinkTimeout H = Inl err \<and> length made = 3 \<and> succeeded answer [] made \<or>
               made \<noteq> [] \<and> succeeded answer [] (butlast made) \<and> answer (butlast made) (last made) = Inl err) \<and>
          (case started s' of None \<Rightarrow> made \<noteq> p | Some operator \<Rightarrow> made = p \<and> reached E K D operator)))"

definition on_plan :: "answers \<Rightarrow> startup_call list \<Rightarrow> startup_call list \<Rightarrow> startup_call list \<Rightarrow> bool" where
  "on_plan answer p todo made \<longleftrightarrow> made @ todo = p \<and> succeeded answer [] made"

lemma exits_well:
  assumes "on_plan answer p (c # todo) (startup_calls s)"
    and "case started s of None \<Rightarrow> todo \<noteq> [] | Some operator \<Rightarrow> todo = [] \<and> reached E K D operator"
    and "on_plan answer p todo (startup_calls s @ [c]) \<Longrightarrow>
      ends_well E K D H answer p (rest () (s\<lparr>startup_calls := startup_calls s @ [c]\<rparr>))"
  shows "ends_well E K D H answer p (or_exit (call_out answer c) message rest s)"
proof (cases "answer (startup_calls s) c")
  case (Inl err)
  have "p = startup_calls s @ c # todo" using assms(1) by (simp add: on_plan_def)
  with Inl assms(1,2) show ?thesis
    by (auto simp: or_exit_call ends_well_def on_plan_def Let_def split: option.splits)
next
  case (Inr u)
  with assms(1) have "on_plan answer p todo (startup_calls s @ [c])"
    by (simp add: on_plan_def succeeded_snoc)
  from assms(3) [OF this] Inr show ?thesis by (simp add: or_exit_call)
qed

lemma start_goes_well:
  assumes "startup_calls s = []" and "started s = None"
    and "names_free (default_registry s)" and "names_free (controller_registry s)"
  shows "ends_well E K D H answer (plan H random f) (main H answer random f c s)"
proof -
  let ?p = "plan H random f"
  from registrations(1) [OF assms(3)] obtain reg where
    reg: "mustRegister (map Some (snd InitializeMetrics)) (default_registry s) = Done reg" by blast
  from registrations(2) [OF assms(4)] obtain xs ys where
    xs: "mustRegister (mutationMetrics (fst InitializeMetrics)) (controller_registry s) = Done xs" and
    ys: "mustRegister (controllerMetrics (fst InitializeMetrics)) xs = Done ys" by metis
  have fresh: "reached E K D (newOperator c (fst InitializeMetrics))"
    by (rule reached.start) (simp_all add: newOperator_def)
  have timeout: "ends_well E K D H answer ?p (Done (Exit message err), t)"
    if "sinkTimeout H = Inl err" "on_plan answer ?p (drop 3 ?p) (startup_calls t)" "started t = None"
    for err message and t :: "'a startup"
    using that by (auto simp: ends_well_def on_plan_def plan_def Let_def)
  note steps = or_exit_Pair or_exit_and_then or_exit_default or_exit_controller or_exit_start reg xs ys
  have "on_plan answer ?p ?p (startup_calls s)" using assms(1) by (simp add: on_plan_def)
  then show ?thesis
    unfolding main_def SetupMutation_def SetupK8sGPT_def case_prod_beta
    apply (subst (asm) (2) plan_def)
    apply (rule exits_well, assumption, simp add: assms(2))
    apply (rule exits_well, simp, simp add: assms(2))
    apply (rule exits_well, simp, simp add: assms(2))
    apply (simp add: steps)
    apply (rule sum.split [THEN iffD2], intro conjI allI impI)
     apply (rule timeout, assumption, simp add: plan_def, simp add: assms(2))
    apply (simp add: steps)
    apply (rule exits_well, simp, simp add: assms(2), simp add: steps)+
    apply (rule exits_well, simp, simp add: fresh)
    apply (simp add: ends_well_def on_plan_def fresh Let_def)
    done
qed

text \<open>
  C17. A start makes its calls in one order and stops at the first that fails, with that error as the
  reason of the exit, or at a timeout of the sinks that cannot be parsed; registering the metrics
  never panics.  The operator runs exactly if everything before the start of its manager
  succeeded, and then from a state in which its runs begin.
\<close>

theorem start_stops_at_first_failure:
  assumes "startup_calls s = []" and "started s = None"
    and "names_free (default_registry s)" and "names_free (controller_registry s)"
  shows "case main H answer random f c s of (r, s') \<Rightarrow>
    (let made = startup_calls s'; p = plan H random f in
       made = take (length made) p \<and>
       (case r of
          Panic \<Rightarrow> False
        | Done Returned \<Rightarrow> made = p \<and> succeeded answer [] made
        | Done (Exit message err) \<Rightarrow>
            sinkTimeout H = Inl err \<and> length made = 3 \<and> succeeded answer [] made \<or>
            made \<noteq> [] \<and> succeeded answer [] (butlast made) \<and> answer (butlast made) (last made) = Inl err) \<and>
       (case started s' of
          None \<Rightarrow> made \<noteq> p
        | Some operator \<Rightarrow> made = p \<and> reached E K D operator))"
  using start_goes_well [OF assms, where E = E and K = K and D = D]
  by (simp add: ends_well_def Let_def case_prod_beta)

definition freshStart :: "unit startup" where
  "freshStart = \<lparr>startup_calls = [], default_registry = [''go_goroutines''], controller_registry = [], started = None\<rparr>"

theorem start_stops_at_first_failure_witness:
  "case main sampleHost (\<lambda>made c. if c = NewIntegrations then Inl (Errorf ''no REST client'') else Inr ()) (7, 8) defaultFlags () freshStart of
     (r, s') \<Rightarrow> length (startup_calls s') = 3 \<and> started s' = None"
proof -
  let ?answer = "\<lambda>made c. if c = NewIntegrations then Inl (Errorf ''no REST client'') else Inr ()"
  obtain r s' where run: "main sampleHost ?answer (7, 8) defaultFlags () freshStart = (r, s')"
    by (cases "main sampleHost ?answer (7, 8) defaultFlags () freshStart")
  have "names_free [''go_goroutines'']" "names_free []"
    by (simp_all add: names_free_def InitializeMetrics_def Let_def AddMetric_def NewMetricBuilder_def RegisterMetrics_def)
  then have free: "startup_calls freshStart = []" "started freshStart = None"
    "names_free (default_registry freshStart)" "names_free (controller_registry freshStart)"
    by (simp_all add: freshStart_def)
  have three: "length (startup_calls s') = 3"
    using arg_cong [OF run, of "\<lambda>x. length (startup_calls (snd x))"]
    by (simp add: main_def or_exit_def call_out_def freshStart_def case_prod_beta)
  have "started s' \<noteq> None \<longrightarrow> startup_calls s' = plan sampleHost (7, 8) defaultFlags"
    using start_stops_at_first_failure [OF free, where H = sampleHost and answer = ?answer and random = "(7, 8)"
      and f = defaultFlags and c = "()" and E = sampleEnv and K = sampleKube and D = "\<lambda>a b. 1"] run
    by (auto simp: Let_def)
  moreover have "startup_calls s' \<noteq> plan sampleHost (7, 8) defaultFlags"
    using three by (auto simp: plan_def)
  ultimately show ?thesis using run three by simp
qed

end
