(* ===== verification/Go_Memory.thy ===== *)
theory Go_Memory
  imports Prelude
begin

text \<open>
  Memory as Go has it, for the code that is about sharing: variables, arrays and maps live at
  addresses, and pointers, slices and maps are references to them.  A type says what a value may
  hold; \<open>typed\<close>, \<open>content\<close> and \<open>reach\<close> read a value in a memory.  On top of them the theory has the
  statements of a deep copy, and the contract \<open>copies\<close> with one rule for each statement.
\<close>

section \<open>Values, types and memory\<close>

type_synonym addr = nat

text \<open>A slice is an array with an offset and a length; nil is \<open>None\<close>.\<close>

datatype go_value =
    Text string
  | Bool bool
  | Number int
  | Pointer "addr option"
  | Slice "(addr \<times> nat \<times> nat) option"
  | Map "addr option"
  | Struct "(string \<times> go_value) list"

datatype cell =
    Var go_value
  | Array "go_value list"
  | Table "(string \<times> go_value) list"

text \<open>Addresses are positions, and allocation appends: nothing is ever freed.\<close>

type_synonym memory = "cell list"

datatype go_type =
    TText
  | TBool
  | TInt
  | TPointer go_type
  | TSlice go_type
  | TMap go_type
  | TStruct "(string \<times> go_type) list"

text \<open>The value of a new variable.\<close>

fun zero :: "go_type \<Rightarrow> go_value" where
  "zero TText = Text ''''"
| "zero TBool = Bool False"
| "zero TInt = Number 0"
| "zero (TPointer t) = Pointer None"
| "zero (TSlice t) = Slice None"
| "zero (TMap t) = Map None"
| "zero (TStruct ts) = Struct (map (\<lambda>(n, t). (n, zero t)) ts)"

text \<open>Reading: an address that holds something else never occurs in a typed value.\<close>

definition the_var :: "memory \<Rightarrow> addr \<Rightarrow> go_value option" where
  "the_var h a = (if a < length h then (case h ! a of Var v \<Rightarrow> Some v | _ \<Rightarrow> None) else None)"

definition the_table :: "memory \<Rightarrow> addr \<Rightarrow> (string \<times> go_value) list option" where
  "the_table h a = (if a < length h then (case h ! a of Table kvs \<Rightarrow> Some kvs | _ \<Rightarrow> None) else None)"

definition the_slice :: "memory \<Rightarrow> addr \<Rightarrow> nat \<Rightarrow> nat \<Rightarrow> go_value list option" where
  "the_slice h a off n =
     (if a < length h
      then (case h ! a of Array xs \<Rightarrow> if off + n \<le> length xs then Some (take n (drop off xs)) else None | _ \<Rightarrow> None)
      else None)"

text \<open>Types without references: an assignment copies their values in full.\<close>

fun flat :: "go_type \<Rightarrow> bool" where
  "flat (TStruct ts) = list_all (\<lambda>(n, t). flat t) ts"
| "flat t = (t = TText \<or> t = TBool \<or> t = TInt)"

section \<open>Typing, content and reachable cells\<close>

fun typed :: "memory \<Rightarrow> go_type \<Rightarrow> go_value \<Rightarrow> bool"
  and typed_fields :: "memory \<Rightarrow> (string \<times> go_type) list \<Rightarrow> (string \<times> go_value) list \<Rightarrow> bool" where
  "typed h TText v = (case v of Text s \<Rightarrow> True | _ \<Rightarrow> False)"
| "typed h TBool v = (case v of Bool b \<Rightarrow> True | _ \<Rightarrow> False)"
| "typed h TInt v = (case v of Number i \<Rightarrow> True | _ \<Rightarrow> False)"
| "typed h (TPointer t) v =
     (case v of
        Pointer None \<Rightarrow> True
      | Pointer (Some a) \<Rightarrow> (case the_var h a of None \<Rightarrow> False | Some x \<Rightarrow> typed h t x)
      | _ \<Rightarrow> False)"
| "typed h (TSlice t) v =
     (case v of
        Slice None \<Rightarrow> True
      | Slice (Some (a, off, n)) \<Rightarrow>
          (case the_slice h a off n of None \<Rightarrow> False | Some xs \<Rightarrow> list_all (\<lambda>x. typed h t x) xs)
      | _ \<Rightarrow> False)"
| "typed h (TMap t) v =
     (case v of
        Map None \<Rightarrow> True
      | Map (Some a) \<Rightarrow>
          (case the_table h a of
             None \<Rightarrow> False
           | Some kvs \<Rightarrow> distinct (map fst kvs) \<and> list_all (\<lambda>kv. typed h t (snd kv)) kvs)
      | _ \<Rightarrow> False)"
| "typed h (TStruct ts) v = (case v of Struct ys \<Rightarrow> typed_fields h ts ys | _ \<Rightarrow> False)"
| "typed_fields h [] ys = (ys = [])"
| "typed_fields h (nt # ts) ys =
     (case ys of [] \<Rightarrow> False
      | my # ys \<Rightarrow> fst nt = fst my \<and> typed h (snd nt) (snd my) \<and> typed_fields h ts ys)"

text \<open>What a value is, whatever the addresses are.\<close>

datatype go_content =
    CText string
  | CBool bool
  | CInt int
  | CNil
  | CPointer go_content
  | CSlice "go_content list"
  | CMap "(string \<times> go_content) list"
  | CStruct "(string \<times> go_content) list"

fun content :: "memory \<Rightarrow> go_type \<Rightarrow> go_value \<Rightarrow> go_content"
  and contents :: "memory \<Rightarrow> (string \<times> go_type) list \<Rightarrow> (string \<times> go_value) list \<Rightarrow> (string \<times> go_content) list" where
  "content h TText v = (case v of Text s \<Rightarrow> CText s | _ \<Rightarrow> CNil)"
| "content h TBool v = (case v of Bool b \<Rightarrow> CBool b | _ \<Rightarrow> CNil)"
| "content h TInt v = (case v of Number i \<Rightarrow> CInt i | _ \<Rightarrow> CNil)"
| "content h (TPointer t) v =
     (case v of
        Pointer (Some a) \<Rightarrow> (case the_var h a of None \<Rightarrow> CNil | Some x \<Rightarrow> CPointer (content h t x))
      | _ \<Rightarrow> CNil)"
| "content h (TSlice t) v =
     (case v of
        Slice (Some (a, off, n)) \<Rightarrow>
          (case the_slice h a off n of None \<Rightarrow> CNil | Some xs \<Rightarrow> CSlice (map (\<lambda>x. content h t x) xs))
      | _ \<Rightarrow> CNil)"
| "content h (TMap t) v =
     (case v of
        Map (Some a) \<Rightarrow>
          (case the_table h a of
             None \<Rightarrow> CNil
           | Some kvs \<Rightarrow> CMap (map (\<lambda>kv. (fst kv, content h t (snd kv))) kvs))
      | _ \<Rightarrow> CNil)"
| "content h (TStruct ts) v = (case v of Struct ys \<Rightarrow> CStruct (contents h ts ys) | _ \<Rightarrow> CNil)"
| "contents h [] ys = []"
| "contents h (nt # ts) ys =
     (case ys of [] \<Rightarrow> [] | my # ys \<Rightarrow> (fst my, content h (snd nt) (snd my)) # contents h ts ys)"

text \<open>The cells a value refers to, directly or not, once for each path to them.\<close>

fun reach :: "memory \<Rightarrow> go_type \<Rightarrow> go_value \<Rightarrow> addr list"
  and reaches :: "memory \<Rightarrow> (string \<times> go_type) list \<Rightarrow> (string \<times> go_value) list \<Rightarrow> addr list" where
  "reach h TText v = []"
| "reach h TBool v = []"
| "reach h TInt v = []"
| "reach h (TPointer t) v =
     (case v of
        Pointer (Some a) \<Rightarrow> a # (case the_var h a of None \<Rightarrow> [] | Some x \<Rightarrow> reach h t x)
      | _ \<Rightarrow> [])"
| "reach h (TSlice t) v =
     (case v of
        Slice (Some (a, off, n)) \<Rightarrow>
          a # (case the_slice h a off n of None \<Rightarrow> [] | Some xs \<Rightarrow> concat (map (\<lambda>x. reach h t x) xs))
      | _ \<Rightarrow> [])"
| "reach h (TMap t) v =
     (case v of
        Map (Some a) \<Rightarrow>
          a # (case the_table h a of None \<Rightarrow> [] | Some kvs \<Rightarrow> concat (map (\<lambda>kv. reach h t (snd kv)) kvs))
      | _ \<Rightarrow> [])"
| "reach h (TStruct ts) v = (case v of Struct ys \<Rightarrow> reaches h ts ys | _ \<Rightarrow> [])"
| "reaches h [] ys = []"
| "reaches h (nt # ts) ys =
     (case ys of [] \<Rightarrow> [] | my # ys \<Rightarrow> reach h (snd nt) (snd my) @ reaches h ts ys)"

text \<open>Values are read from the cells they reach, and from no others.\<close>

definition agree :: "memory \<Rightarrow> memory \<Rightarrow> addr list \<Rightarrow> bool" where
  "agree h h' as \<longleftrightarrow> (\<forall>a \<in> set as. a < length h \<and> a < length h' \<and> h' ! a = h ! a)"

lemma agree_simps [simp]:
  "agree h h' []"
  "agree h h' (a # as) \<longleftrightarrow> a < length h \<and> a < length h' \<and> h' ! a = h ! a \<and> agree h h' as"
  "agree h h' (as @ bs) \<longleftrightarrow> agree h h' as \<and> agree h h' bs"
  by (auto simp: agree_def)

lemma agree_reads:
  assumes "agree h h' (a # as)"
  shows "the_var h' a = the_var h a" and "the_table h' a = the_table h a"
    and "the_slice h' a off n = the_slice h a off n"
  using assms by (auto simp: the_var_def the_table_def the_slice_def)

lemma agree_elements:
  assumes "agree h h' (concat (map f xs))" and "x \<in> set xs"
  shows "agree h h' (f x)"
  using assms by (auto simp: agree_def)

lemma same_value:
  "typed h t v \<Longrightarrow> agree h h' (reach h t v) \<Longrightarrow>
     typed h' t v \<and> content h' t v = content h t v \<and> reach h' t v = reach h t v"
  and same_fields:
  "typed_fields h ts ys \<Longrightarrow> agree h h' (reaches h ts ys) \<Longrightarrow>
     typed_fields h' ts ys \<and> contents h' ts ys = contents h ts ys \<and> reaches h' ts ys = reaches h ts ys"
proof (induction h t v and h ts ys rule: typed_typed_fields.induct)
  case (4 h t v)
  then obtain p where v: "v = Pointer p" by (cases v) auto
  show ?case
  proof (cases p)
    case (Some a)
    with v 4(2) obtain x where x: "the_var h a = Some x" "typed h t x" by (auto split: option.splits)
    have "agree h h' (a # reach h t x)" using 4(3) v Some x by simp
    with x have "the_var h' a = Some x" "agree h h' (reach h t x)" using agree_reads(1) by fastforce+
    with 4(1) [OF v Some x(1)] x v Some show ?thesis by simp
  qed (simp add: v)
next
  case (5 h t v)
  then obtain p where v: "v = Slice p" by (cases v) auto
  show ?case
  proof (cases p)
    case (Some s)
    obtain a off n where s: "s = (a, off, n)" by (cases s)
    with v Some 5(2) obtain xs where xs: "the_slice h a off n = Some xs" "list_all (\<lambda>x. typed h t x) xs"
      by (auto split: option.splits)
    have all: "agree h h' (a # concat (map (\<lambda>x. reach h t x) xs))" using 5(3) v Some s xs by simp
    then have xs': "the_slice h' a off n = Some xs" using agree_reads(3) xs by fastforce
    have each: "typed h' t x \<and> content h' t x = content h t x \<and> reach h' t x = reach h t x" if "x \<in> set xs" for x
      using 5(1) [OF v Some _ _ xs(1) that] xs(2) that all s by (auto simp: list_all_iff agree_elements)
    then have "concat (map (\<lambda>x. reach h' t x) xs) = concat (map (\<lambda>x. reach h t x) xs)"
      by (metis (no_types, lifting) map_eq_conv)
    with each xs xs' v Some s show ?thesis by (simp add: list_all_iff)
  qed (simp add: v)
next
  case (6 h t v)
  then obtain p where v: "v = Map p" by (cases v) auto
  show ?case
  proof (cases p)
    case (Some a)
    with v 6(2) obtain kvs where kvs: "the_table h a = Some kvs" "distinct (map fst kvs)"
      "list_all (\<lambda>kv. typed h t (snd kv)) kvs" by (auto split: option.splits)
    have all: "agree h h' (a # concat (map (\<lambda>kv. reach h t (snd kv)) kvs))" using 6(3) v Some kvs by simp
    then have kvs': "the_table h' a = Some kvs" using agree_reads(2) kvs by fastforce
    have each: "typed h' t (snd kv) \<and> content h' t (snd kv) = content h t (snd kv) \<and>
        reach h' t (snd kv) = reach h t (snd kv)" if "kv \<in> set kvs" for kv
      using 6(1) [OF v Some kvs(1) that] kvs(3) that agree_elements [of h h' "\<lambda>kv. reach h t (snd kv)" kvs kv] all
      by (auto simp: list_all_iff)
    then have "concat (map (\<lambda>kv. reach h' t (snd kv)) kvs) = concat (map (\<lambda>kv. reach h t (snd kv)) kvs)"
      by (metis (no_types, lifting) map_eq_conv)
    with each kvs kvs' v Some show ?thesis by (simp add: list_all_iff)
  qed (simp add: v)
qed (auto split: go_value.splits list.splits)

lemma in_bounds:
  "the_var h a = Some x \<Longrightarrow> a < length h"
  "the_table h a = Some kvs \<Longrightarrow> a < length h"
  "the_slice h a off n = Some xs \<Longrightarrow> a < length h"
  by (auto simp: the_var_def the_table_def the_slice_def split: if_splits)

lemma reach_in_memory:
  "typed h t v \<Longrightarrow> list_all (\<lambda>a. a < length h) (reach h t v)"
  and reaches_in_memory:
  "typed_fields h ts ys \<Longrightarrow> list_all (\<lambda>a. a < length h) (reaches h ts ys)"
proof (induction h t v and h ts ys rule: typed_typed_fields.induct)
  case (5 h t v)
  then show ?case
    by (auto simp: in_bounds(3) list_all_iff split: go_value.splits option.splits)
next
  case (6 h t v)
  then show ?case
    by (auto simp: in_bounds(2) list_all_iff split: go_value.splits option.splits)
qed (auto simp: in_bounds(1) split: go_value.splits list.splits option.splits)

abbreviation keeps_cells :: "memory \<Rightarrow> memory \<Rightarrow> addr list \<Rightarrow> bool" where
  "keeps_cells h h' as \<equiv> list_all (\<lambda>a. a < length h' \<and> h' ! a = h ! a) as"

lemma same_value_if:
  assumes "typed h t v" and "keeps_cells h h' (reach h t v)"
  shows "typed h' t v" and "content h' t v = content h t v" and "reach h' t v = reach h t v"
  using same_value [OF assms(1), of h'] reach_in_memory [OF assms(1)] assms(2) by (auto simp: agree_def list_all_iff)

lemma same_fields_if:
  assumes "typed_fields h ts ys" and "keeps_cells h h' (reaches h ts ys)"
  shows "typed_fields h' ts ys" and "contents h' ts ys = contents h ts ys" and "reaches h' ts ys = reaches h ts ys"
  using same_fields [OF assms(1), of h'] reaches_in_memory [OF assms(1)] assms(2) by (auto simp: agree_def list_all_iff)

text \<open>More memory does not change a value.\<close>

lemma keeps_cells_append: "list_all (\<lambda>a. a < length h) as \<Longrightarrow> keeps_cells h (h @ e) as"
  by (auto simp: list_all_iff nth_append)

lemma keeps_cells_later:
  "list_all (\<lambda>a. Suc (length h) \<le> a \<and> a < length (h @ c # e)) as \<Longrightarrow> keeps_cells (h @ c # e) (h @ c' # e @ e') as"
  by (auto simp: list_all_iff nth_append nth_Cons')

lemmas append_value = same_value_if [OF _ keeps_cells_append, OF _ reach_in_memory]
lemmas append_fields = same_fields_if [OF _ keeps_cells_append, OF _ reaches_in_memory]

lemma flat_reaches_nothing:
  "flat t \<Longrightarrow> reach h t v = []"
  and "list_all (\<lambda>(n, t). flat t) ts \<Longrightarrow> reaches h ts ys = []"
  by (induction h t v and h ts ys rule: reach_reaches.induct) (auto split: go_value.splits list.splits)

section \<open>The statements of a deep copy\<close>

text \<open>A copier gets the value of a variable, and returns the value for another variable.\<close>

type_synonym copier = "go_value \<Rightarrow> memory \<Rightarrow> go_value \<times> memory"

text \<open>\<^verbatim>\<open>*out = *in\<close>, which copies references as they are.\<close>

definition assign :: copier where
  "assign v h = (v, h)"

text \<open>
  For a pointer that is not nil: \<^verbatim>\<open>*out = new(T)\<close>, and then \<open>f\<close> for \<^verbatim>\<open>**out = **in\<close> or
  \<^verbatim>\<open>(*in).DeepCopyInto(*out)\<close>.
\<close>

definition new_of :: "go_type \<Rightarrow> copier \<Rightarrow> copier" where
  "new_of t f v h =
     (case v of
        Pointer (Some p) \<Rightarrow>
          (case the_var h p of
             None \<Rightarrow> (v, h)
           | Some x \<Rightarrow>
               (let out = length h in
                case f x (h @ [Var (zero t)]) of (y, h) \<Rightarrow> (Pointer (Some out), h[out := Var y])))
      | _ \<Rightarrow> (v, h))"

definition set_element :: "addr \<Rightarrow> nat \<Rightarrow> go_value \<Rightarrow> memory \<Rightarrow> memory" where
  "set_element a i y h = (case h ! a of Array ys \<Rightarrow> h[a := Array (ys[i := y])] | _ \<Rightarrow> h)"

fun copy_elements :: "copier \<Rightarrow> addr \<Rightarrow> nat \<Rightarrow> go_value list \<Rightarrow> memory \<Rightarrow> memory" where
  "copy_elements f out i [] h = h"
| "copy_elements f out i (x # xs) h =
     (case f x h of (y, h) \<Rightarrow> copy_elements f out (Suc i) xs (set_element out i y h))"

text \<open>
  For a slice that is not nil: \<^verbatim>\<open>*out = make([]T, len(*in))\<close>, and then \<open>f\<close> for each element, which
  is the assignment for \<^verbatim>\<open>copy(*out, *in)\<close>.  Nothing writes to the source during the loop.
\<close>

definition make_slice :: "go_type \<Rightarrow> copier \<Rightarrow> copier" where
  "make_slice t f v h =
     (case v of
        Slice (Some (p, off, n)) \<Rightarrow>
          (case the_slice h p off n of
             None \<Rightarrow> (v, h)
           | Some xs \<Rightarrow>
               (let out = length h in
                (Slice (Some (out, 0, n)), copy_elements f out 0 xs (h @ [Array (replicate n (zero t))]))))
      | _ \<Rightarrow> (v, h))"

definition set_key :: "addr \<Rightarrow> string \<Rightarrow> go_value \<Rightarrow> memory \<Rightarrow> memory" where
  "set_key a key y h = (case h ! a of Table kvs \<Rightarrow> h[a := Table (AList.update key y kvs)] | _ \<Rightarrow> h)"

text \<open>For a map that is not nil: \<^verbatim>\<open>make\<close>, and then an assignment for each entry.\<close>

definition make_map :: copier where
  "make_map v h =
     (case v of
        Map (Some p) \<Rightarrow>
          (case the_table h p of
             None \<Rightarrow> (v, h)
           | Some kvs \<Rightarrow>
               (let out = length h in
                (Map (Some out), fold (\<lambda>(key, val). set_key out key val) kvs (h @ [Table []]))))
      | _ \<Rightarrow> (v, h))"

text \<open>
  \<^verbatim>\<open>*out = *in\<close> for a struct, and then one statement for each of some fields: the copier of the field
  gets the value of the field in \<^verbatim>\<open>in\<close>, and its result is stored in the field of \<^verbatim>\<open>out\<close>.
\<close>

definition field :: "string \<Rightarrow> go_value \<Rightarrow> go_value option" where
  "field n v = (case v of Struct ys \<Rightarrow> map_of ys n | _ \<Rightarrow> None)"

definition set_field :: "string \<Rightarrow> go_value \<Rightarrow> go_value \<Rightarrow> go_value" where
  "set_field n y v = (case v of Struct ys \<Rightarrow> Struct (AList.update n y ys) | _ \<Rightarrow> v)"

fun set_fields :: "(string \<times> copier) list \<Rightarrow> go_value \<Rightarrow> go_value \<Rightarrow> memory \<Rightarrow> go_value \<times> memory" where
  "set_fields [] in_v out h = (out, h)"
| "set_fields ((n, f) # fs) in_v out h =
     (case field n in_v of
        None \<Rightarrow> (out, h)
      | Some x \<Rightarrow> (case f x h of (y, h) \<Rightarrow> set_fields fs in_v (set_field n y out) h))"

definition copy_struct :: "(string \<times> copier) list \<Rightarrow> copier" where
  "copy_struct fs v h = set_fields fs v v h"

section \<open>The contract of a copier\<close>

text \<open>
  A copier of a type takes every value of the type to one with the same content, which consists of
  new cells only, each reached on one path; the memory that was there is left as it was.
\<close>

definition copied :: "go_type \<Rightarrow> memory \<Rightarrow> go_value \<Rightarrow> go_value \<times> memory \<Rightarrow> bool" where
  "copied t h v r \<longleftrightarrow>
     (case r of (v', h') \<Rightarrow> (\<exists>e. h' = h @ e) \<and> typed h' t v' \<and> content h' t v' = content h t v \<and>
        distinct (reach h' t v') \<and> list_all (\<lambda>a. length h \<le> a) (reach h' t v'))"

definition copies :: "go_type \<Rightarrow> copier \<Rightarrow> bool" where
  "copies t f \<longleftrightarrow> (\<forall>h v. typed h t v \<longrightarrow> copied t h v (f v h))"

lemma copies_I:
  assumes "\<And>h v. typed h t v \<Longrightarrow> \<exists>v' e. f v h = (v', h @ e) \<and> typed (h @ e) t v' \<and>
    content (h @ e) t v' = content h t v \<and> distinct (reach (h @ e) t v') \<and>
    (\<forall>a \<in> set (reach (h @ e) t v'). length h \<le> a)"
  shows "copies t f"
  unfolding copies_def copied_def using assms by (fastforce simp: list_all_iff)

lemma copies_E:
  assumes "copies t f" and "typed h t v"
  obtains v' e where "f v h = (v', h @ e)" "typed (h @ e) t v'" "content (h @ e) t v' = content h t v"
    "distinct (reach (h @ e) t v')" "list_all (\<lambda>a. length h \<le> a \<and> a < length (h @ e)) (reach (h @ e) t v')"
proof -
  obtain v' h' where r: "f v h = (v', h')" by (cases "f v h")
  with assms have "copied t h v (v', h')" unfolding copies_def by metis
  with r that show thesis unfolding copied_def using reach_in_memory [of h' t v'] by (auto simp: list_all_iff)
qed

text \<open>
  A copy made while a cell \<open>c\<close> for its result waits: what it gives stays the same when that cell is
  filled and when more is allocated.
\<close>

lemma copies_beside:
  assumes "copies t f" and "typed h t x"
  obtains y e1 as where "f x (h @ c # e) = (y, h @ c # e @ e1)"
    "\<forall>c' e2. typed (h @ c' # e @ e1 @ e2) t y"
    "\<forall>c' e2. content (h @ c' # e @ e1 @ e2) t y = content h t x"
    "\<forall>c' e2. reach (h @ c' # e @ e1 @ e2) t y = as" "distinct as"
    "list_all (\<lambda>a. Suc (length h + length e) \<le> a \<and> a < Suc (length h + length e + length e1)) as"
proof -
  let ?m = "h @ c # e"
  note x = append_value [OF assms(2,2), of "c # e"]
  obtain y e1 where y: "f x ?m = (y, ?m @ e1)" "typed (?m @ e1) t y" "content (?m @ e1) t y = content ?m t x"
    "distinct (reach (?m @ e1) t y)" "list_all (\<lambda>a. length ?m \<le> a \<and> a < length (?m @ e1)) (reach (?m @ e1) t y)"
    by (rule copies_E [OF assms(1) x(1)])
  have keeps: "keeps_cells (?m @ e1) (h @ c' # e @ e1 @ e2) (reach (?m @ e1) t y)" for c' e2
  proof -
    have "list_all (\<lambda>a. Suc (length h) \<le> a \<and> a < length (h @ c # e @ e1)) (reach (?m @ e1) t y)"
      using y(5) by (auto simp: list_all_iff)
    from keeps_cells_later [OF this] show ?thesis by simp
  qed
  show thesis
    using y x(2) same_value_if [OF y(2) keeps] by (intro that [of y e1 "reach (?m @ e1) t y"]) (auto simp: list_all_iff)
qed

named_theorems copies_rules \<open>the copiers of a type\<close>

lemma copies_assign [copies_rules]: "flat t \<Longrightarrow> copies t assign"
  by (rule copies_I) (auto simp: assign_def flat_reaches_nothing intro: exI [of _ "[]"])

lemma copies_new_of [copies_rules]:
  assumes "copies t f"
  shows "copies (TPointer t) (new_of t f)"
proof (rule copies_I)
  fix h v
  assume "typed h (TPointer t) v"
  then consider "v = Pointer None" | a x where "v = Pointer (Some a)" "the_var h a = Some x" "typed h t x"
    by (auto split: go_value.splits option.splits)
  then show "\<exists>v' e. new_of t f v h = (v', h @ e) \<and> typed (h @ e) (TPointer t) v' \<and>
    content (h @ e) (TPointer t) v' = content h (TPointer t) v \<and> distinct (reach (h @ e) (TPointer t) v') \<and>
    (\<forall>a \<in> set (reach (h @ e) (TPointer t) v'). length h \<le> a)"
  proof cases
    case 1
    then show ?thesis by (auto simp: new_of_def intro: exI [of _ "[]"])
  next
    case 2
    obtain y e as where y: "f x (h @ [Var (zero t)]) = (y, h @ Var (zero t) # e)"
      "typed (h @ Var y # e) t y" "content (h @ Var y # e) t y = content h t x"
      "reach (h @ Var y # e) t y = as" "distinct as" "list_all (\<lambda>a. Suc (length h) \<le> a) as"
      by (rule copies_beside [OF assms 2(3), of "Var (zero t)" "[]"])
        (metis (no_types, lifting) append_Nil append_Nil2 list_all_iff list.size(3) add_0_right)
    have "new_of t f v h = (Pointer (Some (length h)), h @ Var y # e)"
      using 2 y(1) by (simp add: new_of_def list_update_append)
    moreover have "the_var (h @ Var y # e) (length h) = Some y" by (simp add: the_var_def nth_append)
    moreover have "length h \<notin> set as" "\<forall>a \<in> set as. length h \<le> a" using y(6) by (auto simp: list_all_iff)
    ultimately show ?thesis
      using y 2 by (intro exI [of _ "Pointer (Some (length h))"] exI [of _ "Var y # e"]) simp
  qed
qed

text \<open>
  The loop over the elements: the array keeps what is done, each element is copied to new cells, and
  the cells of different elements differ.
\<close>

lemma copy_elements:
  assumes f: "copies t f"
  shows "list_all (\<lambda>x. typed h t x) xs \<Longrightarrow> length rest = length xs \<Longrightarrow>
    \<exists>ys e'. copy_elements f (length h) (length old) xs (h @ Array (old @ rest) # e) = h @ Array (old @ ys) # e @ e' \<and>
      list_all2 (\<lambda>x y. typed (h @ Array (old @ ys) # e @ e') t y \<and>
        content (h @ Array (old @ ys) # e @ e') t y = content h t x) xs ys \<and>
      distinct (concat (map (\<lambda>y. reach (h @ Array (old @ ys) # e @ e') t y) ys)) \<and>
      (\<forall>a \<in> set (concat (map (\<lambda>y. reach (h @ Array (old @ ys) # e @ e') t y) ys)). Suc (length h + length e) \<le> a)"
proof (induction xs arbitrary: old rest e)
  case Nil
  then show ?case by simp
next
  case (Cons x xs)
  then obtain r rest' where rest: "rest = r # rest'" "length rest' = length xs" by (cases rest) auto
  have x: "typed h t x" "list_all (\<lambda>x. typed h t x) xs" using Cons.prems by auto
  obtain y e1 as where y: "f x (h @ Array (old @ rest) # e) = (y, h @ Array (old @ rest) # e @ e1)"
    "\<forall>c' e2. typed (h @ c' # e @ e1 @ e2) t y"
    "\<forall>c' e2. content (h @ c' # e @ e1 @ e2) t y = content h t x"
    "\<forall>c' e2. reach (h @ c' # e @ e1 @ e2) t y = as" "distinct as"
    "list_all (\<lambda>a. Suc (length h + length e) \<le> a \<and> a < Suc (length h + length e + length e1)) as"
    by (rule copies_beside [OF f x(1), where c = "Array (old @ rest)" and e = e])
  have step: "copy_elements f (length h) (length old) (x # xs) (h @ Array (old @ rest) # e) =
      copy_elements f (length h) (length (old @ [y])) xs (h @ Array ((old @ [y]) @ rest') # (e @ e1))"
    using y(1) rest by (simp add: set_element_def nth_append list_update_append)
  from Cons.IH [OF x(2) rest(2), of "old @ [y]" "e @ e1"] obtain ys e' where
    run: "copy_elements f (length h) (length (old @ [y])) xs (h @ Array ((old @ [y]) @ rest') # (e @ e1)) =
        h @ Array ((old @ [y]) @ ys) # (e @ e1) @ e'"
    and ys: "list_all2 (\<lambda>x y'. typed (h @ Array ((old @ [y]) @ ys) # (e @ e1) @ e') t y' \<and>
        content (h @ Array ((old @ [y]) @ ys) # (e @ e1) @ e') t y' = content h t x) xs ys"
    "distinct (concat (map (\<lambda>y'. reach (h @ Array ((old @ [y]) @ ys) # (e @ e1) @ e') t y') ys))"
    "\<forall>a \<in> set (concat (map (\<lambda>y'. reach (h @ Array ((old @ [y]) @ ys) # (e @ e1) @ e') t y') ys)).
        Suc (length h + length (e @ e1)) \<le> a" by blast
  let ?m' = "h @ Array (old @ y # ys) # e @ e1 @ e'"
  let ?later = "concat (map (\<lambda>y'. reach ?m' t y') ys)"
  have later: "distinct ?later" "\<forall>a \<in> set ?later. Suc (length h + length e + length e1) \<le> a"
    using ys(2,3) by (simp_all add: add.assoc)
  have "distinct (as @ ?later)" "\<forall>a \<in> set (as @ ?later). Suc (length h + length e) \<le> a"
    using y(5,6) later by (force simp: list_all_iff)+
  then show ?case
    using step run ys(1) y(2,3,4) by (intro exI [of _ "y # ys"] exI [of _ "e1 @ e'"]) simp
qed

lemma copies_make_slice [copies_rules]:
  assumes "copies t f"
  shows "copies (TSlice t) (make_slice t f)"
proof (rule copies_I)
  fix h v
  assume "typed h (TSlice t) v"
  then consider "v = Slice None"
    | a off n xs where "v = Slice (Some (a, off, n))" "the_slice h a off n = Some xs" "list_all (\<lambda>x. typed h t x) xs"
    by (auto split: go_value.splits option.splits)
  then show "\<exists>v' e. make_slice t f v h = (v', h @ e) \<and> typed (h @ e) (TSlice t) v' \<and>
    content (h @ e) (TSlice t) v' = content h (TSlice t) v \<and> distinct (reach (h @ e) (TSlice t) v') \<and>
    (\<forall>a \<in> set (reach (h @ e) (TSlice t) v'). length h \<le> a)"
  proof cases
    case 1
    then show ?thesis by (auto simp: make_slice_def intro: exI [of _ "[]"])
  next
    case 2
    have n: "length xs = n" using 2(2) by (auto simp: the_slice_def split: if_splits cell.splits)
    from copy_elements [OF assms 2(3), of "replicate n (zero t)" "[]" "[]"] n obtain ys e where
      run: "copy_elements f (length h) 0 xs (h @ [Array (replicate n (zero t))]) = h @ Array ys # e"
      and ys: "list_all2 (\<lambda>x y. typed (h @ Array ys # e) t y \<and> content (h @ Array ys # e) t y = content h t x) xs ys"
      "distinct (concat (map (\<lambda>y. reach (h @ Array ys # e) t y) ys))"
      "\<forall>a \<in> set (concat (map (\<lambda>y. reach (h @ Array ys # e) t y) ys)). Suc (length h) \<le> a" by auto
    have ly: "length ys = n" using list_all2_lengthD [OF ys(1)] n by simp
    then have "the_slice (h @ Array ys # e) (length h) 0 n = Some ys" by (simp add: the_slice_def nth_append)
    moreover have "make_slice t f v h = (Slice (Some (length h, 0, n)), h @ Array ys # e)"
      using 2 run by (simp add: make_slice_def)
    moreover have "list_all (\<lambda>y. typed (h @ Array ys # e) t y) ys"
      "map (\<lambda>y. content (h @ Array ys # e) t y) ys = map (\<lambda>x. content h t x) xs"
      using ys(1) n ly by (auto simp: list_all2_conv_all_nth list_all_length intro: nth_equalityI)
    moreover have "length h \<notin> set (concat (map (\<lambda>y. reach (h @ Array ys # e) t y) ys))" using ys(3) by force
    ultimately show ?thesis
      using 2 ys(2,3) by (intro exI [of _ "Slice (Some (length h, 0, n))"] exI [of _ "Array ys # e"]) force
  qed
qed

lemma AList_update_new: "n \<notin> fst ` set xs \<Longrightarrow> AList.update n y xs = xs @ [(n, y)]"
  by (induction xs) auto

lemma AList_update_old: "n \<notin> fst ` set xs \<Longrightarrow> AList.update n y (xs @ (n, z) # zs) = xs @ (n, y) # zs"
  by (induction xs) auto

lemma fill_map:
  "distinct (map fst (old @ kvs)) \<Longrightarrow>
   fold (\<lambda>(key, val). set_key (length h) key val) kvs (h @ [Table old]) = h @ [Table (old @ kvs)]"
proof (induction kvs arbitrary: old)
  case (Cons kv kvs)
  then have "fst kv \<notin> fst ` set old" by (cases kv) force
  then have "set_key (length h) (fst kv) (snd kv) (h @ [Table old]) = h @ [Table (old @ [kv])]"
    by (simp add: set_key_def AList_update_new)
  moreover have "distinct (map fst ((old @ [kv]) @ kvs))" using Cons.prems by simp
  ultimately show ?case using Cons.IH [of "old @ [kv]"] by (simp add: case_prod_beta)
qed simp

lemma concat_nothing [simp]: "concat (map (\<lambda>x. []) xs) = []"
  by (induction xs) simp_all

lemma copies_make_map [copies_rules]:
  assumes "flat t"
  shows "copies (TMap t) make_map"
proof (rule copies_I)
  fix h v
  assume "typed h (TMap t) v"
  then consider "v = Map None"
    | a kvs where "v = Map (Some a)" "the_table h a = Some kvs" "distinct (map fst kvs)"
      "list_all (\<lambda>kv. typed h t (snd kv)) kvs"
    by (auto split: go_value.splits option.splits)
  then show "\<exists>v' e. make_map v h = (v', h @ e) \<and> typed (h @ e) (TMap t) v' \<and>
    content (h @ e) (TMap t) v' = content h (TMap t) v \<and> distinct (reach (h @ e) (TMap t) v') \<and>
    (\<forall>a \<in> set (reach (h @ e) (TMap t) v'). length h \<le> a)"
  proof cases
    case 1
    then show ?thesis by (auto simp: make_map_def intro: exI [of _ "[]"])
  next
    case 2
    let ?e = "[Table kvs]"
    have "make_map v h = (Map (Some (length h)), h @ ?e)"
      using 2 fill_map [of "[]" kvs h] by (simp add: make_map_def)
    moreover have "the_table (h @ ?e) (length h) = Some kvs" by (simp add: the_table_def)
    moreover have "typed (h @ ?e) t (snd kv) \<and> content (h @ ?e) t (snd kv) = content h t (snd kv)"
      if "kv \<in> set kvs" for kv
      using append_value [of h t "snd kv" ?e] 2(4) that by (simp add: list_all_iff)
    ultimately show ?thesis using 2
      by (intro exI [of _ "Map (Some (length h))"] exI [of _ ?e])
        (simp add: list_all_iff flat_reaches_nothing [OF assms])
  qed
qed

text \<open>
  The statements of a struct come in the order of its fields, and the fields without a statement hold no
  references.
\<close>

fun copied_fields :: "(string \<times> go_type) list \<Rightarrow> (string \<times> copier) list \<Rightarrow> bool" where
  "copied_fields [] fs = (fs = [])"
| "copied_fields (nt # ts) fs =
     (case fs of
        [] \<Rightarrow> flat (snd nt) \<and> copied_fields ts []
      | nf # fs' \<Rightarrow>
          if fst nf = fst nt then copies (snd nt) (snd nf) \<and> copied_fields ts fs'
          else flat (snd nt) \<and> copied_fields ts fs)"

lemma set_fields_copies:
  assumes "copied_fields ts fs" and "typed_fields h ts ys" and "map fst pre = map fst old"
    and "distinct (map fst pre @ map fst ts)"
  shows "\<exists>zs e. set_fields fs (Struct (pre @ ys)) (Struct (old @ ys)) h = (Struct (old @ zs), h @ e) \<and>
    typed_fields (h @ e) ts zs \<and> contents (h @ e) ts zs = contents h ts ys \<and>
    distinct (reaches (h @ e) ts zs) \<and> list_all (\<lambda>a. length h \<le> a) (reaches (h @ e) ts zs)"
  using assms
proof (induction ts arbitrary: fs h ys pre old)
  case Nil
  then show ?case by (auto intro: exI [of _ "[]"])
next
  case (Cons nt ts)
  obtain n t where nt: "nt = (n, t)" by (cases nt)
  with Cons.prems(2) obtain y ys' where ys: "ys = (n, y) # ys'" "typed h t y" "typed_fields h ts ys'"
    by (auto split: list.splits)
  have n: "n \<notin> fst ` set pre" "n \<notin> fst ` set old" and names: "distinct (map fst (pre @ [(n, z)]) @ map fst ts)"
    and same: "map fst (pre @ [(n, z)]) = map fst (old @ [(n, z')])" for z z'
    using Cons.prems(3,4) nt by (auto simp: set_map [symmetric] simp del: set_map)
  show ?case
  proof (cases "\<exists>f fs'. fs = (n, f) # fs'")
    case True
    then obtain f fs' where fs: "fs = (n, f) # fs'" by blast
    with Cons.prems(1) nt have f: "copies t f" "copied_fields ts fs'" by auto
    obtain z e1 where z: "f y h = (z, h @ e1)" "typed (h @ e1) t z" "content (h @ e1) t z = content h t y"
      "distinct (reach (h @ e1) t z)" "list_all (\<lambda>a. length h \<le> a \<and> a < length (h @ e1)) (reach (h @ e1) t z)"
      by (rule copies_E [OF f(1) ys(2)])
    note later = append_fields [OF ys(3,3), of e1]
    from Cons.IH [OF f(2) later(1) same names] obtain zs e where
      zs: "set_fields fs' (Struct ((pre @ [(n, y)]) @ ys')) (Struct ((old @ [(n, z)]) @ ys')) (h @ e1) =
          (Struct ((old @ [(n, z)]) @ zs), (h @ e1) @ e)"
      "typed_fields ((h @ e1) @ e) ts zs" "contents ((h @ e1) @ e) ts zs = contents (h @ e1) ts ys'"
      "distinct (reaches ((h @ e1) @ e) ts zs)"
      "list_all (\<lambda>a. length (h @ e1) \<le> a) (reaches ((h @ e1) @ e) ts zs)" by blast
    have "set_fields fs (Struct (pre @ ys)) (Struct (old @ ys)) h = (Struct (old @ (n, z) # zs), h @ e1 @ e)"
      using zs(1) n z(1) fs ys(1) map_of_eq_None_iff [of pre n]
      by (simp add: field_def set_field_def AList_update_old map_add_def)
    moreover have "set (reach (h @ e1) t z) \<inter> set (reaches (h @ e1 @ e) ts zs) = {}"
      using z(5) zs(5) by (force simp: list_all_iff)
    moreover have "list_all (\<lambda>a. length h \<le> a) (reach (h @ e1) t z)" "list_all (\<lambda>a. length h \<le> a) (reaches (h @ e1 @ e) ts zs)"
      using z(5) zs(5) by (auto simp: list_all_iff)
    ultimately show ?thesis
      using zs z append_value [OF z(2,2), of e] later nt ys(1)
      by (intro exI [of _ "(n, z) # zs"] exI [of _ "e1 @ e"]) simp
  next
    case False
    with Cons.prems(1) nt have flat: "flat t" and fs: "copied_fields ts fs"
      by (cases fs; force split: if_splits)+
    from Cons.IH [OF fs ys(3) same names] obtain zs e where
      "set_fields fs (Struct ((pre @ [(n, y)]) @ ys')) (Struct ((old @ [(n, y)]) @ ys')) h =
          (Struct ((old @ [(n, y)]) @ zs), h @ e)"
      "typed_fields (h @ e) ts zs" "contents (h @ e) ts zs = contents h ts ys'"
      "distinct (reaches (h @ e) ts zs)" "list_all (\<lambda>a. length h \<le> a) (reaches (h @ e) ts zs)" by blast
    then show ?thesis
      using nt ys(1) flat append_value [OF ys(2,2), of e]
      by (intro exI [of _ "(n, y) # zs"] exI [of _ e]) (simp add: flat_reaches_nothing)
  qed
qed

lemma copies_copy_struct [copies_rules]:
  assumes "copied_fields ts fs" and "distinct (map fst ts)"
  shows "copies (TStruct ts) (copy_struct fs)"
proof (rule copies_I)
  fix h v
  assume "typed h (TStruct ts) v"
  then obtain ys where ys: "v = Struct ys" "typed_fields h ts ys" by (auto split: go_value.splits)
  from set_fields_copies [OF assms(1) ys(2), of "[]" "[]"] assms(2) obtain zs e where
    "set_fields fs (Struct ys) (Struct ys) h = (Struct zs, h @ e)" "typed_fields (h @ e) ts zs"
    "contents (h @ e) ts zs = contents h ts ys" "distinct (reaches (h @ e) ts zs)"
    "list_all (\<lambda>a. length h \<le> a) (reaches (h @ e) ts zs)" by auto
  with ys(1) show "\<exists>v' e. copy_struct fs v h = (v', h @ e) \<and> typed (h @ e) (TStruct ts) v' \<and>
    content (h @ e) (TStruct ts) v' = content h (TStruct ts) v \<and> distinct (reach (h @ e) (TStruct ts) v') \<and>
    (\<forall>a \<in> set (reach (h @ e) (TStruct ts) v'). length h \<le> a)"
    by (intro exI [of _ "Struct zs"] exI [of _ e]) (simp add: copy_struct_def list_all_iff)
qed

end
