(* ===== verification/Copy_Functions.thy ===== *)
theory Copy_Functions
  imports Go_Memory
begin

text \<open>
  The structs of the API (\<^verbatim>\<open>api/v1alpha1\<close>) as types of values in memory, each with its functions
  \<^verbatim>\<open>DeepCopyInto\<close>, \<^verbatim>\<open>DeepCopy\<close> and \<^verbatim>\<open>DeepCopyObject\<close> of \<^verbatim>\<open>zz_generated.deepcopy.go\<close>, statement by
  statement.  The informer caches of the controllers hand out objects through these functions.
\<close>

section \<open>Structs of Kubernetes\<close>

text \<open>Types and copy functions that the API imports; a struct that is copied by assignment has no function.\<close>

record k8s_structs =
  TypeMeta_type :: go_type
  ObjectReference_type :: go_type
  ObjectMeta_type :: go_type
  ListMeta_type :: go_type
  ResourceRequirements_type :: go_type
  Toleration_type :: go_type
  PodSecurityContext_type :: go_type
  SecurityContext_type :: go_type
  Time_type :: go_type
  ObjectMeta_DeepCopyInto :: copier
  ListMeta_DeepCopyInto :: copier
  ResourceRequirements_DeepCopyInto :: copier
  Toleration_DeepCopyInto :: copier
  PodSecurityContext_DeepCopyInto :: copier
  SecurityContext_DeepCopyInto :: copier
  Time_DeepCopy :: copier

text \<open>The statement for a pointer whose copy function allocates by itself: \<^verbatim>\<open>*out = (*in).DeepCopy()\<close>.\<close>

definition unless_nil :: "copier \<Rightarrow> copier" where
  "unless_nil f v h = (if v = Pointer None then (v, h) else f v h)"

section \<open>\<^verbatim>\<open>k8sgpt_types.go\<close>\<close>

definition Backstage_type :: go_type where
  "Backstage_type = TStruct [(''Enabled'', TBool)]"

definition Backstage_DeepCopyInto :: copier where
  "Backstage_DeepCopyInto = copy_struct []"

definition Backstage_DeepCopy :: copier where
  "Backstage_DeepCopy = new_of Backstage_type Backstage_DeepCopyInto"

definition SecretRef_type :: go_type where
  "SecretRef_type = TStruct [(''Name'', TText), (''Key'', TText)]"

definition SecretRef_DeepCopyInto :: copier where
  "SecretRef_DeepCopyInto = copy_struct []"

definition SecretRef_DeepCopy :: copier where
  "SecretRef_DeepCopy = new_of SecretRef_type SecretRef_DeepCopyInto"

definition ExtraOptionsRef_type :: go_type where
  "ExtraOptionsRef_type = TStruct
    [(''Backstage'', TPointer Backstage_type), (''ServiceAccountIRSA'', TText)]"

definition ExtraOptionsRef_DeepCopyInto :: copier where
  "ExtraOptionsRef_DeepCopyInto = copy_struct [(''Backstage'', new_of Backstage_type assign)]"

definition ExtraOptionsRef_DeepCopy :: copier where
  "ExtraOptionsRef_DeepCopy = new_of ExtraOptionsRef_type ExtraOptionsRef_DeepCopyInto"

definition CredentialsRef_type :: go_type where
  "CredentialsRef_type = TStruct [(''Name'', TText)]"

definition CredentialsRef_DeepCopyInto :: copier where
  "CredentialsRef_DeepCopyInto = copy_struct []"

definition CredentialsRef_DeepCopy :: copier where
  "CredentialsRef_DeepCopy = new_of CredentialsRef_type CredentialsRef_DeepCopyInto"

definition GCSBackend_type :: go_type where
  "GCSBackend_type = TStruct [(''BucketName'', TText), (''Region'', TText), (''ProjectId'', TText)]"

definition GCSBackend_DeepCopyInto :: copier where
  "GCSBackend_DeepCopyInto = copy_struct []"

definition GCSBackend_DeepCopy :: copier where
  "GCSBackend_DeepCopy = new_of GCSBackend_type GCSBackend_DeepCopyInto"

definition S3Backend_type :: go_type where
  "S3Backend_type = TStruct [(''BucketName'', TText), (''Region'', TText)]"

definition S3Backend_DeepCopyInto :: copier where
  "S3Backend_DeepCopyInto = copy_struct []"

definition S3Backend_DeepCopy :: copier where
  "S3Backend_DeepCopy = new_of S3Backend_type S3Backend_DeepCopyInto"

definition AzureBackend_type :: go_type where
  "AzureBackend_type = TStruct [(''StorageAccount'', TText), (''ContainerName'', TText)]"

definition AzureBackend_DeepCopyInto :: copier where
  "AzureBackend_DeepCopyInto = copy_struct []"

definition AzureBackend_DeepCopy :: copier where
  "AzureBackend_DeepCopy = new_of AzureBackend_type AzureBackend_DeepCopyInto"

definition InterplexBackend_type :: go_type where
  "InterplexBackend_type = TStruct [(''Endpoint'', TText)]"

definition InterplexBackend_DeepCopyInto :: copier where
  "InterplexBackend_DeepCopyInto = copy_struct []"

definition InterplexBackend_DeepCopy :: copier where
  "InterplexBackend_DeepCopy = new_of InterplexBackend_type InterplexBackend_DeepCopyInto"

definition RemoteCacheRef_type :: go_type where
  "RemoteCacheRef_type = TStruct
    [(''Credentials'', TPointer CredentialsRef_type), (''GCS'', TPointer GCSBackend_type),
     (''S3'', TPointer S3Backend_type), (''Azure'', TPointer AzureBackend_type),
     (''Interplex'', TPointer InterplexBackend_type)]"

definition RemoteCacheRef_DeepCopyInto :: copier where
  "RemoteCacheRef_DeepCopyInto = copy_struct
    [(''Credentials'', new_of CredentialsRef_type assign), (''GCS'', new_of GCSBackend_type assign),
     (''S3'', new_of S3Backend_type assign), (''Azure'', new_of AzureBackend_type assign),
     (''Interplex'', new_of InterplexBackend_type assign)]"

definition RemoteCacheRef_DeepCopy :: copier where
  "RemoteCacheRef_DeepCopy = new_of RemoteCacheRef_type RemoteCacheRef_DeepCopyInto"

definition Connection_type :: go_type where
  "Connection_type = TStruct [(''Url'', TText), (''Port'', TInt)]"

definition Connection_DeepCopyInto :: copier where
  "Connection_DeepCopyInto = copy_struct []"

definition Connection_DeepCopy :: copier where
  "Connection_DeepCopy = new_of Connection_type Connection_DeepCopyInto"

definition CustomAnalyzer_type :: go_type where
  "CustomAnalyzer_type = TStruct [(''Name'', TText), (''Connection'', TPointer Connection_type)]"

definition CustomAnalyzer_DeepCopyInto :: copier where
  "CustomAnalyzer_DeepCopyInto = copy_struct [(''Connection'', new_of Connection_type assign)]"

definition CustomAnalyzer_DeepCopy :: copier where
  "CustomAnalyzer_DeepCopy = new_of CustomAnalyzer_type CustomAnalyzer_DeepCopyInto"

definition WebhookRef_type :: go_type where
  "WebhookRef_type = TStruct
    [(''Type'', TText), (''Endpoint'', TText), (''Channel'', TText), (''UserName'', TText),
     (''IconURL'', TText), (''Secret'', TPointer SecretRef_type)]"

definition WebhookRef_DeepCopyInto :: copier where
  "WebhookRef_DeepCopyInto = copy_struct [(''Secret'', new_of SecretRef_type assign)]"

definition WebhookRef_DeepCopy :: copier where
  "WebhookRef_DeepCopy = new_of WebhookRef_type WebhookRef_DeepCopyInto"

definition BackOff_type :: go_type where
  "BackOff_type = TStruct [(''Enabled'', TBool), (''MaxRetries'', TInt)]"

definition BackOff_DeepCopyInto :: copier where
  "BackOff_DeepCopyInto = copy_struct []"

definition BackOff_DeepCopy :: copier where
  "BackOff_DeepCopy = new_of BackOff_type BackOff_DeepCopyInto"

definition AutoRemediation_type :: go_type where
  "AutoRemediation_type = TStruct
    [(''Enabled'', TBool), (''SimilarityRequirement'', TText), (''Resources'', TSlice TText)]"

definition AutoRemediation_DeepCopyInto :: copier where
  "AutoRemediation_DeepCopyInto = copy_struct [(''Resources'', make_slice TText assign)]"

definition AutoRemediation_DeepCopy :: copier where
  "AutoRemediation_DeepCopy = new_of AutoRemediation_type AutoRemediation_DeepCopyInto"

definition AISpec_type :: go_type where
  "AISpec_type = TStruct
    [(''AutoRemediation'', AutoRemediation_type), (''Backend'', TText),
     (''BackOff'', TPointer BackOff_type), (''BaseUrl'', TText), (''Region'', TText),
     (''AzureAPIType'', TText), (''Model'', TText), (''Engine'', TText),
     (''Secret'', TPointer SecretRef_type), (''Enabled'', TBool), (''Anonymize'', TPointer TBool),
     (''Language'', TText), (''ProxyEndpoint'', TText), (''ProviderId'', TText), (''MaxTokens'', TText),
     (''Topk'', TText), (''CustomHeaders'', TText)]"

definition AISpec_DeepCopyInto :: copier where
  "AISpec_DeepCopyInto = copy_struct
    [(''AutoRemediation'', AutoRemediation_DeepCopyInto), (''BackOff'', new_of BackOff_type assign),
     (''Secret'', new_of SecretRef_type assign), (''Anonymize'', new_of TBool assign)]"

definition AISpec_DeepCopy :: copier where
  "AISpec_DeepCopy = new_of AISpec_type AISpec_DeepCopyInto"

definition Trivy_type :: go_type where
  "Trivy_type = TStruct [(''Enabled'', TBool), (''SkipInstall'', TBool), (''Namespace'', TText)]"

definition Trivy_DeepCopyInto :: copier where
  "Trivy_DeepCopyInto = copy_struct []"

definition Trivy_DeepCopy :: copier where
  "Trivy_DeepCopy = new_of Trivy_type Trivy_DeepCopyInto"

definition Integrations_type :: go_type where
  "Integrations_type = TStruct [(''Trivy'', TPointer Trivy_type)]"

definition Integrations_DeepCopyInto :: copier where
  "Integrations_DeepCopyInto = copy_struct [(''Trivy'', new_of Trivy_type assign)]"

definition Integrations_DeepCopy :: copier where
  "Integrations_DeepCopy = new_of Integrations_type Integrations_DeepCopyInto"

definition ImagePullSecrets_type :: go_type where
  "ImagePullSecrets_type = TStruct [(''Name'', TText)]"

definition ImagePullSecrets_DeepCopyInto :: copier where
  "ImagePullSecrets_DeepCopyInto = copy_struct []"

definition ImagePullSecrets_DeepCopy :: copier where
  "ImagePullSecrets_DeepCopy = new_of ImagePullSecrets_type ImagePullSecrets_DeepCopyInto"

definition AnalysisConfig_type :: go_type where
  "AnalysisConfig_type = TStruct [(''Interval'', TText)]"

definition AnalysisConfig_DeepCopyInto :: copier where
  "AnalysisConfig_DeepCopyInto = copy_struct []"

definition AnalysisConfig_DeepCopy :: copier where
  "AnalysisConfig_DeepCopy = new_of AnalysisConfig_type AnalysisConfig_DeepCopyInto"

definition K8sGPTSpec_type :: "k8s_structs \<Rightarrow> go_type" where
  "K8sGPTSpec_type K = TStruct
    [(''Version'', TText), (''Repository'', TText), (''ImagePullPolicy'', TText),
     (''ImagePullSecrets'', TSlice ImagePullSecrets_type),
     (''Resources'', TPointer (ResourceRequirements_type K)), (''NoCache'', TBool),
     (''CustomAnalyzers'', TSlice CustomAnalyzer_type), (''Filters'', TSlice TText),
     (''ExtraOptions'', TPointer ExtraOptionsRef_type), (''Sink'', TPointer WebhookRef_type),
     (''AI'', TPointer AISpec_type), (''RemoteCache'', TPointer RemoteCacheRef_type),
     (''Integrations'', TPointer Integrations_type), (''NodeSelector'', TMap TText),
     (''Tolerations'', TSlice (Toleration_type K)), (''TargetNamespace'', TText),
     (''Analysis'', TPointer AnalysisConfig_type), (''Kubeconfig'', TPointer SecretRef_type),
     (''DeploymentLabels'', TMap TText), (''DeploymentAnnotations'', TMap TText),
     (''PodLabels'', TMap TText), (''PodAnnotations'', TMap TText),
     (''SecurityContext'', TPointer (PodSecurityContext_type K)),
     (''ContainerSecurityContext'', TPointer (SecurityContext_type K))]"

definition K8sGPTSpec_DeepCopyInto :: "k8s_structs \<Rightarrow> copier" where
  "K8sGPTSpec_DeepCopyInto K = copy_struct
    [(''ImagePullSecrets'', make_slice ImagePullSecrets_type assign),
     (''Resources'', new_of (ResourceRequirements_type K) (ResourceRequirements_DeepCopyInto K)),
     (''CustomAnalyzers'', make_slice CustomAnalyzer_type CustomAnalyzer_DeepCopyInto),
     (''Filters'', make_slice TText assign),
     (''ExtraOptions'', new_of ExtraOptionsRef_type ExtraOptionsRef_DeepCopyInto),
     (''Sink'', new_of WebhookRef_type WebhookRef_DeepCopyInto),
     (''AI'', new_of AISpec_type AISpec_DeepCopyInto),
     (''RemoteCache'', new_of RemoteCacheRef_type RemoteCacheRef_DeepCopyInto),
     (''Integrations'', new_of Integrations_type Integrations_DeepCopyInto), (''NodeSelector'', make_map),
     (''Tolerations'', make_slice (Toleration_type K) (Toleration_DeepCopyInto K)),
     (''Analysis'', new_of AnalysisConfig_type assign), (''Kubeconfig'', new_of SecretRef_type assign),
     (''DeploymentLabels'', make_map), (''DeploymentAnnotations'', make_map), (''PodLabels'', make_map),
     (''PodAnnotations'', make_map),
     (''SecurityContext'', new_of (PodSecurityContext_type K) (PodSecurityContext_DeepCopyInto K)),
     (''ContainerSecurityContext'', new_of (SecurityContext_type K) (SecurityContext_DeepCopyInto K))]"

definition K8sGPTSpec_DeepCopy :: "k8s_structs \<Rightarrow> copier" where
  "K8sGPTSpec_DeepCopy K = new_of (K8sGPTSpec_type K) (K8sGPTSpec_DeepCopyInto K)"

definition K8sGPTStatus_type :: "k8s_structs \<Rightarrow> go_type" where
  "K8sGPTStatus_type K = TStruct
    [(''LastAnalysisError'', TText), (''LastAnalysisErrorTime'', TPointer (Time_type K))]"

definition K8sGPTStatus_DeepCopyInto :: "k8s_structs \<Rightarrow> copier" where
  "K8sGPTStatus_DeepCopyInto K = copy_struct [(''LastAnalysisErrorTime'', unless_nil (Time_DeepCopy K))]"

definition K8sGPTStatus_DeepCopy :: "k8s_structs \<Rightarrow> copier" where
  "K8sGPTStatus_DeepCopy K = new_of (K8sGPTStatus_type K) (K8sGPTStatus_DeepCopyInto K)"

definition K8sGPT_type :: "k8s_structs \<Rightarrow> go_type" where
  "K8sGPT_type K = TStruct
    [(''TypeMeta'', TypeMeta_type K), (''ObjectMeta'', ObjectMeta_type K), (''Spec'', K8sGPTSpec_type K),
     (''Status'', K8sGPTStatus_type K)]"

definition K8sGPT_DeepCopyInto :: "k8s_structs \<Rightarrow> copier" where
  "K8sGPT_DeepCopyInto K = copy_struct
    [(''TypeMeta'', assign), (''ObjectMeta'', ObjectMeta_DeepCopyInto K),
     (''Spec'', K8sGPTSpec_DeepCopyInto K), (''Status'', K8sGPTStatus_DeepCopyInto K)]"

definition K8sGPT_DeepCopy :: "k8s_structs \<Rightarrow> copier" where
  "K8sGPT_DeepCopy K = new_of (K8sGPT_type K) (K8sGPT_DeepCopyInto K)"

definition K8sGPT_DeepCopyObject :: "k8s_structs \<Rightarrow> go_value \<Rightarrow> memory \<Rightarrow> go_value option \<times> memory" where
  "K8sGPT_DeepCopyObject K p h =
     (case K8sGPT_DeepCopy K p h of (c, h) \<Rightarrow> (if c \<noteq> Pointer None then Some c else None, h))"

definition K8sGPTList_type :: "k8s_structs \<Rightarrow> go_type" where
  "K8sGPTList_type K = TStruct
    [(''TypeMeta'', TypeMeta_type K), (''ListMeta'', ListMeta_type K), (''Items'', TSlice (K8sGPT_type K))]"

definition K8sGPTList_DeepCopyInto :: "k8s_structs \<Rightarrow> copier" where
  "K8sGPTList_DeepCopyInto K = copy_struct
    [(''TypeMeta'', assign), (''ListMeta'', ListMeta_DeepCopyInto K),
     (''Items'', make_slice (K8sGPT_type K) (K8sGPT_DeepCopyInto K))]"

definition K8sGPTList_DeepCopy :: "k8s_structs \<Rightarrow> copier" where
  "K8sGPTList_DeepCopy K = new_of (K8sGPTList_type K) (K8sGPTList_DeepCopyInto K)"

definition K8sGPTList_DeepCopyObject :: "k8s_structs \<Rightarrow> go_value \<Rightarrow> memory \<Rightarrow> go_value option \<times> memory" where
  "K8sGPTList_DeepCopyObject K p h =
     (case K8sGPTList_DeepCopy K p h of (c, h) \<Rightarrow> (if c \<noteq> Pointer None then Some c else None, h))"

section \<open>\<^verbatim>\<open>result_types.go\<close>\<close>

definition Sensitive_type :: go_type where
  "Sensitive_type = TStruct [(''Unmasked'', TText), (''Masked'', TText)]"

definition Sensitive_DeepCopyInto :: copier where
  "Sensitive_DeepCopyInto = copy_struct []"

definition Sensitive_DeepCopy :: copier where
  "Sensitive_DeepCopy = new_of Sensitive_type Sensitive_DeepCopyInto"

definition Failure_type :: go_type where
  "Failure_type = TStruct [(''Text'', TText), (''Sensitive'', TSlice Sensitive_type)]"

definition Failure_DeepCopyInto :: copier where
  "Failure_DeepCopyInto = copy_struct [(''Sensitive'', make_slice Sensitive_type assign)]"

definition Failure_DeepCopy :: copier where
  "Failure_DeepCopy = new_of Failure_type Failure_DeepCopyInto"

definition AutoRemediationStatus_type :: go_type where
  "AutoRemediationStatus_type = TStruct [(''Phase'', TInt)]"

definition AutoRemediationStatus_DeepCopyInto :: copier where
  "AutoRemediationStatus_DeepCopyInto = copy_struct []"

definition AutoRemediationStatus_DeepCopy :: copier where
  "AutoRemediationStatus_DeepCopy = new_of AutoRemediationStatus_type AutoRemediationStatus_DeepCopyInto"

definition ResultTargetReference_type :: go_type where
  "ResultTargetReference_type = TStruct
    [(''APIVersion'', TText), (''Kind'', TText), (''Namespace'', TText), (''Name'', TText),
     (''UID'', TText), (''ResourceVersion'', TText)]"

definition ResultTargetReference_DeepCopyInto :: copier where
  "ResultTargetReference_DeepCopyInto = copy_struct []"

definition ResultTargetReference_DeepCopy :: copier where
  "ResultTargetReference_DeepCopy = new_of ResultTargetReference_type ResultTargetReference_DeepCopyInto"

definition ResultSpec_type :: go_type where
  "ResultSpec_type = TStruct
    [(''Backend'', TText), (''AutoRemediationStatus'', AutoRemediationStatus_type), (''Kind'', TText),
     (''Name'', TText), (''Error'', TSlice Failure_type), (''Details'', TText), (''ParentObject'', TText),
     (''TargetRef'', TPointer ResultTargetReference_type)]"

definition ResultSpec_DeepCopyInto :: copier where
  "ResultSpec_DeepCopyInto = copy_struct
    [(''AutoRemediationStatus'', assign), (''Error'', make_slice Failure_type Failure_DeepCopyInto),
     (''TargetRef'', new_of ResultTargetReference_type assign)]"

definition ResultSpec_DeepCopy :: copier where
  "ResultSpec_DeepCopy = new_of ResultSpec_type ResultSpec_DeepCopyInto"

definition ResultStatus_type :: go_type where
  "ResultStatus_type = TStruct [(''LifeCycle'', TText), (''Webhook'', TText), (''ContentHash'', TText)]"

definition ResultStatus_DeepCopyInto :: copier where
  "ResultStatus_DeepCopyInto = copy_struct []"

definition ResultStatus_DeepCopy :: copier where
  "ResultStatus_DeepCopy = new_of ResultStatus_type ResultStatus_DeepCopyInto"

definition Result_type :: "k8s_structs \<Rightarrow> go_type" where
  "Result_type K = TStruct
    [(''TypeMeta'', TypeMeta_type K), (''ObjectMeta'', ObjectMeta_type K), (''Spec'', ResultSpec_type),
     (''Status'', ResultStatus_type)]"

definition Result_DeepCopyInto :: "k8s_structs \<Rightarrow> copier" where
  "Result_DeepCopyInto K = copy_struct
    [(''TypeMeta'', assign), (''ObjectMeta'', ObjectMeta_DeepCopyInto K),
     (''Spec'', ResultSpec_DeepCopyInto), (''Status'', assign)]"

definition Result_DeepCopy :: "k8s_structs \<Rightarrow> copier" where
  "Result_DeepCopy K = new_of (Result_type K) (Result_DeepCopyInto K)"

definition Result_DeepCopyObject :: "k8s_structs \<Rightarrow> go_value \<Rightarrow> memory \<Rightarrow> go_value option \<times> memory" where
  "Result_DeepCopyObject K p h =
     (case Result_DeepCopy K p h of (c, h) \<Rightarrow> (if c \<noteq> Pointer None then Some c else None, h))"

definition ResultList_type :: "k8s_structs \<Rightarrow> go_type" where
  "ResultList_type K = TStruct
    [(''TypeMeta'', TypeMeta_type K), (''ListMeta'', ListMeta_type K), (''Items'', TSlice (Result_type K))]"

definition ResultList_DeepCopyInto :: "k8s_structs \<Rightarrow> copier" where
  "ResultList_DeepCopyInto K = copy_struct
    [(''TypeMeta'', assign), (''ListMeta'', ListMeta_DeepCopyInto K),
     (''Items'', make_slice (Result_type K) (Result_DeepCopyInto K))]"

definition ResultList_DeepCopy :: "k8s_structs \<Rightarrow> copier" where
  "ResultList_DeepCopy K = new_of (ResultList_type K) (ResultList_DeepCopyInto K)"

definition ResultList_DeepCopyObject :: "k8s_structs \<Rightarrow> go_value \<Rightarrow> memory \<Rightarrow> go_value option \<times> memory" where
  "ResultList_DeepCopyObject K p h =
     (case ResultList_DeepCopy K p h of (c, h) \<Rightarrow> (if c \<noteq> Pointer None then Some c else None, h))"

section \<open>\<^verbatim>\<open>mutation_types.go\<close>\<close>

definition MutationSpec_type :: "k8s_structs \<Rightarrow> go_type" where
  "MutationSpec_type K = TStruct
    [(''SimilarityScore'', TText), (''ResourceGVK'', TText), (''ResourceRef'', ObjectReference_type K),
     (''ResultRef'', ObjectReference_type K), (''OriginConfiguration'', TText),
     (''TargetConfiguration'', TText)]"

definition MutationSpec_DeepCopyInto :: "k8s_structs \<Rightarrow> copier" where
  "MutationSpec_DeepCopyInto K = copy_struct [(''ResourceRef'', assign), (''ResultRef'', assign)]"

definition MutationSpec_DeepCopy :: "k8s_structs \<Rightarrow> copier" where
  "MutationSpec_DeepCopy K = new_of (MutationSpec_type K) (MutationSpec_DeepCopyInto K)"

definition MutationStatus_type :: "k8s_structs \<Rightarrow> go_type" where
  "MutationStatus_type K = TStruct
    [(''Phase'', TInt), (''Message'', TText), (''PolicyDecision'', TText), (''ChangedPaths'', TSlice TText),
     (''AppliedAt'', TPointer (Time_type K))]"

definition MutationStatus_DeepCopyInto :: "k8s_structs \<Rightarrow> copier" where
  "MutationStatus_DeepCopyInto K = copy_struct
    [(''ChangedPaths'', make_slice TText assign), (''AppliedAt'', unless_nil (Time_DeepCopy K))]"

definition MutationStatus_DeepCopy :: "k8s_structs \<Rightarrow> copier" where
  "MutationStatus_DeepCopy K = new_of (MutationStatus_type K) (MutationStatus_DeepCopyInto K)"

definition Mutation_type :: "k8s_structs \<Rightarrow> go_type" where
  "Mutation_type K = TStruct
    [(''TypeMeta'', TypeMeta_type K), (''ObjectMeta'', ObjectMeta_type K), (''Spec'', MutationSpec_type K),
     (''Status'', MutationStatus_type K)]"

definition Mutation_DeepCopyInto :: "k8s_structs \<Rightarrow> copier" where
  "Mutation_DeepCopyInto K = copy_struct
    [(''TypeMeta'', assign), (''ObjectMeta'', ObjectMeta_DeepCopyInto K), (''Spec'', assign),
     (''Status'', MutationStatus_DeepCopyInto K)]"

definition Mutation_DeepCopy :: "k8s_structs \<Rightarrow> copier" where
  "Mutation_DeepCopy K = new_of (Mutation_type K) (Mutation_DeepCopyInto K)"

definition Mutation_DeepCopyObject :: "k8s_structs \<Rightarrow> go_value \<Rightarrow> memory \<Rightarrow> go_value option \<times> memory" where
  "Mutation_DeepCopyObject K p h =
     (case Mutation_DeepCopy K p h of (c, h) \<Rightarrow> (if c \<noteq> Pointer None then Some c else None, h))"

definition MutationList_type :: "k8s_structs \<Rightarrow> go_type" where
  "MutationList_type K = TStruct
    [(''TypeMeta'', TypeMeta_type K), (''ListMeta'', ListMeta_type K), (''Items'', TSlice (Mutation_type K))]"

definition MutationList_DeepCopyInto :: "k8s_structs \<Rightarrow> copier" where
  "MutationList_DeepCopyInto K = copy_struct
    [(''TypeMeta'', assign), (''ListMeta'', ListMeta_DeepCopyInto K),
     (''Items'', make_slice (Mutation_type K) (Mutation_DeepCopyInto K))]"

definition MutationList_DeepCopy :: "k8s_structs \<Rightarrow> copier" where
  "MutationList_DeepCopy K = new_of (MutationList_type K) (MutationList_DeepCopyInto K)"

definition MutationList_DeepCopyObject :: "k8s_structs \<Rightarrow> go_value \<Rightarrow> memory \<Rightarrow> go_value option \<times> memory" where
  "MutationList_DeepCopyObject K p h =
     (case MutationList_DeepCopy K p h of (c, h) \<Rightarrow> (if c \<noteq> Pointer None then Some c else None, h))"

end
