(* ===== verification/Deep_Copy.thy ===== *)
theory Deep_Copy
  imports Copy_Functions
begin

text \<open>
  The deep copies of the API: each function copies every field that holds a reference, so that the
  copy has the type and the content of the original and shares no memory with it.
\<close>

section \<open>Every function is a copier of its type\<close>

text \<open>
  What the functions of Kubernetes are documented to do: they make deep copies; type metadata and object
  references hold strings only.
\<close>

definition documented :: "k8s_structs \<Rightarrow> bool" where
  "documented K \<longleftrightarrow> flat (TypeMeta_type K) \<and> flat (ObjectReference_type K) \<and>
     copies (ObjectMeta_type K) (ObjectMeta_DeepCopyInto K) \<and>
     copies (ListMeta_type K) (ListMeta_DeepCopyInto K) \<and>
     copies (ResourceRequirements_type K) (ResourceRequirements_DeepCopyInto K) \<and>
     copies (Toleration_type K) (Toleration_DeepCopyInto K) \<and>
     copies (PodSecurityContext_type K) (PodSecurityContext_DeepCopyInto K) \<and>
     copies (SecurityContext_type K) (SecurityContext_DeepCopyInto K) \<and>
     copies (TPointer (Time_type K)) (Time_DeepCopy K)"

lemma documented_D [simp]:
  assumes "documented K"
  shows "flat (TypeMeta_type K)" "flat (ObjectReference_type K)"
    "copies (ObjectMeta_type K) (ObjectMeta_DeepCopyInto K)"
    "copies (ListMeta_type K) (ListMeta_DeepCopyInto K)"
    "copies (ResourceRequirements_type K) (ResourceRequirements_DeepCopyInto K)"
    "copies (Toleration_type K) (Toleration_DeepCopyInto K)"
    "copies (PodSecurityContext_type K) (PodSecurityContext_DeepCopyInto K)"
    "copies (SecurityContext_type K) (SecurityContext_DeepCopyInto K)"
    "copies (TPointer (Time_type K)) (Time_DeepCopy K)"
  using assms by (simp_all add: documented_def)

lemma copies_unless_nil [copies_rules]:
  "copies (TPointer t) f \<Longrightarrow> copies (TPointer t) (unless_nil f)"
  unfolding copies_def copied_def unless_nil_def by (auto intro: exI [of _ "[]"])

lemma flat_structs [simp]:
  "flat Backstage_type"
  "flat SecretRef_type"
  "flat CredentialsRef_type"
  "flat GCSBackend_type"
  "flat S3Backend_type"
  "flat AzureBackend_type"
  "flat InterplexBackend_type"
  "flat Connection_type"
  "flat BackOff_type"
  "flat Trivy_type"
  "flat ImagePullSecrets_type"
  "flat AnalysisConfig_type"
  "flat Sensitive_type"
  "flat AutoRemediationStatus_type"
  "flat ResultTargetReference_type"
  "flat ResultStatus_type"
  by (simp_all add: Backstage_type_def SecretRef_type_def CredentialsRef_type_def GCSBackend_type_def S3Backend_type_def AzureBackend_type_def InterplexBackend_type_def Connection_type_def BackOff_type_def Trivy_type_def ImagePullSecrets_type_def AnalysisConfig_type_def Sensitive_type_def AutoRemediationStatus_type_def ResultTargetReference_type_def ResultStatus_type_def)

lemma flat_MutationSpec [simp]: "documented K \<Longrightarrow> flat (MutationSpec_type K)"
  by (simp add: MutationSpec_type_def)

lemma Backstage_copies [simp]: "copies Backstage_type Backstage_DeepCopyInto"
  unfolding Backstage_type_def Backstage_DeepCopyInto_def by (rule copies_copy_struct) (simp_all add: copies_rules)

lemma SecretRef_copies [simp]: "copies SecretRef_type SecretRef_DeepCopyInto"
  unfolding SecretRef_type_def SecretRef_DeepCopyInto_def by (rule copies_copy_struct) (simp_all add: copies_rules)

lemma ExtraOptionsRef_copies [simp]: "copies ExtraOptionsRef_type ExtraOptionsRef_DeepCopyInto"
  unfolding ExtraOptionsRef_type_def ExtraOptionsRef_DeepCopyInto_def by (rule copies_copy_struct) (simp_all add: copies_rules)

lemma CredentialsRef_copies [simp]: "copies CredentialsRef_type CredentialsRef_DeepCopyInto"
  unfolding CredentialsRef_type_def CredentialsRef_DeepCopyInto_def by (rule copies_copy_struct) (simp_all add: copies_rules)

lemma GCSBackend_copies [simp]: "copies GCSBackend_type GCSBackend_DeepCopyInto"
  unfolding GCSBackend_type_def GCSBackend_DeepCopyInto_def by (rule copies_copy_struct) (simp_all add: copies_rules)

lemma S3Backend_copies [simp]: "copies S3Backend_type S3Backend_DeepCopyInto"
  unfolding S3Backend_type_def S3Backend_DeepCopyInto_def by (rule copies_copy_struct) (simp_all add: copies_rules)

lemma AzureBackend_copies [simp]: "copies AzureBackend_type AzureBackend_DeepCopyInto"
  unfolding AzureBackend_type_def AzureBackend_DeepCopyInto_def by (rule copies_copy_struct) (simp_all add: copies_rules)

lemma InterplexBackend_copies [simp]: "copies InterplexBackend_type InterplexBackend_DeepCopyInto"
  unfolding InterplexBackend_type_def InterplexBackend_DeepCopyInto_def by (rule copies_copy_struct) (simp_all add: copies_rules)

lemma RemoteCacheRef_copies [simp]: "copies RemoteCacheRef_type RemoteCacheRef_DeepCopyInto"
  unfolding RemoteCacheRef_type_def RemoteCacheRef_DeepCopyInto_def by (rule copies_copy_struct) (simp_all add: copies_rules)

lemma Connection_copies [simp]: "copies Connection_type Connection_DeepCopyInto"
  unfolding Connection_type_def Connection_DeepCopyInto_def by (rule copies_copy_struct) (simp_all add: copies_rules)

lemma CustomAnalyzer_copies [simp]: "copies CustomAnalyzer_type CustomAnalyzer_DeepCopyInto"
  unfolding CustomAnalyzer_type_def CustomAnalyzer_DeepCopyInto_def by (rule copies_copy_struct) (simp_all add: copies_rules)

lemma WebhookRef_copies [simp]: "copies WebhookRef_type WebhookRef_DeepCopyInto"
  unfolding WebhookRef_type_def WebhookRef_DeepCopyInto_def by (rule copies_copy_struct) (simp_all add: copies_rules)

lemma BackOff_copies [simp]: "copies BackOff_type BackOff_DeepCopyInto"
  unfolding BackOff_type_def BackOff_DeepCopyInto_def by (rule copies_copy_struct) (simp_all add: copies_rules)

lemma AutoRemediation_copies [simp]: "copies AutoRemediation_type AutoRemediation_DeepCopyInto"
  unfolding AutoRemediation_type_def AutoRemediation_DeepCopyInto_def by (rule copies_copy_struct) (simp_all add: copies_rules)

lemma AISpec_copies [simp]: "copies AISpec_type AISpec_DeepCopyInto"
  unfolding AISpec_type_def AISpec_DeepCopyInto_def by (rule copies_copy_struct) (simp_all add: copies_rules)

lemma Trivy_copies [simp]: "copies Trivy_type Trivy_DeepCopyInto"
  unfolding Trivy_type_def Trivy_DeepCopyInto_def by (rule copies_copy_struct) (simp_all add: copies_rules)

lemma Integrations_copies [simp]: "copies Integrations_type Integrations_DeepCopyInto"
  unfolding Integrations_type_def Integrations_DeepCopyInto_def by (rule copies_copy_struct) (simp_all add: copies_rules)

lemma ImagePullSecrets_copies [simp]: "copies ImagePullSecrets_type ImagePullSecrets_DeepCopyInto"
  unfolding ImagePullSecrets_type_def ImagePullSecrets_DeepCopyInto_def by (rule copies_copy_struct) (simp_all add: copies_rules)

lemma AnalysisConfig_copies [simp]: "copies AnalysisConfig_type AnalysisConfig_DeepCopyInto"
  unfolding AnalysisConfig_type_def AnalysisConfig_DeepCopyInto_def by (rule copies_copy_struct) (simp_all add: copies_rules)

lemma K8sGPTSpec_copies [simp]: "documented K \<Longrightarrow> copies (K8sGPTSpec_type K) (K8sGPTSpec_DeepCopyInto K)"
  unfolding K8sGPTSpec_type_def K8sGPTSpec_DeepCopyInto_def by (rule copies_copy_struct) (simp_all add: copies_rules)

lemma K8sGPTStatus_copies [simp]: "documented K \<Longrightarrow> copies (K8sGPTStatus_type K) (K8sGPTStatus_DeepCopyInto K)"
  unfolding K8sGPTStatus_type_def K8sGPTStatus_DeepCopyInto_def by (rule copies_copy_struct) (simp_all add: copies_rules)

lemma K8sGPT_copies [simp]: "documented K \<Longrightarrow> copies (K8sGPT_type K) (K8sGPT_DeepCopyInto K)"
  unfolding K8sGPT_type_def K8sGPT_DeepCopyInto_def by (rule copies_copy_struct) (simp_all add: copies_rules)

lemma K8sGPTList_copies [simp]: "documented K \<Longrightarrow> copies (K8sGPTList_type K) (K8sGPTList_DeepCopyInto K)"
  unfolding K8sGPTList_type_def K8sGPTList_DeepCopyInto_def by (rule copies_copy_struct) (simp_all add: copies_rules)

lemma Sensitive_copies [simp]: "copies Sensitive_type Sensitive_DeepCopyInto"
  unfolding Sensitive_type_def Sensitive_DeepCopyInto_def by (rule copies_copy_struct) (simp_all add: copies_rules)

lemma Failure_copies [simp]: "copies Failure_type Failure_DeepCopyInto"
  unfolding Failure_type_def Failure_DeepCopyInto_def by (rule copies_copy_struct) (simp_all add: copies_rules)

lemma AutoRemediationStatus_copies [simp]: "copies AutoRemediationStatus_type AutoRemediationStatus_DeepCopyInto"
  unfolding AutoRemediationStatus_type_def AutoRemediationStatus_DeepCopyInto_def by (rule copies_copy_struct) (simp_all add: copies_rules)

lemma ResultTargetReference_copies [simp]: "copies ResultTargetReference_type ResultTargetReference_DeepCopyInto"
  unfolding ResultTargetReference_type_def ResultTargetReference_DeepCopyInto_def by (rule copies_copy_struct) (simp_all add: copies_rules)

lemma ResultSpec_copies [simp]: "copies ResultSpec_type ResultSpec_DeepCopyInto"
  unfolding ResultSpec_type_def ResultSpec_DeepCopyInto_def by (rule copies_copy_struct) (simp_all add: copies_rules)

lemma ResultStatus_copies [simp]: "copies ResultStatus_type ResultStatus_DeepCopyInto"
  unfolding ResultStatus_type_def ResultStatus_DeepCopyInto_def by (rule copies_copy_struct) (simp_all add: copies_rules)

lemma Result_copies [simp]: "documented K \<Longrightarrow> copies (Result_type K) (Result_DeepCopyInto K)"
  unfolding Result_type_def Result_DeepCopyInto_def by (rule copies_copy_struct) (simp_all add: copies_rules)

lemma ResultList_copies [simp]: "documented K \<Longrightarrow> copies (ResultList_type K) (ResultList_DeepCopyInto K)"
  unfolding ResultList_type_def ResultList_DeepCopyInto_def by (rule copies_copy_struct) (simp_all add: copies_rules)

lemma MutationSpec_copies [simp]: "documented K \<Longrightarrow> copies (MutationSpec_type K) (MutationSpec_DeepCopyInto K)"
  unfolding MutationSpec_type_def MutationSpec_DeepCopyInto_def by (rule copies_copy_struct) (simp_all add: copies_rules)

lemma MutationStatus_copies [simp]: "documented K \<Longrightarrow> copies (MutationStatus_type K) (MutationStatus_DeepCopyInto K)"
  unfolding MutationStatus_type_def MutationStatus_DeepCopyInto_def by (rule copies_copy_struct) (simp_all add: copies_rules)

lemma Mutation_copies [simp]: "documented K \<Longrightarrow> copies (Mutation_type K) (Mutation_DeepCopyInto K)"
  unfolding Mutation_type_def Mutation_DeepCopyInto_def by (rule copies_copy_struct) (simp_all add: copies_rules)

lemma MutationList_copies [simp]: "documented K \<Longrightarrow> copies (MutationList_type K) (MutationList_DeepCopyInto K)"
  unfolding MutationList_type_def MutationList_DeepCopyInto_def by (rule copies_copy_struct) (simp_all add: copies_rules)

section \<open>Copies share no memory\<close>

text \<open>Writes to cells of the memory, in any order.\<close>

definition write_cells :: "(addr \<times> cell) list \<Rightarrow> memory \<Rightarrow> memory" where
  "write_cells ws h = fold (\<lambda>(a, c) h. h[a := c]) ws h"

lemma write_cells_elsewhere:
  "a \<notin> fst ` set ws \<Longrightarrow> length (write_cells ws h) = length h \<and> write_cells ws h ! a = h ! a"
  by (induction ws arbitrary: h) (auto simp: write_cells_def)

lemma write_elsewhere:
  assumes "typed h t v" and "set (reach h t v) \<inter> fst ` set ws = {}"
  shows "typed (write_cells ws h) t v" and "content (write_cells ws h) t v = content h t v"
proof -
  have "keeps_cells h (write_cells ws h) (reach h t v)"
    using reach_in_memory [OF assms(1)] assms(2) write_cells_elsewhere by (fastforce simp: list_all_iff)
  then show "typed (write_cells ws h) t v" "content (write_cells ws h) t v = content h t v"
    by (rule same_value_if [OF assms(1)])+
qed

lemma copied_isolated:
  assumes "typed h t p" and "copied t h p (q, h')"
  shows "fst ` set ws \<subseteq> set (reach h' t q) \<Longrightarrow> content (write_cells ws h') t p = content h t p"
    and "fst ` set ws \<subseteq> {..<length h} \<Longrightarrow> content (write_cells ws h') t q = content h t p"
proof -
  from assms(2) obtain e where e: "h' = h @ e" and q: "typed h' t q" "content h' t q = content h t p"
    "list_all (\<lambda>a. length h \<le> a) (reach h' t q)" by (auto simp: copied_def)
  note p = append_value [OF assms(1,1), of e, folded e]
  have new: "length h \<le> a" if "a \<in> set (reach h' t q)" for a using q(3) that by (simp add: list_all_iff)
  have old: "a < length h" if "a \<in> set (reach h' t p)" for a
    using reach_in_memory [OF assms(1)] p(3) that by (simp add: list_all_iff)
  show "content (write_cells ws h') t p = content h t p" if "fst ` set ws \<subseteq> set (reach h' t q)"
    using write_elsewhere(2) [OF p(1), of ws] that new old p(2) by fastforce
  show "content (write_cells ws h') t q = content h t p" if "fst ` set ws \<subseteq> {..<length h}"
    using write_elsewhere(2) [OF q(1), of ws] that new q(2) by fastforce
qed

text \<open>What \<^verbatim>\<open>DeepCopyObject\<close> returns for the copy: nil as an interface, not a nil pointer in one.\<close>

definition as_object :: "go_value \<times> memory \<Rightarrow> go_value option \<times> memory" where
  "as_object r = (case r of (c, h) \<Rightarrow> (if c \<noteq> Pointer None then Some c else None, h))"

locale deep_copier =
  fixes type_of :: "k8s_structs \<Rightarrow> go_type" and into :: "k8s_structs \<Rightarrow> copier"
  assumes copies_into: "documented K \<Longrightarrow> copies (type_of K) (into K)"
begin

lemma copied_object:
  assumes "documented K" and "typed h (TPointer (type_of K)) p"
    and "as_object (new_of (type_of K) (into K) p h) = (c, h')"
  shows "case c of
      None \<Rightarrow> p = Pointer None \<and> h' = h
    | Some q \<Rightarrow> p \<noteq> Pointer None \<and> copied (TPointer (type_of K)) h p (q, h')"
proof (cases "p = Pointer None")
  case True
  with assms(3) show ?thesis by (auto simp: as_object_def new_of_def)
next
  case False
  with assms(2) obtain a x where a: "p = Pointer (Some a)" "the_var h a = Some x"
    by (auto split: go_value.splits option.splits)
  obtain q h2 where r: "new_of (type_of K) (into K) p h = (q, h2)" by (cases "new_of (type_of K) (into K) p h")
  have "copied (TPointer (type_of K)) h p (q, h2)"
    using copies_new_of [OF copies_into [OF assms(1)]] assms(2) unfolding copies_def r [symmetric] by blast
  moreover have "q \<noteq> Pointer None"
    using a r by (auto simp: new_of_def Let_def split: prod.splits)
  ultimately show ?thesis using assms(3) r False by (auto simp: as_object_def)
qed

end

interpretation K8sGPT_copy: deep_copier K8sGPT_type K8sGPT_DeepCopyInto
  by unfold_locales simp

interpretation K8sGPTList_copy: deep_copier K8sGPTList_type K8sGPTList_DeepCopyInto
  by unfold_locales simp

interpretation Result_copy: deep_copier Result_type Result_DeepCopyInto
  by unfold_locales simp

interpretation ResultList_copy: deep_copier ResultList_type ResultList_DeepCopyInto
  by unfold_locales simp

interpretation Mutation_copy: deep_copier Mutation_type Mutation_DeepCopyInto
  by unfold_locales simp

interpretation MutationList_copy: deep_copier MutationList_type MutationList_DeepCopyInto
  by unfold_locales simp

lemmas DeepCopyObject_defs =
  K8sGPT_DeepCopyObject_def K8sGPT_DeepCopy_def K8sGPTList_DeepCopyObject_def K8sGPTList_DeepCopy_def
  Result_DeepCopyObject_def Result_DeepCopy_def ResultList_DeepCopyObject_def ResultList_DeepCopy_def
  Mutation_DeepCopyObject_def Mutation_DeepCopy_def MutationList_DeepCopyObject_def MutationList_DeepCopy_def

text \<open>The kinds of the API, with their types and functions.\<close>

definition kinds :: "k8s_structs \<Rightarrow> (go_type \<times> (go_value \<Rightarrow> memory \<Rightarrow> go_value option \<times> memory)) list" where
  "kinds K =
     [(K8sGPT_type K, K8sGPT_DeepCopyObject K), (K8sGPTList_type K, K8sGPTList_DeepCopyObject K),
      (Result_type K, Result_DeepCopyObject K), (ResultList_type K, ResultList_DeepCopyObject K),
      (Mutation_type K, Mutation_DeepCopyObject K), (MutationList_type K, MutationList_DeepCopyObject K)]"

lemma kinds_copied:
  assumes "documented K" and "(t, f) \<in> set (kinds K)" and "typed h (TPointer t) p" and "f p h = (c, h')"
  shows "case c of None \<Rightarrow> p = Pointer None \<and> h' = h | Some q \<Rightarrow> p \<noteq> Pointer None \<and> copied (TPointer t) h p (q, h')"
  using assms
    K8sGPT_copy.copied_object K8sGPTList_copy.copied_object Result_copy.copied_object
    ResultList_copy.copied_object Mutation_copy.copied_object MutationList_copy.copied_object
  by (auto simp: kinds_def DeepCopyObject_defs as_object_def simp del: typed.simps)

text \<open>A mutation with a label and a changed path, and structs of Kubernetes with a few fields.\<close>

definition sampleStructs :: k8s_structs where
  "sampleStructs =
     \<lparr>TypeMeta_type = TStruct [(''Kind'', TText)], ObjectReference_type = TStruct [(''Name'', TText)],
      ObjectMeta_type = TStruct [(''Name'', TText), (''Labels'', TMap TText)], ListMeta_type = TStruct [],
      ResourceRequirements_type = TStruct [], Toleration_type = TStruct [], PodSecurityContext_type = TStruct [],
      SecurityContext_type = TStruct [], Time_type = TInt,
      ObjectMeta_DeepCopyInto = copy_struct [(''Labels'', make_map)], ListMeta_DeepCopyInto = copy_struct [],
      ResourceRequirements_DeepCopyInto = copy_struct [], Toleration_DeepCopyInto = copy_struct [],
      PodSecurityContext_DeepCopyInto = copy_struct [], SecurityContext_DeepCopyInto = copy_struct [],
      Time_DeepCopy = new_of TInt assign\<rparr>"

lemma documented_sample: "documented sampleStructs"
  by (simp add: documented_def sampleStructs_def copies_rules)

definition sampleMemory :: memory where
  "sampleMemory =
     [Table [(''app'', Text ''web'')], Array [Text ''/spec''],
      Var (Struct
        [(''TypeMeta'', Struct [(''Kind'', Text ''Mutation'')]),
         (''ObjectMeta'', Struct [(''Name'', Text ''m''), (''Labels'', Map (Some 0))]),
         (''Spec'', Struct
           [(''SimilarityScore'', Text ''90''), (''ResourceGVK'', Text ''apps/v1''),
            (''ResourceRef'', Struct [(''Name'', Text ''web'')]), (''ResultRef'', Struct [(''Name'', Text ''r'')]),
            (''OriginConfiguration'', Text ''a''), (''TargetConfiguration'', Text ''b'')]),
         (''Status'', Struct
           [(''Phase'', Number 0), (''Message'', Text ''m''), (''PolicyDecision'', Text ''d''),
            (''ChangedPaths'', Slice (Some (1, 0, 1))), (''AppliedAt'', Pointer None)])])]"

abbreviation sampleType :: go_type where
  "sampleType \<equiv> Mutation_type sampleStructs"

abbreviation sampleCopy :: "go_value option \<times> memory" where
  "sampleCopy \<equiv> Mutation_DeepCopyObject sampleStructs (Pointer (Some 2)) sampleMemory"

lemma sample_typed: "typed sampleMemory (TPointer sampleType) (Pointer (Some 2))"
  by code_simp

lemma sample_copied: "sampleCopy = (Some (Pointer (Some 3)), snd sampleCopy)"
  by code_simp

lemma sample_kind: "(sampleType, Mutation_DeepCopyObject sampleStructs) \<in> set (kinds sampleStructs)"
  by (simp add: kinds_def)

text \<open>
  C23. The deep copy of an object is nil exactly for nil, and otherwise has the type and the content of the
  original, which keeps both.
\<close>

theorem deep_copies_are_typed:
  assumes "documented K" and "(t, f) \<in> set (kinds K)" and "typed h (TPointer t) p" and "f p h = (c, h')"
  shows "case c of
      None \<Rightarrow> p = Pointer None \<and> h' = h
    | Some q \<Rightarrow> p \<noteq> Pointer None \<and> typed h' (TPointer t) q \<and> typed h' (TPointer t) p \<and>
        content h' (TPointer t) q = content h (TPointer t) p \<and>
        content h' (TPointer t) p = content h (TPointer t) p"
  using kinds_copied [OF assms] append_value [OF assms(3,3)]
  by (auto simp: copied_def simp del: typed.simps content.simps split: option.splits)

theorem deep_copies_are_typed_witness:
  "typed (snd sampleCopy) (TPointer sampleType) (Pointer (Some 3)) \<and>
   content (snd sampleCopy) (TPointer sampleType) (Pointer (Some 3)) =
     content sampleMemory (TPointer sampleType) (Pointer (Some 2))"
  using deep_copies_are_typed [OF documented_sample sample_kind sample_typed sample_copied]
  by (simp del: typed.simps content.simps)

text \<open>
  C22. A deep copy consists of new memory, every cell reached on one path.  So whatever is written through
  the copy, the original keeps its content, and whatever is written to the memory there was before, the
  copy keeps its content.
\<close>

theorem deep_copies_are_isolated:
  assumes "documented K" and "(t, f) \<in> set (kinds K)" and "typed h (TPointer t) p" and "f p h = (Some q, h')"
  shows "distinct (reach h' (TPointer t) q) \<and> list_all (\<lambda>a. length h \<le> a) (reach h' (TPointer t) q) \<and>
    (fst ` set ws \<subseteq> set (reach h' (TPointer t) q) \<longrightarrow>
       content (write_cells ws h') (TPointer t) p = content h (TPointer t) p) \<and>
    (fst ` set ws \<subseteq> {..<length h} \<longrightarrow>
       content (write_cells ws h') (TPointer t) q = content h (TPointer t) p)"
proof -
  have copied: "copied (TPointer t) h p (q, h')" using kinds_copied [OF assms] by simp
  then have "distinct (reach h' (TPointer t) q) \<and> list_all (\<lambda>a. length h \<le> a) (reach h' (TPointer t) q)"
    unfolding copied_def by blast
  with copied_isolated [OF assms(3) copied] show ?thesis by blast
qed

theorem deep_copies_are_isolated_witness:
  "reach (snd sampleCopy) (TPointer sampleType) (Pointer (Some 3)) = [3, 4, 5] \<and>
   content (write_cells [(5, Array [Text ''/status''])] (snd sampleCopy)) (TPointer sampleType) (Pointer (Some 2)) =
     content sampleMemory (TPointer sampleType) (Pointer (Some 2))"
proof
  show reach: "reach (snd sampleCopy) (TPointer sampleType) (Pointer (Some 3)) = [3, 4, 5]" by code_simp
  show "content (write_cells [(5, Array [Text ''/status''])] (snd sampleCopy)) (TPointer sampleType) (Pointer (Some 2)) =
      content sampleMemory (TPointer sampleType) (Pointer (Some 2))"
    using deep_copies_are_isolated [OF documented_sample sample_kind sample_typed sample_copied,
      of "[(5, Array [Text ''/status''])]"] reach
    by (simp del: typed.simps content.simps reach.simps)
qed

end
