(* ===== verification/Scheme.thy ===== *)
theory Scheme
  imports Api_Types
begin

text \<open>
  The registration of the kinds: \<^verbatim>\<open>groupversion_info.go\<close>, the \<^verbatim>\<open>init\<close> functions of the three files of
  types and that of \<^verbatim>\<open>cmd/main.go\<close>, and the loader of a sample resource (\<^verbatim>\<open>k8sgpt_testing.go\<close>).  The
  scheme and its builder belong to the libraries: their operations are fields of a record, and what
  they are documented to do is stated as a hypothesis.
\<close>

section \<open>The builder of the group version\<close>

definition v1alpha1 :: group_version where
  "v1alpha1 = \<lparr>gv_Group = ''core.k8sgpt.ai'', gv_Version = ''v1alpha1''\<rparr>"

text \<open>A Go type is known by its name, which is the kind it is registered as.\<close>

record ('b, 'c) scheme_lib =
  NewBuilder :: "group_version \<Rightarrow> 'b"
  Register :: "'b \<Rightarrow> string list \<Rightarrow> 'b"
  AddToScheme :: "'b \<Rightarrow> 'c \<Rightarrow> 'c go_result"
  NewScheme :: "'c"
  clientgoAddToScheme :: "'c \<Rightarrow> 'c go_result"

definition SchemeBuilder :: "('b, 'c) scheme_lib \<Rightarrow> 'b" where
  "SchemeBuilder B = NewBuilder B v1alpha1"

definition init_k8sgpt_types :: "('b, 'c) scheme_lib \<Rightarrow> 'b \<Rightarrow> 'b" where
  "init_k8sgpt_types B b = Register B b [''K8sGPT'', ''K8sGPTList'']"

definition init_mutation_types :: "('b, 'c) scheme_lib \<Rightarrow> 'b \<Rightarrow> 'b" where
  "init_mutation_types B b = Register B b [''Mutation'', ''MutationList'']"

definition init_result_types :: "('b, 'c) scheme_lib \<Rightarrow> 'b \<Rightarrow> 'b" where
  "init_result_types B b = Register B b [''Result'', ''ResultList'']"

text \<open>The \<^verbatim>\<open>init\<close> functions of a package run in the order of its files.\<close>

definition init_v1alpha1 :: "('b, 'c) scheme_lib \<Rightarrow> 'b" where
  "init_v1alpha1 B = init_result_types B (init_mutation_types B (init_k8sgpt_types B (SchemeBuilder B)))"

section \<open>The scheme of the operator\<close>

text \<open>\<^verbatim>\<open>utilruntime.Must\<close> panics on an error.\<close>

definition Must :: "'c go_result \<Rightarrow> 'c outcome" where
  "Must r = (case r of Inl err \<Rightarrow> Panic | Inr s \<Rightarrow> Done s)"

definition init_main :: "('b, 'c) scheme_lib \<Rightarrow> 'c outcome" where
  "init_main B =
     (case Must (clientgoAddToScheme B (NewScheme B)) of
        Panic \<Rightarrow> Panic
      | Done s \<Rightarrow> Must (AddToScheme B (init_v1alpha1 B) s))"

definition operatorKinds :: "group_version_kind set" where
  "operatorKinds = WithKind v1alpha1 ` {''K8sGPT'', ''K8sGPTList'', ''Mutation'', ''MutationList'', ''Result'', ''ResultList''}"

text \<open>
  What the libraries document, for the kinds a scheme knows (\<open>recognizes\<close>): a builder remembers what
  is registered with it, and adds its kinds to those the scheme knows.
\<close>

definition scheme_documented :: "('b, 'c) scheme_lib \<Rightarrow> ('b \<Rightarrow> group_version \<times> string set) \<Rightarrow> ('c \<Rightarrow> group_version_kind set) \<Rightarrow> bool" where
  "scheme_documented B registered recognizes \<longleftrightarrow>
     (\<forall>gv. registered (NewBuilder B gv) = (gv, {})) \<and>
     (\<forall>b kinds. registered (Register B b kinds) = (fst (registered b), snd (registered b) \<union> set kinds)) \<and>
     (\<forall>b s s'. AddToScheme B b s = Inr s' \<longrightarrow>
        recognizes s' = recognizes s \<union> WithKind (fst (registered b)) ` snd (registered b)) \<and>
     (\<forall>s s'. clientgoAddToScheme B s = Inr s' \<longrightarrow> recognizes s \<subseteq> recognizes s')"

text \<open>
  Every start that gets past the \<^verbatim>\<open>init\<close> functions knows the six kinds of the API beside those of
  Kubernetes, and it gets past them unless a registration fails.
\<close>

theorem init_registers_kinds:
  assumes "scheme_documented B registered recognizes"
  shows "(case init_main B of
      Panic \<Rightarrow> isl (clientgoAddToScheme B (NewScheme B)) \<or>
        (\<exists>s. clientgoAddToScheme B (NewScheme B) = Inr s \<and> isl (AddToScheme B (init_v1alpha1 B) s))
    | Done scheme \<Rightarrow>
        (\<exists>s. clientgoAddToScheme B (NewScheme B) = Inr s \<and> recognizes scheme = recognizes s \<union> operatorKinds))"
proof (cases "clientgoAddToScheme B (NewScheme B)")
  case (Inr s)
  have "registered (init_v1alpha1 B) =
      (v1alpha1, {''K8sGPT'', ''K8sGPTList'', ''Mutation'', ''MutationList'', ''Result'', ''ResultList''})"
    using assms by (auto simp: scheme_documented_def init_v1alpha1_def init_result_types_def init_mutation_types_def
      init_k8sgpt_types_def SchemeBuilder_def)
  with Inr assms show ?thesis
    by (cases "AddToScheme B (init_v1alpha1 B) s")
      (auto simp: init_main_def Must_def scheme_documented_def operatorKinds_def)
qed (simp add: init_main_def Must_def)

text \<open>A concrete library: a builder lists its types, a scheme its kinds.\<close>

definition list_schemes :: "(group_version \<times> string list, group_version_kind list) scheme_lib" where
  "list_schemes =
     \<lparr>NewBuilder = (\<lambda>gv. (gv, [])), Register = (\<lambda>(gv, kinds) ks. (gv, kinds @ ks)),
      AddToScheme = (\<lambda>(gv, kinds) s. Inr (s @ map (WithKind gv) kinds)), NewScheme = [],
      clientgoAddToScheme = (\<lambda>s. Inr (s @ [\<lparr>Group = '''', Version = ''v1'', Kind = ''Pod''\<rparr>]))\<rparr>"

theorem init_registers_kinds_witness:
  "\<exists>scheme. init_main list_schemes = Done scheme \<and> operatorKinds \<subseteq> set scheme"
proof -
  have doc: "scheme_documented list_schemes (\<lambda>(gv, kinds). (gv, set kinds)) set"
    by (auto simp: scheme_documented_def list_schemes_def)
  obtain scheme where scheme: "init_main list_schemes = Done scheme"
    by (simp add: init_main_def Must_def list_schemes_def case_prod_beta)
  with init_registers_kinds [OF doc] have "operatorKinds \<subseteq> set scheme" by auto
  with scheme show ?thesis by blast
qed

section \<open>A sample resource\<close>

text \<open>
  \<^verbatim>\<open>LoadResource\<close>: a file that cannot be read is only logged, and the empty content is decoded; content
  that cannot be decoded ends the process.  The path of the source file, the file system and the
  decoder, which fills in the given resource, are parameters.
\<close>

datatype loading = Loaded K8sGPT | Fatal error

definition LoadResource ::
  "string \<Rightarrow> (string \<Rightarrow> string go_result) \<Rightarrow> (string \<Rightarrow> K8sGPT \<Rightarrow> K8sGPT go_result) \<Rightarrow> string \<Rightarrow> K8sGPT \<Rightarrow> loading outcome" where
  "LoadResource filename ReadFile Unmarshal path r =
     (let pSlice = Split filename CHR ''/'' in
      if length pSlice < 3 then Panic
      else
        (let projectRoot = Join (take (length pSlice - 3) pSlice) CHR ''/'';
             yamlFile = (case ReadFile (projectRoot @ ''/'' @ path) of Inl err \<Rightarrow> '''' | Inr content \<Rightarrow> content)
         in case Unmarshal yamlFile r of Inl err \<Rightarrow> Done (Fatal err) | Inr r \<Rightarrow> Done (Loaded r)))"

definition GetValidResource ::
  "string \<Rightarrow> (string \<Rightarrow> string go_result) \<Rightarrow> (string \<Rightarrow> K8sGPT \<Rightarrow> K8sGPT go_result) \<Rightarrow> K8sGPT \<Rightarrow> loading outcome" where
  "GetValidResource filename ReadFile Unmarshal r =
     LoadResource filename ReadFile Unmarshal ''./config/samples/valid_k8sgpt.yaml'' r"

text \<open>The zero K8sGPT is an argument.\<close>

definition GetValidProjectResource ::
  "string \<Rightarrow> (string \<Rightarrow> string go_result) \<Rightarrow> (string \<Rightarrow> K8sGPT \<Rightarrow> K8sGPT go_result) \<Rightarrow> K8sGPT \<Rightarrow> string \<Rightarrow> string \<Rightarrow> loading outcome" where
  "GetValidProjectResource filename ReadFile Unmarshal zero name namespace =
     (case GetValidResource filename ReadFile Unmarshal zero of
        Done (Loaded r) \<Rightarrow> Done (Loaded (r\<lparr>k_Meta := (k_Meta r)\<lparr>om_Name := name, om_Namespace := namespace\<rparr>\<rparr>))
      | other \<Rightarrow> other)"

text \<open>The sample is looked for two directories above the one of the source file.\<close>

lemma sample_path:
  "LoadResource ''/src/api/v1alpha1/k8sgpt_testing.go''
     (\<lambda>path. if path = ''/src/config/sample.yaml'' then Inr ''document'' else Inl (Errorf ''no such file''))
     (\<lambda>content r. if content = ''document'' then Inr r else Inl (Errorf ''no document'')) ''config/sample.yaml'' r =
   Done (Loaded r)"
  by code_simp

end
