(* ===== verification/Connection_Cache.thy ===== *)
theory Connection_Cache
  imports Server_Client
begin

text \<open>
  What the cache of connections promises (\<^verbatim>\<open>clientFor\<close> and \<^verbatim>\<open>closeClientFor\<close> of
  \<^verbatim>\<open>k8sgpt/k8sgpt_controller.go\<close>): an abstract pool holds at most one connection for each resource,
  with the address it was dialled for, and a step relation says which calls each operation makes and
  what it returns.  The operations on the association list of the code refine the pool, for every
  sequence of operations and whatever is answered.
\<close>

section \<open>The abstract pool\<close>

type_synonym pool = "object_key \<rightharpoonup> string \<times> nat"

datatype cache_op = Connect K8sGPT string | Release K8sGPT

text \<open>A dial that succeeds enters the connection; one that fails changes nothing.\<close>

inductive opens :: "object_key \<Rightarrow> string \<Rightarrow> pool \<Rightarrow> call \<Rightarrow> nat option \<Rightarrow> pool \<Rightarrow> bool" for key address p where
  entered: "opens key address p (CallDial address (Some c)) (Some c) (p(key \<mapsto> (address, c)))"
| refused: "opens key address p (CallDial address None) None p"

inductive pool_step :: "cache_op \<Rightarrow> pool \<Rightarrow> call list \<Rightarrow> nat option \<Rightarrow> pool \<Rightarrow> bool" where
  reused: "p (key_of_config config) = Some (address, c) \<Longrightarrow> pool_step (Connect config address) p [] (Some c) p"
| opened: "p (key_of_config config) = None \<Longrightarrow> opens (key_of_config config) address p call r p' \<Longrightarrow>
    pool_step (Connect config address) p [call] r p'"
| moved: "p (key_of_config config) = Some (address', c) \<Longrightarrow> address' \<noteq> address \<Longrightarrow>
    opens (key_of_config config) address (p(key_of_config config := None)) call r p' \<Longrightarrow>
    pool_step (Connect config address) p [CallClose c, call] r p'"
| released: "p (key_of_config config) = Some (address, c) \<Longrightarrow>
    pool_step (Release config) p [CallClose c] None (p(key_of_config config := None))"
| absent: "p (key_of_config config) = None \<Longrightarrow> pool_step (Release config) p [] None p"

inductive pool_steps :: "cache_op list \<Rightarrow> pool \<Rightarrow> call list \<Rightarrow> nat option list \<Rightarrow> pool \<Rightarrow> bool" where
  none: "pool_steps [] p [] [] p"
| more: "pool_step op p cs r p' \<Longrightarrow> pool_steps ops p' ds rs p'' \<Longrightarrow> pool_steps (op # ops) p (cs @ ds) (r # rs) p''"

inductive_cases opensE: "opens key address p call r p'"
inductive_cases connectE: "pool_step (Connect config address) p cs r p'"
inductive_cases releaseE: "pool_step (Release config) p cs r p'"
inductive_cases no_stepsE: "pool_steps [] p cs rs p'"
inductive_cases more_stepsE: "pool_steps (op # ops) p cs rs p'"

fun resource_of :: "cache_op \<Rightarrow> object_key" where
  "resource_of (Connect config address) = key_of_config config"
| "resource_of (Release config) = key_of_config config"

text \<open>An operation on one resource leaves the connections of the others alone.\<close>

lemma pool_step_other: "pool_step op p cs r p' \<Longrightarrow> k \<noteq> resource_of op \<Longrightarrow> p' k = p k"
  by (cases op) (auto elim!: connectE releaseE opensE)

text \<open>As long as a resource is only asked for at its address, it keeps its connection.\<close>

lemma pool_keeps:
  assumes "pool_steps ops p cs rs p'" and "p k = Some (address, c)"
    and "\<forall>op \<in> set ops. resource_of op = k \<longrightarrow> (\<exists>config. op = Connect config address)"
  shows "p' k = Some (address, c) \<and> (\<forall>(op, r) \<in> set (zip ops rs). resource_of op = k \<longrightarrow> r = Some c)"
  using assms
proof (induction rule: pool_steps.induct)
  case (more op p cs r p' ops ds rs p'')
  have "p' k = Some (address, c) \<and> (resource_of op = k \<longrightarrow> r = Some c)"
  proof (cases "resource_of op = k")
    case True
    with more.prems(2) obtain config where "op = Connect config address" "key_of_config config = k" by auto
    with more.hyps(1) more.prems(1) show ?thesis by (auto elim!: connectE)
  next
    case False
    with pool_step_other [OF more.hyps(1)] more.prems(1) show ?thesis by auto
  qed
  with more show ?case by auto
qed simp

section \<open>The cache refines the pool\<close>

definition pool_of :: "('s, 'm) csys_scheme \<Rightarrow> pool" where
  "pool_of s = map_option (\<lambda>cached. (cc_address cached, cc_client cached)) \<circ> map_of (kclients s)"

text \<open>An operation and a sequence of them: a client, or nothing for an error or after a release.\<close>

definition cache_step :: "'s kube \<Rightarrow> cache_op \<Rightarrow> ('s, 'm) csys_scheme \<Rightarrow> nat option outcome \<times> ('s, 'm) csys_scheme" where
  "cache_step K op s =
     (case op of
        Connect config address \<Rightarrow>
          (case clientFor K config address s of
             (Panic, s) \<Rightarrow> (Panic, s)
           | (Done (Inl err), s) \<Rightarrow> (Done None, s)
           | (Done (Inr c), s) \<Rightarrow> (Done (Some c), s))
      | Release config \<Rightarrow>
          (case closeClientFor K config s of
             (Panic, s) \<Rightarrow> (Panic, s)
           | (Done r, s) \<Rightarrow> (Done None, s)))"

fun cache_steps :: "'s kube \<Rightarrow> cache_op list \<Rightarrow> ('s, 'm) csys_scheme \<Rightarrow> nat option list outcome \<times> ('s, 'm) csys_scheme" where
  "cache_steps K [] s = (Done [], s)"
| "cache_steps K (op # ops) s =
     (case cache_step K op s of
        (Panic, s) \<Rightarrow> (Panic, s)
      | (Done r, s) \<Rightarrow>
          (case cache_steps K ops s of (Panic, s) \<Rightarrow> (Panic, s) | (Done rs, s) \<Rightarrow> (Done (r # rs), s)))"

lemma dropClient_refines:
  "\<exists>s'. dropClient K key cached s = (Done (Inr ()), s') \<and> pool_of s' = (pool_of s)(key := None) \<and>
     trace (cs_world s') = trace (cs_world s) @ [CallClose (cc_client cached)]"
proof -
  obtain x w where close: "Close K (cc_client cached) (cs_world s) = (x, w)"
    by (cases "Close K (cc_client cached) (cs_world s)")
  with perform_trace [OF close] show ?thesis
    by (auto simp: dropClient_def on_world_def pool_of_def delete_conv')
qed

lemma dialClient_refines:
  "\<exists>r s' call. dialClient K key address s = (Done r, s') \<and>
     opens key address (pool_of s) call (case r of Inl err \<Rightarrow> None | Inr c \<Rightarrow> Some c) (pool_of s') \<and>
     trace (cs_world s') = trace (cs_world s) @ [call]"
proof -
  obtain x w where dial: "Dial K address (cs_world s) = (x, w)" by (cases "Dial K address (cs_world s)")
  note t = perform_trace [OF dial]
  show ?thesis
  proof (cases x)
    case (Inl err)
    with dial t opens.refused [of key address "pool_of s"] show ?thesis
      by (simp add: dialClient_def NewClient_def on_world_def action_defs pool_of_def)
  next
    case (Inr c)
    have "pool_of (s\<lparr>cs_world := w, kclients := AList.update key \<lparr>cc_address = address, cc_client = c\<rparr> (kclients s)\<rparr>) =
        (pool_of s)(key \<mapsto> (address, c))"
      by (auto simp: pool_of_def update_conv')
    with Inr dial t opens.entered [of key address "pool_of s" c] show ?thesis
      by (simp add: dialClient_def NewClient_def on_world_def action_defs)
  qed
qed

lemma clientFor_refines:
  "\<exists>r s' cs. clientFor K config address s = (Done r, s') \<and>
     pool_step (Connect config address) (pool_of s) cs (case r of Inl err \<Rightarrow> None | Inr c \<Rightarrow> Some c) (pool_of s') \<and>
     trace (cs_world s') = trace (cs_world s) @ cs"
proof (cases "map_of (kclients s) (key_of_config config)")
  case None
  then have "pool_of s (key_of_config config) = None" by (simp add: pool_of_def)
  with dialClient_refines [of K "key_of_config config" address s] None show ?thesis
    by (auto simp: clientFor_def intro: pool_step.opened)
next
  case (Some cached)
  then have p: "pool_of s (key_of_config config) = Some (cc_address cached, cc_client cached)" by (simp add: pool_of_def)
  show ?thesis
  proof (cases "cc_address cached = address")
    case True
    with Some p show ?thesis by (auto simp: clientFor_def intro: pool_step.reused)
  next
    case False
    from dropClient_refines [of K "key_of_config config" cached s] obtain s1 where
      drop: "dropClient K (key_of_config config) cached s = (Done (Inr ()), s1)"
        "pool_of s1 = (pool_of s)(key_of_config config := None)"
        "trace (cs_world s1) = trace (cs_world s) @ [CallClose (cc_client cached)]" by blast
    from dialClient_refines [of K "key_of_config config" address s1] obtain r s' call where
      "dialClient K (key_of_config config) address s1 = (Done r, s')"
      "opens (key_of_config config) address (pool_of s1) call (case r of Inl err \<Rightarrow> None | Inr c \<Rightarrow> Some c) (pool_of s')"
      "trace (cs_world s') = trace (cs_world s1) @ [call]" by blast
    with False Some drop pool_step.moved [of "pool_of s" config "cc_address cached" "cc_client cached" address call _ "pool_of s'"] p
    show ?thesis by (simp add: clientFor_def and_then_def)
  qed
qed

lemma closeClientFor_refines:
  "\<exists>r s' cs. closeClientFor K config s = (Done r, s') \<and>
     pool_step (Release config) (pool_of s) cs None (pool_of s') \<and> trace (cs_world s') = trace (cs_world s) @ cs"
proof (cases "map_of (kclients s) (key_of_config config)")
  case None
  then show ?thesis by (auto simp: closeClientFor_def pool_of_def intro: pool_step.absent)
next
  case (Some cached)
  then have "pool_of s (key_of_config config) = Some (cc_address cached, cc_client cached)" by (simp add: pool_of_def)
  with Some dropClient_refines [of K "key_of_config config" cached s] show ?thesis
    by (auto simp: closeClientFor_def intro: pool_step.released)
qed

lemma cache_step_refines:
  "\<exists>r s' cs. cache_step K op s = (Done r, s') \<and> pool_step op (pool_of s) cs r (pool_of s') \<and>
     trace (cs_world s') = trace (cs_world s) @ cs"
proof (cases op)
  case (Connect config address)
  from clientFor_refines [of K config address s] obtain r s' cs where
    "clientFor K config address s = (Done r, s')"
    "pool_step (Connect config address) (pool_of s) cs (case r of Inl err \<Rightarrow> None | Inr c \<Rightarrow> Some c) (pool_of s')"
    "trace (cs_world s') = trace (cs_world s) @ cs" by blast
  with Connect show ?thesis by (cases r) (auto simp: cache_step_def)
next
  case (Release config)
  from closeClientFor_refines [of K config s] Release show ?thesis by (auto simp: cache_step_def)
qed

text \<open>
  C40. The cache of connections refines the pool: whatever is answered, a sequence of requests for
  clients and of releases ends without a panic, and the calls it makes, the clients it returns and
  the connections it holds at the end are those of a run of the abstract pool.
\<close>

theorem cache_refines_pool:
  "\<exists>rs s' cs. cache_steps K ops s = (Done rs, s') \<and> pool_steps ops (pool_of s) cs rs (pool_of s') \<and>
     trace (cs_world s') = trace (cs_world s) @ cs"
proof (induction ops arbitrary: s)
  case Nil
  show ?case using pool_steps.none [of "pool_of s"] by auto
next
  case (Cons op ops)
  from cache_step_refines [of K op s] obtain r s1 cs where
    1: "cache_step K op s = (Done r, s1)" "pool_step op (pool_of s) cs r (pool_of s1)"
      "trace (cs_world s1) = trace (cs_world s) @ cs" by blast
  from Cons.IH [of s1] obtain rs s' ds where
    "cache_steps K ops s1 = (Done rs, s')" "pool_steps ops (pool_of s1) ds rs (pool_of s')"
    "trace (cs_world s') = trace (cs_world s1) @ ds" by blast
  with 1 show ?case using pool_steps.more [OF 1(2)] by fastforce
qed

section \<open>The unit tests (\<^verbatim>\<open>client_cache_unit_test.go\<close>)\<close>

definition instanceOf :: "string \<Rightarrow> K8sGPT" where
  "instanceOf name = sampleK8sGPT\<lparr>k_Meta := new_meta name ''k8sgpt''\<rparr>"

definition emptyCache :: "store csys" where
  "emptyCache = \<lparr>cs_world = \<lparr>cluster = empty_store, trace = []\<rparr>, kclients = [], metricsBuilder = fst InitializeMetrics, metric_calls = []\<rparr>"

text \<open>The clients that are returned, the connections that are closed, and the entries at the end.\<close>

definition cache_test :: "cache_op list \<Rightarrow> nat option list outcome \<times> nat list \<times> string list" where
  "cache_test ops =
     (case cache_steps std_kube ops emptyCache of
        (rs, s) \<Rightarrow> (rs, closings (trace (cs_world s)), map (key_Name \<circ> fst) (kclients s)))"

lemma keeps_one_connection_per_resource:
  "cache_test [Connect (instanceOf ''a'') ''a:8080'', Connect (instanceOf ''b'') ''b:8080'', Connect (instanceOf ''a'') ''a:8080''] =
   (Done [Some 0, Some 1, Some 0], [], [''a'', ''b''])"
  by code_simp

lemma replaces_the_connection_when_the_address_changes:
  "cache_test [Connect (instanceOf ''a'') ''old:8080'', Connect (instanceOf ''a'') ''new:8080''] =
   (Done [Some 0, Some 1], [0], [''a''])"
  by code_simp

lemma releases_the_connection_and_drops_the_entry:
  "cache_test [Connect (instanceOf ''a'') ''a:8080'', Release (instanceOf ''a''), Release (instanceOf ''a''), Release (instanceOf ''never-seen'')] =
   (Done [Some 0, None, None, None], [0], [])"
  by code_simp

end
