(* ===== verification/Gate_Tests.thy ===== *)
theory Gate_Tests
  imports Image_Proposal
begin

text \<open>
  The unit tests of the policy gate (\<^verbatim>\<open>gate_test.go\<close>), read as lemmas about the model: the inputs are
  those of the tests, and each lemma states what the test expects.  The library functions are the
  concrete ones of the witnesses.
\<close>

text \<open>For evaluation: the magnitude is compared as an integer, not in unary.\<close>

lemma excess_bits_code [code]:
  "excess_bits a = (if int a < 9007199254740992 then 0 else Suc (excess_bits (a div 2)))"
  by (simp add: excess_bits.simps [of a])

section \<open>Objects\<close>

abbreviation testLib :: k8s_lib where
  "testLib \<equiv> std_lib [] []"

definition objectWith :: "string \<Rightarrow> string \<Rightarrow> (string \<times> gonum json) list \<Rightarrow> (string \<times> gonum json) list \<Rightarrow> obj" where
  "objectWith apiVersion kind meta rest =
     (''apiVersion'', JStr apiVersion) # (''kind'', JStr kind) # (''metadata'', JObj meta) # rest"

definition metaWith :: "string \<Rightarrow> string \<Rightarrow> string \<Rightarrow> string \<Rightarrow> (string \<times> gonum json) list" where
  "metaWith name namespace uid resourceVersion =
     [(''name'', JStr name), (''namespace'', JStr namespace), (''uid'', JStr uid), (''resourceVersion'', JStr resourceVersion)]"

definition testContainer :: "string \<Rightarrow> string \<Rightarrow> gonum json" where
  "testContainer name img = JObj [(''name'', JStr name), (''image'', JStr img)]"

definition checkoutObject :: "string \<Rightarrow> string \<Rightarrow> string \<Rightarrow> string \<Rightarrow> int \<Rightarrow> string \<Rightarrow> string \<Rightarrow> obj" where
  "checkoutObject apiVersion kind namespace resourceVersion replicas serviceAccountName tag =
     objectWith apiVersion kind
       (metaWith ''checkout'' namespace ''deployment-uid'' resourceVersion @ [(''labels'', JObj [(''app'', JStr ''checkout'')])])
       [(''spec'', JObj [(''replicas'', JNum (Int64 replicas)),
          (''template'', JObj [(''spec'', JObj [(''serviceAccountName'', JStr serviceAccountName),
             (''containers'', JArr [testContainer ''app'' (''registry.example/checkout:'' @ tag)])])])])]"

definition brokenCheckout :: "string \<Rightarrow> string \<Rightarrow> string \<Rightarrow> obj" where
  "brokenCheckout apiVersion kind resourceVersion = checkoutObject apiVersion kind ''shop'' resourceVersion 2 ''checkout'' ''broken''"

definition decisionOf :: "obj \<Rightarrow> obj \<Rightarrow> obj \<Rightarrow> Decision" where
  "decisionOf original live proposed =
     Evaluate testLib \<lparr>Original = Some original, Live = Some live, Proposed = Some proposed, MaxChangedPaths = 0\<rparr>"

abbreviation brokenSnapshot :: obj where
  "brokenSnapshot \<equiv> brokenCheckout ''apps/v1'' ''Deployment'' ''10''"

text \<open>A decision as the tests look at it.\<close>

definition summary :: "Decision \<Rightarrow> bool \<times> string list \<times> string list \<times> string list" where
  "summary d = (Allowed d, Reasons d, map Path (Changes d), map Op (Patch d))"

lemma allows_a_single_image_replacement:
  "summary (decisionOf brokenSnapshot brokenSnapshot (checkoutObject ''apps/v1'' ''Deployment'' ''shop'' ''10'' 2 ''checkout'' ''fixed'')) =
     (True, [], [''/spec/template/spec/containers/0/image''], [''replace''])"
  by code_simp

text \<open>The rejections of \<^verbatim>\<open>TestEvaluate\<close>, with their reasons.\<close>

lemma rejects_replicas:
  "Reasons (decisionOf brokenSnapshot brokenSnapshot (checkoutObject ''apps/v1'' ''Deployment'' ''shop'' ''10'' 3 ''checkout'' ''broken'')) =
     [''path is not allowlisted: /spec/replicas'']"
  by code_simp

lemma rejects_service_account:
  "Reasons (decisionOf brokenSnapshot brokenSnapshot (checkoutObject ''apps/v1'' ''Deployment'' ''shop'' ''10'' 2 ''admin'' ''broken'')) =
     [''high-risk path is forbidden: /spec/template/spec/serviceAccountName'']"
  by code_simp

lemma rejects_stale_resource_version:
  "Reasons (decisionOf brokenSnapshot (brokenCheckout ''apps/v1'' ''Deployment'' ''11'')
     (checkoutObject ''apps/v1'' ''Deployment'' ''shop'' ''10'' 2 ''checkout'' ''fixed'')) =
     [''live object resourceVersion does not match the proposal snapshot'']"
  by code_simp

lemma rejects_cross_namespace:
  "Reasons (decisionOf brokenSnapshot brokenSnapshot (checkoutObject ''apps/v1'' ''Deployment'' ''other'' ''10'' 2 ''checkout'' ''fixed'')) =
     [''proposed object must exactly match target apiVersion, kind, namespace, and name'']"
  by code_simp

lemma rejects_multiple_changes:
  "Reasons (decisionOf brokenSnapshot brokenSnapshot (checkoutObject ''apps/v1'' ''Deployment'' ''shop'' ''10'' 3 ''checkout'' ''fixed'')) =
     [''proposal changes 2 paths; maximum is 1'']"
  by code_simp

lemma rejects_no_op: "Reasons (decisionOf brokenSnapshot brokenSnapshot brokenSnapshot) = [''proposal makes no semantic change'']"
  by code_simp

lemma rejects_unsupported_resource:
  "Reasons (decisionOf (brokenCheckout ''v1'' ''Service'' ''10'') (brokenCheckout ''v1'' ''Service'' ''10'') (brokenCheckout ''v1'' ''Service'' ''10'')) =
     [''no remediation policy registered for GVK /v1, Kind=Service; set core.k8sgpt.ai/auto-remediation-allowed-paths to explicit JSON Pointer paths'']"
  by code_simp

lemma rejects_unregistered_version:
  "Reasons (decisionOf (brokenCheckout ''apps/v2'' ''Deployment'' ''10'') (brokenCheckout ''apps/v2'' ''Deployment'' ''10'')
     (checkoutObject ''apps/v2'' ''Deployment'' ''shop'' ''10'' 2 ''checkout'' ''fixed'')) =
     [''no remediation policy registered for GVK apps/v2, Kind=Deployment; set core.k8sgpt.ai/auto-remediation-allowed-paths to explicit JSON Pointer paths'']"
  by code_simp

lemma rejects_other_resource_version:
  "Reasons (decisionOf brokenSnapshot brokenSnapshot (checkoutObject ''apps/v1'' ''Deployment'' ''shop'' ''9'' 2 ''checkout'' ''fixed'')) =
     [''proposed object resourceVersion does not match target'']"
  by code_simp

text \<open>\<^verbatim>\<open>TestEvaluateAllowsRegisteredWorkloadImagePaths\<close>.\<close>

definition repairableWorkload :: "string \<Rightarrow> string \<Rightarrow> bool \<Rightarrow> string \<Rightarrow> obj" where
  "repairableWorkload apiVersion kind nested img =
     (let repairablePod = JObj [(''spec'', JObj [(''containers'', JArr [testContainer ''app'' img])])] in
      objectWith apiVersion kind (metaWith ''repairable'' ''shop'' ''uid'' ''1'')
        [(''spec'', JObj (if nested then [(''jobTemplate'', JObj [(''spec'', JObj [(''template'', repairablePod)])])]
                          else [(''template'', repairablePod)]))])"

definition repairable :: "string \<Rightarrow> string \<Rightarrow> bool \<Rightarrow> bool" where
  "repairable apiVersion kind nested =
     Allowed (decisionOf (repairableWorkload apiVersion kind nested ''example/app:bad'') (repairableWorkload apiVersion kind nested ''example/app:bad'')
       (repairableWorkload apiVersion kind nested ''example/app:good''))"

lemma allows_registered_workloads:
  "repairable ''apps/v1'' ''DaemonSet'' False" "repairable ''apps/v1'' ''StatefulSet'' False"
  "repairable ''apps/v1'' ''ReplicaSet'' False" "repairable ''batch/v1'' ''Job'' False" "repairable ''batch/v1'' ''CronJob'' True"
  by code_simp+

lemma registered_gvks:
  "map (\<lambda>g. (Group g, Version g, Kind g)) (RegisteredGVKs testLib) =
     [('''', ''v1'', ''Pod''), (''apps'', ''v1'', ''DaemonSet''), (''apps'', ''v1'', ''Deployment''), (''apps'', ''v1'', ''ReplicaSet''),
      (''apps'', ''v1'', ''StatefulSet''), (''batch'', ''v1'', ''CronJob''), (''batch'', ''v1'', ''Job'')]"
  by code_simp

lemma allows_explicit_opt_in:
  "map OpPath (Patch (Evaluate testLib (sampleConfigInput ''debug''))) = [''/data/log-level'']"
  by code_simp

text \<open>\<^verbatim>\<open>TestEvaluatePodImageAndMaxPathBound\<close> and \<^verbatim>\<open>TestEvaluateRejectsOwnedPod\<close>.\<close>

definition repairablePod :: "(string \<times> gonum json) list \<Rightarrow> string \<Rightarrow> obj" where
  "repairablePod owners tag =
     objectWith ''v1'' ''Pod'' (metaWith ''repairable'' ''shop'' ''pod-uid'' ''7'' @ owners)
       [(''spec'', JObj [(''containers'', JArr [testContainer ''app'' (''example/app:'' @ tag)]),
          (''initContainers'', JArr [testContainer ''init'' (''example/init:'' @ tag)])])]"

definition pod_decision :: "int \<Rightarrow> Decision" where
  "pod_decision limit =
     Evaluate testLib \<lparr>Original = Some (repairablePod [] ''bad''), Live = Some (repairablePod [] ''bad''), Proposed = Some (repairablePod [] ''good''), MaxChangedPaths = limit\<rparr>"

lemma pod_bound:
  "Reasons (pod_decision 0) = [''proposal changes 2 paths; maximum is 1'']"
  "summary (pod_decision 2) =
     (True, [], [''/spec/containers/0/image'', ''/spec/initContainers/0/image''], [''replace'', ''replace''])"
  by code_simp+

definition ownedBy :: "(string \<times> gonum json) list" where
  "ownedBy = [(''ownerReferences'', JArr [JObj [(''apiVersion'', JStr ''apps/v1''), (''kind'', JStr ''ReplicaSet''),
     (''name'', JStr ''managed-abc''), (''uid'', JStr ''owner-uid'')]])]"

lemma rejects_owned_pod:
  "Reasons (decisionOf (repairablePod ownedBy ''bad'') (repairablePod ownedBy ''bad'') (repairablePod ownedBy ''good'')) =
     [''owned Pods are not remediated directly; target the owning workload instead'']"
  by code_simp

end
