(* ===== verification/Conversion_Tests.thy ===== *)
theory Conversion_Tests
  imports Execution Gate_Tests
begin

text \<open>
  The unit tests of \<^verbatim>\<open>internal/controller/conversions\<close> and of the image proposal, read as lemmas
  about the model: the objects in the cluster, the selectors and the findings are those of the
  tests, and each lemma states what the test expects.
\<close>

section \<open>From findings to eligible resources (\<^verbatim>\<open>to_eligible_resource_test.go\<close>)\<close>

definition clusterObject :: "string \<Rightarrow> string \<Rightarrow> string \<Rightarrow> string \<Rightarrow> (string \<times> string \<times> string) list \<Rightarrow> obj" where
  "clusterObject apiVersion kind namespace name owners =
     [(''apiVersion'', JStr apiVersion), (''kind'', JStr kind),
      (''metadata'', JObj ((''name'', JStr name) # (if namespace = '''' then [] else [(''namespace'', JStr namespace)]) @
         [(''ownerReferences'', JArr (map (\<lambda>(v, k, n). JObj [(''apiVersion'', JStr v), (''kind'', JStr k),
            (''name'', JStr n), (''controller'', JBool True)]) owners))]))]"

definition storeOf :: "obj list \<Rightarrow> store" where
  "storeOf objects = empty_store\<lparr>s_objects := map (\<lambda>m. (object_slot m, m)) objects\<rparr>"

definition referenceOf :: "Result \<Rightarrow> object_reference go_result" where
  "referenceOf item =
     Inr \<lparr>or_Kind = ''Result'', or_Namespace = om_Namespace (res_Meta item), or_Name = om_Name (res_Meta item), or_UID = '''',
       or_APIVersion = ''core.k8sgpt.ai/v1alpha1'', or_ResourceVersion = ''''\<rparr>"

definition findingOf :: "string \<Rightarrow> string \<Rightarrow> ResultTargetReference option \<Rightarrow> Result" where
  "findingOf kind name target =
     (sampleResult kind name)\<lparr>res_Spec := (res_Spec (sampleResult kind name))\<lparr>rs_TargetRef := target\<rparr>\<rparr>"

definition targetOf :: "string \<Rightarrow> string \<Rightarrow> string \<Rightarrow> string \<Rightarrow> ResultTargetReference option" where
  "targetOf apiVersion kind namespace name =
     Some \<lparr>tg_APIVersion = apiVersion, tg_Kind = kind, tg_Namespace = namespace, tg_Name = name,
       tg_UID = '''', tg_ResourceVersion = ''''\<rparr>"

text \<open>The API version, kind, namespace and name of each eligible resource.\<close>

definition eligibleOf :: "string list \<Rightarrow> obj list \<Rightarrow> Result list \<Rightarrow> (string \<times> string \<times> string \<times> string) list" where
  "eligibleOf resources objects items =
     map (\<lambda>r. (or_APIVersion (er_ObjectRef r), or_Kind (er_ObjectRef r), or_Namespace (er_ObjectRef r), or_Name (er_ObjectRef r)))
       (fst (ResultsToEligibleResources (std_lib (map (Pair ''document'') objects) []) std_kube referenceOf
          (Some (sampleK8sGPT resources)) items \<lparr>cluster = storeOf objects, trace = []\<rparr>))"

abbreviation somePod :: obj where
  "somePod \<equiv> clusterObject ''v1'' ''Pod'' ''default'' ''pod'' []"

abbreviation someDeployment :: obj where
  "someDeployment \<equiv> clusterObject ''apps/v1'' ''Deployment'' ''default'' ''deployment'' []"

abbreviation someSettings :: obj where
  "someSettings \<equiv> clusterObject ''v1'' ''ConfigMap'' ''default'' ''settings'' []"


lemma only_configured_kinds:
  "eligibleOf [''Pod''] [somePod, someDeployment]
     [findingOf ''Pod'' ''default/pod'' None, findingOf ''Deployment'' ''default/deployment'' None] =
   [(''v1'', ''Pod'', ''default'', ''pod'')]"
  by code_simp

lemma exact_configured_kind: "eligibleOf [''Pods''] [somePod] [findingOf ''Pod'' ''default/pod'' None] = []"
  by code_simp

lemma pod_resolves_to_deployment:
  "eligibleOf [''Deployment'']
     [clusterObject ''apps/v1'' ''Deployment'' ''default'' ''checkout'' [],
      clusterObject ''apps/v1'' ''ReplicaSet'' ''default'' ''checkout-abc'' [(''apps/v1'', ''Deployment'', ''checkout'')],
      clusterObject ''v1'' ''Pod'' ''default'' ''checkout-abc-123'' [(''apps/v1'', ''ReplicaSet'', ''checkout-abc'')]]
     [findingOf ''Pod'' ''default/checkout-abc-123'' None] =
   [(''apps/v1'', ''Deployment'', ''default'', ''checkout'')]"
  by code_simp

lemma malformed_names:
  "eligibleOf [''Pod''] [] (map (\<lambda>n. findingOf ''Pod'' n None) ['''', ''pod'', ''default/pod/extra'']) = []"
  by code_simp

lemma unsupported_kind:
  "eligibleOf [''Service''] [clusterObject ''v1'' ''Service'' ''default'' ''service'' []]
     [findingOf ''Service'' ''default/service'' None] = []"
  by code_simp

lemma qualified_target:
  "eligibleOf [''v1/ConfigMap''] [someSettings]
     [findingOf ''ConfigMap'' ''ignored/legacy'' (targetOf ''v1'' ''ConfigMap'' ''default'' ''settings'')] =
   [(''v1'', ''ConfigMap'', ''default'', ''settings'')]"
  by code_simp

lemma legacy_unique_selector:
  "eligibleOf [''v1/ConfigMap''] [someSettings] [findingOf ''ConfigMap'' ''default/settings'' None] =
   [(''v1'', ''ConfigMap'', ''default'', ''settings'')]"
  by code_simp

lemma legacy_ambiguous_selectors:
  "eligibleOf [''v1/ConfigMap'', ''example.io/v1/ConfigMap''] [someSettings]
     [findingOf ''ConfigMap'' ''default/settings'' None] = []"
  by code_simp

lemma cluster_scoped_target:
  "eligibleOf [''v1/Namespace''] [clusterObject ''v1'' ''Namespace'' '''' ''production'' []]
     [findingOf ''Namespace'' ''not/a-valid-target'' (targetOf ''v1'' ''Namespace'' '''' ''production'')] =
   [(''v1'', ''Namespace'', '''', ''production'')]"
  by code_simp

lemma enabled_selectors:
  "map (\<lambda>kind. AutoRemediationResourceEnabled (std_lib [] [])
       (Some (sampleK8sGPT [''Deployment'', ''apps/StatefulSet'', ''apps/v1/DaemonSet'']))
       \<lparr>Group = ''apps'', Version = ''v1'', Kind = kind\<rparr>)
     [''Deployment'', ''StatefulSet'', ''DaemonSet'', ''ReplicaSet''] = [True, True, True, False]"
  by code_simp

section \<open>Execution (\<^verbatim>\<open>object_to_execution_test.go\<close>)\<close>

definition checkoutDeployment :: "int \<Rightarrow> string \<Rightarrow> obj" where
  "checkoutDeployment replicas tag =
     [(''apiVersion'', JStr ''apps/v1''), (''kind'', JStr ''Deployment''),
      (''metadata'', JObj [(''name'', JStr ''checkout''), (''namespace'', JStr ''shop''), (''uid'', JStr ''checkout-uid''),
         (''resourceVersion'', JStr ''1'')]),
      (''spec'', JObj [(''replicas'', JNum (Int64 replicas)), (''template'', JObj [(''spec'',
         JObj [(''containers'', JArr [JObj [(''name'', JStr ''app''),
           (''image'', JStr (''registry.example/checkout:'' @ tag))]])])])])]"

text \<open>
  Executing a proposal for the checkout Deployment: whether it is requeued, the image in the cluster
  afterwards, and the phase, decision and number of changed paths of the stored mutation.
\<close>

definition executed :: "obj \<Rightarrow> bool \<times> gonum json option \<times> (AutoRemediationPhase \<times> string \<times> nat) list" where
  "executed proposed =
     (let live = checkoutDeployment 2 ''broken'';
          L = std_lib [(''origin'', live)] [];
          mutation = sampleMutation PhaseInProgress '''';
          config = \<lparr>oec_Obj = Unstructured proposed,
            oec_Mutation = mutation\<lparr>mu_Spec := (mu_Spec mutation)\<lparr>ms_OriginConfiguration := ''origin''\<rparr>\<rparr>\<rparr>
      in case ResourceToExecution L std_kube config \<lparr>cluster = storeOf [live], trace = []\<rparr> of
           (r, w) \<Rightarrow>
             (case r of Done (q, err) \<Rightarrow> RequeueAfter q \<noteq> 0 | Panic \<Rightarrow> False,
              (case map_of (s_objects (cluster w)) (object_slot live) of
                 None \<Rightarrow> None
               | Some m \<Rightarrow> (case val_at_path (JObj m) [''spec'', ''template'', ''spec'', ''containers''] of
                   Some (JArr [JObj c]) \<Rightarrow> map_of c ''image'' | _ \<Rightarrow> None)),
              map (\<lambda>(k, m). (mt_Phase (mu_Status m), mt_PolicyDecision (mu_Status m), length (mt_ChangedPaths (mu_Status m))))
                (s_mutations (cluster w))))"

lemma executes_approved_patch:
  "executed (checkoutDeployment 2 ''fixed'') =
   (True, Some (JStr ''registry.example/checkout:fixed''), [(PhaseCompleted, ''approved'', 1)])"
  by code_simp

lemma aborts_forbidden_change:
  "executed (checkoutDeployment 3 ''fixed'') =
   (False, Some (JStr ''registry.example/checkout:broken''), [(PhaseAborted, ''rejected'', 2)])"
  by code_simp

section \<open>The image proposal (\<^verbatim>\<open>image_proposal_test.go\<close>)\<close>

definition checkoutWorkload :: "string \<Rightarrow> obj" where
  "checkoutWorkload img =
     [(''apiVersion'', JStr ''apps/v1''), (''kind'', JStr ''Deployment''),
      (''metadata'', JObj [(''name'', JStr ''checkout''), (''namespace'', JStr ''shop'')]),
      (''spec'', JObj [(''template'', JObj [(''spec'', JObj [(''containers'', JArr
         [JObj [(''name'', JStr ''app''), (''image'', JStr img)],
          JObj [(''name'', JStr ''sidecar''), (''image'', JStr ''busybox:1'')]])])])])]"

text \<open>The document of an image is the workload that has it in its first container.\<close>

definition proposedDocument :: "string \<Rightarrow> image_selection \<Rightarrow> string go_result" where
  "proposedDocument answer selection =
     (let docs = map (\<lambda>s. (s, checkoutWorkload s)) [''nginxxx'', ''nginx:latest''] in
      imageSelectionProposal (std_lib docs [(answer, selection)]) ''nginxxx'' answer)"

lemma proposal_changes_named_container:
  "proposedDocument ''answer'' \<lparr>sel_Container = ''app'', sel_Image = ''nginx:latest''\<rparr> = Inr ''nginx:latest''"
  by code_simp

lemma proposal_rejects_unknown_container:
  "isl (proposedDocument ''answer'' \<lparr>sel_Container = ''other'', sel_Image = ''nginx:latest''\<rparr>)"
  by code_simp

end
