(* ===== verification/Mutation_Tests.thy ===== *)
theory Mutation_Tests
  imports Conversion_Tests Mutation_Controller
begin

text \<open>
  The system test of the mutation controller (\<^verbatim>\<open>mutation_e2e_test.go\<close>) as evaluated lemmas: a broken
  Deployment and its finding go through three reconciliations, and the Deployment is repaired.  The
  cluster is the concrete one of the witnesses, the server answers with the manifest of the proposal.
\<close>

section \<open>The cluster of the test\<close>

definition checkoutManifest :: "string \<Rightarrow> obj" where
  "checkoutManifest tag =
     [(''apiVersion'', JStr ''apps/v1''), (''kind'', JStr ''Deployment''),
      (''metadata'', JObj [(''name'', JStr ''checkout''), (''namespace'', JStr ''shop''), (''uid'', JStr ''checkout-uid''),
         (''resourceVersion'', JStr ''1'')]),
      (''spec'', JObj [(''template'', JObj [(''spec'', JObj [(''containers'', JArr [JObj [(''name'', JStr ''app''),
         (''image'', JStr (''registry.example/checkout:'' @ tag))]])])])])]"

definition mutationKey :: object_key where
  "mutationKey = \<lparr>key_Namespace = ''shop'', key_Name = ''checkout-image-fix''\<rparr>"

definition resultRef :: object_reference where
  "resultRef = \<lparr>or_Kind = ''Result'', or_Namespace = ''shop'', or_Name = ''checkout-image-pull'', or_UID = '''',
     or_APIVersion = ''core.k8sgpt.ai/v1alpha1'', or_ResourceVersion = ''''\<rparr>"

definition checkoutRef :: object_reference where
  "checkoutRef = \<lparr>or_Kind = ''Deployment'', or_Namespace = ''shop'', or_Name = ''checkout'', or_UID = ''checkout-uid'',
     or_APIVersion = ''apps/v1'', or_ResourceVersion = ''1''\<rparr>"

definition imageFix :: Mutation where
  "imageFix =
     \<lparr>mu_Meta = new_meta ''checkout-image-fix'' ''shop'',
      mu_Spec = \<lparr>ms_SimilarityScore = '''', ms_ResourceGVK = ''apps/v1'', ms_ResourceRef = checkoutRef,
        ms_ResultRef = resultRef, ms_OriginConfiguration = ''origin'', ms_TargetConfiguration = ''''\<rparr>,
      mu_Status = \<lparr>mt_Phase = PhaseNotStarted, mt_Message = '''', mt_PolicyDecision = '''', mt_ChangedPaths = [],
        mt_AppliedAt = None\<rparr>\<rparr>"

definition testManifests :: k8s_lib where
  "testManifests = std_lib [(''origin'', checkoutManifest ''missing''), (''proposal'', checkoutManifest ''fixed'')] []"

definition testCluster :: store where
  "testCluster = (storeOf [checkoutManifest ''missing''])
     \<lparr>s_results := [(\<lparr>key_Namespace = ''shop'', key_Name = ''checkout-image-pull''\<rparr>, sampleResult ''Deployment'' ''shop/checkout'')],
      s_mutations := [(mutationKey, imageFix)], s_answer := Some ''proposal''\<rparr>"

text \<open>
  One reconciliation, by a reconciler that has its client.  The distance of two documents is that of
  documents without a common character.
\<close>

definition reconciled :: "store \<Rightarrow> store" where
  "reconciled s =
     cluster (snd (snd (Reconcile testManifests std_kube (\<lambda>a b. max (length a) (length b)) sampleCells sampleCells sampleReconciler mutationKey
       \<lparr>cluster = s, trace = []\<rparr>)))"

text \<open>The controller of Deployments rolls out, and then the finding is deleted.\<close>

definition withRollout :: "store \<Rightarrow> store" where
  "withRollout s =
     s\<lparr>s_objects := map (\<lambda>(k, m). (k, m @ [(''status'', JObj [(''observedGeneration'', JNum (Int64 1)),
          (''availableReplicas'', JNum (Int64 1))])])) (s_objects s)\<rparr>"

definition withResolution :: "store \<Rightarrow> store" where
  "withResolution s = s\<lparr>s_results := []\<rparr>"

definition phaseIn :: "store \<Rightarrow> AutoRemediationPhase option" where
  "phaseIn s = map_option (mt_Phase \<circ> mu_Status) (map_of (s_mutations s) mutationKey)"

definition imagesIn :: "store \<Rightarrow> gonum json list" where
  "imagesIn s = concat (map (\<lambda>(k, m).
     case val_at_path (JObj m) [''spec'', ''template'', ''spec'', ''containers''] of
       Some (JArr [JObj c]) \<Rightarrow> (case map_of c ''image'' of None \<Rightarrow> [] | Some i \<Rightarrow> [i])
     | _ \<Rightarrow> []) (s_objects s))"

section \<open>The run\<close>

text \<open>What the test looks at after each step; each state is computed once.\<close>

definition observe :: "store \<Rightarrow> AutoRemediationPhase option \<times> gonum json list" where
  "observe s = (phaseIn s, imagesIn s)"

definition after_execution :: "store \<Rightarrow> (AutoRemediationPhase option \<times> gonum json list) \<times> AutoRemediationPhase option \<times> AutoRemediationPhase option" where
  "after_execution s = (observe s, phaseIn (reconciled (withResolution (withRollout s))), phaseIn (reconciled (withRollout s)))"

definition after_proposal :: "store \<Rightarrow> (AutoRemediationPhase option \<times> gonum json list) \<times>
    (AutoRemediationPhase option \<times> gonum json list) \<times> AutoRemediationPhase option \<times> AutoRemediationPhase option" where
  "after_proposal s = (observe s, after_execution (reconciled s))"

text \<open>
  The first reconciliation proposes, the second executes; the third ends the remediation when the
  Deployment has rolled out and the finding is gone, and waits while the finding is still there.
\<close>

lemma remediation_run:
  "after_proposal (reconciled testCluster) =
     ((Some PhaseInProgress, [JStr ''registry.example/checkout:missing'']),
      (Some PhaseCompleted, [JStr ''registry.example/checkout:fixed'']),
      Some PhaseSuccessful, Some PhasePending)"
  by code_simp

end
