(* ===== verification/Deployment_Tests.thy ===== *)
theory Deployment_Tests
  imports K8sGPT_Controller
begin

text \<open>
  The unit tests of \<^verbatim>\<open>pkg/resources\<close>, of \<^verbatim>\<open>internal/controller/util\<close> and of the counting of findings,
  read as lemmas about the model: each has the inputs of the test and states what the test expects.
  The three tests of \<^verbatim>\<open>k8sgpt_test_default_version.go\<close>, which the build compiles into the operator
  (the name of the file does not end in \<^verbatim>\<open>_test.go\<close>, so they are never run), are definitions,
  and the lemmas show that they pass whatever the environment and the cluster.
\<close>

section \<open>The default version\<close>

text \<open>The zero values that a composite literal leaves in the fields it does not name.\<close>

definition zeroAISpec :: AISpec where
  "zeroAISpec =
     \<lparr>ai_AutoRemediation = \<lparr>ar_Enabled = False, ar_SimilarityRequirement = '''', ar_Resources = []\<rparr>,
      ai_Backend = '''', ai_BackOff = None, ai_BaseUrl = '''', ai_Region = '''', ai_AzureAPIType = '''',
      ai_Model = '''', ai_Engine = '''', ai_Secret = None, ai_Enabled = False, ai_Anonymize = None,
      ai_Language = '''', ai_ProxyEndpoint = '''', ai_ProviderId = '''', ai_MaxTokens = '''', ai_Topk = '''',
      ai_CustomHeaders = ''''\<rparr>"

definition zeroK8sGPTSpec :: K8sGPTSpec where
  "zeroK8sGPTSpec =
     \<lparr>sp_Version = '''', sp_Repository = '''', sp_ImagePullPolicy = '''', sp_ImagePullSecrets = [],
      sp_Resources = None, sp_NoCache = False, sp_CustomAnalyzers = None, sp_Filters = [],
      sp_ExtraOptions = None, sp_Sink = None, sp_AI = None, sp_RemoteCache = None, sp_Integrations = None,
      sp_NodeSelector = [], sp_Tolerations = [], sp_TargetNamespace = '''', sp_Analysis = None,
      sp_Kubeconfig = None, sp_DeploymentLabels = [], sp_DeploymentAnnotations = [], sp_PodLabels = [],
      sp_PodAnnotations = [], sp_SecurityContext = None, sp_ContainerSecurityContext = None\<rparr>"

definition testK8sGPT :: "string \<Rightarrow> string \<Rightarrow> string \<Rightarrow> K8sGPTSpec \<Rightarrow> K8sGPT" where
  "testK8sGPT kind apiVersion namespace spec =
     \<lparr>k_Kind = kind, k_APIVersion = apiVersion,
      k_Meta = (new_meta ''test-k8sgpt'' namespace)\<lparr>om_UID := ''test-uid''\<rparr>, k_Spec = spec,
      k_Status = \<lparr>st_LastAnalysisError = '''', st_LastAnalysisErrorTime = None\<rparr>\<rparr>"

definition defaultVersionConfig :: "string \<Rightarrow> K8sGPT" where
  "defaultVersionConfig version =
     testK8sGPT ''K8sGPT'' ''core.k8sgpt.ai/v1alpha1'' ''test-namespace''
       (zeroK8sGPTSpec\<lparr>sp_Repository := ''ghcr.io/k8sgpt-ai/k8sgpt'', sp_Version := version,
          sp_AI := Some (zeroAISpec\<lparr>ai_Backend := ''openai'', ai_Model := ''gpt-4''\<rparr>)\<rparr>)"

text \<open>
  A test passes when \<^verbatim>\<open>GetDeployment\<close> returns a Deployment, without error or panic, and the
  assertions hold of its first container (an empty list of containers panics).
\<close>

definition passes :: "(Deployment, 's world) action \<Rightarrow> (Container \<Rightarrow> bool) \<Rightarrow> 's world \<Rightarrow> bool" where
  "passes deployment assertions w =
     (case deployment w of
        (Done (Inr d), w') \<Rightarrow> (case containers_of d of [] \<Rightarrow> False | c # cs \<Rightarrow> assertions c)
      | _ \<Rightarrow> False)"

definition Test_GetDeploymentWithDefaultVersion :: "host \<Rightarrow> 's kube \<Rightarrow> 's world \<Rightarrow> bool" where
  "Test_GetDeploymentWithDefaultVersion H fakeClient =
     passes (GetDeployment H fakeClient (defaultVersionConfig '''') False ''test-sa'')
       (\<lambda>c. c_Image c = ''ghcr.io/k8sgpt-ai/k8sgpt:latest'')"

definition Test_GetDeploymentWithExplicitVersion :: "host \<Rightarrow> 's kube \<Rightarrow> 's world \<Rightarrow> bool" where
  "Test_GetDeploymentWithExplicitVersion H fakeClient =
     passes (GetDeployment H fakeClient (defaultVersionConfig ''v0.4.27'') False ''test-sa'')
       (\<lambda>c. c_Image c = ''ghcr.io/k8sgpt-ai/k8sgpt:v0.4.27'')"

text \<open>Indexing a map of strings gives the empty string for a missing key.\<close>

definition textAt :: "str_map \<Rightarrow> string \<Rightarrow> string" where
  "textAt m key = (case map_of m key of None \<Rightarrow> '''' | Some v \<Rightarrow> v)"

text \<open>The map of the values by name: a later variable overwrites an earlier one of its name.\<close>

definition envValue :: "env_source \<Rightarrow> string" where
  "envValue source = (case source of Literal v \<Rightarrow> v | SecretKeyRef name key \<Rightarrow> '''')"

definition envMap :: "EnvVar list \<Rightarrow> str_map" where
  "envMap = foldl (\<lambda>env variable. AList.update (ev_Name variable) (envValue (ev_Source variable)) env) []"

definition deepSeekConfig :: K8sGPT where
  "deepSeekConfig =
     testK8sGPT '''' '''' ''test-namespace''
       (zeroK8sGPTSpec\<lparr>sp_Repository := ''ghcr.io/k8sgpt-ai/k8sgpt'', sp_Version := ''v0.4.1'',
          sp_AI := Some (zeroAISpec\<lparr>ai_Backend := DeepSeek, ai_Model := ''deepseek-v4-flash''\<rparr>)\<rparr>)"

definition Test_GetDeploymentWithDeepSeekUsesOpenAICompatibleConfiguration ::
  "host \<Rightarrow> 's kube \<Rightarrow> 's world \<Rightarrow> bool" where
  "Test_GetDeploymentWithDeepSeekUsesOpenAICompatibleConfiguration H fakeClient =
     passes (GetDeployment H fakeClient deepSeekConfig False ''test-sa'')
       (\<lambda>c. (let env = envMap (c_Env c) in
         textAt env ''K8SGPT_BACKEND'' = OpenAI \<and> textAt env ''K8SGPT_BASEURL'' = DeepSeekBaseURL))"

text \<open>
  None of these configurations names a secret, so the Deployment is computed without a call, and
  evaluation decides the tests for every environment \<^term>\<open>H\<close> and cluster \<^term>\<open>K\<close>.
\<close>

theorem default_version_tests_pass:
  "Test_GetDeploymentWithDefaultVersion H K w \<and> Test_GetDeploymentWithExplicitVersion H K w \<and>
   Test_GetDeploymentWithDeepSeekUsesOpenAICompatibleConfiguration H K w"
proof (intro conjI)
  show "Test_GetDeploymentWithDefaultVersion H K w" by code_simp
  show "Test_GetDeploymentWithExplicitVersion H K w" by code_simp
  show "Test_GetDeploymentWithDeepSeekUsesOpenAICompatibleConfiguration H K w" by code_simp
qed

section \<open>Dynamic RBAC (\<^verbatim>\<open>k8sgpt_rbac_test.go\<close>)\<close>

definition hostWith :: "string option \<Rightarrow> host" where
  "hostWith dynamicRBAC = sampleHost\<lparr>LookupEnv := (\<lambda>name. if name = dynamicRBACEnvVar then dynamicRBAC else None)\<rparr>"

lemma dynamicRBAC_values:
  "dynamicRBACEnabled (hostWith None)" "dynamicRBACEnabled (hostWith (Some ''true''))"
  "dynamicRBACEnabled (hostWith (Some ''1''))" "dynamicRBACEnabled (hostWith (Some ''notabool''))"
  "dynamicRBACEnabled (hostWith (Some ''''))"
  "\<not> dynamicRBACEnabled (hostWith (Some ''false''))" "\<not> dynamicRBACEnabled (hostWith (Some ''0''))"
  by code_simp+

definition newTestConfig :: "string \<Rightarrow> AISpec \<Rightarrow> K8sGPTSpec \<Rightarrow> K8sGPT" where
  "newTestConfig namespace ai spec =
     testK8sGPT ''K8sGPT'' ''core.k8sgpt.ai/v1alpha1'' namespace
       (spec\<lparr>sp_Repository := ''ghcr.io/k8sgpt-ai/k8sgpt'', sp_Version := ''v0.4.1'', sp_ImagePullPolicy := ''Always'',
          sp_AI := Some (ai\<lparr>ai_Model := ''gpt-4o-mini'', ai_MaxTokens := ''2048'', ai_Topk := ''50''\<rparr>)\<rparr>)"

definition openAISpec :: AISpec where
  "openAISpec = zeroAISpec\<lparr>ai_Backend := OpenAI\<rparr>"

text \<open>The cluster after the synchronisations, provided that none of them fails.\<close>

definition synced :: "string option \<Rightarrow> SyncOrDestroy list \<Rightarrow> store option" where
  "synced dynamicRBAC is =
     (case for_each (\<lambda>i. Sync (hostWith dynamicRBAC) std_kube (newTestConfig ''test-ns'' openAISpec zeroK8sGPTSpec) i) is
             \<lparr>cluster = empty_store, trace = []\<rparr> of
        (Done (Inr u), w) \<Rightarrow> Some (cluster w)
      | _ \<Rightarrow> None)"

definition objectNames :: "store \<Rightarrow> string list" where
  "objectNames s = map (\<lambda>((key, slot), x). key_Name key) (s_children s)"

definition serviceAccounts :: "store \<Rightarrow> string list" where
  "serviceAccounts s =
     concat (map (\<lambda>(k, x). case x of TheDeployment d \<Rightarrow> [ps_ServiceAccountName (pod_of d)] | _ \<Rightarrow> []) (s_children s))"

definition contents :: "store \<Rightarrow> string list \<times> string list" where
  "contents s = (objectNames s, serviceAccounts s)"

lemma sync_creates_rbac:
  "map_option contents (synced None [SyncOp]) =
     Some ([''k8sgpt-test-ns'', ''test-k8sgpt'', ''test-k8sgpt'', ''k8sgpt-test-ns-clusterrole'',
       ''k8sgpt-test-ns-clusterrole-binding''], [''k8sgpt-test-ns''])"
  by code_simp

lemma sync_skips_rbac:
  "map_option contents (synced (Some ''false'') [SyncOp]) = Some ([''test-k8sgpt'', ''test-k8sgpt''], [defaultServiceAccountName])"
  by code_simp

lemma sync_destroys:
  "map_option objectNames (synced None [SyncOp, DestroyOp]) = Some []"
  "map_option objectNames (synced (Some ''false'') [SyncOp, DestroyOp]) = Some []"
  by code_simp+

lemma rbac_objects:
  "om_Name (sa_Meta (GetServiceAccount (newTestConfig ns ai spec) ''my-sa'')) = ''my-sa''"
  "om_Namespace (sa_Meta (GetServiceAccount (newTestConfig ns ai spec) ''my-sa'')) = ns"
  "map own_Name (om_OwnerReferences (sa_Meta (GetServiceAccount (newTestConfig ns ai spec) ''my-sa''))) = [''test-k8sgpt'']"
  "ss_Ports (svc_Spec (GetService (newTestConfig ns ai spec))) = [8080]"
  by (simp_all add: GetServiceAccount_def GetService_def newTestConfig_def testK8sGPT_def new_meta_def Deployment.ownerOf_def)

section \<open>The Deployment (\<^verbatim>\<open>k8sgpt_test.go\<close>)\<close>

text \<open>The kubeconfig and the IAM role of the service account decide the service account of the pod.\<close>

definition serviceAccountOf :: "string \<Rightarrow> bool \<Rightarrow> bool \<Rightarrow> string option" where
  "serviceAccountOf backend hasKubeconfig hasIRSA =
     (let config = newTestConfig ''test-namespace''
          (zeroAISpec\<lparr>ai_Backend := backend, ai_Region := (if backend = AmazonBedrock then ''us-east-1'' else '''')\<rparr>)
          (zeroK8sGPTSpec
             \<lparr>sp_Kubeconfig := (if hasKubeconfig then Some \<lparr>sr_Name = ''test-kubeconfig-secret'', sr_Key = ''kubeconfig''\<rparr> else None),
              sp_ExtraOptions := (if hasIRSA then Some \<lparr>eo_Backstage = None,
                eo_ServiceAccountIRSA = ''arn:aws:iam::123456789012:role/test-role''\<rparr> else None)\<rparr>)
      in case fst (GetDeployment sampleHost std_kube config hasKubeconfig ''test-sa'' \<lparr>cluster = empty_store, trace = []\<rparr>) of
           Done (Inr d) \<Rightarrow> Some (ps_ServiceAccountName (pod_of d)) | _ \<Rightarrow> None)"

lemma kubeconfig_and_IRSA:
  "serviceAccountOf OpenAI False False = Some ''test-sa''"
  "serviceAccountOf OpenAI True False = Some ''''"
  "serviceAccountOf OpenAI True True = Some ''''"
  "serviceAccountOf AmazonBedrock True True = Some ''test-sa''"
  "serviceAccountOf AmazonBedrock True False = Some ''''"
  by code_simp+

text \<open>The variables an Azure API type and custom headers add, or the error.\<close>

definition variableOf :: "string \<Rightarrow> string \<Rightarrow> string \<Rightarrow> string \<Rightarrow> error + string option" where
  "variableOf name backend azureAPIType customHeaders =
     (case fst (GetDeployment sampleHost std_kube
         (newTestConfig ''test-namespace''
            (zeroAISpec\<lparr>ai_Backend := backend, ai_AzureAPIType := azureAPIType, ai_CustomHeaders := customHeaders\<rparr>) zeroK8sGPTSpec)
         False ''test-sa'' \<lparr>cluster = empty_store, trace = []\<rparr>) of
        Done (Inr d) \<Rightarrow> Inr (map_of (envMap (env_of d)) name)
      | Done (Inl err) \<Rightarrow> Inl err
      | Panic \<Rightarrow> Inl (Errorf ''panic''))"

lemma azure_api_type:
  "variableOf ''K8SGPT_AZURE_API_TYPE'' ''azureopenai'' ''AZURE'' '''' = Inr (Some ''AZURE'')"
  "variableOf ''K8SGPT_AZURE_API_TYPE'' ''azureopenai'' ''AZURE_AD'' ''X-Key:val'' = Inr (Some ''AZURE_AD'')"
  "variableOf ''K8SGPT_AZURE_API_TYPE'' ''azureopenai'' '''' '''' = Inr None"
  "variableOf ''K8SGPT_AZURE_API_TYPE'' ''openai'' ''AZURE'' ''X-Key:val'' =
     Inl (Errorf ''azureAPIType is supported only by azureopenai provider'')"
  by code_simp+

lemma custom_headers:
  "variableOf ''K8SGPT_CUSTOM_HEADERS'' ''openai'' '''' ''X-Custom:val1'' = Inr (Some ''X-Custom:val1'')"
  "variableOf ''K8SGPT_CUSTOM_HEADERS'' ''azureopenai'' ''AZURE_AD'' ''X-Key:val'' = Inr (Some ''X-Key:val'')"
  "variableOf ''K8SGPT_CUSTOM_HEADERS'' ''openai'' '''' '''' = Inr None"
  by code_simp+


section \<open>Secrets, results and names\<close>

text \<open>
  The checksum of a secret does not depend on the order of its entries, is empty for no entries, and
  equal checksums of the two secrets that a naive encoding would confuse are a collision of the
  digest, which is a parameter.
\<close>

lemma encoding_order:
  fixes x y z :: "gonum json"
  shows "json_Marshal (JObj [(''password'', x), (''username'', y), (''token'', z)]) =
   json_Marshal (JObj [(''token'', z), (''username'', y), (''password'', x)])"
  by code_simp

lemma checksum_order:
  "calculateSecretChecksum H \<lparr>sec_Data = [(''password'', x), (''username'', y), (''token'', z)]\<rparr> =
   calculateSecretChecksum H \<lparr>sec_Data = [(''token'', z), (''username'', y), (''password'', x)]\<rparr>"
  unfolding calculateSecretChecksum_def by (simp del: json_Marshal.simps add: encoding_order)

lemma checksum_empty: "calculateSecretChecksum H \<lparr>sec_Data = []\<rparr> = ''''"
  by (simp add: calculateSecretChecksum_def)

definition collides :: "('a \<Rightarrow> 'b) \<Rightarrow> bool" where
  "collides f \<longleftrightarrow> (\<exists>x y. x \<noteq> y \<and> f x = f y)"

lemma encodings_differ:
  fixes x y z :: string
  shows "json_Marshal (JObj [(''a'', JStr x :: gonum json)]) \<noteq> json_Marshal (JObj [(''a'', JStr y), (''b'', JStr z)])"
  by (code_simp, simp)

lemma checksum_guards_delimiters:
  assumes "calculateSecretChecksum H \<lparr>sec_Data = [(''a'', ''x'' @ [CHR 10] @ ''b:y'')]\<rparr> =
    calculateSecretChecksum H \<lparr>sec_Data = [(''a'', ''x''), (''b'', ''y'')]\<rparr>"
  shows "collides (sha256_json H)"
proof -
  from assms have "sha256_json H (json_Marshal (JObj [(''a'', JStr (base64 (''x'' @ [CHR 10] @ ''b:y'')))])) =
      sha256_json H (json_Marshal (JObj [(''a'', JStr (base64 ''x'')), (''b'', JStr (base64 ''y''))]))"
    unfolding calculateSecretChecksum_def by (simp del: json_Marshal.simps base64.simps)
  with encodings_differ show ?thesis unfolding collides_def by blast
qed

definition webFinding :: "string \<Rightarrow> ResultSpec" where
  "webFinding resourceVersion =
     sampleSpec\<lparr>rs_Kind := ''Deployment'', rs_Name := ''default/web'',
       rs_TargetRef := Some \<lparr>tg_APIVersion = ''apps/v1'', tg_Kind = ''Deployment'', tg_Namespace = ''default'', tg_Name = ''web'',
         tg_UID = ''target-uid'', tg_ResourceVersion = resourceVersion\<rparr>\<rparr>"

lemma hash_includes_target_reference: "hashableContent (webFinding ''1'') \<noteq> hashableContent (webFinding ''2'')"
  by code_simp

lemma exact_kind_match:
  "IsStringInSlice ''Deployment'' [''Pod'', ''Deployment'']" "\<not> IsStringInSlice ''Pod'' [''PodDisruptionBudget'']"
  "\<not> IsStringInSlice ''Pod'' []"
  by code_simp+

lemma result_namespaces:
  "getResultObjectNamespace (sampleSpec\<lparr>rs_Name := ''default/my-pod''\<rparr>) = ''default''"
  "getResultObjectNamespace (sampleSpec\<lparr>rs_Name := ''my-cluster-scoped-resource''\<rparr>) = ''''"
  "getResultsPerNamespace (map (\<lambda>n. sampleSpec\<lparr>rs_Name := n\<rparr>)
     [''default/pod-1'', ''default/pod-2'', ''kube-system/pod-1'', ''cluster-resource'']) [] =
   [(''default'', 2), (''kube-system'', 1), ('''', 1)]"
  by code_simp+

end
