(* ===== verification/Spec2Isabelle.thy ===== *)
theory Spec2Isabelle
  imports Mutation_Controller Panic_Freedom Operator_Patches Entry_Point Deep_Copy
    Scheme Connection_Cache Mutation_Tests Deployment_Tests
begin

text \<open>
  A verification development for the K8sGPT operator.

  \<^bold>\<open>The program.\<close>  The operator reconciles two kinds of custom resources.  A \<^verbatim>\<open>K8sGPT\<close> describes an
  analysis server: the K8sGPT controller creates its Deployment, Service and RBAC objects, connects
  to it, sends it the configuration, has it analyse the cluster, stores the findings as \<^verbatim>\<open>Result\<close>
  resources, reports them to a sink and, when the user opts in, creates a \<^verbatim>\<open>Mutation\<close> for each
  workload that a finding is about.  The mutation controller asks the server's language model for
  another image, has a policy gate compare the candidate with the live object, applies a narrow
  JSON patch after a dry run, and waits for the finding to disappear.  The two controllers share
  one process: a channel and a goroutine of \<^verbatim>\<open>main.go\<close> hand the connection of the first to the second.

  \<^bold>\<open>Theories.\<close>  File names are relative to \<^verbatim>\<open>internal/controller\<close>, \<^verbatim>\<open>pkg\<close> or \<^verbatim>\<open>api/v1alpha1\<close> of the
  repository; definitions carry the names of the Go functions.

  \<^item> \<open>Prelude\<close>: errors with the API reason, results of Go functions, the functions of \<^verbatim>\<open>strings\<close>;
    \<open>Go_Values\<close>: JSON values with maps as association lists; \<open>Libraries\<close>: the accessors of
    \<^verbatim>\<open>unstructured\<close>, and the codecs as fields of the record \<open>k8s_lib\<close>, a parameter.
  \<^item> \<open>Api_Types\<close> (\<^verbatim>\<open>k8sgpt_types.go\<close>, \<^verbatim>\<open>result_types.go\<close>, \<^verbatim>\<open>mutation_types.go\<close>) and
    \<open>Workload_Types\<close> (the Kubernetes objects and gRPC requests the operator builds): records with
    the fields of the Go structs, pointers as options.
  \<^item> \<open>Cluster\<close>: the API server, the query service, the HTTP client and the clock as a record
    \<open>'s kube\<close> of arbitrary operations on an arbitrary state, and the trace of the calls made.
    \<open>Actions\<close>: operations with an error, a panic and a state, and structural rules for the calls
    they make (\<open>emits\<close>), the parts of the state they keep (\<open>keeps\<close>) and the invariants they
    maintain (\<open>maintains\<close>).
  \<^item> \<open>Json_Pointer\<close> (RFC 6901 and 6902 as the abstract specification), \<open>Gate_Diff\<close> and \<open>Policy_Gate\<close>
    (\<^verbatim>\<open>remediation/policy/gate.go\<close>); \<open>Execution\<close> (\<^verbatim>\<open>conversions/object_to_execution.go\<close>);
    \<open>Conversions\<close> (\<^verbatim>\<open>conversions/to_eligible_resource.go\<close>, \<^verbatim>\<open>types/eligible_resource.go\<close>);
    \<open>Image_Proposal\<close> (\<^verbatim>\<open>mutation/image_proposal.go\<close>); \<open>Mutation_Controller\<close>
    (\<^verbatim>\<open>mutation/mutation_controller.go\<close>, \<^verbatim>\<open>prompts/prompt.go\<close>, \<^verbatim>\<open>shared/client.go\<close>);
    \<open>Util\<close> (\<^verbatim>\<open>util/*.go\<close>).
  \<^item> \<open>Results\<close> (\<^verbatim>\<open>resources/results.go\<close>), \<open>Deployment\<close> and \<open>Synchronisation\<close>
    (\<^verbatim>\<open>resources/k8sgpt.go\<close>), \<open>Server_Client\<close> (\<^verbatim>\<open>client/*.go\<close> and the cache of connections of
    \<^verbatim>\<open>k8sgpt/k8sgpt_controller.go\<close>), \<open>Sinks\<close> (\<^verbatim>\<open>sinks/*.go\<close>), \<open>K8sGPT_Controller\<close>
    (\<^verbatim>\<open>k8sgpt/*.go\<close>).  The state \<open>ksys\<close> of this controller holds the world, the cache of
    connections, the calls made on the metrics and the package variables of the circuit breaker;
    its steps take the next step as an argument, as the Go chain of responsibility does, and
    \<open>ReconcileK8sGPT\<close> links the seven of them.
  \<^item> \<open>Connection_Cache\<close>: the abstract pool of connections that the cache refines.
  \<^item> \<open>Metrics\<close> (\<^verbatim>\<open>metrics/metrics.go\<close>): the builder with the configuration of each metric, what is
    registered, and the calls on the vectors of Prometheus, which are kept as a list.
  \<^item> \<open>Go_Memory\<close>, \<open>Copy_Functions\<close>, \<open>Deep_Copy\<close> (\<^verbatim>\<open>zz_generated.deepcopy.go\<close>): memory with pointers,
    slices and maps, the structs of the API as types of values in it with their copy functions
    statement by statement, and the proof that each is a copier of its type.  The controllers are
    modelled on values, without this memory; these theories justify that for the objects the
    informer caches hand out.
  \<^item> \<open>Call_Areas\<close>, \<open>Connections\<close>, \<open>Controller_Samples\<close>, \<open>Step_Properties\<close>: the areas of calls each
    step touches, the invariants of the controller in the locale \<open>controller_invariant\<close> with its
    four interpretations, one concrete run, and the properties of single steps.
  \<^item> \<open>Operator\<close> and \<open>Reconciliation\<close>: both controllers, the channel and the goroutine of \<^verbatim>\<open>main.go\<close>
    as the inductive relation \<open>reached\<close>, and the properties of whole reconciliations and of every
    reachable state; \<open>Operator_Patches\<close>: what its runs change in the workloads;
    \<open>Panic_Freedom\<close>: triples for actions and steps, and which sections of a K8sGPT must be there.
  \<^item> \<open>Entry_Point\<close> (\<^verbatim>\<open>cmd/main.go\<close> and the two \<^verbatim>\<open>SetupWithManager\<close>): the start of the operator with its
    calls, its exits and the registration of the metrics, up to the state where \<open>reached\<close> begins.
    \<open>Scheme\<close> (\<^verbatim>\<open>groupversion_info.go\<close>, the \<^verbatim>\<open>init\<close> functions, \<^verbatim>\<open>k8sgpt_testing.go\<close>): the registration of
    the kinds, with the scheme and its builder as a parameter.
  \<^item> \<open>Gate_Tests\<close>, \<open>Conversion_Tests\<close>, \<open>Mutation_Tests\<close>, \<open>Deployment_Tests\<close>: unit tests of the repository as evaluated
    lemmas, among them those of \<^verbatim>\<open>k8sgpt_test_default_version.go\<close>, which \<^verbatim>\<open>go test\<close> does not run; they
    check the definitions against the expectations of the authors.
\<close>

text \<open>
  \<^bold>\<open>What is shown.\<close>
  \<^item> The gate admits a proposal exactly on its five conditions; the admitted patch, read by RFC 6902,
    realises the proposal on the live object outside status and server-owned metadata; for
    registered kinds it only replaces images, and for no kind does it touch a protected area
    (\<open>protectedAreas\<close>, \<open>containerAreas\<close>: the areas listed apart from the code's own prefixes).
  \<^item> Nothing is patched that the gate did not admit against the object just fetched and that did
    not pass a dry run; the execution makes exactly the calls of its branch and the mutation records
    what was done; each reconciliation sends at most one mutation, in full or for its status, which
    is one step of the phase machine away or has only a new message; a mutation is successful only when its Result is gone; an
    unfinished one is requeued.  In every run of the whole operator a persistent patch follows its
    own dry run and, for registered kinds, only replaces images.
  \<^item> Targets of Results, the walk to the owning workload and the selectors meet their specification.
  \<^item> A Deployment is built exactly for valid configurations, depends on secrets only through their
    checksum, and has an environment with distinct names up to two listed configurations;
    synchronisation validates before it writes; destruction stops at the first deletion that fails
    and succeeds exactly when each object was deleted or gone.
  \<^item> An update stores a Result with the hash of what identifies the finding; a creation stores it
    without one, because the status is a subresource, so that the next analysis writes it again.
    Results are reported at most once per reconciliation and deleted when stale; mutations are created once per target.
  \<^item> In every reachable state of the operator each dialled connection was closed or is held, each
    request of the K8sGPT controller goes over an open connection, each query goes to a client that a
    signal handed over, and between deliveries the shared cells hold one signal.  The cache of
    connections refines the abstract pool for every sequence of operations.  An analysis asks for
    explanations exactly when the AI is enabled and the circuit breaker closed; failures open it, and
    nothing closes it again.  A K8sGPT that is deleted has its finalizer removed, and then its
    connection closed, only after each of its objects was deleted or gone.  A reconciliation panics only for a K8sGPT without
    a section that the code reads without a test.
  \<^item> Each call on a metric fits the type and the labels of its vector, and each metric is registered
    once; a start stops at the first thing that fails.
  \<^item> A deep copy has the type and the content of the original and shares no memory with it.

  \<^bold>\<open>Bounds.\<close>  Loops over lists are structural recursion and need none.  The ownership walk and the
  retries of a result take their bounds from the code: eight owners, and five attempts of at most
  three calls.  The recursion of \<open>diff\<close> ends by the size of its two arguments.  No definition
  takes fuel.  Integers of the model are unbounded: the code only counts retries, changed paths and
  list positions with them.

  \<^bold>\<open>What is assumed.\<close>  Nothing is assumed of the API server, the query service or the HTTP client,
  but in two places: for the absence of panics the server must validate as Kubernetes does (a
  Deployment has a container, a Service has a port, an update keeps the specification sent), and for
  what a successful write leaves of a Result it must keep the status of Results as a subresource
  (locale \<open>result_server\<close>, interpreted by \<open>std_results\<close>).  The copy
  functions of Kubernetes structs are assumed to make deep copies, as they are documented to.
  Where a codec must behave (a YAML decoder that returns an object, a digest without collisions on
  two given inputs) the theorem says so, and its witness has a concrete codec.  In the runs of
  \<open>reached\<close> a reconciliation is one step: controller-runtime runs one worker per controller, but
  the calls of the two controllers may alternate, which the model shows only between whole
  reconciliations; the goroutine's three writes are separate steps, which may also fall between the
  two reads of the shared cells in a reconciliation of a mutation, and the cluster may change
  between any two steps.  During a reconciliation other writers are covered, because the answers
  of the API server are arbitrary.  The channel is not bounded in the model; in the code a full
  buffer of ten signals delays the sender.

  \<^bold>\<open>Not modelled.\<close>  Log lines and Kubernetes events; what the manager, the flag library and the
  vectors of Prometheus do inside; the constructors of the REST mapper and of the HTTP client; gRPC
  and the JSON codec that carries findings over, whose outcome is part of the server's answer; the
  tests that need a control plane.  A panic of a reconciler is kept as
  an outcome of its own.
\<close>

end
